(* ===== verification/Go_Prelude.thy ===== *)
theory Go_Prelude
  imports Main "HOL-Library.State_Monad" "HOL-Library.AList" "HOL-Library.Sublist"
begin

text \<open>
  Shared base of the development: the state monad in which every handler of the driver is
  written (\<^theory_text>\<open>do\<close> blocks over \<open>('s, 'a) state\<close> of HOL-Library.State_Monad), a Hoare triple for it,
  the step relations that carry frame properties through a handler, and Go's map lookup.

  A Go function that reads or changes the outside world is a value of \<open>('s, 'a) state\<close>; a Go
  function that returns \<open>(T, error)\<close> returns \<open>string + 'a\<close> with \<open>Inl\<close> for a non-nil error.
\<close>

section \<open>Computations\<close>

abbreviation ret :: "'a \<Rightarrow> ('s, 'a) state" where
  "ret \<equiv> State_Monad.return"

abbreviation result :: "('s, 'a) state \<Rightarrow> 's \<Rightarrow> 'a" where
  "result m s \<equiv> fst (run_state m s)"

abbreviation final :: "('s, 'a) state \<Rightarrow> 's \<Rightarrow> 's" where
  "final m s \<equiv> snd (run_state m s)"

definition asks :: "('s \<Rightarrow> 'a) \<Rightarrow> ('s, 'a) state" where
  "asks f = State (\<lambda>s. (f s, s))"

definition modifies :: "('s \<Rightarrow> 's) \<Rightarrow> ('s, unit) state" where
  "modifies f = State (\<lambda>s. ((), f s))"

lemma run_asks [simp]: "run_state (asks f) s = (f s, s)"
  by (simp add: asks_def)

lemma run_modifies [simp]: "run_state (modifies f) s = ((), f s)"
  by (simp add: modifies_def)

text \<open>Go's index expression \<open>m[k]\<close> on a \<open>map[string]string\<close>: the zero value for a missing key.\<close>

definition mget :: "('k \<rightharpoonup> string) \<Rightarrow> 'k \<Rightarrow> string" where
  "mget m k = (case m k of None \<Rightarrow> [] | Some v \<Rightarrow> v)"

text \<open>Go's \<open>cmp.Or(a, b)\<close> on strings: the first argument that is not the zero value.\<close>

definition cmp_Or :: "string \<Rightarrow> string \<Rightarrow> string" where
  "cmp_Or a b = (if a \<noteq> [] then a else b)"

text \<open>\<open>v, err := m(); if err != nil { return err }; rest\<close>\<close>

definition try_then :: "('s, 'e + 'a) state \<Rightarrow> ('a \<Rightarrow> ('s, 'e + 'b) state) \<Rightarrow> ('s, 'e + 'b) state" where
  "try_then m f = do { r \<leftarrow> m; case r of Inl err \<Rightarrow> ret (Inl err) | Inr v \<Rightarrow> f v }"

lemma mget_simps [simp]:
  "m k = None \<Longrightarrow> mget m k = []"
  "m k = Some v \<Longrightarrow> mget m k = v"
  by (simp_all add: mget_def)

lemma cmp_Or_empty: "cmp_Or a b = [] \<longleftrightarrow> a = [] \<and> b = []"
  by (simp add: cmp_Or_def)

section \<open>Hoare triples\<close>

definition triple :: "('s \<Rightarrow> bool) \<Rightarrow> ('s, 'a) state \<Rightarrow> ('a \<Rightarrow> 's \<Rightarrow> bool) \<Rightarrow> bool" where
  "triple P m Q \<longleftrightarrow> (\<forall>s. P s \<longrightarrow> Q (result m s) (final m s))"

named_theorems wp \<open>rules that push a postcondition backwards through a computation\<close>

lemma tripleI: "(\<And>s. P s \<Longrightarrow> Q (result m s) (final m s)) \<Longrightarrow> triple P m Q"
  by (simp add: triple_def)

lemma tripleD: "triple P m Q \<Longrightarrow> P s \<Longrightarrow> Q (result m s) (final m s)"
  by (simp add: triple_def)

lemma tripleD_run: "triple P m Q \<Longrightarrow> P s \<Longrightarrow> run_state m s = (r, s') \<Longrightarrow> Q r s'"
  by (auto simp: triple_def dest!: spec [of _ s])

lemma triple_ret [wp]: "(\<And>s. P s \<Longrightarrow> Q x s) \<Longrightarrow> triple P (ret x) Q"
  by (simp add: triple_def)

lemma triple_bind [wp]:
  assumes "triple P m R" and "\<And>x. triple (R x) (f x) Q"
  shows "triple P (m \<bind> f) Q"
  using assms by (simp add: triple_def split_beta)

lemma triple_conseq:
  assumes "triple P' m Q'" and "\<And>s. P s \<Longrightarrow> P' s" and "\<And>x s. Q' x s \<Longrightarrow> Q x s"
  shows "triple P m Q"
  using assms by (simp add: triple_def)

lemma triple_if [wp]:
  assumes "b \<Longrightarrow> triple P m Q" and "\<not> b \<Longrightarrow> triple P n Q"
  shows "triple P (if b then m else n) Q"
  using assms by simp

lemma triple_sum [wp]:
  assumes "\<And>e. r = Inl e \<Longrightarrow> triple P (f e) Q" and "\<And>x. r = Inr x \<Longrightarrow> triple P (g x) Q"
  shows "triple P (case r of Inl e \<Rightarrow> f e | Inr x \<Rightarrow> g x) Q"
  using assms by (simp split: sum.split)

lemma triple_option [wp]:
  assumes "r = None \<Longrightarrow> triple P m Q" and "\<And>x. r = Some x \<Longrightarrow> triple P (g x) Q"
  shows "triple P (case r of None \<Rightarrow> m | Some x \<Rightarrow> g x) Q"
  using assms by (simp split: option.split)

lemma triple_try [wp]:
  assumes "triple P m (\<lambda>r s. case r of Inl e \<Rightarrow> Q (Inl e) s | Inr x \<Rightarrow> R x s)"
    and "\<And>x. triple (R x) (f x) Q"
  shows "triple P (try_then m f) Q"
  using assms by (fastforce simp: triple_def try_then_def split_beta split: sum.splits)

section \<open>Step relations\<close>

text \<open>
  \<open>state_io_rel R m\<close> (from the library) says that every run of \<open>m\<close> moves the state along \<open>R\<close>.
  For a reflexive and transitive \<open>R\<close> it is inherited by every composition, so a frame property
  of a whole handler follows from that of its primitive steps.
\<close>

named_theorems guar \<open>step-relation facts of the primitive steps and of the components\<close>

locale step_relation =
  fixes R :: "'s \<Rightarrow> 's \<Rightarrow> bool"
  assumes step_refl: "R s s"
    and step_trans: "R s t \<Longrightarrow> R t u \<Longrightarrow> R s u"
begin

lemma rel_ret: "state_io_rel R (ret x)"
  by (simp add: state_io_rel_def step_refl)

lemma rel_asks: "state_io_rel R (asks f)"
  by (simp add: state_io_rel_def step_refl)

lemma rel_bind:
  assumes "state_io_rel R m" and "\<And>x. state_io_rel R (f x)"
  shows "state_io_rel R (m \<bind> f)"
  using assms by (auto simp: state_io_rel_def split_beta intro: step_trans)

lemma rel_if:
  assumes "b \<Longrightarrow> state_io_rel R m" and "\<not> b \<Longrightarrow> state_io_rel R n"
  shows "state_io_rel R (if b then m else n)"
  using assms by simp

lemma rel_sum:
  assumes "\<And>e. r = Inl e \<Longrightarrow> state_io_rel R (f e)" and "\<And>x. r = Inr x \<Longrightarrow> state_io_rel R (g x)"
  shows "state_io_rel R (case r of Inl e \<Rightarrow> f e | Inr x \<Rightarrow> g x)"
  using assms by (simp split: sum.split)

lemma rel_option:
  assumes "r = None \<Longrightarrow> state_io_rel R m" and "\<And>x. r = Some x \<Longrightarrow> state_io_rel R (g x)"
  shows "state_io_rel R (case r of None \<Rightarrow> m | Some x \<Rightarrow> g x)"
  using assms by (simp split: option.split)

lemma rel_prod:
  assumes "\<And>x y. r = (x, y) \<Longrightarrow> state_io_rel R (f x y)"
  shows "state_io_rel R (case r of (x, y) \<Rightarrow> f x y)"
  using assms by (simp split: prod.split)

lemma rel_list:
  assumes "r = [] \<Longrightarrow> state_io_rel R m" and "\<And>x xs. r = x # xs \<Longrightarrow> state_io_rel R (g x xs)"
  shows "state_io_rel R (case r of [] \<Rightarrow> m | x # xs \<Rightarrow> g x xs)"
  using assms by (simp split: list.split)

lemma rel_try:
  assumes "state_io_rel R m" and "\<And>x. state_io_rel R (f x)"
  shows "state_io_rel R (try_then m f)"
  unfolding try_then_def using assms by (intro rel_bind rel_sum rel_ret)

lemma rel_after: "R s t \<Longrightarrow> state_io_rel R m \<Longrightarrow> R s (final m t)"
  by (auto simp: state_io_rel_def intro: step_trans)

lemmas rel_intros = rel_ret rel_asks rel_try rel_bind rel_if rel_sum rel_option rel_prod rel_list

end

lemma io_relD: "state_io_rel R m \<Longrightarrow> R s (final m s)"
  by (simp add: state_io_rel_def)

end
