(* ===== verification/Go_Strings.thy ===== *)
theory Go_Strings
  imports Go_Prelude "HOL-Library.Char_ord" "HOL-Library.List_Lexorder"
begin

text \<open>
  The parts of Go's standard library that the driver computes with: \<^verbatim>\<open>strings\<close>, \<^verbatim>\<open>strconv\<close>,
  \<^verbatim>\<open>fmt\<close>'s \<^verbatim>\<open>%d\<close>, \<^verbatim>\<open>path/filepath\<close> and \<^verbatim>\<open>path\<close>. Strings are byte strings; white space and
  letter case are those of ASCII (the Unicode spaces and case pairs above 127 are left as they are).
\<close>

section \<open>Package strings\<close>

definition is_space :: "char \<Rightarrow> bool" where
  "is_space c \<longleftrightarrow> of_char c = (32::nat) \<or> (9 \<le> (of_char c :: nat) \<and> (of_char c :: nat) \<le> 13)"

definition is_digit :: "char \<Rightarrow> bool" where
  "is_digit c \<longleftrightarrow> 48 \<le> (of_char c :: nat) \<and> (of_char c :: nat) \<le> 57"

definition trim_by :: "(char \<Rightarrow> bool) \<Rightarrow> string \<Rightarrow> string" where
  "trim_by p s = rev (dropWhile p (rev (dropWhile p s)))"

definition TrimSpace :: "string \<Rightarrow> string" where
  "TrimSpace s = trim_by is_space s"

text \<open>\<open>strings.Trim(s, "/")\<close>\<close>

definition TrimSlash :: "string \<Rightarrow> string" where
  "TrimSlash s = trim_by (\<lambda>c. c = CHR ''/'') s"

definition HasPrefix :: "string \<Rightarrow> string \<Rightarrow> bool" where
  "HasPrefix s p \<longleftrightarrow> take (length p) s = p"

definition TrimPrefix :: "string \<Rightarrow> string \<Rightarrow> string" where
  "TrimPrefix s p = (if HasPrefix s p then drop (length p) s else s)"

fun Contains :: "string \<Rightarrow> string \<Rightarrow> bool" where
  "Contains [] sub = (sub = [])"
| "Contains (c # s) sub = (HasPrefix (c # s) sub \<or> Contains s sub)"

text \<open>\<open>strings.Split\<close> at one character, and \<open>strings.Fields\<close>\<close>

fun split_by :: "(char \<Rightarrow> bool) \<Rightarrow> string \<Rightarrow> string list" where
  "split_by p [] = [[]]"
| "split_by p (c # s) =
     (if p c then [] # split_by p s
      else (case split_by p s of [] \<Rightarrow> [[c]] | w # ws \<Rightarrow> (c # w) # ws))"

definition SplitChar :: "string \<Rightarrow> char \<Rightarrow> string list" where
  "SplitChar s c = split_by (\<lambda>d. d = c) s"

definition Fields :: "string \<Rightarrow> string list" where
  "Fields s = filter (\<lambda>w. w \<noteq> []) (split_by is_space s)"

fun Join :: "string list \<Rightarrow> string \<Rightarrow> string" where
  "Join [] sep = []"
| "Join [w] sep = w"
| "Join (w # v # ws) sep = w @ sep @ Join (v # ws) sep"

definition to_lower :: "char \<Rightarrow> char" where
  "to_lower c = (if 65 \<le> (of_char c :: nat) \<and> (of_char c :: nat) \<le> 90
     then char_of ((of_char c :: nat) + 32) else c)"

definition ToLower :: "string \<Rightarrow> string" where
  "ToLower s = map to_lower s"

definition EqualFold :: "string \<Rightarrow> string \<Rightarrow> bool" where
  "EqualFold s t \<longleftrightarrow> ToLower s = ToLower t"

section \<open>Package strconv and \<open>fmt.Sprintf("%d", n)\<close>\<close>

datatype num_error = ErrSyntax | ErrRange

text \<open>\<open>strconv.Quote\<close> and \<open>%q\<close>: control characters, quotes and backslashes are escaped. Bytes outside
  ASCII are left as they are, as Go does with printable characters.\<close>

definition hex_char :: "nat \<Rightarrow> char" where
  "hex_char n = char_of (if n < 10 then n + 48 else n + 87)"

definition short_escape :: "nat \<Rightarrow> char option" where
  "short_escape n = map_of [(7, CHR ''a''), (8, CHR ''b''), (9, CHR ''t''), (10, CHR ''n''), (11, CHR ''v''),
     (12, CHR ''f''), (13, CHR ''r''), (34, CHR 0x22), (92, CHR 0x5C)] n"

definition quote_char :: "char \<Rightarrow> string" where
  "quote_char c = (let n = of_char c in case short_escape n of
      Some e \<Rightarrow> [CHR 0x5C, e]
    | None \<Rightarrow> if n < 32 \<or> n = 127 then [CHR 0x5C, CHR ''x'', hex_char (n div 16), hex_char (n mod 16)] else [c])"

definition quote :: "string \<Rightarrow> string" where
  "quote s = [CHR 0x22] @ concat (map quote_char s) @ [CHR 0x22]"

text \<open>The text of \<open>strconv.Atoi\<close>'s error for an argument.\<close>

definition Atoi_message :: "string \<Rightarrow> num_error \<Rightarrow> string" where
  "Atoi_message s e = ''strconv.Atoi: parsing '' @ quote s @ '': '' @
     (case e of ErrSyntax \<Rightarrow> ''invalid syntax'' | ErrRange \<Rightarrow> ''value out of range'')"

definition digit_val :: "char \<Rightarrow> int" where
  "digit_val c = of_char c - 48"

definition digit_char :: "int \<Rightarrow> char" where
  "digit_char d = char_of (d + 48)"

definition digits_val :: "string \<Rightarrow> int" where
  "digits_val s = foldl (\<lambda>n c. 10 * n + digit_val c) 0 s"

definition int64_max :: int where "int64_max = 9223372036854775807"

text \<open>
  \<open>strconv.Atoi(s)\<close> and \<open>strconv.ParseInt(s, 10, 64)\<close> on a 64-bit platform: an optional sign and at
  least one digit; on \<open>ErrSyntax\<close> the value is 0, on \<open>ErrRange\<close> it is the nearest bound.
\<close>

definition strip_sign :: "string \<Rightarrow> bool \<times> string" where
  "strip_sign s = (case s of [] \<Rightarrow> (False, [])
     | c # t \<Rightarrow> if c = CHR ''-'' then (True, t) else if c = CHR ''+'' then (False, t) else (False, s))"

definition Atoi :: "string \<Rightarrow> int \<times> num_error option" where
  "Atoi s = (let (neg, ds) = strip_sign s in
     if ds = [] \<or> \<not> list_all is_digit ds then (0, Some ErrSyntax)
     else let n = digits_val ds in
       if neg then (if n \<le> int64_max + 1 then (- n, None) else (- int64_max - 1, Some ErrRange))
       else (if n \<le> int64_max then (n, None) else (int64_max, Some ErrRange)))"

text \<open>The decimal digits of a non-negative number, and \<open>%d\<close>.\<close>

function show_dec :: "int \<Rightarrow> string" where
  "show_dec n = (if n < 10 then [digit_char n] else show_dec (n div 10) @ [digit_char (n mod 10)])"
  by pat_completeness auto
termination
  by (relation "measure nat") (auto simp: nat_less_iff)

declare show_dec.simps [simp del]

definition show_int :: "int \<Rightarrow> string" where
  "show_int n = (if n < 0 then CHR ''-'' # show_dec (- n) else show_dec n)"

section \<open>Packages path and path/filepath\<close>

text \<open>
  \<open>Clean\<close> rewrites the components from the left: empty ones and \<open>.\<close> go, \<open>..\<close> removes the component
  before it if there is one that is not \<open>..\<close> itself, and is dropped at the root. \<open>path\<close> and
  \<open>path/filepath\<close> coincide on Linux.
\<close>

fun clean_step :: "bool \<Rightarrow> string list \<Rightarrow> string list \<Rightarrow> string list" where
  "clean_step rooted out [] = rev out"
| "clean_step rooted out (c # cs) =
     (if c = [] \<or> c = ''.'' then clean_step rooted out cs
      else if c = ''..'' then
        (case out of
           [] \<Rightarrow> clean_step rooted (if rooted then [] else [''..'']) cs
         | d # ds \<Rightarrow> if d = ''..'' then clean_step rooted (''..'' # out) cs else clean_step rooted ds cs)
      else clean_step rooted (c # out) cs)"

definition Clean :: "string \<Rightarrow> string" where
  "Clean p =
     (if p = [] then ''.''
      else let rooted = (hd p = CHR ''/'');
               body = Join (clean_step rooted [] (SplitChar p CHR ''/'')) ''/''
           in if rooted then CHR ''/'' # body else if body = [] then ''.'' else body)"

definition path_Join :: "string list \<Rightarrow> string" where
  "path_Join es = (let ne = dropWhile (\<lambda>e. e = []) es
     in if ne = [] then [] else Clean (Join (filter (\<lambda>e. e \<noteq> []) es) ''/''))"

definition path_Base :: "string \<Rightarrow> string" where
  "path_Base p =
     (if p = [] then ''.''
      else let q = rev (dropWhile (\<lambda>c. c = CHR ''/'') (rev p))
           in if q = [] then ''/'' else last (SplitChar q CHR ''/''))"

section \<open>Facts about trimming and splitting\<close>

lemma dropWhile_id: "(xs = [] \<or> \<not> p (hd xs)) \<Longrightarrow> dropWhile p xs = xs"
  by (cases xs) auto

lemma hd_rev_dropWhile: "xs \<noteq> [] \<Longrightarrow> dropWhile p xs \<noteq> [] \<Longrightarrow> last (dropWhile p xs) = last xs"
  by (induction xs) (auto split: if_splits)

lemma trim_by_ends: "trim_by p s = [] \<or> \<not> p (hd (trim_by p s)) \<and> \<not> p (last (trim_by p s))"
proof (cases "trim_by p s = []")
  case False
  define t where "t = dropWhile p s"
  define u where "u = dropWhile p (rev t)"
  have u: "trim_by p s = rev u" "u \<noteq> []"
    using False by (auto simp: trim_by_def t_def u_def)
  then have t: "t \<noteq> []" by (auto simp: u_def)
  then have last_u: "last u = hd t"
    using hd_rev_dropWhile [of "rev t" p] u(2) by (simp add: u_def last_rev)
  have "\<not> p (hd t)" using t hd_dropWhile [of p s] by (simp add: t_def)
  moreover have "\<not> p (hd u)" using u(2) hd_dropWhile [of p "rev t"] by (simp add: u_def)
  ultimately show ?thesis using u last_u by (simp add: hd_rev last_rev)
qed simp

lemma trim_by_id: "s = [] \<or> \<not> p (hd s) \<and> \<not> p (last s) \<Longrightarrow> trim_by p s = s"
  by (auto simp: trim_by_def dropWhile_id hd_rev)

lemma trim_by_idem [simp]: "trim_by p (trim_by p s) = trim_by p s"
  by (rule trim_by_id [OF trim_by_ends])

lemma TrimSpace_idem [simp]: "TrimSpace (TrimSpace s) = TrimSpace s"
  by (simp add: TrimSpace_def)

lemma TrimSlash_idem [simp]: "TrimSlash (TrimSlash s) = TrimSlash s"
  by (simp add: TrimSlash_def)

lemma TrimSpace_id: "\<forall>c\<in>set s. \<not> is_space c \<Longrightarrow> TrimSpace s = s"
  unfolding TrimSpace_def by (rule trim_by_id) (cases "s = []", auto)

lemma TrimSpace_Nil [simp]: "TrimSpace [] = []"
  by (simp add: TrimSpace_def trim_by_def)

lemma is_digit_not_space: "is_digit c \<Longrightarrow> \<not> is_space c"
  by (auto simp: is_digit_def is_space_def)

lemma HasPrefix_append [simp]: "HasPrefix (p @ s) p"
  by (simp add: HasPrefix_def)

lemma HasPrefix_iff: "HasPrefix s p \<longleftrightarrow> (\<exists>t. s = p @ t)"
  by (metis HasPrefix_def append_eq_conv_conj append_take_drop_id)

lemma split_by_ne [simp]: "split_by p s \<noteq> []"
  by (induction s) (auto split: list.splits)

lemma split_by_append_sep:
  "p c \<Longrightarrow> split_by p (s @ c # t) = split_by p s @ split_by p t"
  by (induction s) (auto split: list.splits)

lemma split_by_none: "\<forall>c\<in>set s. \<not> p c \<Longrightarrow> split_by p s = [s]"
  by (induction s) auto

lemma SplitChar_append: "SplitChar (s @ c # t) c = SplitChar s c @ SplitChar t c"
  by (simp add: SplitChar_def split_by_append_sep)

lemma SplitChar_plain: "c \<notin> set s \<Longrightarrow> SplitChar s c = [s]"
  unfolding SplitChar_def by (rule split_by_none) auto

lemma Join_snoc: "ws \<noteq> [] \<Longrightarrow> Join (ws @ [w]) sep = Join ws sep @ sep @ w"
  by (induction ws sep rule: Join.induct) auto

lemma Contains_append: "Contains (s @ t @ u) t"
  by (induction s) (cases t; cases u; auto simp: HasPrefix_def)+

section \<open>Facts about paths\<close>

text \<open>A name that is one component of a path.\<close>

definition plain_name :: "string \<Rightarrow> bool" where
  "plain_name n \<longleftrightarrow> n \<noteq> [] \<and> CHR ''/'' \<notin> set n \<and> n \<noteq> ''.'' \<and> n \<noteq> ''..''"

lemma clean_step_plain:
  "plain_name n \<Longrightarrow> clean_step r out (cs @ [n]) = clean_step r out cs @ [n]"
  by (induction r out cs rule: clean_step.induct) (auto simp: plain_name_def split: list.splits)

text \<open>Joining a plain name to a cleaned absolute directory appends it.\<close>

lemma path_Join_plain:
  assumes d: "d \<noteq> []" "hd d = CHR ''/''" "Clean d = d" "d \<noteq> ''/''" and n: "plain_name n"
  shows "path_Join [d, n] = d @ ''/'' @ n"
proof -
  let ?cs = "clean_step True [] (SplitChar d CHR ''/'')"
  have c: "CHR ''/'' # Join ?cs ''/'' = d"
    using d by (simp add: Clean_def Let_def)
  have ne: "?cs \<noteq> []" using c d(4) by auto
  have n': "n \<noteq> []" "CHR ''/'' \<notin> set n" using n by (auto simp: plain_name_def)
  have "path_Join [d, n] = Clean (d @ CHR ''/'' # n)"
    using d(1) n'(1) by (simp add: path_Join_def)
  also have "\<dots> = CHR ''/'' # Join (clean_step True [] (SplitChar d CHR ''/'' @ [n])) ''/''"
    using d n' by (simp add: Clean_def Let_def SplitChar_append SplitChar_plain)
  also have "\<dots> = CHR ''/'' # Join ?cs ''/'' @ ''/'' @ n"
    using ne by (simp add: clean_step_plain [OF n] Join_snoc)
  also have "\<dots> = d @ ''/'' @ n" using c by (metis append_Cons)
  finally show ?thesis .
qed

lemma path_Base_plain:
  assumes "n \<noteq> []" "CHR ''/'' \<notin> set n"
  shows "path_Base (d @ CHR ''/'' # n) = n"
proof -
  have "dropWhile (\<lambda>c. c = CHR ''/'') (rev (d @ CHR ''/'' # n)) = rev (d @ CHR ''/'' # n)"
    using assms by (intro dropWhile_id) (auto simp: hd_append hd_rev, metis last_in_set)
  then show ?thesis
    using assms by (simp add: path_Base_def Let_def SplitChar_append SplitChar_plain)
qed

section \<open>Decimal numbers\<close>

lemma digit_roundtrip:
  assumes "0 \<le> d" "d < 10"
  shows "is_digit (digit_char d)" "digit_val (digit_char d) = d" "digit_char d \<noteq> CHR ''-''"
    "digit_char d \<noteq> CHR ''+''"
proof -
  have oc: "of_char (digit_char d) = d + 48"
    using assms by (simp add: digit_char_def)
  have nat: "(of_char (digit_char d) :: nat) = nat (d + 48)"
    using oc by (metis nat_int of_nat_of_char)
  show "is_digit (digit_char d)" "digit_val (digit_char d) = d"
    using assms oc nat by (auto simp: is_digit_def digit_val_def)
  show "digit_char d \<noteq> CHR ''-''" "digit_char d \<noteq> CHR ''+''"
    using oc assms(1) by auto
qed

lemma show_dec_digits:
  assumes "0 \<le> n"
  shows "list_all is_digit (show_dec n) \<and> show_dec n \<noteq> [] \<and> digits_val (show_dec n) = n"
  using assms
proof (induction n rule: show_dec.induct)
  case (1 n)
  show ?case
  proof (cases "n < 10")
    case True
    with 1 show ?thesis
      by (subst (1 2 3) show_dec.simps) (simp add: digit_roundtrip digits_val_def)
  next
    case False
    with 1 have IH: "list_all is_digit (show_dec (n div 10))" "digits_val (show_dec (n div 10)) = n div 10"
      by (auto simp: pos_imp_zdiv_nonneg_iff)
    with False show ?thesis
      by (subst (1 2 3) show_dec.simps) (simp add: digit_roundtrip digits_val_def)
  qed
qed

lemma strip_sign_digits: "list_all is_digit s \<Longrightarrow> strip_sign s = (False, s)"
  by (cases s) (auto simp: strip_sign_def is_digit_def)

lemma Atoi_digits:
  assumes "list_all is_digit s" "s \<noteq> []" "digits_val s \<le> int64_max"
  shows "Atoi s = (digits_val s, None)"
  using assms by (simp add: Atoi_def strip_sign_digits)

text \<open>Printing and parsing back an \<open>int64\<close>.\<close>

lemma Atoi_show_int:
  assumes "- int64_max - 1 \<le> n" "n \<le> int64_max"
  shows "Atoi (show_int n) = (n, None)"
proof (cases "n < 0")
  case True
  with assms show_dec_digits [of "- n"] show ?thesis
    by (simp add: show_int_def Atoi_def strip_sign_def)
next
  case False
  with assms show_dec_digits [of n] show ?thesis
    by (simp add: show_int_def Atoi_digits)
qed

end
