(* ===== verification/Kube_Objects.thy ===== *)
theory Kube_Objects
  imports Go_Strings
begin

text \<open>
  The Kubernetes objects the driver reads and writes, with the fields it uses. A Go pointer field
  that may be nil is an \<open>option\<close>, a \<open>map[string]string\<close> is a map, a list keeps its order. The API
  types themselves (\<open>k8s.io/api\<close>) are not part of the repository; only the shape of the values the
  driver builds and inspects is fixed here.
\<close>

type_synonym smap = "string \<rightharpoonup> string"

record ConfigMap =
  cm_Data :: smap

record Secret =
  sec_Name :: string
  sec_Namespace :: string
  sec_Data :: smap
  sec_ResourceVersion :: string
  sec_Type :: string

record DaemonSet =
  ds_UID :: string

record OwnerReference =
  or_APIVersion :: string
  or_Kind :: string
  or_Name :: string
  or_UID :: string
  or_Controller :: bool
  or_BlockOwnerDeletion :: bool

record VolumeMount =
  vm_Name :: string
  vm_MountPath :: string
  vm_ReadOnly :: bool
  vm_MountPropagation :: "string option"

text \<open>A readiness probe with an exec handler.\<close>

record Probe =
  pr_Command :: "string list"
  pr_InitialDelaySeconds :: int

text \<open>A parsed \<open>resource.Quantity\<close>, opaque to the driver.\<close>

datatype quantity = Quantity string

record ResourceRequirements =
  rr_Requests :: "string \<rightharpoonup> quantity"
  rr_Limits :: "string \<rightharpoonup> quantity"

definition no_resources :: ResourceRequirements where
  "no_resources = \<lparr>rr_Requests = Map.empty, rr_Limits = Map.empty\<rparr>"

record Container =
  ct_Name :: string
  ct_Image :: string
  ct_Args :: "string list"
  ct_Env :: "(string \<times> string) list"
  ct_VolumeMounts :: "VolumeMount list"
  ct_Privileged :: "bool option"
  ct_ReadinessProbe :: "Probe option"
  ct_Resources :: ResourceRequirements
  ct_RestartPolicy :: "string option"

datatype VolumeSource =
    SecretVolume string
  | HostPathVolume string string
  | ConfigMapVolume string

record PodSpec =
  ps_NodeName :: string
  ps_TerminationGracePeriodSeconds :: "int option"
  ps_RunAsUser :: "int option"
  ps_RunAsGroup :: "int option"
  ps_Containers :: "Container list"
  ps_InitContainers :: "Container list"
  ps_Volumes :: "(string \<times> VolumeSource) list"

record Pod =
  pod_Name :: string
  pod_Namespace :: string
  pod_Labels :: smap
  pod_OwnerReferences :: "OwnerReference list"
  pod_Spec :: PodSpec
  pod_Conditions :: "(string \<times> string) list"

text \<open>Delete options of a forced pod deletion: grace period and propagation policy.\<close>

record DeleteOptions =
  do_GracePeriodSeconds :: int
  do_PropagationPolicy :: string

record PersistentVolume =
  pv_StorageClassName :: string
  pv_ClaimRef :: "(string \<times> string) option"
  pv_VolumeHandle :: "string option"

record PersistentVolumeClaim =
  pvc_StorageClassName :: "string option"

record StorageClass =
  sc_Parameters :: smap

end
