(* ===== verification/Environment.thy ===== *)
theory Environment
  imports Kube_Objects
begin

text \<open>
  The world the driver runs in, and the interface to everything that is not the driver.

  The record \<open>world\<close> holds what Go's \<^verbatim>\<open>os\<close> package sees of the host (the file store), the clock, an
  opaque rest \<open>ext\<close> (mount table, kernel, API server, object store), and the driver's own part: the
  number of calls of package \<^verbatim>\<open>os\<close>, its Prometheus metrics, and the trace of the external actions it
  has made. The record \<open>env\<close> is the parameter of the model: the external commands, the Kubernetes
  client, the S3 client, the passage of time while the driver blocks, and the I/O faults that make a
  call of package \<^verbatim>\<open>os\<close> fail. An external action may change the files, the clock and \<open>ext\<close> in any way,
  but not the driver's own part; what a theorem needs beyond that is a named hypothesis.

  The second half models the calls of package \<^verbatim>\<open>os\<close> (and \<^verbatim>\<open>filepath.Glob\<close>) that the driver makes.
\<close>

section \<open>The world\<close>

text \<open>A node of the file store: a directory, a regular file with content and modification time, or
  another node (a device or a socket), which cannot be read or written as a regular file.\<close>

datatype fnode = FDir | FReg (content: string) (mtime: int) | FNode

text \<open>What the driver does to the outside: commands (program, arguments, \<open>CombinedOutput\<close>, error), sleeps,
  changes of Kubernetes objects and of S3 objects, each with the error it got.\<close>

datatype event =
    Exec string "string list" string "string option"
  | Slept int
  | CreatedSecret Secret "string option"
  | UpdatedSecret Secret "string option"
  | DeletedSecret string string "string option"
  | CreatedPod Pod "string option"
  | DeletedPod string string "DeleteOptions option" "string option"
  | DeletedObjects string "string list" "string option"

record 'x world =
  files :: "(string \<times> fnode) list"
  clock :: int
  oscalls :: nat
  stage_errors :: "string \<times> string \<Rightarrow> nat"
  stage_observations :: "(string \<times> string \<times> int) list"
  trace :: "event list"
  ext :: 'x

type_synonym ('x, 'a) io = "('x world, 'a) state"

definition node :: "('x, 'b) world_scheme \<Rightarrow> string \<Rightarrow> fnode option" where
  "node w p = map_of (files w) p"

datatype os_error = NotExist | Exist | OsErr string

datatype os_op = OpStat | OpRead | OpCreate | OpWrite | OpRemove | OpMkdir | OpGlob

record s3page =
  pg_Contents :: "string option list"

record s3conf =
  s3_Region :: string
  s3_Endpoint :: string
  s3_AccessKeyID :: string
  s3_SecretKey :: string
  s3_PathStyle :: bool

text \<open>A command's \<open>CombinedOutput\<close>: its output and its error, if any.\<close>

type_synonym cmd_out = "string \<times> string option"

record 'x env =
  os_fault :: "nat \<Rightarrow> os_op \<Rightarrow> string \<Rightarrow> string option"
  os_short :: "nat \<Rightarrow> nat"
  run_cmd :: "string \<Rightarrow> string list \<Rightarrow> ('x, cmd_out) io"
  pass_time :: "int \<Rightarrow> ('x, unit) io"
  tick_count :: "int \<Rightarrow> ('x, nat) io"
  ctx_Done :: "('x, bool) io"
  ctx_Err :: "('x, string) io"
  os_Getenv :: "string \<Rightarrow> string"
  net_Listen :: "string \<Rightarrow> ('x, string option) io"
  get_ConfigMap :: "string \<Rightarrow> string \<Rightarrow> ('x, string + ConfigMap) io"
  get_Secret :: "string \<Rightarrow> string \<Rightarrow> ('x, string + Secret) io"
  create_Secret :: "Secret \<Rightarrow> ('x, string option) io"
  update_Secret :: "Secret \<Rightarrow> ('x, string option) io"
  delete_Secret :: "string \<Rightarrow> string \<Rightarrow> ('x, string option) io"
  get_Pod :: "string \<Rightarrow> string \<Rightarrow> ('x, string + Pod) io"
  create_Pod :: "Pod \<Rightarrow> ('x, string option) io"
  delete_Pod :: "string \<Rightarrow> string \<Rightarrow> DeleteOptions option \<Rightarrow> ('x, string option) io"
  get_DaemonSet :: "string \<Rightarrow> string \<Rightarrow> ('x, string + DaemonSet) io"
  get_PersistentVolume :: "string \<Rightarrow> ('x, string + PersistentVolume) io"
  list_PersistentVolumes :: "('x, string + PersistentVolume list) io"
  get_PersistentVolumeClaim :: "string \<Rightarrow> string \<Rightarrow> ('x, string + PersistentVolumeClaim) io"
  get_StorageClass :: "string \<Rightarrow> ('x, string + StorageClass) io"
  parse_quantity :: "string \<Rightarrow> string + quantity"
  s3_load_config :: "string \<Rightarrow> string \<Rightarrow> string \<Rightarrow> ('x, string option) io"
  s3_HasMorePages :: "s3conf \<Rightarrow> string \<Rightarrow> string \<Rightarrow> nat \<Rightarrow> ('x, bool) io"
  s3_NextPage :: "s3conf \<Rightarrow> string \<Rightarrow> string \<Rightarrow> nat \<Rightarrow> ('x, string + s3page) io"
  s3_DeleteObjects :: "s3conf \<Rightarrow> string \<Rightarrow> string list \<Rightarrow> ('x, string option) io"

section \<open>External actions\<close>

text \<open>Running an external action: it changes the outside, and the driver's trace is extended by it.\<close>

definition external :: "('a \<Rightarrow> event list) \<Rightarrow> ('x, 'a) io \<Rightarrow> ('x, 'a) io" where
  "external ev m = State (\<lambda>w. case run_state m w of (r, w') \<Rightarrow>
     (r, w\<lparr>files := files w', clock := clock w', ext := ext w', trace := trace w @ ev r\<rparr>))"

text \<open>\<open>exec.Command(c, args...).CombinedOutput()\<close> and \<open>time.Sleep\<close>\<close>

definition exec_Command :: "'x env \<Rightarrow> string \<Rightarrow> string list \<Rightarrow> ('x, cmd_out) io" where
  "exec_Command E c args = external (\<lambda>(out, err). [Exec c args out err]) (run_cmd E c args)"

definition time_Sleep :: "'x env \<Rightarrow> int \<Rightarrow> ('x, unit) io" where
  "time_Sleep E d = external (\<lambda>_. [Slept d]) (pass_time E d)"

text \<open>The calls of the controller-runtime client. A read leaves no event.\<close>

definition client_read :: "('x, 'a) io \<Rightarrow> ('x, 'a) io" where
  "client_read m = external (\<lambda>_. []) m"

definition client_CreateSecret :: "'x env \<Rightarrow> Secret \<Rightarrow> ('x, string option) io" where
  "client_CreateSecret E s = external (\<lambda>err. [CreatedSecret s err]) (create_Secret E s)"

definition client_UpdateSecret :: "'x env \<Rightarrow> Secret \<Rightarrow> ('x, string option) io" where
  "client_UpdateSecret E s = external (\<lambda>err. [UpdatedSecret s err]) (update_Secret E s)"

definition client_DeleteSecret :: "'x env \<Rightarrow> string \<Rightarrow> string \<Rightarrow> ('x, string option) io" where
  "client_DeleteSecret E ns n = external (\<lambda>err. [DeletedSecret ns n err]) (delete_Secret E ns n)"

definition client_CreatePod :: "'x env \<Rightarrow> Pod \<Rightarrow> ('x, string option) io" where
  "client_CreatePod E p = external (\<lambda>err. [CreatedPod p err]) (create_Pod E p)"

definition client_DeletePod ::
    "'x env \<Rightarrow> string \<Rightarrow> string \<Rightarrow> DeleteOptions option \<Rightarrow> ('x, string option) io" where
  "client_DeletePod E ns n opts =
     external (\<lambda>err. [DeletedPod ns n opts err]) (delete_Pod E ns n opts)"

definition client_DeleteObjects ::
    "'x env \<Rightarrow> s3conf \<Rightarrow> string \<Rightarrow> string list \<Rightarrow> ('x, string option) io" where
  "client_DeleteObjects E c bucket keys =
     external (\<lambda>err. [DeletedObjects bucket keys err]) (s3_DeleteObjects E c bucket keys)"

text \<open>
  A loop \<open>for { select { case <-ctx.Done(): ... case <-ticker.C: body } }\<close> under
  \<open>context.WithTimeout(_, d)\<close> and a ticker of one second. The Go runtime decides how often the
  ticker's branch is taken before the other one (ticks arrive while the deadline has not passed;
  when both are ready the choice is random): \<open>tick_count E d\<close> is that number, and between two ticks
  time passes.
\<close>

definition select_budget :: "'x env \<Rightarrow> int \<Rightarrow> ('x, nat) io" where
  "select_budget E d = external (\<lambda>_. []) (tick_count E d)"

definition next_tick :: "'x env \<Rightarrow> ('x, unit) io" where
  "next_tick E = external (\<lambda>_. []) (pass_time E 1000000000)"

section \<open>Package os\<close>

text \<open>Every call may fail with an I/O error of the host, which the environment decides from the
  number of calls made so far, the call and the path.\<close>

definition os_step :: "'x env \<Rightarrow> os_op \<Rightarrow> string \<Rightarrow> ('x, string option) io" where
  "os_step E op p = State (\<lambda>w. (os_fault E (oscalls w) op p, w\<lparr>oscalls := Suc (oscalls w)\<rparr>))"

definition put_node :: "string \<Rightarrow> fnode \<Rightarrow> 'x world \<Rightarrow> 'x world" where
  "put_node p n w = w\<lparr>files := AList.update p n (files w)\<rparr>"

definition del_node :: "string \<Rightarrow> 'x world \<Rightarrow> 'x world" where
  "del_node p w = w\<lparr>files := AList.delete p (files w)\<rparr>"

text \<open>The directory a path is in (for the cleaned absolute paths the driver uses).\<close>

definition parent_dir :: "string \<Rightarrow> string" where
  "parent_dir p = (let q = rev (tl (dropWhile (\<lambda>c. c \<noteq> CHR ''/'') (rev p)))
     in if q = [] then ''/'' else q)"

definition is_dir :: "'x world \<Rightarrow> string \<Rightarrow> bool" where
  "is_dir w p \<longleftrightarrow> p = ''/'' \<or> node w p = Some FDir"

definition has_children :: "'x world \<Rightarrow> string \<Rightarrow> bool" where
  "has_children w p \<longleftrightarrow> list_ex (\<lambda>(q, _). HasPrefix q (p @ ''/'')) (files w)"

definition os_Stat :: "'x env \<Rightarrow> string \<Rightarrow> ('x, os_error + fnode) io" where
  "os_Stat E p = do {
     f \<leftarrow> os_step E OpStat p;
     case f of
       Some e \<Rightarrow> ret (Inl (OsErr e))
     | None \<Rightarrow> asks (\<lambda>w. case node w p of None \<Rightarrow> Inl NotExist | Some n \<Rightarrow> Inr n) }"

definition os_ReadFile :: "'x env \<Rightarrow> string \<Rightarrow> ('x, os_error + string) io" where
  "os_ReadFile E p = do {
     f \<leftarrow> os_step E OpRead p;
     case f of
       Some e \<Rightarrow> ret (Inl (OsErr e))
     | None \<Rightarrow> asks (\<lambda>w. case node w p of
           None \<Rightarrow> Inl NotExist
         | Some (FReg c t) \<Rightarrow> Inr c
         | Some FDir \<Rightarrow> Inl (OsErr ''is a directory'')
         | Some FNode \<Rightarrow> Inl (OsErr ''not a regular file'')) }"

definition os_Remove :: "'x env \<Rightarrow> string \<Rightarrow> ('x, os_error option) io" where
  "os_Remove E p = do {
     f \<leftarrow> os_step E OpRemove p;
     case f of
       Some e \<Rightarrow> ret (Some (OsErr e))
     | None \<Rightarrow> State (\<lambda>w. case node w p of
           None \<Rightarrow> (Some NotExist, w)
         | Some FDir \<Rightarrow> if has_children w p then (Some (OsErr ''directory not empty''), w)
             else (None, del_node p w)
         | Some n \<Rightarrow> (None, del_node p w)) }"

text \<open>\<open>os.OpenFile(p, O_CREATE|O_EXCL|O_WRONLY, 0644)\<close>: creates an empty file, never reuses one.\<close>

definition os_OpenExcl :: "'x env \<Rightarrow> string \<Rightarrow> ('x, os_error option) io" where
  "os_OpenExcl E p = do {
     f \<leftarrow> os_step E OpCreate p;
     case f of
       Some e \<Rightarrow> ret (Some (OsErr e))
     | None \<Rightarrow> State (\<lambda>w.
         if node w p \<noteq> None then (Some Exist, w)
         else if \<not> is_dir w (parent_dir p) then (Some NotExist, w)
         else (None, put_node p (FReg [] (clock w)) w)) }"

text \<open>Writing to the file just opened: a failing write may have put out a prefix.\<close>

definition f_WriteString :: "'x env \<Rightarrow> string \<Rightarrow> string \<Rightarrow> ('x, os_error option) io" where
  "f_WriteString E p s = do {
     f \<leftarrow> os_step E OpWrite p;
     case f of
       Some e \<Rightarrow> State (\<lambda>w. (Some (OsErr e),
           put_node p (FReg (take (os_short E (oscalls w)) s) (clock w)) w))
     | None \<Rightarrow> State (\<lambda>w. (None, put_node p (FReg s (clock w)) w)) }"

text \<open>\<open>os.WriteFile(p, s, 0644)\<close>: open with create and truncate, then write.\<close>

definition os_WriteFile :: "'x env \<Rightarrow> string \<Rightarrow> string \<Rightarrow> ('x, os_error option) io" where
  "os_WriteFile E p s = do {
     f \<leftarrow> os_step E OpCreate p;
     case f of
       Some e \<Rightarrow> ret (Some (OsErr e))
     | None \<Rightarrow> do {
         bad \<leftarrow> asks (\<lambda>w. case node w p of
             Some FDir \<Rightarrow> Some (OsErr ''is a directory'')
           | Some FNode \<Rightarrow> Some (OsErr ''not a regular file'')
           | Some (FReg c t) \<Rightarrow> None
           | None \<Rightarrow> if is_dir w (parent_dir p) then None else Some NotExist);
         case bad of Some e \<Rightarrow> ret (Some e) | None \<Rightarrow> f_WriteString E p s } }"

text \<open>The directories from the root down to \<open>p\<close>, and \<open>os.MkdirAll(p, 0755)\<close>.\<close>

definition dirs_to :: "string \<Rightarrow> string list" where
  "dirs_to p = filter (\<lambda>q. q \<noteq> [] \<and> last q \<noteq> CHR ''/'' \<and>
       (q = p \<or> HasPrefix p (q @ ''/''))) (map (\<lambda>n. take n p) [1..<Suc (length p)])"

fun mkdirs :: "string list \<Rightarrow> 'x world \<Rightarrow> os_error option \<times> 'x world" where
  "mkdirs [] w = (None, w)"
| "mkdirs (d # ds) w = (case node w d of
      None \<Rightarrow> mkdirs ds (put_node d FDir w)
    | Some FDir \<Rightarrow> mkdirs ds w
    | Some n \<Rightarrow> (Some (OsErr ''not a directory''), w))"

definition os_MkdirAll :: "'x env \<Rightarrow> string \<Rightarrow> ('x, os_error option) io" where
  "os_MkdirAll E p = do {
     f \<leftarrow> os_step E OpMkdir p;
     case f of Some e \<Rightarrow> ret (Some (OsErr e)) | None \<Rightarrow> State (mkdirs (dirs_to p)) }"

text \<open>\<open>filepath.Glob(d + "/" + pre + "*")\<close>: the entries of the directory whose name starts with
  \<open>pre\<close>, in lexical order. Its only error is a malformed pattern; I/O errors give no matches.\<close>

definition dir_names :: "'x world \<Rightarrow> string \<Rightarrow> string list" where
  "dir_names w d = filter (\<lambda>n. n \<noteq> [] \<and> CHR ''/'' \<notin> set n)
     (map (\<lambda>(p, _). drop (length d + 1) p) (filter (\<lambda>(p, _). HasPrefix p (d @ ''/'')) (files w)))"

definition filepath_Glob :: "'x env \<Rightarrow> string \<Rightarrow> string \<Rightarrow> ('x, string list) io" where
  "filepath_Glob E d pre = do {
     f \<leftarrow> os_step E OpGlob d;
     case f of
       Some e \<Rightarrow> ret []
     | None \<Rightarrow> asks (\<lambda>w. if is_dir w d
         then map (\<lambda>n. d @ ''/'' @ n) (sort (remdups (filter (\<lambda>n. HasPrefix n pre) (dir_names w d))))
         else []) }"

section \<open>An environment that answers nothing\<close>

text \<open>
  No host faults, every command and every service call fails, time stands still. The concrete
  environments of the witnesses are updates of it.
\<close>

definition unreachable :: string where
  "unreachable = ''service unreachable''"

definition quiet_env :: "'x env" where
  "quiet_env = \<lparr>
     os_fault = (\<lambda>_ _ _. None), os_short = (\<lambda>_. 0),
     run_cmd = (\<lambda>_ _. ret ([], Some unreachable)),
     pass_time = (\<lambda>_. ret ()), tick_count = (\<lambda>_. ret 0), ctx_Done = ret False, ctx_Err = ret ''context canceled'',
     os_Getenv = (\<lambda>_. []), net_Listen = (\<lambda>_. ret (Some unreachable)),
     get_ConfigMap = (\<lambda>_ _. ret (Inl unreachable)),
     get_Secret = (\<lambda>_ _. ret (Inl unreachable)),
     create_Secret = (\<lambda>_. ret (Some unreachable)),
     update_Secret = (\<lambda>_. ret (Some unreachable)),
     delete_Secret = (\<lambda>_ _. ret (Some unreachable)),
     get_Pod = (\<lambda>_ _. ret (Inl unreachable)),
     create_Pod = (\<lambda>_. ret (Some unreachable)),
     delete_Pod = (\<lambda>_ _ _. ret (Some unreachable)),
     get_DaemonSet = (\<lambda>_ _. ret (Inl unreachable)),
     get_PersistentVolume = (\<lambda>_. ret (Inl unreachable)),
     list_PersistentVolumes = ret (Inl unreachable),
     get_PersistentVolumeClaim = (\<lambda>_ _. ret (Inl unreachable)),
     get_StorageClass = (\<lambda>_. ret (Inl unreachable)),
     parse_quantity = (\<lambda>s. Inr (Quantity s)),
     s3_load_config = (\<lambda>_ _ _. ret (Some unreachable)),
     s3_HasMorePages = (\<lambda>_ _ _ _. ret False),
     s3_NextPage = (\<lambda>_ _ _ _. ret (Inl unreachable)),
     s3_DeleteObjects = (\<lambda>_ _ _. ret (Some unreachable)) \<rparr>"

text \<open>A world with the given files at time 0.\<close>

definition mk_world :: "(string \<times> fnode) list \<Rightarrow> 'x \<Rightarrow> 'x world" where
  "mk_world fs x = \<lparr>files = fs, clock = 0, oscalls = 0, stage_errors = (\<lambda>_. 0),
     stage_observations = [], trace = [], ext = x\<rparr>"

section \<open>The store after a call\<close>

lemma node_put [simp]: "node (put_node p n w) q = (if q = p then Some n else node w q)"
  by (simp add: node_def put_node_def update_conv')

lemma node_del [simp]: "node (del_node p w) q = (if q = p then None else node w q)"
  by (simp add: node_def del_node_def delete_conv')

lemma node_frame [simp]:
  "node (w\<lparr>oscalls := n\<rparr>) p = node w p"
  "node (w\<lparr>clock := t\<rparr>) p = node w p"
  "node (w\<lparr>stage_errors := se\<rparr>) p = node w p"
  "node (w\<lparr>stage_observations := so\<rparr>) p = node w p"
  "node (w\<lparr>trace := es\<rparr>) p = node w p"
  "node (w\<lparr>ext := x\<rparr>) p = node w p"
  by (simp_all add: node_def)

text \<open>\<open>keeps A\<close>: the nodes at the paths in \<open>A\<close> are the same before and after.\<close>

definition keeps :: "string set \<Rightarrow> 'x world \<Rightarrow> 'x world \<Rightarrow> bool" where
  "keeps A w w' \<longleftrightarrow> (\<forall>p\<in>A. node w' p = node w p)"

interpretation keep: step_relation "keeps A" for A
  by unfold_locales (auto simp: keeps_def)

lemmas os_defs = os_step_def os_Stat_def os_ReadFile_def os_Remove_def os_OpenExcl_def
  f_WriteString_def os_WriteFile_def os_MkdirAll_def filepath_Glob_def

lemma keeps_Stat [guar]: "state_io_rel (keeps A) (os_Stat E p)"
  by (auto simp: state_io_rel_def os_Stat_def os_step_def keeps_def split: option.splits)

lemma keeps_ReadFile [guar]: "state_io_rel (keeps A) (os_ReadFile E p)"
  by (auto simp: state_io_rel_def os_ReadFile_def os_step_def keeps_def split: option.splits)

lemma keeps_Glob [guar]: "state_io_rel (keeps A) (filepath_Glob E d pre)"
  by (auto simp: state_io_rel_def filepath_Glob_def os_step_def keeps_def split: option.splits)

lemma keeps_Remove [guar]: "p \<notin> A \<Longrightarrow> state_io_rel (keeps A) (os_Remove E p)"
  by (auto simp: state_io_rel_def os_Remove_def os_step_def keeps_def split: option.splits fnode.splits)

lemma keeps_OpenExcl [guar]: "p \<notin> A \<Longrightarrow> state_io_rel (keeps A) (os_OpenExcl E p)"
  by (auto simp: state_io_rel_def os_OpenExcl_def os_step_def keeps_def split: option.splits)

lemma keeps_WriteString [guar]: "p \<notin> A \<Longrightarrow> state_io_rel (keeps A) (f_WriteString E p s)"
  by (auto simp: state_io_rel_def f_WriteString_def os_step_def keeps_def split: option.splits)

lemma keeps_WriteFile [guar]: "p \<notin> A \<Longrightarrow> state_io_rel (keeps A) (os_WriteFile E p s)"
  by (auto simp: state_io_rel_def os_WriteFile_def f_WriteString_def os_step_def keeps_def
      split: option.splits fnode.splits)

end
