(* ===== verification/Nbd.thy ===== *)
theory Nbd
  imports Environment
begin

text \<open>
  \<^verbatim>\<open>pkg/csi/nbd.go\<close>: the NBD devices of a node and their reservations. A volume that holds a device
  has a state file \<open>/run/zerofs-csi/<volumeID>\<close> with the device path in it, and the device has a
  reservation file \<open>/run/zerofs-csi/by-device/<nbdX>\<close> with the volume ID in it.

  Each function of the file is one definition, in the file's order. Log lines are left out; a Go
  error is its message. Callers serialise the reservations with \<open>nodeService.nbdMu\<close>.
\<close>

section \<open>Paths\<close>

definition ZeroFSRunDir :: string where
  "ZeroFSRunDir = ''/run/zerofs-csi''"

definition nbdByDeviceDir :: string where
  "nbdByDeviceDir = ZeroFSRunDir @ ''/by-device''"

text \<open>The regular expression \<open>^/dev/nbd\d+$\<close>.\<close>

definition nbdDevicePathRe :: "string \<Rightarrow> bool" where
  "nbdDevicePathRe s \<longleftrightarrow> HasPrefix s ''/dev/nbd'' \<and>
     (let ds = drop (length ''/dev/nbd'') s in ds \<noteq> [] \<and> list_all is_digit ds)"

definition os_message :: "os_error \<Rightarrow> string" where
  "os_message e = (case e of NotExist \<Rightarrow> ''no such file or directory'' | Exist \<Rightarrow> ''file exists''
     | OsErr m \<Rightarrow> m)"

definition ensureRunDirs :: "'x env \<Rightarrow> ('x, string option) io" where
  "ensureRunDirs E = do {
     e1 \<leftarrow> os_MkdirAll E ZeroFSRunDir;
     case e1 of
       Some e \<Rightarrow> ret (Some (os_message e))
     | None \<Rightarrow> do {
         e2 \<leftarrow> os_MkdirAll E nbdByDeviceDir;
         case e2 of Some e \<Rightarrow> ret (Some (os_message e)) | None \<Rightarrow> ret None } }"

definition volumeNBDStatePath :: "string \<Rightarrow> string" where
  "volumeNBDStatePath volumeID = path_Join [ZeroFSRunDir, volumeID]"

definition deviceReservationPath :: "string \<Rightarrow> string" where
  "deviceReservationPath nbdDevicePath = path_Join [nbdByDeviceDir, path_Base (TrimSpace nbdDevicePath)]"

section \<open>Devices and mounts\<close>

text \<open>The key the listing is sorted by: \<open>ni, _ := strconv.Atoi(...)\<close>, the error ignored.
  \<open>sort.Slice\<close> leaves the order of devices with equal keys open; the model keeps theirs.\<close>

definition nbd_number :: "string \<Rightarrow> int" where
  "nbd_number dev = fst (Atoi (TrimPrefix (path_Base dev) ''nbd''))"

definition listNBDDevices :: "'x env \<Rightarrow> ('x, string list) io" where
  "listNBDDevices E = do {
     matches \<leftarrow> filepath_Glob E ''/dev'' ''nbd'';
     ret (sort_key nbd_number (filter nbdDevicePathRe matches)) }"

definition isNBDConnected :: "'x env \<Rightarrow> string \<Rightarrow> ('x, string + bool) io" where
  "isNBDConnected E nbdDevicePath = (
     let dev = path_Base (TrimSpace nbdDevicePath);
         pidPath = path_Join [''/sys/block'', dev, ''pid'']
     in do {
       b \<leftarrow> os_ReadFile E pidPath;
       case b of
         Inl err \<Rightarrow> (if err = NotExist then ret (Inr False)
           else ret (Inl (''read '' @ pidPath @ '': '' @ os_message err)))
       | Inr s \<Rightarrow> (case Atoi (TrimSpace s) of
           (pid, Some err) \<Rightarrow> ret (Inl (''parse '' @ pidPath @ '': '' @ Atoi_message (TrimSpace s) err))
         | (pid, None) \<Rightarrow> ret (Inr (pid > 0))) })"

definition findMountSource :: "'x env \<Rightarrow> string \<Rightarrow> ('x, string \<times> bool) io" where
  "findMountSource E targetPath = do {
     (out, err) \<leftarrow> exec_Command E ''findmnt'' [''-n'', ''-o'', ''SOURCE'', ''--target'', targetPath];
     if err \<noteq> None then ret ([], False)
     else let src = TrimSpace out in ret (src, src \<noteq> []) }"

definition unmountBestEffort :: "'x env \<Rightarrow> string \<Rightarrow> ('x, unit) io" where
  "unmountBestEffort E targetPath =
     (if targetPath = [] then ret ()
      else do {
        (src, mounted) \<leftarrow> findMountSource E targetPath;
        if \<not> mounted then ret ()
        else do { _ \<leftarrow> exec_Command E ''umount'' [targetPath]; ret () } })"

text \<open>The retry loop: \<open>n\<close> attempts are left; every failed one is followed by half a second's sleep.\<close>

fun detach_attempts :: "'x env \<Rightarrow> nat \<Rightarrow> string \<Rightarrow> ('x, unit) io" where
  "detach_attempts E 0 dev = ret ()"
| "detach_attempts E (Suc n) dev = do {
     (out, err) \<leftarrow> exec_Command E ''nbd-client'' [''-d'', dev];
     if err = None then ret ()
     else do { time_Sleep E 500000000; detach_attempts E n dev } }"

definition detachNBDDeviceBestEffort :: "'x env \<Rightarrow> string \<Rightarrow> ('x, unit) io" where
  "detachNBDDeviceBestEffort E nbdDevicePath =
     (let dev = TrimSpace nbdDevicePath in if dev = [] then ret () else detach_attempts E 5 dev)"

section \<open>The state files\<close>

definition readVolumeNBDState :: "'x env \<Rightarrow> string \<Rightarrow> ('x, string option) io" where
  "readVolumeNBDState E volumeID = do {
     b \<leftarrow> os_ReadFile E (volumeNBDStatePath volumeID);
     case b of
       Inl err \<Rightarrow> ret None
     | Inr s \<Rightarrow> let dev = TrimSpace s in ret (if dev = [] then None else Some dev) }"

definition writeVolumeNBDState :: "'x env \<Rightarrow> string \<Rightarrow> string \<Rightarrow> ('x, string option) io" where
  "writeVolumeNBDState E volumeID nbdDevicePath = do {
     e \<leftarrow> ensureRunDirs E;
     case e of
       Some err \<Rightarrow> ret (Some err)
     | None \<Rightarrow> do {
         r \<leftarrow> os_WriteFile E (volumeNBDStatePath volumeID) (TrimSpace nbdDevicePath);
         ret (map_option os_message r) } }"

definition clearVolumeNBDState :: "'x env \<Rightarrow> string \<Rightarrow> string \<Rightarrow> ('x, unit) io" where
  "clearVolumeNBDState E volumeID nbdDevicePath = do {
     _ \<leftarrow> os_Remove E (volumeNBDStatePath volumeID);
     if nbdDevicePath \<noteq> [] then do { _ \<leftarrow> os_Remove E (deviceReservationPath nbdDevicePath); ret () }
     else ret () }"

definition mustReadFile :: "'x env \<Rightarrow> string \<Rightarrow> ('x, string) io" where
  "mustReadFile E path = do {
     b \<leftarrow> os_ReadFile E path;
     ret (case b of Inl _ \<Rightarrow> [] | Inr s \<Rightarrow> s) }"

section \<open>Reserving a device\<close>

text \<open>Two hours, in nanoseconds.\<close>

definition reservation_ttl :: int where
  "reservation_ttl = 7200000000000"

text \<open>Garbage collection of one device's reservation file before it is taken.\<close>

definition gc_reservation :: "'x env \<Rightarrow> string \<Rightarrow> ('x, unit) io" where
  "gc_reservation E resPath = do {
     st \<leftarrow> os_Stat E resPath;
     case st of
       Inl _ \<Rightarrow> ret ()
     | Inr n \<Rightarrow> do {
         raw \<leftarrow> mustReadFile E resPath;
         let vol = TrimSpace raw;
         if vol = [] then do { _ \<leftarrow> os_Remove E resPath; ret () }
         else do {
           vs \<leftarrow> os_Stat E (volumeNBDStatePath vol);
           if vs = Inl NotExist then do { _ \<leftarrow> os_Remove E resPath; ret () }
           else do {
             now \<leftarrow> asks clock;
             if now - mtime n > reservation_ttl then do { _ \<leftarrow> os_Remove E resPath; ret () }
             else ret () } } } }"

text \<open>The loop over the candidates.\<close>

fun reserve_scan :: "'x env \<Rightarrow> string \<Rightarrow> string list \<Rightarrow> ('x, string + string) io" where
  "reserve_scan E volumeID [] = ret (Inl ''no free /dev/nbd* devices available'')"
| "reserve_scan E volumeID (dev # devs) = do {
     c \<leftarrow> isNBDConnected E dev;
     case c of
       Inl err \<Rightarrow> reserve_scan E volumeID devs
     | Inr True \<Rightarrow> reserve_scan E volumeID devs
     | Inr False \<Rightarrow> do {
         let resPath = deviceReservationPath dev;
         gc_reservation E resPath;
         f \<leftarrow> os_OpenExcl E resPath;
         case f of
           Some e \<Rightarrow> reserve_scan E volumeID devs
         | None \<Rightarrow> do {
             _ \<leftarrow> f_WriteString E resPath volumeID;
             e \<leftarrow> writeVolumeNBDState E volumeID dev;
             case e of
               Some err \<Rightarrow> do { _ \<leftarrow> os_Remove E resPath; ret (Inl err) }
             | None \<Rightarrow> ret (Inr dev) } } }"

text \<open>Re-creating the reservation file of a device that the volume already holds.\<close>

definition ensure_reservation :: "'x env \<Rightarrow> string \<Rightarrow> string \<Rightarrow> ('x, unit) io" where
  "ensure_reservation E volumeID existing = (
     let resPath = deviceReservationPath existing in do {
       st \<leftarrow> os_Stat E resPath;
       if st = Inl NotExist then do {
         f \<leftarrow> os_OpenExcl E resPath;
         case f of
           Some e \<Rightarrow> ret ()
         | None \<Rightarrow> do { _ \<leftarrow> f_WriteString E resPath volumeID; ret () } }
       else ret () })"

text \<open>The part after the check for an existing state file.\<close>

definition reserve_fresh :: "'x env \<Rightarrow> string \<Rightarrow> ('x, string + string) io" where
  "reserve_fresh E volumeID = do {
     devs \<leftarrow> listNBDDevices E;
     if devs = [] then
       ret (Inl ''no /dev/nbd* devices found (is the nbd module loaded and /dev mounted?)'')
     else reserve_scan E volumeID devs }"

definition reserveNBDDevice :: "'x env \<Rightarrow> string \<Rightarrow> ('x, string + string) io" where
  "reserveNBDDevice E volumeID = do {
     e \<leftarrow> ensureRunDirs E;
     case e of
       Some err \<Rightarrow> ret (Inl err)
     | None \<Rightarrow> do {
         ex \<leftarrow> readVolumeNBDState E volumeID;
         case ex of
           Some existing \<Rightarrow> do {
             st \<leftarrow> os_Stat E existing;
             case st of
               Inr _ \<Rightarrow> do { ensure_reservation E volumeID existing; ret (Inr existing) }
             | Inl _ \<Rightarrow> do { clearVolumeNBDState E volumeID existing; reserve_fresh E volumeID } }
         | None \<Rightarrow> reserve_fresh E volumeID } }"

end
