(* ===== verification/Metrics.thy ===== *)
theory Metrics
  imports Environment
begin

text \<open>
  \<^verbatim>\<open>pkg/csi/metrics.go\<close>: the histogram of stage durations (here the list of its observations, in
  nanoseconds) and the counter of errors, both labelled by operation and stage.
\<close>

section \<open>The metrics and their registration\<close>

text \<open>A histogram or counter vector as the package declares it. The registry of controller-runtime and
  the default buckets of the Prometheus client are parameters.\<close>

datatype metric_kind = Histogram | Counter

record 'b metric_vec =
  mv_Kind :: metric_kind
  mv_Name :: string
  mv_Help :: string
  mv_Buckets :: "'b option"
  mv_Labels :: "string list"

definition nodeOpDuration :: "'b \<Rightarrow> 'b metric_vec" where
  "nodeOpDuration DefBuckets = \<lparr>mv_Kind = Histogram, mv_Name = ''zerofs_csi_node_operation_seconds'',
     mv_Help = ''Duration of node-side CSI operations by stage.'', mv_Buckets = Some DefBuckets,
     mv_Labels = [''operation'', ''stage'']\<rparr>"

definition nodeOpErrors :: "'b metric_vec" where
  "nodeOpErrors = \<lparr>mv_Kind = Counter, mv_Name = ''zerofs_csi_node_errors_total'',
     mv_Help = ''Count of node-side CSI errors by stage.'', mv_Buckets = None,
     mv_Labels = [''operation'', ''stage'']\<rparr>"

definition metrics_init :: "('b metric_vec list \<Rightarrow> 'r) \<Rightarrow> 'b \<Rightarrow> 'r" where
  "metrics_init MustRegister DefBuckets = MustRegister [nodeOpDuration DefBuckets, nodeOpErrors]"

section \<open>Stages\<close>

record stageTimer =
  st_operation :: string
  st_stage :: string
  st_start :: int

definition startStage :: "string \<Rightarrow> string \<Rightarrow> ('x, stageTimer) io" where
  "startStage operation stage =
     asks (\<lambda>w. \<lparr>st_operation = operation, st_stage = stage, st_start = clock w\<rparr>)"

definition observe :: "stageTimer \<Rightarrow> ('x, unit) io" where
  "observe t = modifies (\<lambda>w. w\<lparr>stage_observations :=
     stage_observations w @ [(st_operation t, st_stage t, clock w - st_start t)]\<rparr>)"

definition recordStageError :: "string \<Rightarrow> string \<Rightarrow> ('x, unit) io" where
  "recordStageError operation stage = modifies (\<lambda>w. w\<lparr>stage_errors :=
     (stage_errors w)((operation, stage) := Suc (stage_errors w (operation, stage)))\<rparr>)"

text \<open>What each of them leaves alone.\<close>

lemma metrics_frame [simp]:
  "files (final (startStage op st) w) = files w" "trace (final (startStage op st) w) = trace w"
  "files (final (observe t) w) = files w" "trace (final (observe t) w) = trace w"
  "files (final (recordStageError op st) w) = files w"
  "trace (final (recordStageError op st) w) = trace w"
  by (simp_all add: startStage_def observe_def recordStageError_def)

end
