(* ===== verification/Zerofs.thy ===== *)
theory Zerofs
  imports Environment "HOL-Library.Word"
begin

text \<open>
  \<^verbatim>\<open>pkg/csi/zerofs.go\<close>: the mounter, which keeps one ZeroFS server pod and one configuration secret
  per volume. \<open>CreatePod\<close> is taken apart into the configuration file (\<open>config_toml\<close>), its secret, the
  pod manifest (\<open>zerofs_pod\<close>) and the part that applies them; log lines are left out. The Kubernetes
  client is reached through the parameter \<open>env\<close>.
\<close>

section \<open>The mounter\<close>

definition ZeroFSBaseDir :: string where
  "ZeroFSBaseDir = ''/var/lib/kubelet/plugins/zerofs.csi.driver''"

definition ZeroFSDefaultImage :: string where
  "ZeroFSDefaultImage = ''ghcr.io/barre/zerofs:0.16.2''"

definition EnvoyDefaultImage :: string where
  "EnvoyDefaultImage = ''envoyproxy/envoy-distroless:v1.34.4''"

text \<open>The fields of the struct that matter; \<open>m_client\<close> tells whether the client is not nil.\<close>

record zerofsMounter =
  m_namespace :: string
  m_client :: bool

definition NewZeroFSMounter :: "string \<Rightarrow> bool \<Rightarrow> zerofsMounter" where
  "NewZeroFSMounter ns cl = \<lparr>m_namespace = ns, m_client = cl\<rparr>"

definition getDaemonSetUID :: "'x env \<Rightarrow> zerofsMounter \<Rightarrow> ('x, string + string) io" where
  "getDaemonSetUID E m = do {
     r \<leftarrow> client_read (get_DaemonSet E (m_namespace m) ''zerofs-csi-node'');
     case r of
       Inl err \<Rightarrow> ret (Inl (''failed to get DaemonSet: '' @ err))
     | Inr ds \<Rightarrow> ret (Inr (ds_UID ds)) }"

section \<open>The configuration file\<close>

text \<open>A \<open>text/template\<close> of literal text and actions \<open>{{.Name}}\<close>, and its execution on a map: a value is
  printed as it is, a missing key as \<open><no value>\<close>.\<close>

datatype tpart = Lit string | Field string

definition template_Execute :: "tpart list \<Rightarrow> smap \<Rightarrow> string" where
  "template_Execute t vs = concat (map (\<lambda>p. case p of Lit s \<Rightarrow> s
     | Field k \<Rightarrow> (case vs k of None \<Rightarrow> ''<no value>'' | Some v \<Rightarrow> v)) t)"

definition nl :: string where
  "nl = [CHR 0x0A]"

definition dq :: string where
  "dq = [CHR 0x22]"

text \<open>One line \<open>name = "{{.Field}}"\<close> or \<open>name = {{.Field}}\<close>.\<close>

definition quoted_line :: "string \<Rightarrow> string \<Rightarrow> tpart list" where
  "quoted_line n f = [Lit (n @ '' = '' @ dq), Field f, Lit (dq @ nl)]"

definition plain_line :: "string \<Rightarrow> string \<Rightarrow> tpart list" where
  "plain_line n f = [Lit (n @ '' = ''), Field f, Lit nl]"

definition socket_line :: "string \<Rightarrow> tpart list" where
  "socket_line kind = [Lit (''unix_socket = '' @ dq), Field ''BaseDir'', Lit ''/zerofs-'',
     Field ''VolumeID'', Lit (''.'' @ kind @ ''.sock'' @ dq @ nl)]"

definition section_line :: "string \<Rightarrow> tpart list" where
  "section_line s = [Lit (''['' @ s @ '']'' @ nl)]"

definition templateContent :: "tpart list" where
  "templateContent = concat [
     section_line ''cache'',
     quoted_line ''dir'' ''CacheDir'',
     plain_line ''disk_size_gb'' ''CacheDiskSizeGB'',
     plain_line ''memory_size_gb'' ''CacheMemorySizeGB'',
     [Lit nl],
     section_line ''storage'',
     quoted_line ''url'' ''StorageURL'',
     quoted_line ''encryption_password'' ''EncryptionPassword'',
     [Lit nl],
     section_line ''servers.ninep'',
     [Lit (''addresses = []'' @ nl)],
     socket_line ''9p'',
     [Lit nl],
     section_line ''servers.nbd'',
     [Lit (''addresses = []'' @ nl)],
     socket_line ''nbd'',
     [Lit nl],
     section_line ''aws'',
     quoted_line ''secret_access_key'' ''AWSSecretAccessKey'',
     quoted_line ''access_key_id'' ''AWSAccessKeyID'',
     quoted_line ''default_region'' ''AWSDefaultRegion'',
     quoted_line ''allow_http'' ''AWSAllowHTTP'',
     quoted_line ''endpoint'' ''AWSEndpoint'',
     [Lit nl],
     section_line ''lsm'',
     plain_line ''l0_max_ssts'' ''LsmL0MaxSsts'',
     plain_line ''max_unflushed_gb'' ''LsmMaxUnflushedGB'',
     plain_line ''max_concurrent_compactions'' ''LsmMaxConcurrentCompactions'',
     plain_line ''flush_interval_secs'' ''LsmFlushIntervalSecs'',
     [Lit nl],
     section_line ''filesystem'',
     plain_line ''max_size_gb'' ''FilesystemMaxSizeGB'']"

record credentials =
  cr_EncryptionPassword :: string
  cr_AWSAccessKeyID :: string
  cr_AWSSecretAccessKey :: string

definition storage_url :: "smap \<Rightarrow> string \<Rightarrow> string" where
  "storage_url cfg volumeID = cmp_Or (mget cfg ''storageURL'') ''s3://zerofs'' @ ''/'' @ volumeID"

definition configValues :: "smap \<Rightarrow> string \<Rightarrow> credentials \<Rightarrow> smap" where
  "configValues cfg volumeID cr = map_of [
     (''VolumeID'', volumeID),
     (''BaseDir'', ZeroFSBaseDir),
     (''CacheDir'', cmp_Or (mget cfg ''cacheDir'') ''/tmp''),
     (''CacheDiskSizeGB'', cmp_Or (mget cfg ''cacheDiskSizeGB'') ''1.0''),
     (''CacheMemorySizeGB'', cmp_Or (mget cfg ''cacheMemorySizeGB'') ''1.0''),
     (''StorageURL'', storage_url cfg volumeID),
     (''EncryptionPassword'', cr_EncryptionPassword cr),
     (''AWSAccessKeyID'', cr_AWSAccessKeyID cr),
     (''AWSSecretAccessKey'', cr_AWSSecretAccessKey cr),
     (''AWSDefaultRegion'', mget cfg ''awsDefaultRegion''),
     (''AWSAllowHTTP'', mget cfg ''awsAllowHTTP''),
     (''AWSEndpoint'', mget cfg ''awsEndpoint''),
     (''LsmL0MaxSsts'', cmp_Or (mget cfg ''lsmL0MaxSsts'') ''16''),
     (''LsmMaxUnflushedGB'', cmp_Or (mget cfg ''lsmMaxUnflushedGB'') ''1.0''),
     (''LsmMaxConcurrentCompactions'', cmp_Or (mget cfg ''lsmMaxConcurrentCompactions'') ''8''),
     (''LsmFlushIntervalSecs'', cmp_Or (mget cfg ''lsmFlushIntervalSecs'') ''30''),
     (''FilesystemMaxSizeGB'', cmp_Or (mget cfg ''filesystemMaxSizeGB'') ''100.0'')]"

definition config_toml :: "smap \<Rightarrow> string \<Rightarrow> credentials \<Rightarrow> string" where
  "config_toml cfg volumeID cr = template_Execute templateContent (configValues cfg volumeID cr)"

section \<open>The credentials\<close>

definition zerofs_credentials ::
    "'x env \<Rightarrow> zerofsMounter \<Rightarrow> smap \<Rightarrow> ('x, string + credentials) io" where
  "zerofs_credentials E m cfg = do {
     r1 \<leftarrow> client_read (get_Secret E (m_namespace m) (mget cfg ''encryptionPasswordSecretName''));
     case r1 of
       Inl err \<Rightarrow> ret (Inl (''failed to get zerofs password secret: '' @ err))
     | Inr ps \<Rightarrow> let encryptionPassword = mget (sec_Data ps) ''password'' in
         if encryptionPassword = [] then ret (Inl ''failed to get zerofs password: 'password' is empty'')
         else do {
           r2 \<leftarrow> client_read (get_Secret E (m_namespace m) (mget cfg ''awsCredentialsSecretName''));
           case r2 of
             Inl err \<Rightarrow> ret (Inl (''failed to get aws secret: '' @ err))
           | Inr aws \<Rightarrow>
               let awsAccessKeyID = cmp_Or (mget (sec_Data aws) ''AWS_ACCESS_KEY_ID'')
                     (mget (sec_Data aws) ''username'');
                   awsSecretAccessKey = cmp_Or (mget (sec_Data aws) ''AWS_SECRET_ACCESS_KEY'')
                     (mget (sec_Data aws) ''password'')
               in if awsAccessKeyID = [] then
                    ret (Inl ''failed to get aws access key id: all checked fields are empty'')
                  else if awsSecretAccessKey = [] then
                    ret (Inl ''failed to get aws secret access key: all checked fields are empty'')
                  else ret (Inr \<lparr>cr_EncryptionPassword = encryptionPassword,
                    cr_AWSAccessKeyID = awsAccessKeyID, cr_AWSSecretAccessKey = awsSecretAccessKey\<rparr>) } }"

section \<open>The secret\<close>

definition secretName :: "string \<Rightarrow> string" where
  "secretName volumeID = ''zerofs-config-'' @ volumeID"

definition podName :: "string \<Rightarrow> string" where
  "podName volumeID = ''zerofs-volume-'' @ volumeID"

definition config_secret :: "zerofsMounter \<Rightarrow> string \<Rightarrow> string \<Rightarrow> Secret" where
  "config_secret m volumeID configData = \<lparr>sec_Name = secretName volumeID,
     sec_Namespace = m_namespace m, sec_Data = [''config.toml'' \<mapsto> configData],
     sec_ResourceVersion = [], sec_Type = []\<rparr>"

definition apply_secret :: "'x env \<Rightarrow> zerofsMounter \<Rightarrow> Secret \<Rightarrow> ('x, string option) io" where
  "apply_secret E m secret = do {
     ex \<leftarrow> client_read (get_Secret E (m_namespace m) (sec_Name secret));
     case ex of
       Inl _ \<Rightarrow> do {
         e \<leftarrow> client_CreateSecret E secret;
         ret (map_option (\<lambda>err. ''failed to create secret: '' @ err) e) }
     | Inr existingSecret \<Rightarrow> do {
         e \<leftarrow> client_UpdateSecret E (secret\<lparr>sec_ResourceVersion := sec_ResourceVersion existingSecret,
           sec_Type := sec_Type existingSecret\<rparr>);
         ret (map_option (\<lambda>err. ''failed to update secret: '' @ err) e) } }"

section \<open>Resource requirements\<close>

text \<open>One quantity of the configuration, if it is given and parses.\<close>

definition parsed :: "'x env \<Rightarrow> smap \<Rightarrow> string \<Rightarrow> quantity option" where
  "parsed E cfg key = (let s = mget cfg key in if s = [] then None
     else (case parse_quantity E s of Inl _ \<Rightarrow> None | Inr q \<Rightarrow> Some q))"

definition put_opt :: "string \<Rightarrow> quantity option \<Rightarrow> (string \<rightharpoonup> quantity) \<Rightarrow> (string \<rightharpoonup> quantity)" where
  "put_opt k q l = (case q of None \<Rightarrow> l | Some x \<Rightarrow> l(k \<mapsto> x))"

definition parseResourceRequirements :: "'x env \<Rightarrow> smap \<Rightarrow> ResourceRequirements option" where
  "parseResourceRequirements E cfg =
     (if mget cfg ''cpuRequest'' \<noteq> [] \<or> mget cfg ''cpuLimit'' \<noteq> [] \<or>
         mget cfg ''memoryRequest'' \<noteq> [] \<or> mget cfg ''memoryLimit'' \<noteq> []
      then Some \<lparr>
        rr_Requests = put_opt ''memory'' (parsed E cfg ''memoryRequest'')
          (put_opt ''cpu'' (parsed E cfg ''cpuRequest'') Map.empty),
        rr_Limits = put_opt ''memory'' (parsed E cfg ''memoryLimit'')
          (put_opt ''cpu'' (parsed E cfg ''cpuLimit'') Map.empty)\<rparr>
      else None)"

section \<open>The pod manifest\<close>

definition owner_refs :: "string + string \<Rightarrow> OwnerReference list" where
  "owner_refs uid = (case uid of
      Inl _ \<Rightarrow> []
    | Inr u \<Rightarrow> if u \<noteq> [] then [\<lparr>or_APIVersion = ''apps/v1'', or_Kind = ''DaemonSet'',
        or_Name = ''zerofs-csi-node'', or_UID = u, or_Controller = True, or_BlockOwnerDeletion = True\<rparr>]
      else [])"

definition zerofs_container :: "'x env \<Rightarrow> smap \<Rightarrow> string \<Rightarrow> Container" where
  "zerofs_container E cfg volumeID = \<lparr>
     ct_Name = ''zerofs'',
     ct_Image = cmp_Or (mget cfg ''zerofsImage'') ZeroFSDefaultImage,
     ct_Args = [''run'', ''--config'', ''/etc/zerofs/config.toml''],
     ct_Env = [(''RUST_LOG'', cmp_Or (mget cfg ''rustLog'') ''zerofs=debug,slatedb=debug'')],
     ct_VolumeMounts = [
       \<lparr>vm_Name = ''zerofs-config'', vm_MountPath = ''/etc/zerofs'', vm_ReadOnly = True,
        vm_MountPropagation = None\<rparr>,
       \<lparr>vm_Name = ''plugin-dir'', vm_MountPath = ''/var/lib/kubelet/plugins/zerofs.csi.driver'',
        vm_ReadOnly = False, vm_MountPropagation = Some ''Bidirectional''\<rparr>,
       \<lparr>vm_Name = ''pod-mount-dir'', vm_MountPath = ''/var/lib/kubelet/pods'',
        vm_ReadOnly = False, vm_MountPropagation = Some ''Bidirectional''\<rparr>],
     ct_Privileged = Some True,
     ct_ReadinessProbe = Some \<lparr>pr_Command = [''sh'', ''-c'',
         ''test -S '' @ ZeroFSBaseDir @ ''/zerofs-'' @ volumeID @ ''.9p.sock''],
       pr_InitialDelaySeconds = 10\<rparr>,
     ct_Resources = (case parseResourceRequirements E cfg of None \<Rightarrow> no_resources | Some r \<Rightarrow> r),
     ct_RestartPolicy = None\<rparr>"

definition envoyEnabled :: "smap \<Rightarrow> bool" where
  "envoyEnabled cfg \<longleftrightarrow> EqualFold (mget cfg ''envoyEnabled'') ''true''"

definition envoy_container :: "smap \<Rightarrow> Container" where
  "envoy_container cfg = \<lparr>
     ct_Name = ''envoy'', ct_Image = cmp_Or (mget cfg ''envoyImage'') EnvoyDefaultImage,
     ct_Args = [], ct_Env = [],
     ct_VolumeMounts = [\<lparr>vm_Name = ''envoy-config'', vm_MountPath = ''/etc/envoy'',
       vm_ReadOnly = True, vm_MountPropagation = None\<rparr>],
     ct_Privileged = None, ct_ReadinessProbe = None, ct_Resources = no_resources,
     ct_RestartPolicy = Some ''Always''\<rparr>"

definition zerofs_pod ::
    "'x env \<Rightarrow> zerofsMounter \<Rightarrow> smap \<Rightarrow> string \<Rightarrow> string \<Rightarrow> OwnerReference list \<Rightarrow> Pod" where
  "zerofs_pod E m cfg volumeID nodeName ownerRefs = \<lparr>
     pod_Name = podName volumeID,
     pod_Namespace = m_namespace m,
     pod_Labels = [''app'' \<mapsto> ''zerofs'', ''type'' \<mapsto> ''volume'', ''volume'' \<mapsto> volumeID],
     pod_OwnerReferences = ownerRefs,
     pod_Spec = \<lparr>
       ps_NodeName = nodeName,
       ps_TerminationGracePeriodSeconds = Some 60,
       ps_RunAsUser = Some 0,
       ps_RunAsGroup = Some 0,
       ps_Containers = [zerofs_container E cfg volumeID],
       ps_InitContainers = (if envoyEnabled cfg then [envoy_container cfg] else []),
       ps_Volumes = [
         (''zerofs-config'', SecretVolume (secretName volumeID)),
         (''pod-mount-dir'', HostPathVolume ''/var/lib/kubelet/pods'' ''DirectoryOrCreate''),
         (''plugin-dir'', HostPathVolume ''/var/lib/kubelet/plugins/zerofs.csi.driver''
            ''DirectoryOrCreate'')] @
         (if envoyEnabled cfg then [(''envoy-config'',
            ConfigMapVolume (cmp_Or (mget cfg ''envoyConfigMapRef'') ''envoy-config''))] else [])\<rparr>,
     pod_Conditions = []\<rparr>"

section \<open>Waiting\<close>

definition second :: int where
  "second = 1000000000"

text \<open>\<open>time.Duration\<close> is a signed 64-bit number of nanoseconds: the product wraps.\<close>

definition seconds :: "int \<Rightarrow> int" where
  "seconds n = sint (word_of_int n * word_of_int second :: 64 word)"

definition podReadyTimeout :: "smap \<Rightarrow> int" where
  "podReadyTimeout cfg = (let raw = TrimSpace (mget cfg ''podReadyTimeoutSeconds'') in
     if raw = [] then seconds 120
     else (case Atoi raw of (secs, err) \<Rightarrow>
       if err \<noteq> None \<or> secs \<le> 0 then seconds 120 else seconds secs))"

fun deletion_loop :: "'x env \<Rightarrow> string \<Rightarrow> string \<Rightarrow> nat \<Rightarrow> ('x, string option) io" where
  "deletion_loop E ns pod 0 = ret (Some ''timeout waiting for pod to be deleted'')"
| "deletion_loop E ns pod (Suc n) = do {
     next_tick E;
     r \<leftarrow> client_read (get_Pod E ns pod);
     case r of
       Inl err \<Rightarrow> if Contains err ''not found'' then ret None
         else ret (Some (''error checking pod status: '' @ err))
     | Inr _ \<Rightarrow> deletion_loop E ns pod n }"

definition waitForPodDeletion :: "'x env \<Rightarrow> string \<Rightarrow> string \<Rightarrow> int \<Rightarrow> ('x, string option) io" where
  "waitForPodDeletion E pod ns timeout = do {
     n \<leftarrow> select_budget E timeout;
     deletion_loop E ns pod n }"

definition pod_ready :: "Pod \<Rightarrow> bool" where
  "pod_ready p \<longleftrightarrow> list_ex (\<lambda>(type, status). type = ''Ready'' \<and> status = ''True'') (pod_Conditions p)"

fun ready_loop :: "'x env \<Rightarrow> string \<Rightarrow> string \<Rightarrow> nat \<Rightarrow> ('x, string option) io" where
  "ready_loop E ns pod 0 = ret (Some ''timeout waiting for pod to be ready'')"
| "ready_loop E ns pod (Suc n) = do {
     next_tick E;
     r \<leftarrow> client_read (get_Pod E ns pod);
     case r of
       Inl err \<Rightarrow> ready_loop E ns pod n
     | Inr p \<Rightarrow> if pod_ready p then ret None else ready_loop E ns pod n }"

definition waitForPodReady :: "'x env \<Rightarrow> string \<Rightarrow> string \<Rightarrow> int \<Rightarrow> ('x, string option) io" where
  "waitForPodReady E pod ns timeout = do {
     n \<leftarrow> select_budget E timeout;
     ready_loop E ns pod n }"

section \<open>Creating and removing the pod\<close>

definition finish_ready :: "'x env \<Rightarrow> zerofsMounter \<Rightarrow> string \<Rightarrow> int \<Rightarrow> string \<Rightarrow> ('x, string option) io" where
  "finish_ready E m pod timeout msg = do {
     e \<leftarrow> waitForPodReady E pod (m_namespace m) timeout;
     ret (map_option (\<lambda>err. msg @ err) e) }"

definition create_and_wait :: "'x env \<Rightarrow> zerofsMounter \<Rightarrow> Pod \<Rightarrow> int \<Rightarrow> ('x, string option) io" where
  "create_and_wait E m pod timeout = do {
     e \<leftarrow> client_CreatePod E pod;
     case e of
       Some err \<Rightarrow> ret (Some (''failed to create pod: '' @ err))
     | None \<Rightarrow> finish_ready E m (pod_Name pod) timeout ''pod failed to become ready: '' }"

definition apply_pod :: "'x env \<Rightarrow> zerofsMounter \<Rightarrow> Pod \<Rightarrow> int \<Rightarrow> ('x, string option) io" where
  "apply_pod E m pod timeout = do {
     ex \<leftarrow> client_read (get_Pod E (m_namespace m) (pod_Name pod));
     case ex of
       Inl _ \<Rightarrow> create_and_wait E m pod timeout
     | Inr existingPod \<Rightarrow>
         if ps_NodeName (pod_Spec existingPod) = ps_NodeName (pod_Spec pod) then
           finish_ready E m (pod_Name pod) timeout ''pod exists but failed to become ready: ''
         else do {
           d \<leftarrow> client_DeletePod E (pod_Namespace existingPod) (pod_Name existingPod) None;
           case d of
             Some err \<Rightarrow> ret (Some (''failed to delete existing pod: '' @ err))
           | None \<Rightarrow> do {
               _ \<leftarrow> waitForPodDeletion E (pod_Name pod) (m_namespace m) (30 * second);
               create_and_wait E m pod timeout } } }"

definition CreatePod ::
    "'x env \<Rightarrow> zerofsMounter \<Rightarrow> string \<Rightarrow> string \<Rightarrow> string \<Rightarrow> ('x, string option) io" where
  "CreatePod E m volumeID nodeName configMapName = do {
     cm \<leftarrow> client_read (get_ConfigMap E (m_namespace m) configMapName);
     case cm of
       Inl err \<Rightarrow> ret (Some (''failed to get zerofs configmap: '' @ err))
     | Inr configMap \<Rightarrow> do {
         let cfg = cm_Data configMap;
         cr \<leftarrow> zerofs_credentials E m cfg;
         case cr of
           Inl err \<Rightarrow> ret (Some err)
         | Inr creds \<Rightarrow> do {
             s \<leftarrow> apply_secret E m (config_secret m volumeID (config_toml cfg volumeID creds));
             case s of
               Some err \<Rightarrow> ret (Some err)
             | None \<Rightarrow> do {
                 uid \<leftarrow> getDaemonSetUID E m;
                 apply_pod E m (zerofs_pod E m cfg volumeID nodeName (owner_refs uid))
                   (podReadyTimeout cfg) } } } }"

definition force_delete :: "'x env \<Rightarrow> zerofsMounter \<Rightarrow> string \<Rightarrow> ('x, unit) io" where
  "force_delete E m pod = do {
     _ \<leftarrow> client_DeletePod E (m_namespace m) pod
       (Some \<lparr>do_GracePeriodSeconds = 0, do_PropagationPolicy = ''Background''\<rparr>);
     _ \<leftarrow> waitForPodDeletion E pod (m_namespace m) (30 * second);
     ret () }"

definition remove_secret :: "'x env \<Rightarrow> zerofsMounter \<Rightarrow> string \<Rightarrow> ('x, unit) io" where
  "remove_secret E m volumeID = do {
     _ \<leftarrow> client_DeleteSecret E (m_namespace m) (secretName volumeID); ret () }"

definition RemovePod :: "'x env \<Rightarrow> zerofsMounter \<Rightarrow> string \<Rightarrow> ('x, string option) io" where
  "RemovePod E m volumeID = do {
     r \<leftarrow> client_read (get_Pod E (m_namespace m) (podName volumeID));
     case r of
       Inl err \<Rightarrow> do { remove_secret E m volumeID; ret None }
     | Inr pod \<Rightarrow> do {
         d \<leftarrow> client_DeletePod E (pod_Namespace pod) (pod_Name pod) None;
         case d of
           Some err \<Rightarrow>
             if Contains err ''not found'' then do { remove_secret E m volumeID; ret None }
             else ret (Some (''failed to delete pod: '' @ err))
         | None \<Rightarrow> do {
             wt \<leftarrow> waitForPodDeletion E (podName volumeID) (m_namespace m) (45 * second);
             case wt of
               Some err \<Rightarrow> do { force_delete E m (podName volumeID); remove_secret E m volumeID; ret None }
             | None \<Rightarrow> do { remove_secret E m volumeID; ret None } } } }"

end
