(* ===== verification/Node.thy ===== *)
theory Node
  imports Nbd Metrics Zerofs
begin

text \<open>
  \<^verbatim>\<open>pkg/csi/node.go\<close>: the CSI node service. A handler is one definition; \<open>NodePublishVolume\<close> runs its
  stages (one definition each, in the order of the code) with \<open>try_then\<close>, and its deferred function
  \<open>publish_cleanup\<close> when a stage returns an error. Log lines are left out.
\<close>

section \<open>Requests and responses\<close>

datatype code = InvalidArgument | Internal | ResourceExhausted | Unknown

text \<open>\<open>status.Error(code, message)\<close>\<close>

datatype rpc_error = Status code string

record VolumeCapability =
  vc_MountFlags :: "string list option"

record NodeStageVolumeRequest =
  sr_VolumeId :: string
  sr_StagingTargetPath :: string

record NodePublishVolumeRequest =
  pr_VolumeId :: string
  pr_TargetPath :: string
  pr_VolumeCapability :: "VolumeCapability option"
  pr_VolumeContext :: smap

record NodeUnpublishVolumeRequest =
  ur_VolumeId :: string
  ur_TargetPath :: string

record NodeGetVolumeStatsRequest =
  gr_VolumeId :: string
  gr_VolumePath :: string

record VolumeUsage =
  vu_Unit :: string
  vu_Total :: int
  vu_Used :: int
  vu_Available :: int

datatype node_capability = STAGE_UNSTAGE_VOLUME | GET_VOLUME_STATS

record nodeService =
  ns_name :: string
  ns_nodeID :: string
  ns_mounter :: zerofsMounter

section \<open>Start-up reconciliation\<close>

fun reconcile_loop :: "'x env \<Rightarrow> string list \<Rightarrow> ('x, unit) io" where
  "reconcile_loop E [] = ret ()"
| "reconcile_loop E (dev # devs) = do {
     done \<leftarrow> client_read (ctx_Done E);
     if done then ret ()
     else do {
       c \<leftarrow> isNBDConnected E dev;
       if c \<noteq> Inr True then reconcile_loop E devs
       else do {
         (out, err) \<leftarrow> exec_Command E ''findmnt'' [''-n'', ''-S'', dev];
         if err = None \<and> TrimSpace out \<noteq> [] then reconcile_loop E devs
         else do { detachNBDDeviceBestEffort E dev; reconcile_loop E devs } } } }"

definition reconcileOrphanedNBDDevices :: "'x env \<Rightarrow> ('x, unit) io" where
  "reconcileOrphanedNBDDevices E = do {
     devices \<leftarrow> listNBDDevices E;
     reconcile_loop E devices }"

section \<open>Stage and unstage\<close>

definition NodeStageVolume :: "NodeStageVolumeRequest \<Rightarrow> rpc_error + unit" where
  "NodeStageVolume req =
     (if sr_VolumeId req = [] then Inl (Status InvalidArgument ''volume ID cannot be empty'')
      else if sr_StagingTargetPath req = [] then
        Inl (Status InvalidArgument ''staging target path cannot be empty'')
      else Inr ())"

definition NodeUnstageVolume :: "NodeStageVolumeRequest \<Rightarrow> rpc_error + unit" where
  "NodeUnstageVolume req =
     (if sr_VolumeId req = [] then Inl (Status InvalidArgument ''volume ID cannot be empty'')
      else if sr_StagingTargetPath req = [] then
        Inl (Status InvalidArgument ''staging target path cannot be empty'')
      else Inr ())"

section \<open>The stages of NodePublishVolume\<close>

text \<open>\<open>recordStageError(op, stage); return nil, status.Error(...)\<close>\<close>

definition stage_fail :: "string \<Rightarrow> string \<Rightarrow> rpc_error \<Rightarrow> ('x, rpc_error + 'a) io" where
  "stage_fail operation stage err = do { recordStageError operation stage; ret (Inl err) }"

definition publish_fail :: "string \<Rightarrow> rpc_error \<Rightarrow> ('x, rpc_error + 'a) io" where
  "publish_fail stage err = stage_fail ''node_publish'' stage err"

text \<open>The section under \<open>nbdMu\<close> that drops what a previous attempt left.\<close>

definition clean_stale :: "'x env \<Rightarrow> string \<Rightarrow> ('x, unit) io" where
  "clean_stale E volumeID = do {
     s \<leftarrow> readVolumeNBDState E volumeID;
     case s of
       None \<Rightarrow> ret ()
     | Some staleDev \<Rightarrow> do {
         c \<leftarrow> isNBDConnected E staleDev;
         (if c = Inr True then detachNBDDeviceBestEffort E staleDev else ret ());
         clearVolumeNBDState E volumeID staleDev } }"

text \<open>The deferred function, run when the publish failed.\<close>

definition publish_cleanup :: "'x env \<Rightarrow> nodeService \<Rightarrow> string \<Rightarrow> string \<Rightarrow> ('x, unit) io" where
  "publish_cleanup E ns volumeID targetPath = do {
     unmountBestEffort E targetPath;
     s \<leftarrow> readVolumeNBDState E volumeID;
     (case s of
       None \<Rightarrow> ret ()
     | Some dev \<Rightarrow> do { detachNBDDeviceBestEffort E dev; clearVolumeNBDState E volumeID dev });
     _ \<leftarrow> RemovePod E (ns_mounter ns) volumeID;
     ret () }"

definition stage_mkdir :: "'x env \<Rightarrow> string \<Rightarrow> ('x, rpc_error + unit) io" where
  "stage_mkdir E targetPath = do {
     r \<leftarrow> os_MkdirAll E targetPath;
     case r of
       Some e \<Rightarrow> publish_fail ''mkdir''
         (Status Internal (''failed to create target directory: '' @ os_message e))
     | None \<Rightarrow> ret (Inr ()) }"

definition stage_create_pod ::
    "'x env \<Rightarrow> nodeService \<Rightarrow> NodePublishVolumeRequest \<Rightarrow> ('x, rpc_error + unit) io" where
  "stage_create_pod E ns req = (case pr_VolumeContext req ''configMapName'' of
      None \<Rightarrow> publish_fail ''validate'' (Status InvalidArgument
        ''failed to determine configMapName for volume, ensure configMapName is specified'')
    | Some configMapName \<Rightarrow> do {
        stage \<leftarrow> startStage ''node_publish'' ''create_pod'';
        r \<leftarrow> CreatePod E (ns_mounter ns) (pr_VolumeId req) (ns_nodeID ns) configMapName;
        case r of
          Some err \<Rightarrow> publish_fail ''create_pod'' (Status Internal (''failed to create pod: '' @ err))
        | None \<Rightarrow> do { observe stage; ret (Inr ()) } })"

definition ninep_socket :: "string \<Rightarrow> string" where
  "ninep_socket volumeID = path_Join [ZeroFSBaseDir, ''zerofs-'' @ volumeID @ ''.9p.sock'']"

definition nbd_socket :: "string \<Rightarrow> string" where
  "nbd_socket volumeID = path_Join [ZeroFSBaseDir, ''zerofs-'' @ volumeID @ ''.nbd.sock'']"

definition maxRetries :: nat where
  "maxRetries = 6"

text \<open>The retry loop: \<open>n\<close> attempts are left.\<close>

fun wait_socket :: "'x env \<Rightarrow> string \<Rightarrow> nat \<Rightarrow> ('x, rpc_error + unit) io" where
  "wait_socket E socketPath 0 = ret (Inr ())"
| "wait_socket E socketPath (Suc n) = do {
     r \<leftarrow> os_Stat E socketPath;
     case r of
       Inr _ \<Rightarrow> ret (Inr ())
     | Inl NotExist \<Rightarrow>
         if n > 0 then do { time_Sleep E (10 * second); wait_socket E socketPath n }
         else publish_fail ''wait_socket'' (Status Internal (''socket file does not exist after '' @
           show_int (int maxRetries) @ '' attempts: '' @ socketPath))
     | Inl e \<Rightarrow> publish_fail ''wait_socket''
         (Status Internal (''error checking socket file: '' @ os_message e)) }"

definition stage_mount_9p :: "'x env \<Rightarrow> string \<Rightarrow> string \<Rightarrow> ('x, rpc_error + unit) io" where
  "stage_mount_9p E socketPath targetPath = do {
     stage \<leftarrow> startStage ''node_publish'' ''mount_9p'';
     (output, err) \<leftarrow> exec_Command E ''mount''
       [''-t'', ''9p'', ''-o'', ''trans=unix,version=9p2000.L'', socketPath, targetPath];
     case err of
       None \<Rightarrow> do { observe stage; ret (Inr ()) }
     | Some e \<Rightarrow> do {
         (src, mounted) \<leftarrow> findMountSource E targetPath;
         if mounted then do { observe stage; ret (Inr ()) }
         else publish_fail ''mount_9p'' (Status Internal (''failed to mount volume: '' @ e)) } }"

definition disk_path :: "string \<Rightarrow> string" where
  "disk_path targetPath = path_Join [targetPath, ''.nbd'', ''disk'']"

definition stage_disk :: "'x env \<Rightarrow> NodePublishVolumeRequest \<Rightarrow> ('x, rpc_error + unit) io" where
  "stage_disk E req = do {
     let diskFilePath = disk_path (pr_TargetPath req);
     r \<leftarrow> os_Stat E diskFilePath;
     case r of
       Inr _ \<Rightarrow> ret (Inr ())
     | Inl NotExist \<Rightarrow> (case pr_VolumeContext req ''capacity_bytes'' of
         None \<Rightarrow> ret (Inl (Status InvalidArgument ''no capacity information provided for volume''))
       | Some capacityBytes \<Rightarrow> do {
           stage \<leftarrow> startStage ''node_publish'' ''create_disk'';
           (output, err) \<leftarrow> exec_Command E ''truncate'' [''-s'', capacityBytes, diskFilePath];
           case err of
             Some e \<Rightarrow> publish_fail ''create_disk'' (Status Internal (''failed to create disk file: '' @ e))
           | None \<Rightarrow> do { observe stage; ret (Inr ()) } })
     | Inl e \<Rightarrow> ret (Inl (Status Internal (''error checking disk file: '' @ os_message e))) }"

definition stage_umount_9p :: "'x env \<Rightarrow> string \<Rightarrow> ('x, rpc_error + unit) io" where
  "stage_umount_9p E targetPath = do {
     stage \<leftarrow> startStage ''node_publish'' ''umount_9p'';
     (output, err) \<leftarrow> exec_Command E ''umount'' [targetPath];
     case err of
       Some e \<Rightarrow> publish_fail ''umount_9p'' (Status Internal (''failed to unmount 9p volume: '' @ e))
     | None \<Rightarrow> do { observe stage; ret (Inr ()) } }"

text \<open>The reservation, under \<open>nbdMu\<close>.\<close>

definition stage_reserve :: "'x env \<Rightarrow> string \<Rightarrow> ('x, rpc_error + string) io" where
  "stage_reserve E volumeID = do {
     r \<leftarrow> reserveNBDDevice E volumeID;
     case r of
       Inl e \<Rightarrow> publish_fail ''reserve_nbd''
         (Status ResourceExhausted (''failed to reserve NBD device: '' @ e))
     | Inr nbdDevicePath \<Rightarrow> ret (Inr nbdDevicePath) }"

definition stage_connect :: "'x env \<Rightarrow> string \<Rightarrow> string \<Rightarrow> ('x, rpc_error + unit) io" where
  "stage_connect E volumeID nbdDevicePath = do {
     stage \<leftarrow> startStage ''node_publish'' ''connect_nbd'';
     (output, err) \<leftarrow> exec_Command E ''nbd-client'' [''-unix'', nbd_socket volumeID, ''-N'', ''disk'',
       ''-persist'', ''-timeout'', ''0'', ''-connections'', ''4'', nbdDevicePath];
     case err of
       Some e \<Rightarrow> do {
         clearVolumeNBDState E volumeID nbdDevicePath;
         publish_fail ''connect_nbd'' (Status Internal
           (''failed to connect to NBD device: '' @ e @ '' output: '' @ output)) }
     | None \<Rightarrow> do { observe stage; ret (Inr ()) } }"

definition mkfsCommand :: "string \<Rightarrow> string \<Rightarrow> string \<times> string list" where
  "mkfsCommand filesystem devicePath = (let fs = ToLower (TrimSpace filesystem) in
     if fs = ''btrfs'' then (''mkfs.btrfs'', [''-f'', devicePath])
     else if fs = ''xfs'' then (''mkfs.xfs'', [''-f'', devicePath])
     else if fs = ''ext2'' \<or> fs = ''ext3'' \<or> fs = ''ext4'' then (''mkfs.'' @ fs, [''-F'', devicePath])
     else (''mkfs'', [''-t'', fs, devicePath]))"

definition stage_mkfs :: "'x env \<Rightarrow> string \<Rightarrow> string \<Rightarrow> ('x, rpc_error + unit) io" where
  "stage_mkfs E filesystem nbdDevicePath = do {
     (output, _) \<leftarrow> exec_Command E ''blkid'' [''-o'', ''value'', ''-s'', ''TYPE'', nbdDevicePath];
     let fsType = TrimSpace output;
     if fsType \<noteq> [] then ret (Inr ())
     else do {
       let (mkfsCmd, mkfsArgs) = mkfsCommand filesystem nbdDevicePath;
       stage \<leftarrow> startStage ''node_publish'' ''mkfs'';
       (output, err) \<leftarrow> exec_Command E mkfsCmd mkfsArgs;
       case err of
         Some e \<Rightarrow> do {
           recordStageError ''node_publish'' ''mkfs'';
           _ \<leftarrow> exec_Command E ''nbd-client'' [''-d'', nbdDevicePath];
           ret (Inl (Status Internal
             (''failed to format NBD device: '' @ e @ '', output: '' @ TrimSpace output))) }
       | None \<Rightarrow> do { observe stage; ret (Inr ()) } } }"

definition mount_args :: "string \<Rightarrow> string list \<Rightarrow> string \<Rightarrow> string \<Rightarrow> string list" where
  "mount_args filesystem mountOptions nbdDevicePath targetPath =
     [''-t'', filesystem] @ (if mountOptions \<noteq> [] then [''-o'', Join mountOptions '',''] else []) @
     [nbdDevicePath, targetPath]"

text \<open>\<open>req.GetVolumeCapability().GetMount().GetMountFlags()\<close>: each getter gives the zero value of nil.\<close>

definition mount_flags :: "NodePublishVolumeRequest \<Rightarrow> string list" where
  "mount_flags req = (case pr_VolumeCapability req of None \<Rightarrow> []
     | Some vc \<Rightarrow> (case vc_MountFlags vc of None \<Rightarrow> [] | Some fl \<Rightarrow> fl))"

definition stage_mount_fs ::
    "'x env \<Rightarrow> NodePublishVolumeRequest \<Rightarrow> string \<Rightarrow> string \<Rightarrow> ('x, rpc_error + unit) io" where
  "stage_mount_fs E req filesystem nbdDevicePath = do {
     stage \<leftarrow> startStage ''node_publish'' ''mount_fs'';
     (output, err) \<leftarrow> exec_Command E ''mount''
       (mount_args filesystem (mount_flags req) nbdDevicePath (pr_TargetPath req));
     case err of
       Some e \<Rightarrow> do {
         recordStageError ''node_publish'' ''mount_fs'';
         _ \<leftarrow> exec_Command E ''nbd-client'' [''-d'', nbdDevicePath];
         ret (Inl (Status Internal (''failed to mount NBD device: '' @ e))) }
     | None \<Rightarrow> do { observe stage; ret (Inr ()) } }"

section \<open>NodePublishVolume\<close>

text \<open>From the reservation on, and the whole sequence covered by the deferred cleanup.\<close>

definition publish_device ::
    "'x env \<Rightarrow> NodePublishVolumeRequest \<Rightarrow> string \<Rightarrow> string \<Rightarrow> ('x, rpc_error + unit) io" where
  "publish_device E req filesystem dev =
     try_then (stage_connect E (pr_VolumeId req) dev) (\<lambda>_.
     try_then (stage_mkfs E filesystem dev) (\<lambda>_.
     stage_mount_fs E req filesystem dev))"

definition publish_stages ::
    "'x env \<Rightarrow> nodeService \<Rightarrow> NodePublishVolumeRequest \<Rightarrow> string \<Rightarrow> ('x, rpc_error + unit) io" where
  "publish_stages E ns req filesystem =
     try_then (stage_mkdir E (pr_TargetPath req)) (\<lambda>_.
     try_then (stage_create_pod E ns req) (\<lambda>_.
     try_then (wait_socket E (ninep_socket (pr_VolumeId req)) maxRetries) (\<lambda>_.
     try_then (stage_mount_9p E (ninep_socket (pr_VolumeId req)) (pr_TargetPath req)) (\<lambda>_.
     try_then (stage_disk E req) (\<lambda>_.
     try_then (stage_umount_9p E (pr_TargetPath req)) (\<lambda>_.
     try_then (stage_reserve E (pr_VolumeId req)) (\<lambda>dev.
     publish_device E req filesystem dev)))))))"

definition publish_attempt ::
    "'x env \<Rightarrow> nodeService \<Rightarrow> NodePublishVolumeRequest \<Rightarrow> string \<Rightarrow> ('x, rpc_error + unit) io" where
  "publish_attempt E ns req filesystem = do {
     r \<leftarrow> publish_stages E ns req filesystem;
     case r of
       Inl err \<Rightarrow> do { publish_cleanup E ns (pr_VolumeId req) (pr_TargetPath req); ret (Inl err) }
     | Inr _ \<Rightarrow> ret (Inr ()) }"

definition publish_validate :: "NodePublishVolumeRequest \<Rightarrow> string + string" where
  "publish_validate req =
     (if pr_VolumeId req = [] then Inl ''volume ID cannot be empty''
      else if pr_TargetPath req = [] then Inl ''target path cannot be empty''
      else if pr_VolumeCapability req = None then Inl ''volume capability cannot be empty''
      else (case pr_VolumeContext req ''filesystem'' of
          None \<Rightarrow> Inl ''failed to determine filesystem for volume, ensure filesystem is specified''
        | Some filesystem \<Rightarrow> Inr filesystem))"

definition NodePublishVolume ::
    "'x env \<Rightarrow> nodeService \<Rightarrow> NodePublishVolumeRequest \<Rightarrow> ('x, rpc_error + unit) io" where
  "NodePublishVolume E ns req = do {
     opTimer \<leftarrow> startStage ''node_publish'' ''total'';
     case publish_validate req of
       Inl msg \<Rightarrow> publish_fail ''validate'' (Status InvalidArgument msg)
     | Inr filesystem \<Rightarrow> do {
         (src, mounted) \<leftarrow> findMountSource E (pr_TargetPath req);
         if mounted \<and> HasPrefix src ''/dev/nbd'' then do { observe opTimer; ret (Inr ()) }
         else do {
           (if mounted then unmountBestEffort E (pr_TargetPath req) else ret ());
           clean_stale E (pr_VolumeId req);
           r \<leftarrow> publish_attempt E ns req filesystem;
           case r of
             Inl err \<Rightarrow> ret (Inl err)
           | Inr _ \<Rightarrow> do { observe opTimer; ret (Inr ()) } } } }"

section \<open>NodeUnpublishVolume\<close>

definition unpublish_umount :: "'x env \<Rightarrow> string \<Rightarrow> ('x, unit) io" where
  "unpublish_umount E targetPath = do {
     stage \<leftarrow> startStage ''node_unpublish'' ''umount_fs'';
     (output, err) \<leftarrow> exec_Command E ''umount'' [targetPath];
     (if err \<noteq> None \<and> \<not> Contains output ''not mounted''
      then recordStageError ''node_unpublish'' ''umount_fs'' else ret ());
     observe stage }"

text \<open>The device to detach: the mount source, or else the content of the state file.\<close>

definition unpublish_device :: "'x env \<Rightarrow> string \<Rightarrow> string \<Rightarrow> ('x, string) io" where
  "unpublish_device E volumeID src =
     (if src = [] then do {
        b \<leftarrow> os_ReadFile E (volumeNBDStatePath volumeID);
        ret (case b of Inl _ \<Rightarrow> [] | Inr s \<Rightarrow> TrimSpace s) }
      else ret src)"

definition unpublish_detach :: "'x env \<Rightarrow> string \<Rightarrow> ('x, unit) io" where
  "unpublish_detach E nbdDevice =
     (if nbdDevice \<noteq> [] then do {
        stage \<leftarrow> startStage ''node_unpublish'' ''detach_nbd'';
        (output, err) \<leftarrow> exec_Command E ''nbd-client'' [''-d'', nbdDevice];
        (if err \<noteq> None then recordStageError ''node_unpublish'' ''detach_nbd'' else ret ());
        observe stage }
      else ret ())"

definition unpublish_pod :: "'x env \<Rightarrow> nodeService \<Rightarrow> string \<Rightarrow> ('x, unit) io" where
  "unpublish_pod E ns volumeID = do {
     stage \<leftarrow> startStage ''node_unpublish'' ''remove_pod'';
     r \<leftarrow> RemovePod E (ns_mounter ns) volumeID;
     (if r \<noteq> None then recordStageError ''node_unpublish'' ''remove_pod'' else ret ());
     observe stage;
     _ \<leftarrow> waitForPodDeletion E (podName volumeID) (m_namespace (ns_mounter ns)) (30 * second);
     ret () }"

definition NodeUnpublishVolume ::
    "'x env \<Rightarrow> nodeService \<Rightarrow> NodeUnpublishVolumeRequest \<Rightarrow> ('x, rpc_error + unit) io" where
  "NodeUnpublishVolume E ns req = do {
     opTimer \<leftarrow> startStage ''node_unpublish'' ''total'';
     if ur_VolumeId req = [] then
       stage_fail ''node_unpublish'' ''validate'' (Status InvalidArgument ''volume ID cannot be empty'')
     else if ur_TargetPath req = [] then
       stage_fail ''node_unpublish'' ''validate'' (Status InvalidArgument ''target path cannot be empty'')
     else do {
       (src, mounted) \<leftarrow> findMountSource E (ur_TargetPath req);
       unpublish_umount E (ur_TargetPath req);
       nbdDevice \<leftarrow> unpublish_device E (ur_VolumeId req) (if mounted then src else []);
       unpublish_detach E nbdDevice;
       unpublish_pod E ns (ur_VolumeId req);
       clearVolumeNBDState E (ur_VolumeId req) nbdDevice;
       observe opTimer;
       ret (Inr ()) } }"

section \<open>NodeGetVolumeStats and the remaining calls\<close>

text \<open>The numbers of the second line of \<open>df -B1\<close>.\<close>

definition parse_df :: "string \<Rightarrow> rpc_error + VolumeUsage" where
  "parse_df output = (let lines = SplitChar output (CHR 0x0A) in
     if length lines < 2 then Inl (Status Internal ''unexpected df output format'')
     else let fields = Fields (lines ! 1) in
       if length fields < 4 then Inl (Status Internal ''unexpected number of fields in df output'')
       else (case Atoi (fields ! 1) of
           (_, Some _) \<Rightarrow> Inl (Status Internal ''failed to parse volume stats'')
         | (totalBytes, None) \<Rightarrow> (case Atoi (fields ! 2) of
             (_, Some _) \<Rightarrow> Inl (Status Internal ''failed to parse volume stats'')
           | (usedBytes, None) \<Rightarrow> (case Atoi (fields ! 3) of
               (_, Some _) \<Rightarrow> Inl (Status Internal ''failed to parse volume stats'')
             | (availableBytes, None) \<Rightarrow> Inr \<lparr>vu_Unit = ''BYTES'', vu_Total = totalBytes,
                 vu_Used = usedBytes, vu_Available = availableBytes\<rparr>))))"

definition NodeGetVolumeStats ::
    "'x env \<Rightarrow> NodeGetVolumeStatsRequest \<Rightarrow> ('x, rpc_error + VolumeUsage) io" where
  "NodeGetVolumeStats E req =
     (if gr_VolumeId req = [] then ret (Inl (Status InvalidArgument ''volume ID cannot be empty''))
      else if gr_VolumePath req = [] then
        ret (Inl (Status InvalidArgument ''volume path cannot be empty''))
      else do {
        (output, err) \<leftarrow> exec_Command E ''df'' [''-B1'', gr_VolumePath req];
        case err of
          Some e \<Rightarrow> ret (Inl (Status Internal (''failed to get volume stats: '' @ e)))
        | None \<Rightarrow> ret (parse_df output) })"

definition NodeGetCapabilities :: "node_capability list" where
  "NodeGetCapabilities = [STAGE_UNSTAGE_VOLUME, GET_VOLUME_STATS]"

record NodeGetInfoResponse =
  ni_NodeId :: string
  ni_MaxVolumesPerNode :: int

definition NodeGetInfo :: "nodeService \<Rightarrow> NodeGetInfoResponse" where
  "NodeGetInfo ns = \<lparr>ni_NodeId = ns_nodeID ns, ni_MaxVolumesPerNode = 0\<rparr>"

end
