(* ===== verification/Evaluation.thy ===== *)
theory Evaluation
  imports Nbd Metrics
begin

text \<open>
  Running the model with the simplifier, for witnesses and concrete runs: the collection \<open>eval\<close> has
  the definitions to unfold and the values of the path functions on the names that the runs use. With
  \<open>bind_weak_cong\<close> a bind is evaluated from the left, so that nothing is unfolded before the state it
  runs in is known.
\<close>

named_theorems eval \<open>definitions unfolded when a run is evaluated\<close>

lemma bind_weak_cong: "m = m' \<Longrightarrow> State_Monad.bind m f = State_Monad.bind m' f"
  by simp

lemma run_external [eval]: "run_state (external ev m) w = (case run_state m w of (r, w') \<Rightarrow>
    (r, w\<lparr>files := files w', clock := clock w', ext := ext w', trace := trace w @ ev r\<rparr>))"
  by (simp add: external_def)

lemmas call_defs [eval] = exec_Command_def time_Sleep_def client_read_def client_CreateSecret_def
  client_UpdateSecret_def client_DeleteSecret_def client_CreatePod_def client_DeletePod_def
  client_DeleteObjects_def select_budget_def next_tick_def Let_def mget_def cmp_Or_def try_then_def

lemmas os_eval [eval] = os_step_def os_Stat_def os_ReadFile_def os_Remove_def os_OpenExcl_def
  f_WriteString_def os_WriteFile_def os_MkdirAll_def filepath_Glob_def put_node_def del_node_def
  node_def dir_names_def HasPrefix_def is_dir_def

lemmas metrics_eval [eval] = startStage_def observe_def recordStageError_def

lemmas nbd_eval [eval] = ensureRunDirs_def listNBDDevices_def isNBDConnected_def findMountSource_def
  unmountBestEffort_def detachNBDDeviceBestEffort_def readVolumeNBDState_def writeVolumeNBDState_def
  clearVolumeNBDState_def mustReadFile_def reservation_ttl_def gc_reservation_def
  ensure_reservation_def reserve_fresh_def reserveNBDDevice_def
  detach_attempts.simps(2) [where n = "pred_numeral k" for k, folded numeral_eq_Suc]

lemma quiet_fault [eval]: "os_fault quiet_env n op p = None"
  by (simp add: quiet_env_def)

lemma path_eval [eval]:
  "volumeNBDStatePath ''pvc-1'' = ''/run/zerofs-csi/pvc-1''"
  "volumeNBDStatePath ''pvc-2'' = ''/run/zerofs-csi/pvc-2''"
  "volumeNBDStatePath ''pvc-a'' = ''/run/zerofs-csi/pvc-a''"
  "volumeNBDStatePath ''pvc-b'' = ''/run/zerofs-csi/pvc-b''"
  "deviceReservationPath ''/dev/nbd0'' = ''/run/zerofs-csi/by-device/nbd0''"
  "deviceReservationPath ''/dev/nbd1'' = ''/run/zerofs-csi/by-device/nbd1''"
  "dirs_to ZeroFSRunDir = [''/run'', ''/run/zerofs-csi'']"
  "dirs_to nbdByDeviceDir = [''/run'', ''/run/zerofs-csi'', ''/run/zerofs-csi/by-device'']"
  "path_Base ''/dev/nbd0'' = ''nbd0''" "path_Base ''/dev/nbd1'' = ''nbd1''"
  "path_Join [''/sys/block'', ''nbd0'', ''pid''] = ''/sys/block/nbd0/pid''"
  "path_Join [''/sys/block'', ''nbd1'', ''pid''] = ''/sys/block/nbd1/pid''"
  "parent_dir ''/run/zerofs-csi/by-device/nbd0'' = ''/run/zerofs-csi/by-device''"
  "parent_dir ''/run/zerofs-csi/by-device/nbd1'' = ''/run/zerofs-csi/by-device''"
  "parent_dir ''/run/zerofs-csi/pvc-1'' = ''/run/zerofs-csi''"
  "parent_dir ''/run/zerofs-csi/pvc-2'' = ''/run/zerofs-csi''"
  "parent_dir ''/run/zerofs-csi/pvc-a'' = ''/run/zerofs-csi''"
  "parent_dir ''/run/zerofs-csi/pvc-b'' = ''/run/zerofs-csi''"
  by code_simp+

lemma string_eval [eval]:
  "sort [''nbd0'', ''nbd1''] = [''nbd0'', ''nbd1'']"
  "nbd_number ''/dev/nbd0'' = 0" "nbd_number ''/dev/nbd1'' = 1"
  "nbdDevicePathRe ''/dev/nbd0''" "nbdDevicePathRe ''/dev/nbd1''"
  "TrimSpace ''/dev/nbd0'' = ''/dev/nbd0''" "TrimSpace ''/dev/nbd0\<newline>'' = ''/dev/nbd0''"
  "TrimSpace ''/dev/nbd1'' = ''/dev/nbd1''" "TrimSpace ''/dev/nbd1\<newline>'' = ''/dev/nbd1''"
  "TrimSpace ''pvc-1'' = ''pvc-1''" "TrimSpace ''pvc-2'' = ''pvc-2''"
  "TrimSpace ''pvc-a'' = ''pvc-a''" "TrimSpace ''pvc-b'' = ''pvc-b''"
  by code_simp+

end
