(* ===== verification/Simulated_Host.thy ===== *)
theory Simulated_Host
  imports Zerofs Evaluation
begin

text \<open>
  A concrete environment: a host with NBD devices and a cluster with one node. It instantiates the
  parameter \<open>env\<close> in the witnesses and in the runs that show an unexpected behaviour. It answers the
  commands the driver runs the way their manual pages say, on a mount table, the pid files of the
  connected devices, and lists of API objects; a created pod is ready at once and opens its sockets.
\<close>

record sim =
  s_mounts :: "(string \<times> string) list"
  s_formatted :: "string list"
  s_configmaps :: "(string \<times> smap) list"
  s_secrets :: "(string \<times> smap) list"
  s_pods :: "Pod list"

text \<open>The mount that holds a path: the latest one on it, else the one on the root.\<close>

definition sim_source :: "sim \<Rightarrow> string \<Rightarrow> string option" where
  "sim_source x t = (case map_of (s_mounts x) t of Some s \<Rightarrow> Some s | None \<Rightarrow> map_of (s_mounts x) ''/'')"

fun remove_mount :: "string \<Rightarrow> (string \<times> string) list \<Rightarrow> (string \<times> string) list" where
  "remove_mount t [] = []"
| "remove_mount t ((u, s) # ms) = (if u = t then ms else (u, s) # remove_mount t ms)"

definition pid_file :: "string \<Rightarrow> string" where
  "pid_file dev = ''/sys/block/'' @ path_Base dev @ ''/pid''"

definition sim_findmnt :: "string list \<Rightarrow> sim world \<Rightarrow> cmd_out \<times> sim world" where
  "sim_findmnt args w = (let x = ext w; a = last args;
       found = (if ''-S'' \<in> set args then (if a \<in> snd ` set (s_mounts x) then Some a else None)
                else sim_source x a)
     in (case found of None \<Rightarrow> ([], Some ''exit status 1'') | Some s \<Rightarrow> (s @ [CHR 0x0A], None), w))"

definition sim_umount :: "string \<Rightarrow> sim world \<Rightarrow> cmd_out \<times> sim world" where
  "sim_umount t w = (if map_of (s_mounts (ext w)) t = None
     then ((''umount: '' @ t @ '': not mounted.'', Some ''exit status 32''), w)
     else (([], None), w\<lparr>ext := (ext w)\<lparr>s_mounts := remove_mount t (s_mounts (ext w))\<rparr>\<rparr>))"

definition sim_mount :: "string list \<Rightarrow> sim world \<Rightarrow> cmd_out \<times> sim world" where
  "sim_mount args w = (([], None), w\<lparr>ext := (ext w)\<lparr>
     s_mounts := (last args, last (butlast args)) # s_mounts (ext w)\<rparr>\<rparr>)"

definition sim_nbd_client :: "string list \<Rightarrow> sim world \<Rightarrow> cmd_out \<times> sim world" where
  "sim_nbd_client args w = (if ''-d'' \<in> set args
     then (([], None), del_node (pid_file (last args)) w)
     else (([], None), put_node (pid_file (last args)) (FReg ''4711'' (clock w)) w))"

definition sim_truncate :: "string \<Rightarrow> sim world \<Rightarrow> cmd_out \<times> sim world" where
  "sim_truncate p w = (if HasPrefix p ''/run/'' then (([], Some ''exit status 1''), w)
     else (([], None), put_node p (FReg [] (clock w)) w))"

definition sim_cmd :: "string \<Rightarrow> string list \<Rightarrow> sim world \<Rightarrow> cmd_out \<times> sim world" where
  "sim_cmd c args w =
     (if c = ''findmnt'' then sim_findmnt args w
      else if c = ''umount'' then sim_umount (last args) w
      else if c = ''mount'' then sim_mount args w
      else if c = ''nbd-client'' then sim_nbd_client args w
      else if c = ''truncate'' then sim_truncate (last args) w
      else if c = ''blkid'' then
        ((if last args \<in> set (s_formatted (ext w)) then ''ext4'' else [], None), w)
      else if HasPrefix c ''mkfs'' then
        (([], None), w\<lparr>ext := (ext w)\<lparr>s_formatted := last args # s_formatted (ext w)\<rparr>\<rparr>)
      else (([], None), w))"

definition sim_get :: "(string \<times> smap) list \<Rightarrow> string \<Rightarrow> string + smap" where
  "sim_get l n = (case map_of l n of None \<Rightarrow> Inl (n @ '' not found'') | Some d \<Rightarrow> Inr d)"

definition sim_sockets :: "Pod \<Rightarrow> sim world \<Rightarrow> sim world" where
  "sim_sockets p w = (case pod_Labels p ''volume'' of None \<Rightarrow> w | Some v \<Rightarrow>
     put_node (ZeroFSBaseDir @ ''/zerofs-'' @ v @ ''.9p.sock'') FNode
       (put_node (ZeroFSBaseDir @ ''/zerofs-'' @ v @ ''.nbd.sock'') FNode w))"

definition sim_create_pod :: "Pod \<Rightarrow> sim world \<Rightarrow> string option \<times> sim world" where
  "sim_create_pod p w = (let q = p\<lparr>pod_Conditions := [(''Ready'', ''True'')]\<rparr>; w' = sim_sockets p w
     in (None, w'\<lparr>ext := (ext w')\<lparr>s_pods := q # s_pods (ext w')\<rparr>\<rparr>))"

definition sim_env :: "sim env" where
  "sim_env = quiet_env\<lparr>
     run_cmd := \<lambda>c args. State (sim_cmd c args),
     pass_time := \<lambda>d. modifies (\<lambda>w. w\<lparr>clock := clock w + d\<rparr>),
     tick_count := \<lambda>d. ret (if d > 0 then 1 else 0),
     os_Getenv := \<lambda>k. if k = ''NODE_ID'' then ''node-1'' else [],
     get_ConfigMap := \<lambda>ns n. asks (\<lambda>w. case sim_get (s_configmaps (ext w)) n of
        Inl e \<Rightarrow> Inl e | Inr d \<Rightarrow> Inr \<lparr>cm_Data = d\<rparr>),
     get_Secret := \<lambda>ns n. asks (\<lambda>w. case sim_get (s_secrets (ext w)) n of
        Inl e \<Rightarrow> Inl e
      | Inr d \<Rightarrow> Inr \<lparr>sec_Name = n, sec_Namespace = ns, sec_Data = d, sec_ResourceVersion = ''1'',
          sec_Type = ''Opaque''\<rparr>),
     create_Secret := \<lambda>s. State (\<lambda>w. (None,
        w\<lparr>ext := (ext w)\<lparr>s_secrets := (sec_Name s, sec_Data s) # s_secrets (ext w)\<rparr>\<rparr>)),
     update_Secret := \<lambda>s. State (\<lambda>w. (None,
        w\<lparr>ext := (ext w)\<lparr>s_secrets := (sec_Name s, sec_Data s) # s_secrets (ext w)\<rparr>\<rparr>)),
     delete_Secret := \<lambda>ns n. State (\<lambda>w. (None,
        w\<lparr>ext := (ext w)\<lparr>s_secrets := filter (\<lambda>(k, _). k \<noteq> n) (s_secrets (ext w))\<rparr>\<rparr>)),
     get_Pod := \<lambda>ns n. asks (\<lambda>w. case find (\<lambda>p. pod_Namespace p = ns \<and> pod_Name p = n) (s_pods (ext w)) of
        None \<Rightarrow> Inl (''pods '' @ n @ '' not found'') | Some p \<Rightarrow> Inr p),
     create_Pod := \<lambda>p. State (sim_create_pod p),
     delete_Pod := \<lambda>ns n opts. State (\<lambda>w. (None, w\<lparr>ext := (ext w)\<lparr>
        s_pods := filter (\<lambda>p. \<not> (pod_Namespace p = ns \<and> pod_Name p = n)) (s_pods (ext w))\<rparr>\<rparr>)),
     get_DaemonSet := \<lambda>ns n. ret (Inr \<lparr>ds_UID = ''uid-1''\<rparr>)\<rparr>"

text \<open>A freshly booted node with two devices, the driver's ConfigMap and its two secrets.\<close>

definition sim_cluster :: sim where
  "sim_cluster = \<lparr>s_mounts = [], s_formatted = [],
     s_configmaps = [(''zerofs-config'', [''storageURL'' \<mapsto> ''s3://bucket/volumes'',
        ''encryptionPasswordSecretName'' \<mapsto> ''enc'', ''awsCredentialsSecretName'' \<mapsto> ''aws'',
        ''awsEndpoint'' \<mapsto> ''https://s3.example.com''])],
     s_secrets = [(''enc'', [''password'' \<mapsto> ''hunter2'']),
        (''aws'', [''AWS_ACCESS_KEY_ID'' \<mapsto> ''AKIA'', ''AWS_SECRET_ACCESS_KEY'' \<mapsto> ''abc''])],
     s_pods = []\<rparr>"

definition sim_world :: "sim world" where
  "sim_world = mk_world [(''/dev'', FDir), (''/dev/nbd0'', FNode), (''/dev/nbd1'', FNode)] sim_cluster"

definition sim_mounter :: zerofsMounter where
  "sim_mounter = \<lparr>m_namespace = ''zerofs'', m_client = True\<rparr>"


section \<open>Evaluation\<close>

lemma zerofs_pod_sel [simp]:
  "pod_Name (zerofs_pod E m cfg v n os) = podName v"
  "pod_Namespace (zerofs_pod E m cfg v n os) = m_namespace m"
  "pod_Labels (zerofs_pod E m cfg v n os) = [''app'' \<mapsto> ''zerofs'', ''type'' \<mapsto> ''volume'', ''volume'' \<mapsto> v]"
  "ps_NodeName (pod_Spec (zerofs_pod E m cfg v n os)) = n"
  by (simp_all add: zerofs_pod_def)

lemmas mounter_defs [eval] = CreatePod_def zerofs_credentials_def apply_secret_def getDaemonSetUID_def
  apply_pod_def create_and_wait_def finish_ready_def waitForPodReady_def waitForPodDeletion_def
  RemovePod_def force_delete_def remove_secret_def
lemma sim_fields [eval]:
  "run_cmd sim_env c args = State (sim_cmd c args)"
  "pass_time sim_env d = modifies (\<lambda>w. w\<lparr>clock := clock w + d\<rparr>)"
  "tick_count sim_env d = ret (if d > 0 then 1 else 0)"
  "get_ConfigMap sim_env ns n = asks (\<lambda>w. case sim_get (s_configmaps (ext w)) n of
        Inl e \<Rightarrow> Inl e | Inr d \<Rightarrow> Inr \<lparr>cm_Data = d\<rparr>)"
  "get_Secret sim_env ns n = asks (\<lambda>w. case sim_get (s_secrets (ext w)) n of
        Inl e \<Rightarrow> Inl e
      | Inr d \<Rightarrow> Inr \<lparr>sec_Name = n, sec_Namespace = ns, sec_Data = d, sec_ResourceVersion = ''1'',
          sec_Type = ''Opaque''\<rparr>)"
  "create_Secret sim_env s = State (\<lambda>w. (None,
        w\<lparr>ext := (ext w)\<lparr>s_secrets := (sec_Name s, sec_Data s) # s_secrets (ext w)\<rparr>\<rparr>))"
  "update_Secret sim_env s = State (\<lambda>w. (None,
        w\<lparr>ext := (ext w)\<lparr>s_secrets := (sec_Name s, sec_Data s) # s_secrets (ext w)\<rparr>\<rparr>))"
  "delete_Secret sim_env ns n = State (\<lambda>w. (None,
        w\<lparr>ext := (ext w)\<lparr>s_secrets := filter (\<lambda>(k, _). k \<noteq> n) (s_secrets (ext w))\<rparr>\<rparr>))"
  "get_Pod sim_env ns n = asks (\<lambda>w. case find (\<lambda>p. pod_Namespace p = ns \<and> pod_Name p = n) (s_pods (ext w)) of
        None \<Rightarrow> Inl (''pods '' @ n @ '' not found'') | Some p \<Rightarrow> Inr p)"
  "create_Pod sim_env p = State (sim_create_pod p)"
  "delete_Pod sim_env ns n opts = State (\<lambda>w. (None, w\<lparr>ext := (ext w)\<lparr>
        s_pods := filter (\<lambda>p. \<not> (pod_Namespace p = ns \<and> pod_Name p = n)) (s_pods (ext w))\<rparr>\<rparr>))"
  "get_DaemonSet sim_env ns n = ret (Inr \<lparr>ds_UID = ''uid-1''\<rparr>)"
  "os_fault sim_env k op path = None"
  by (simp_all add: sim_env_def quiet_env_def)

lemmas sim_defs [eval] = sim_get_def sim_create_pod_def sim_sockets_def sim_cmd_def sim_findmnt_def
  sim_umount_def sim_mount_def sim_nbd_client_def sim_truncate_def sim_source_def
  config_secret_def secretName_def podName_def pod_ready_def owner_refs_def

lemma sim_timeout [eval]: "podReadyTimeout [''storageURL'' \<mapsto> ''s3://bucket/volumes'',
    ''encryptionPasswordSecretName'' \<mapsto> ''enc'', ''awsCredentialsSecretName'' \<mapsto> ''aws'',
    ''awsEndpoint'' \<mapsto> ''https://s3.example.com''] = 120000000000"
  by code_simp

lemma second_eval [eval]: "45 * second = 45000000000" "30 * second = 30000000000" "10 * second = 10000000000"
  by (simp_all add: second_def)

lemma sim_path_eval [eval]:
  "pid_file ''/dev/nbd0'' = ''/sys/block/nbd0/pid''" "pid_file ''/dev/nbd1'' = ''/sys/block/nbd1/pid''"
  "ZeroFSBaseDir = ''/var/lib/kubelet/plugins/zerofs.csi.driver''"
  by code_simp+

lemmas sim_world_eval = sim_world_def mk_world_def sim_cluster_def sim_mounter_def

end
