(* ===== verification/Node_Simulation.thy ===== *)
theory Node_Simulation
  imports Node Simulated_Host
begin

text \<open>
  The node service on the simulated host: the requests of the concrete runs, and what the simplifier
  needs to evaluate the handlers of \<^verbatim>\<open>node.go\<close>.
\<close>

definition sim_node :: nodeService where
  "sim_node = \<lparr>ns_name = ''zerofs.csi.driver'', ns_nodeID = ''node-1'', ns_mounter = sim_mounter\<rparr>"

definition sim_publish :: "string \<Rightarrow> string \<Rightarrow> NodePublishVolumeRequest" where
  "sim_publish v t = \<lparr>pr_VolumeId = v, pr_TargetPath = t,
     pr_VolumeCapability = Some \<lparr>vc_MountFlags = Some [''noatime'']\<rparr>,
     pr_VolumeContext = [''filesystem'' \<mapsto> ''ext4'', ''configMapName'' \<mapsto> ''zerofs-config'',
       ''capacity_bytes'' \<mapsto> ''1048576'']\<rparr>"

definition sim_unpublish :: "string \<Rightarrow> string \<Rightarrow> NodeUnpublishVolumeRequest" where
  "sim_unpublish v t = \<lparr>ur_VolumeId = v, ur_TargetPath = t\<rparr>"

lemmas node_eval [eval] = sim_node_def sim_publish_def sim_unpublish_def NodePublishVolume_def
  publish_validate_def publish_attempt_def publish_stages_def publish_device_def publish_cleanup_def
  stage_mkdir_def stage_create_pod_def stage_mount_9p_def stage_disk_def stage_umount_9p_def
  stage_reserve_def stage_connect_def stage_mkfs_def stage_mount_fs_def clean_stale_def
  publish_fail_def stage_fail_def mount_flags_def mount_args_def NodeUnpublishVolume_def
  unpublish_umount_def unpublish_device_def unpublish_detach_def unpublish_pod_def maxRetries_def
  wait_socket.simps(2) [where n = "pred_numeral k" for k, folded numeral_eq_Suc]

lemma node_path_eval [eval]:
  "dirs_to ''/t'' = [''/t'']" "dirs_to ''/u'' = [''/u'']"
  "ninep_socket ''pvc-1'' = ''/var/lib/kubelet/plugins/zerofs.csi.driver/zerofs-pvc-1.9p.sock''"
  "nbd_socket ''pvc-1'' = ''/var/lib/kubelet/plugins/zerofs.csi.driver/zerofs-pvc-1.nbd.sock''"
  "disk_path ''/t'' = ''/t/.nbd/disk''" "disk_path ''/u'' = ''/u/.nbd/disk''"
  "mkfsCommand ''ext4'' ''/dev/nbd0'' = (''mkfs.ext4'', [''-F'', ''/dev/nbd0''])"
  by code_simp+

end
