(* ===== verification/Nbd_Registry.thy ===== *)
theory Nbd_Registry
  imports Nbd
begin

text \<open>
  What the reservation functions of \<^verbatim>\<open>nbd.go\<close> do to the store, on a host without I/O faults: the
  views of the two kinds of files, the effect of each function on them, and the invariant that makes
  the reservations exclusive.
\<close>

section \<open>Names and paths\<close>

text \<open>Volume IDs that are one path component, are not the name of the reservation directory and
  have no white space: every ID that Kubernetes' provisioner makes (\<open>pvc-<uuid>\<close>).\<close>

definition valid_volume :: "string \<Rightarrow> bool" where
  "valid_volume v \<longleftrightarrow> plain_name v \<and> v \<noteq> ''by-device'' \<and> list_all (\<lambda>c. \<not> is_space c) v"

lemma valid_volume_trim [simp]: "valid_volume v \<Longrightarrow> TrimSpace v = v"
  by (simp add: valid_volume_def TrimSpace_id list_all_iff)

lemma valid_volume_ne [simp]: "valid_volume v \<Longrightarrow> v \<noteq> []"
  by (simp add: valid_volume_def plain_name_def)

lemma run_dir_clean: "Clean ZeroFSRunDir = ZeroFSRunDir" "Clean nbdByDeviceDir = nbdByDeviceDir"
  by code_simp+

lemma volume_path: "plain_name v \<Longrightarrow> volumeNBDStatePath v = ZeroFSRunDir @ ''/'' @ v"
  using run_dir_clean unfolding volumeNBDStatePath_def
  by (intro path_Join_plain) (auto simp: ZeroFSRunDir_def)

lemma volume_path_inj:
  "plain_name v \<Longrightarrow> plain_name u \<Longrightarrow> volumeNBDStatePath v = volumeNBDStatePath u \<longleftrightarrow> v = u"
  by (simp add: volume_path)

text \<open>A device path that the regular expression accepts, taken apart.\<close>

lemma nbd_dev_cases:
  assumes "nbdDevicePathRe d"
  obtains ds where "d = ''/dev/nbd'' @ ds" "ds \<noteq> []" "list_all is_digit ds"
  using assms by (auto simp: nbdDevicePathRe_def HasPrefix_iff Let_def)

lemma digits_no_slash: "list_all is_digit ds \<Longrightarrow> CHR ''/'' \<notin> set ds"
  by (auto simp: list_all_iff is_digit_def)

lemma nbd_dev_trim: "nbdDevicePathRe d \<Longrightarrow> TrimSpace d = d"
  by (erule nbd_dev_cases, rule TrimSpace_id)
    (auto simp: list_all_iff is_digit_not_space, auto simp: is_space_def)

lemma nbd_dev_base:
  assumes "ds \<noteq> []" "list_all is_digit ds"
  shows "path_Base (''/dev/nbd'' @ ds) = ''nbd'' @ ds"
  using path_Base_plain [of "''nbd'' @ ds" "''/dev''"] assms by (simp add: digits_no_slash)

lemma nbd_dev_plain: "ds \<noteq> [] \<Longrightarrow> list_all is_digit ds \<Longrightarrow> plain_name (''nbd'' @ ds)"
  by (simp add: plain_name_def digits_no_slash)

text \<open>The reservation of \<open>/dev/nbdX\<close> is the file \<open>nbdX\<close> of the reservation directory.\<close>

lemma reservation_cases:
  assumes "nbdDevicePathRe d"
  obtains n where "d = ''/dev/'' @ n" "n \<noteq> []" "CHR ''/'' \<notin> set n"
    "deviceReservationPath d = nbdByDeviceDir @ ''/'' @ n"
proof -
  from assms obtain ds where d: "d = ''/dev/nbd'' @ ds" "ds \<noteq> []" "list_all is_digit ds"
    by (rule nbd_dev_cases)
  have "path_Base (TrimSpace d) = ''nbd'' @ ds"
    using d(1) nbd_dev_base [OF d(2,3)] nbd_dev_trim [OF assms] by simp
  then have "deviceReservationPath d = path_Join [nbdByDeviceDir, ''nbd'' @ ds]"
    by (simp add: deviceReservationPath_def)
  also have "\<dots> = nbdByDeviceDir @ ''/'' @ (''nbd'' @ ds)"
    using run_dir_clean d
    by (intro path_Join_plain nbd_dev_plain) (auto simp: nbdByDeviceDir_def ZeroFSRunDir_def)
  finally show ?thesis using d digits_no_slash that [of "''nbd'' @ ds"] by simp
qed

lemma reservation_path_inj:
  assumes "nbdDevicePathRe d" "nbdDevicePathRe e" "deviceReservationPath d = deviceReservationPath e"
  shows "d = e"
proof -
  obtain n where "d = ''/dev/'' @ n" "deviceReservationPath d = nbdByDeviceDir @ ''/'' @ n"
    using assms(1) by (rule reservation_cases)
  moreover obtain m where "e = ''/dev/'' @ m" "deviceReservationPath e = nbdByDeviceDir @ ''/'' @ m"
    using assms(2) by (rule reservation_cases)
  ultimately show ?thesis using assms(3) by simp
qed

lemma volume_path_not_reservation:
  assumes "plain_name v" "nbdDevicePathRe d"
  shows "volumeNBDStatePath v \<noteq> deviceReservationPath d"
proof -
  obtain n where "deviceReservationPath d = nbdByDeviceDir @ ''/'' @ n"
    using assms(2) by (rule reservation_cases)
  with assms(1) show ?thesis by (auto simp: volume_path nbdByDeviceDir_def plain_name_def)
qed

definition run_dirs :: "string set" where
  "run_dirs = {''/run'', ZeroFSRunDir, nbdByDeviceDir}"

lemma volume_path_not_dir: "valid_volume v \<Longrightarrow> volumeNBDStatePath v \<notin> run_dirs"
  by (auto simp: valid_volume_def volume_path run_dirs_def nbdByDeviceDir_def ZeroFSRunDir_def)

lemma reservation_path_not_dir: "nbdDevicePathRe d \<Longrightarrow> deviceReservationPath d \<notin> run_dirs"
  by (erule reservation_cases) (auto simp: run_dirs_def nbdByDeviceDir_def ZeroFSRunDir_def)

lemma parent_dirs:
  "plain_name v \<Longrightarrow> parent_dir (volumeNBDStatePath v) = ZeroFSRunDir"
  "nbdDevicePathRe d \<Longrightarrow> parent_dir (deviceReservationPath d) = nbdByDeviceDir"
proof -
  have drop: "dropWhile (\<lambda>c. c \<noteq> CHR ''/'') (rev n @ CHR ''/'' # rev p) = CHR ''/'' # rev p"
    if "CHR ''/'' \<notin> set n" for n p
    using that by (subst dropWhile_append2) auto
  have par: "parent_dir (p @ CHR ''/'' # n) = p" if "CHR ''/'' \<notin> set n" "p \<noteq> []" for n p
    using that drop [of n p] by (simp add: parent_dir_def Let_def)
  show "plain_name v \<Longrightarrow> parent_dir (volumeNBDStatePath v) = ZeroFSRunDir"
    using par [of v ZeroFSRunDir] by (simp add: volume_path plain_name_def ZeroFSRunDir_def)
  show "nbdDevicePathRe d \<Longrightarrow> parent_dir (deviceReservationPath d) = nbdByDeviceDir"
    using par [where p = nbdByDeviceDir] by (erule_tac reservation_cases) (simp, simp add: nbdByDeviceDir_def)
qed

section \<open>Views of the store\<close>

definition vol_dev :: "'x world \<Rightarrow> string \<Rightarrow> string option" where
  "vol_dev w v = (case node w (volumeNBDStatePath v) of
     Some (FReg c t) \<Rightarrow> (if TrimSpace c = [] then None else Some (TrimSpace c)) | _ \<Rightarrow> None)"

definition dev_owner :: "'x world \<Rightarrow> string \<Rightarrow> string option" where
  "dev_owner w d = (case node w (deviceReservationPath d) of
     Some (FReg c t) \<Rightarrow> Some (TrimSpace c) | _ \<Rightarrow> None)"

text \<open>What \<open>isNBDConnected\<close> sees: \<open>None\<close> when the state cannot be determined.\<close>

definition dev_connected :: "'x world \<Rightarrow> string \<Rightarrow> bool option" where
  "dev_connected w d = (case node w (path_Join [''/sys/block'', path_Base (TrimSpace d), ''pid'']) of
     None \<Rightarrow> Some False
   | Some (FReg c t) \<Rightarrow> (case Atoi (TrimSpace c) of (pid, None) \<Rightarrow> Some (pid > 0) | _ \<Rightarrow> None)
   | _ \<Rightarrow> None)"

definition no_faults :: "'x env \<Rightarrow> bool" where
  "no_faults E \<longleftrightarrow> (\<forall>n op p. os_fault E n op p = None)"

text \<open>No reservation of a device that could be taken has outlived the two hours.\<close>

definition timely :: "'x world \<Rightarrow> bool" where
  "timely w \<longleftrightarrow> (\<forall>d c t. nbdDevicePathRe d \<longrightarrow> dev_connected w d = Some False \<longrightarrow>
     node w (deviceReservationPath d) = Some (FReg c t) \<longrightarrow> clock w - t \<le> reservation_ttl)"

text \<open>The invariant: a valid volume's state file names a device whose reservation names the volume.\<close>

definition reg_inv :: "'x world \<Rightarrow> bool" where
  "reg_inv w \<longleftrightarrow> (\<forall>v d. valid_volume v \<longrightarrow> vol_dev w v = Some d \<longrightarrow>
     nbdDevicePathRe d \<and> dev_owner w d = Some v)"

text \<open>Two volumes never hold the same device.\<close>

lemma reg_inv_exclusive:
  assumes "reg_inv w" "valid_volume u" "valid_volume v" "vol_dev w u = Some d" "vol_dev w v = Some d"
  shows "u = v"
  using assms unfolding reg_inv_def by (metis option.inject)

section \<open>Effects without faults\<close>

definition tick :: "'x world \<Rightarrow> 'x world" where
  "tick w = w\<lparr>oscalls := Suc (oscalls w)\<rparr>"

lemma tick_simps [simp]:
  "node (tick w) = node w" "clock (tick w) = clock w" "ext (tick w) = ext w" "files (tick w) = files w"
  by (auto simp: tick_def fun_eq_iff)

lemma dir_tick [simp]: "is_dir (tick w) = is_dir w" "dir_names (tick w) = dir_names w"
  by (auto simp: is_dir_def dir_names_def fun_eq_iff)

lemma view_tick [simp]:
  "vol_dev (tick w) = vol_dev w" "dev_owner (tick w) = dev_owner w" "dev_connected (tick w) = dev_connected w"
  by (auto simp: vol_dev_def dev_owner_def dev_connected_def fun_eq_iff)

lemma clock_store [simp]:
  "clock (put_node p n w) = clock w" "clock (del_node p w) = clock w"
  by (simp_all add: put_node_def del_node_def)

lemma run_step: "no_faults E \<Longrightarrow> run_state (os_step E op p) w = (None, tick w)"
  by (simp add: os_step_def no_faults_def tick_def)

lemma run_Stat:
  "no_faults E \<Longrightarrow> run_state (os_Stat E p) w =
     (case node w p of None \<Rightarrow> Inl NotExist | Some n \<Rightarrow> Inr n, tick w)"
  by (simp add: os_Stat_def run_step)

lemma run_OpenExcl:
  "no_faults E \<Longrightarrow> run_state (os_OpenExcl E p) w =
     (if node w p \<noteq> None then (Some Exist, tick w)
      else if \<not> is_dir w (parent_dir p) then (Some NotExist, tick w)
      else (None, put_node p (FReg [] (clock w)) (tick w)))"
  by (simp add: os_OpenExcl_def run_step is_dir_def)

lemma run_WriteString:
  "no_faults E \<Longrightarrow> run_state (f_WriteString E p s) w = (None, put_node p (FReg s (clock w)) (tick w))"
  by (simp add: f_WriteString_def run_step)

text \<open>What \<open>os.Remove\<close> leaves: the path is gone, except for a directory that is not empty.\<close>

lemma node_Remove:
  "no_faults E \<Longrightarrow> q \<noteq> p \<Longrightarrow> node (final (os_Remove E p) w) q = node w q"
  "no_faults E \<Longrightarrow> node (final (os_Remove E p) w) p \<in> {None, Some FDir}"
  "no_faults E \<Longrightarrow> node w p \<noteq> Some FDir \<Longrightarrow> node (final (os_Remove E p) w) p = None"
  by (auto simp: os_Remove_def run_step split: option.splits fnode.splits)

lemma clock_Remove [simp]: "clock (final (os_Remove E p) w) = clock w"
  by (auto simp: os_Remove_def os_step_def split: option.splits fnode.splits)

lemma run_readVolumeNBDState:
  "no_faults E \<Longrightarrow> run_state (readVolumeNBDState E v) w = (vol_dev w v, tick w)"
  by (auto simp: readVolumeNBDState_def os_ReadFile_def run_step vol_dev_def Let_def
      split: option.splits fnode.splits)

lemma run_isNBDConnected:
  assumes "no_faults E"
  shows "final (isNBDConnected E d) w = tick w"
    and "result (isNBDConnected E d) w = Inr b \<longleftrightarrow> dev_connected w d = Some b"
  using assms by (auto simp: isNBDConnected_def os_ReadFile_def run_step dev_connected_def Let_def
      split: option.splits fnode.splits prod.splits)

section \<open>Creating the run directories\<close>

text \<open>Directories appear where nothing was; nothing else changes.\<close>

definition mkdir_rel :: "'x world \<Rightarrow> 'x world \<Rightarrow> bool" where
  "mkdir_rel w w' \<longleftrightarrow> clock w' = clock w \<and>
     (\<forall>p. node w' p = node w p \<or> p \<in> run_dirs \<and> node w p = None \<and> node w' p = Some FDir)"

interpretation mkd: step_relation mkdir_rel
proof
  show "mkdir_rel s s" for s :: "'x world" by (simp add: mkdir_rel_def)
  show "mkdir_rel s u" if "mkdir_rel s t" "mkdir_rel t u" for s t u :: "'x world"
    using that unfolding mkdir_rel_def by metis
qed

lemma dirs_to_run:
  "dirs_to ZeroFSRunDir = [''/run'', ZeroFSRunDir]"
  "dirs_to nbdByDeviceDir = [''/run'', ZeroFSRunDir, nbdByDeviceDir]"
  by code_simp+

lemma mkdirs_rel: "set ds \<subseteq> run_dirs \<Longrightarrow> mkdir_rel w (snd (mkdirs ds w))"
proof (induction ds arbitrary: w)
  case Nil
  then show ?case by (simp add: mkdir_rel_def)
next
  case (Cons d ds)
  have "mkdir_rel w (put_node d FDir w)" if "node w d = None"
    using that Cons.prems by (auto simp: mkdir_rel_def)
  with Cons show ?case
    by (auto split: option.splits fnode.splits intro: mkd.step_trans mkd.step_refl)
qed

lemma mkdirs_done: "fst (mkdirs ds w) = None \<Longrightarrow> d \<in> set ds \<Longrightarrow> node (snd (mkdirs ds w)) d = Some FDir"
proof (induction ds arbitrary: w)
  case (Cons e es)
  have stays: "node w d = Some FDir \<Longrightarrow> node (snd (mkdirs es w)) d = Some FDir" for w :: "'a world"
    by (induction es arbitrary: w) (auto split: option.splits fnode.splits)
  show ?case
  proof (cases "d \<in> set es")
    case True
    with Cons show ?thesis by (auto split: option.splits fnode.splits)
  next
    case False
    with Cons.prems stays [of w] stays [of "put_node e FDir w"] show ?thesis
      by (auto split: option.splits fnode.splits)
  qed
qed simp

lemma rel_MkdirAll:
  "set (dirs_to p) \<subseteq> run_dirs \<Longrightarrow> state_io_rel mkdir_rel (os_MkdirAll E p)"
  unfolding os_MkdirAll_def os_step_def
  by (intro mkd.rel_intros) (auto simp: state_io_rel_def mkdirs_rel, simp add: mkdir_rel_def)

lemma rel_ensureRunDirs: "state_io_rel mkdir_rel (ensureRunDirs E)"
  unfolding ensureRunDirs_def
  by (intro mkd.rel_intros rel_MkdirAll) (auto simp: dirs_to_run run_dirs_def)

lemma MkdirAll_done:
  "result (os_MkdirAll E p) w = None \<Longrightarrow> d \<in> set (dirs_to p) \<Longrightarrow>
     node (final (os_MkdirAll E p) w) d = Some FDir"
  by (auto simp: os_MkdirAll_def os_step_def intro: mkdirs_done split: option.splits)

lemma ensureRunDirs_all:
  assumes "result (ensureRunDirs E) w = None"
  shows "\<forall>d\<in>run_dirs. node (final (ensureRunDirs E) w) d = Some FDir"
proof
  fix d :: string assume d: "d \<in> run_dirs"
  obtain e1 w1 where 1: "run_state (os_MkdirAll E ZeroFSRunDir) w = (e1, w1)" by fastforce
  obtain e2 w2 where 2: "run_state (os_MkdirAll E nbdByDeviceDir) w1 = (e2, w2)" by fastforce
  from assms have "e1 = None" "e2 = None" "final (ensureRunDirs E) w = w2"
    using 1 2 by (auto simp: ensureRunDirs_def split: option.splits)
  with 2 d MkdirAll_done [of E nbdByDeviceDir w1 d] show "node (final (ensureRunDirs E) w) d = Some FDir"
    by (auto simp: dirs_to_run run_dirs_def)
qed

end
