(* ===== verification/Nbd_Reserve.thy ===== *)
theory Nbd_Reserve
  imports Nbd_Registry
begin

text \<open>
  \<open>clearVolumeNBDState\<close> and \<open>reserveNBDDevice\<close> on a host without I/O faults: their exact effect on
  the store. The scan is shown equal to a specification that takes the first free device.
\<close>

section \<open>Stores that agree\<close>

definition same_store :: "'x world \<Rightarrow> 'x world \<Rightarrow> bool" where
  "same_store w w' \<longleftrightarrow> node w' = node w \<and> clock w' = clock w"

interpretation same: step_relation same_store
  by unfold_locales (auto simp: same_store_def)

lemma same_tick [simp]: "same_store w (tick w)"
  by (simp add: same_store_def)

lemma has_children_node: "has_children w p \<longleftrightarrow> (\<exists>q n. node w q = Some n \<and> HasPrefix q (p @ ''/''))"
proof
  assume "has_children w p"
  then obtain q n where "(q, n) \<in> set (files w)" "HasPrefix q (p @ ''/'')"
    by (auto simp: has_children_def list_ex_iff)
  then show "\<exists>q n. node w q = Some n \<and> HasPrefix q (p @ ''/'')"
    by (metis node_def weak_map_of_SomeI)
next
  assume "\<exists>q n. node w q = Some n \<and> HasPrefix q (p @ ''/'')"
  then show "has_children w p"
    by (auto simp: has_children_def list_ex_iff node_def dest!: map_of_SomeD)
qed

lemma same_views:
  assumes "same_store w w'"
  shows "node w' p = node w p" "clock w' = clock w" "has_children w' p = has_children w p"
    "vol_dev w' v = vol_dev w v" "dev_owner w' d = dev_owner w d"
    "dev_connected w' d = dev_connected w d" "is_dir w' p = is_dir w p"
  using assms by (auto simp: same_store_def has_children_node vol_dev_def dev_owner_def
      dev_connected_def is_dir_def)

section \<open>Clearing\<close>

lemma split_by_no_sep: "v \<in> set (split_by p s) \<Longrightarrow> c \<in> set v \<Longrightarrow> \<not> p c"
  by (induction s arbitrary: v) (fastforce split: if_splits list.splits)+

lemma path_Base_component: "path_Base p = ''/'' \<or> CHR ''/'' \<notin> set (path_Base p)"
proof -
  have "CHR ''/'' \<notin> set (last (SplitChar q CHR ''/''))" for q
    using split_by_no_sep [of "last (SplitChar q CHR ''/'')" "\<lambda>d. d = CHR ''/''" q "CHR ''/''"]
    by (auto simp: SplitChar_def)
  then show ?thesis by (auto simp: path_Base_def Let_def)
qed

lemma odd_reservations:
  "path_Join [nbdByDeviceDir, []] \<in> run_dirs" "path_Join [nbdByDeviceDir, ''.''] \<in> run_dirs"
  "path_Join [nbdByDeviceDir, ''..''] \<in> run_dirs" "path_Join [nbdByDeviceDir, ''/''] \<in> run_dirs"
proof -
  have "path_Join [nbdByDeviceDir, []] = nbdByDeviceDir" "path_Join [nbdByDeviceDir, ''.''] = nbdByDeviceDir"
    "path_Join [nbdByDeviceDir, ''..''] = ZeroFSRunDir" "path_Join [nbdByDeviceDir, ''/''] = nbdByDeviceDir"
    by code_simp+
  then show "path_Join [nbdByDeviceDir, []] \<in> run_dirs" "path_Join [nbdByDeviceDir, ''.''] \<in> run_dirs"
    "path_Join [nbdByDeviceDir, ''..''] \<in> run_dirs" "path_Join [nbdByDeviceDir, ''/''] \<in> run_dirs"
    by (simp_all add: run_dirs_def)
qed

text \<open>Whatever string is taken for a device, its reservation path is no volume's state file.\<close>

lemma reservation_never_volume:
  assumes "valid_volume v"
  shows "deviceReservationPath d \<noteq> volumeNBDStatePath v"
proof -
  define b where "b = path_Base (TrimSpace d)"
  have p: "deviceReservationPath d = path_Join [nbdByDeviceDir, b]"
    by (simp add: deviceReservationPath_def b_def)
  have sl: "b = ''/'' \<or> CHR ''/'' \<notin> set b"
    unfolding b_def by (rule path_Base_component)
  show ?thesis
  proof (cases "plain_name b")
    case True
    then have "deviceReservationPath d = nbdByDeviceDir @ ''/'' @ b"
      unfolding p using run_dir_clean
      by (intro path_Join_plain) (simp_all add: nbdByDeviceDir_def ZeroFSRunDir_def)
    moreover have "v \<noteq> ''by-device/'' @ b" and "plain_name v"
      using assms by (auto simp: valid_volume_def plain_name_def)
    ultimately show ?thesis by (simp add: volume_path nbdByDeviceDir_def)
  next
    case False
    with sl consider "b = []" | "b = ''.''" | "b = ''..''" | "b = ''/''"
      unfolding plain_name_def by blast
    then have "deviceReservationPath d \<in> run_dirs"
      unfolding p by cases (simp_all only: odd_reservations)
    with volume_path_not_dir [OF assms] show ?thesis by metis
  qed
qed

lemma clear_node:
  assumes "no_faults E" "q \<noteq> volumeNBDStatePath v" "d = [] \<or> q \<noteq> deviceReservationPath d"
  shows "node (final (clearVolumeNBDState E v d) w) q = node w q"
  using assms by (auto simp: clearVolumeNBDState_def split_beta node_Remove)

lemma clear_clock [simp]: "clock (final (clearVolumeNBDState E v d) w) = clock w"
  by (simp add: clearVolumeNBDState_def split_beta)

lemma clear_removes:
  assumes "no_faults E"
  shows "node (final (clearVolumeNBDState E v d) w) (volumeNBDStatePath v) \<in> {None, Some FDir}"
    and "d \<noteq> [] \<Longrightarrow> node (final (clearVolumeNBDState E v d) w) (deviceReservationPath d) \<in> {None, Some FDir}"
  using node_Remove [OF assms] unfolding clearVolumeNBDState_def
  by (auto simp: split_beta) metis+

text \<open>Clearing a volume's state forgets the volume's device and the device's reservation, and
  touches no other volume and no other device.\<close>

lemma clear_vol_dev:
  assumes "no_faults E" "valid_volume v"
  shows "vol_dev (final (clearVolumeNBDState E v d) w) v = None"
  using clear_removes(1) [OF assms(1), of v d w] by (auto simp: vol_dev_def split: option.split)

lemma clear_vol_dev_other:
  assumes "no_faults E" "valid_volume u" "valid_volume v" "u \<noteq> v"
  shows "vol_dev (final (clearVolumeNBDState E v d) w) u = vol_dev w u"
proof -
  have "volumeNBDStatePath u \<noteq> volumeNBDStatePath v"
    using assms volume_path_inj by (simp add: valid_volume_def)
  then have "node (final (clearVolumeNBDState E v d) w) (volumeNBDStatePath u) = node w (volumeNBDStatePath u)"
    using reservation_never_volume [OF assms(2), of d] by (intro clear_node [OF assms(1)]) auto
  then show ?thesis by (simp add: vol_dev_def)
qed

lemma clear_dev_owner:
  assumes "no_faults E" "nbdDevicePathRe d"
  shows "dev_owner (final (clearVolumeNBDState E v d) w) d = None"
proof -
  have "d \<noteq> []" using assms(2) by (auto elim: nbd_dev_cases)
  with clear_removes(2) [OF assms(1), of d v w] show ?thesis
    by (auto simp: dev_owner_def split: option.split)
qed

lemma clear_dev_owner_other:
  assumes "no_faults E" "valid_volume v" "nbdDevicePathRe e"
    "d = [] \<or> deviceReservationPath e \<noteq> deviceReservationPath d"
  shows "dev_owner (final (clearVolumeNBDState E v d) w) e = dev_owner w e"
  using assms volume_path_not_reservation [of v e]
  by (simp add: dev_owner_def clear_node valid_volume_def)

section \<open>Reserving\<close>

text \<open>A reservation file that the garbage collection removes.\<close>

definition stale :: "'x world \<Rightarrow> string \<Rightarrow> bool" where
  "stale w p = (case node w p of
     None \<Rightarrow> False
   | Some (FReg c t) \<Rightarrow> TrimSpace c = [] \<or> node w (volumeNBDStatePath (TrimSpace c)) = None
       \<or> clock w - t > reservation_ttl
   | Some FDir \<Rightarrow> \<not> has_children w p
   | Some FNode \<Rightarrow> True)"

text \<open>A device the scan takes: known to be disconnected, and not reserved or stale.\<close>

definition free_dev :: "'x world \<Rightarrow> string \<Rightarrow> bool" where
  "free_dev w d \<longleftrightarrow> dev_connected w d = Some False \<and>
     (node w (deviceReservationPath d) = None \<or> stale w (deviceReservationPath d))"

lemma same_free: "same_store w w' \<Longrightarrow> free_dev w' d = free_dev w d"
  by (simp add: free_dev_def stale_def same_views split: option.split fnode.split)

lemma stale_tick [simp]: "stale (tick w) p = stale w p"
  by (simp add: stale_def has_children_def split: option.split fnode.split)

lemma run_mustReadFile:
  "no_faults E \<Longrightarrow> run_state (mustReadFile E p) w =
     (case node w p of Some (FReg c t) \<Rightarrow> c | _ \<Rightarrow> [], tick w)"
  by (auto simp: mustReadFile_def os_ReadFile_def run_step split: option.splits fnode.splits)

lemma has_children_tick [simp]: "has_children (tick w) p = has_children w p"
  by (simp add: has_children_def)

lemma Remove_effect:
  assumes "no_faults E"
  shows "node (final (os_Remove E p) w) = (case node w p of None \<Rightarrow> node w
     | Some FDir \<Rightarrow> if has_children w p then node w else (node w)(p := None)
     | Some n \<Rightarrow> (node w)(p := None))"
  using assms by (auto simp: os_Remove_def run_step fun_eq_iff split: option.splits fnode.splits)

lemma gc_effect:
  assumes "no_faults E"
  shows "node (final (gc_reservation E p) w) = (if stale w p then (node w)(p := None) else node w)"
    and "clock (final (gc_reservation E p) w) = clock w"
  using assms by (auto simp: gc_reservation_def run_Stat run_mustReadFile Remove_effect stale_def
      split_beta Let_def fun_eq_iff split: option.splits fnode.splits)

text \<open>Taking one device: the reservation file, then the state file.\<close>

lemma ensureRunDirs_exist:
  assumes E: "no_faults E" and dirs: "\<forall>p\<in>run_dirs. node w p = Some FDir"
  shows "run_state (ensureRunDirs E) w = (None, tick (tick w))"
proof -
  have mk: "run_state (os_MkdirAll E p) u = (None, tick u)"
    if "set (dirs_to p) \<subseteq> run_dirs" "\<forall>p\<in>run_dirs. node u p = Some FDir" for p u
  proof -
    have "mkdirs ds u = (None, u)" if "set ds \<subseteq> run_dirs" "\<forall>p\<in>run_dirs. node u p = Some FDir"
      for ds and u :: "'a world"
      using that by (induction ds) auto
    with that E show ?thesis by (simp add: os_MkdirAll_def run_step)
  qed
  have sub: "set (dirs_to ZeroFSRunDir) \<subseteq> run_dirs" "set (dirs_to nbdByDeviceDir) \<subseteq> run_dirs"
    by (simp_all add: dirs_to_run run_dirs_def)
  show ?thesis using mk [OF sub(1) dirs] mk [OF sub(2), of "tick w"] dirs by (simp add: ensureRunDirs_def)
qed

lemma write_state_effect:
  assumes E: "no_faults E" and v: "valid_volume v"
    and dirs: "\<forall>p\<in>run_dirs. node w p = Some FDir"
    and st: "node w (volumeNBDStatePath v) \<notin> {Some FDir, Some FNode}"
  shows "result (writeVolumeNBDState E v d) w = None"
    and "node (final (writeVolumeNBDState E v d) w) =
      (node w)(volumeNBDStatePath v \<mapsto> FReg (TrimSpace d) (clock w))"
    and "clock (final (writeVolumeNBDState E v d) w) = clock w"
proof -
  note ens = ensureRunDirs_exist [OF E dirs]
  have par: "is_dir w (parent_dir (volumeNBDStatePath v))"
    using v dirs by (simp add: parent_dirs valid_volume_def is_dir_def run_dirs_def)
  have wr: "run_state (os_WriteFile E (volumeNBDStatePath v) s) u =
      (None, put_node (volumeNBDStatePath v) (FReg s (clock u)) (tick (tick u)))"
    if "node u = node w" for s u
    using E st par that by (auto simp: os_WriteFile_def run_step run_WriteString is_dir_def
        split: option.splits fnode.splits)
  show "result (writeVolumeNBDState E v d) w = None"
    "node (final (writeVolumeNBDState E v d) w) =
      (node w)(volumeNBDStatePath v \<mapsto> FReg (TrimSpace d) (clock w))"
    "clock (final (writeVolumeNBDState E v d) w) = clock w"
    using wr [of "tick (tick w)"] by (auto simp: writeVolumeNBDState_def ens fun_eq_iff)
qed

text \<open>When the state file's path is a directory or a device, the write fails.\<close>

lemma write_state_blocked:
  assumes "no_faults E" "\<forall>p\<in>run_dirs. node w p = Some FDir" "node w (volumeNBDStatePath v) \<in> {Some FDir, Some FNode}"
  shows "result (writeVolumeNBDState E v d) w \<noteq> None" "same_store w (final (writeVolumeNBDState E v d) w)"
  using assms(1,3)
  by (auto simp: writeVolumeNBDState_def ensureRunDirs_exist [OF assms(1,2)] os_WriteFile_def run_step same_store_def)

text \<open>The specification of the scan: the first free device, or an error.\<close>

definition reserved_store :: "'x world \<Rightarrow> string \<Rightarrow> string \<Rightarrow> string \<Rightarrow> fnode option" where
  "reserved_store w v d = (node w)(deviceReservationPath d \<mapsto> FReg v (clock w),
     volumeNBDStatePath v \<mapsto> FReg d (clock w))"

definition ready_to_reserve :: "'x world \<Rightarrow> string \<Rightarrow> bool" where
  "ready_to_reserve w v \<longleftrightarrow> valid_volume v \<and> (\<forall>p\<in>run_dirs. node w p = Some FDir) \<and>
     node w (volumeNBDStatePath v) \<notin> {Some FDir, Some FNode}"

lemma same_ready: "same_store w w' \<Longrightarrow> ready_to_reserve w' v = ready_to_reserve w v"
  by (simp add: ready_to_reserve_def same_views)

text \<open>One step of the loop, for a device that is skipped and for one that is taken.\<close>

lemma scan_skip:
  assumes E: "no_faults E" and d: "\<not> free_dev w d"
  obtains w' where "same_store w w'"
    "run_state (reserve_scan E v (d # ds)) w = run_state (reserve_scan E v ds) w'"
proof (cases "dev_connected w d = Some False")
  case False
  have "run_state (reserve_scan E v (d # ds)) w = run_state (reserve_scan E v ds) (tick w)"
    using run_isNBDConnected [OF E, of d w] False
    by (auto simp: split_beta split: sum.splits bool.splits)
  with that [of "tick w"] show thesis by simp
next
  case True
  let ?p = "deviceReservationPath d"
  let ?w1 = "final (gc_reservation E ?p) (tick w)"
  have st: "\<not> stale w ?p" "node w ?p \<noteq> None" using d True by (auto simp: free_dev_def)
  from st gc_effect [OF E, of ?p "tick w"] have w1: "same_store w ?w1" by (simp add: same_store_def)
  have c: "run_state (isNBDConnected E d) w = (Inr False, tick w)"
    using run_isNBDConnected [OF E, of d w] True by (metis prod.collapse)
  have "run_state (os_OpenExcl E ?p) ?w1 = (Some Exist, tick ?w1)"
    using st(2) w1 by (simp add: run_OpenExcl [OF E] same_views)
  then have "run_state (reserve_scan E v (d # ds)) w = run_state (reserve_scan E v ds) (tick ?w1)"
    by (simp add: c Let_def split_beta)
  moreover have "same_store w (tick ?w1)" using w1 by (simp add: same_store_def)
  ultimately show thesis by (rule that [rotated])
qed

text \<open>Up to the write of the state file, taking a device is the same whatever that write does.\<close>

lemma scan_open:
  assumes E: "no_faults E" and dirs: "\<forall>p\<in>run_dirs. node w p = Some FDir"
    and d: "free_dev w d" "nbdDevicePathRe d"
  obtains w3 where "node w3 = (node w)(deviceReservationPath d \<mapsto> FReg v (clock w))" "clock w3 = clock w"
    "\<forall>p\<in>run_dirs. node w3 p = Some FDir"
    "run_state (reserve_scan E v (d # ds)) w =
       (case run_state (writeVolumeNBDState E v d) w3 of
          (Some err, w4) \<Rightarrow> (Inl err, final (os_Remove E (deviceReservationPath d)) w4)
        | (None, w4) \<Rightarrow> (Inr d, w4))"
proof -
  let ?p = "deviceReservationPath d"
  let ?w1 = "final (gc_reservation E ?p) (tick w)"
  let ?w2 = "put_node ?p (FReg [] (clock w)) (tick ?w1)"
  let ?w3 = "put_node ?p (FReg v (clock w)) (tick ?w2)"
  have n1: "node ?w1 = (node w)(?p := None)" "clock ?w1 = clock w"
    using d(1) gc_effect [OF E, of ?p "tick w"] by (auto simp: free_dev_def fun_eq_iff)
  have nd: "?p \<notin> run_dirs" using d(2) by (rule reservation_path_not_dir)
  have c: "run_state (isNBDConnected E d) w = (Inr False, tick w)"
    using run_isNBDConnected [OF E, of d w] d(1) by (metis free_dev_def prod.collapse)
  have par: "is_dir ?w1 (parent_dir ?p)"
    using dirs nd d(2) by (auto simp: is_dir_def n1 parent_dirs run_dirs_def)
  have op: "run_state (os_OpenExcl E ?p) ?w1 = (None, ?w2)"
    using par by (simp add: run_OpenExcl [OF E] n1)
  have n3: "node ?w3 = (node w)(?p \<mapsto> FReg v (clock w))" "clock ?w3 = clock w"
    by (auto simp: n1 fun_eq_iff)
  have dirs3: "\<forall>p\<in>run_dirs. node ?w3 p = Some FDir" using dirs nd by (auto simp: n3)
  have "run_state (reserve_scan E v (d # ds)) w = (case run_state (writeVolumeNBDState E v d) ?w3 of
      (Some err, w4) \<Rightarrow> (Inl err, final (os_Remove E ?p) w4) | (None, w4) \<Rightarrow> (Inr d, w4))"
    by (simp add: c op Let_def split_beta run_WriteString [OF E] n1 split: option.split)
  with n3 dirs3 show thesis by (rule that)
qed

lemma scan_take:
  assumes E: "no_faults E" and r: "ready_to_reserve w v" and d: "free_dev w d" "nbdDevicePathRe d"
  shows "result (reserve_scan E v (d # ds)) w = Inr d"
    and "node (final (reserve_scan E v (d # ds)) w) = reserved_store w v d"
    and "clock (final (reserve_scan E v (d # ds)) w) = clock w"
proof -
  have v: "valid_volume v" and dirs: "\<forall>p\<in>run_dirs. node w p = Some FDir" using r by (simp_all add: ready_to_reserve_def)
  obtain w3 where w3: "node w3 = (node w)(deviceReservationPath d \<mapsto> FReg v (clock w))" "clock w3 = clock w"
    "\<forall>p\<in>run_dirs. node w3 p = Some FDir"
    and run: "run_state (reserve_scan E v (d # ds)) w =
       (case run_state (writeVolumeNBDState E v d) w3 of
          (Some err, w4) \<Rightarrow> (Inl err, final (os_Remove E (deviceReservationPath d)) w4)
        | (None, w4) \<Rightarrow> (Inr d, w4))"
    using scan_open [OF E dirs d] by blast
  have "volumeNBDStatePath v \<noteq> deviceReservationPath d"
    using v d(2) volume_path_not_reservation by (simp add: valid_volume_def)
  then have st3: "node w3 (volumeNBDStatePath v) \<notin> {Some FDir, Some FNode}"
    using r by (simp add: w3 ready_to_reserve_def)
  note wr = write_state_effect [OF E v w3(3) st3, of d]
  have "run_state (reserve_scan E v (d # ds)) w = (Inr d, final (writeVolumeNBDState E v d) w3)"
    unfolding run using wr(1) by (simp add: split_beta)
  with wr(2,3) show "result (reserve_scan E v (d # ds)) w = Inr d"
    "node (final (reserve_scan E v (d # ds)) w) = reserved_store w v d"
    "clock (final (reserve_scan E v (d # ds)) w) = clock w"
    using nbd_dev_trim [OF d(2)] by (simp_all add: w3 reserved_store_def)
qed

text \<open>A scan that finds a free device but cannot write the state file removes the reservation again.\<close>

lemma scan_blocked:
  assumes E: "no_faults E" and dirs: "\<forall>p\<in>run_dirs. node w p = Some FDir" and v: "valid_volume v"
    and st: "node w (volumeNBDStatePath v) \<in> {Some FDir, Some FNode}" and d: "free_dev w d" "nbdDevicePathRe d"
  shows "\<exists>m. result (reserve_scan E v (d # ds)) w = Inl m"
    and "node (final (reserve_scan E v (d # ds)) w) = (node w)(deviceReservationPath d := None)"
proof -
  obtain w3 where w3: "node w3 = (node w)(deviceReservationPath d \<mapsto> FReg v (clock w))" "clock w3 = clock w"
    "\<forall>p\<in>run_dirs. node w3 p = Some FDir"
    and run: "run_state (reserve_scan E v (d # ds)) w =
       (case run_state (writeVolumeNBDState E v d) w3 of
          (Some err, w4) \<Rightarrow> (Inl err, final (os_Remove E (deviceReservationPath d)) w4)
        | (None, w4) \<Rightarrow> (Inr d, w4))"
    using scan_open [OF E dirs d] by blast
  have "volumeNBDStatePath v \<noteq> deviceReservationPath d"
    using v d(2) volume_path_not_reservation by (simp add: valid_volume_def)
  then have "node w3 (volumeNBDStatePath v) \<in> {Some FDir, Some FNode}" using st by (simp add: w3)
  from write_state_blocked [OF E w3(3) this, of d]
  obtain err w4 where wr: "run_state (writeVolumeNBDState E v d) w3 = (Some err, w4)" "node w4 = node w3"
    by (auto simp: same_store_def prod_eq_iff)
  have r: "run_state (reserve_scan E v (d # ds)) w = (Inl err, final (os_Remove E (deviceReservationPath d)) w4)"
    using wr unfolding run by simp
  show "\<exists>m. result (reserve_scan E v (d # ds)) w = Inl m" unfolding r by simp
  show "node (final (reserve_scan E v (d # ds)) w) = (node w)(deviceReservationPath d := None)"
    unfolding r by (auto simp: Remove_effect [OF E] wr(2) w3(1))
qed

lemma scan_spec:
  assumes E: "no_faults E" and "ready_to_reserve w v" and "\<forall>d\<in>set ds. nbdDevicePathRe d"
  shows "case find (free_dev w) ds of
      None \<Rightarrow> result (reserve_scan E v ds) w = Inl ''no free /dev/nbd* devices available'' \<and>
        same_store w (final (reserve_scan E v ds) w)
    | Some d \<Rightarrow> result (reserve_scan E v ds) w = Inr d \<and>
        node (final (reserve_scan E v ds) w) = reserved_store w v d \<and>
        clock (final (reserve_scan E v ds) w) = clock w"
  using assms(2,3)
proof (induction ds arbitrary: w)
  case Nil
  then show ?case by (simp add: same.step_refl)
next
  case (Cons d ds)
  show ?case
  proof (cases "free_dev w d")
    case True
    with Cons.prems scan_take [OF E] show ?thesis by auto
  next
    case False
    obtain w' where w': "same_store w w'"
      "run_state (reserve_scan E v (d # ds)) w = run_state (reserve_scan E v ds) w'"
      using scan_skip [OF E False] by blast
    have f: "free_dev w' = free_dev w"
      using same_free [OF w'(1)] by (simp add: fun_eq_iff)
    have "reserved_store w' v = reserved_store w v"
      using w'(1) by (simp add: reserved_store_def same_store_def fun_eq_iff)
    with Cons.IH [of w'] Cons.prems w' f False show ?thesis
      by (auto simp: same_ready same_views split: option.splits intro: same.step_trans)
  qed
qed

end
