(* ===== verification/Nbd_Properties.thy ===== *)
theory Nbd_Properties
  imports Nbd_Reserve
begin

text \<open>
  The properties of \<^verbatim>\<open>nbd.go\<close>: the device listing, the reservation protocol as an interface
  (the locale \<open>device_registry\<close>) that the functions of the file are shown to provide, and the state
  machine of reservations under interleaved requests and changes of the host.
\<close>

section \<open>The device listing\<close>

lemma dir_names_iff:
  "n \<in> set (dir_names w d) \<longleftrightarrow> n \<noteq> [] \<and> CHR ''/'' \<notin> set n \<and> node w (d @ ''/'' @ n) \<noteq> None"
proof -
  have "(\<exists>x. (d @ CHR ''/'' # n, x) \<in> set (files w)) \<longleftrightarrow> node w (d @ CHR ''/'' # n) \<noteq> None"
    by (metis map_of_SomeD node_def not_None_eq weak_map_of_SomeI)
  then show ?thesis by (force simp: dir_names_def HasPrefix_iff)
qed

definition nbd_listing :: "'x world \<Rightarrow> string list" where
  "nbd_listing w = sort_key nbd_number (filter nbdDevicePathRe (if is_dir w ''/dev''
     then map (\<lambda>n. ''/dev'' @ ''/'' @ n) (sort (remdups (filter (\<lambda>n. HasPrefix n ''nbd'') (dir_names w ''/dev''))))
     else []))"

lemma run_listNBDDevices: "no_faults E \<Longrightarrow> run_state (listNBDDevices E) w = (nbd_listing w, tick w)"
  by (simp add: listNBDDevices_def filepath_Glob_def run_step nbd_listing_def)

lemma nbd_listing_set:
  assumes "is_dir w ''/dev''"
  shows "set (nbd_listing w) = {d. nbdDevicePathRe d \<and> node w d \<noteq> None}"
proof (intro set_eqI iffI)
  fix d assume "d \<in> set (nbd_listing w)"
  with assms show "d \<in> {d. nbdDevicePathRe d \<and> node w d \<noteq> None}"
    by (auto simp: nbd_listing_def dir_names_iff)
next
  fix d assume "d \<in> {d. nbdDevicePathRe d \<and> node w d \<noteq> None}"
  then have d: "nbdDevicePathRe d" "node w d \<noteq> None" by auto
  from d(1) obtain ds where ds: "d = ''/dev/nbd'' @ ds" "ds \<noteq> []" "list_all is_digit ds"
    by (rule nbd_dev_cases)
  have "''nbd'' @ ds \<in> set (dir_names w ''/dev'')"
    unfolding dir_names_iff using d(2) ds digits_no_slash by simp
  then show "d \<in> set (nbd_listing w)"
    using assms d(1) ds(1) HasPrefix_append [of "''nbd''" ds] by (force simp: nbd_listing_def)
qed

lemma nbd_listing_devs: "\<forall>d\<in>set (nbd_listing w). nbdDevicePathRe d"
  by (auto simp: nbd_listing_def)

lemma distinct_nbd_listing: "distinct (nbd_listing w)"
  unfolding nbd_listing_def distinct_sort by (intro distinct_filter) (simp add: distinct_map inj_on_def)

lemma nbd_number_dev:
  assumes "0 \<le> n" "n \<le> int64_max"
  shows "nbd_number (''/dev/nbd'' @ show_int n) = n" and "nbdDevicePathRe (''/dev/nbd'' @ show_int n)"
proof -
  note ds = show_dec_digits [OF assms(1)]
  have si: "show_int n = show_dec n" using assms(1) by (simp add: show_int_def)
  have "TrimPrefix (''nbd'' @ show_dec n) ''nbd'' = show_dec n" by (simp add: TrimPrefix_def HasPrefix_def)
  moreover have "path_Base (''/dev/nbd'' @ show_dec n) = ''nbd'' @ show_dec n"
    using ds by (intro nbd_dev_base) auto
  ultimately show "nbd_number (''/dev/nbd'' @ show_int n) = n"
    using ds assms(2) by (simp add: nbd_number_def si Atoi_digits)
  show "nbdDevicePathRe (''/dev/nbd'' @ show_int n)"
    using ds by (simp add: nbdDevicePathRe_def HasPrefix_def si)
qed

text \<open>C29: on a host without I/O faults \<open>listNBDDevices\<close> returns, without repetition and in the order
  of the device numbers, exactly the paths \<open>/dev/nbd<digits>\<close> that exist; partitions such as
  \<open>/dev/nbd0p1\<close> are left out, and the store is not changed.\<close>

theorem listNBDDevices_correct:
  assumes "no_faults E" and "node w ''/dev'' = Some FDir"
  shows "set (result (listNBDDevices E) w) = {d. nbdDevicePathRe d \<and> node w d \<noteq> None} \<and>
    distinct (result (listNBDDevices E) w) \<and>
    sorted (map nbd_number (result (listNBDDevices E) w)) \<and>
    same_store w (final (listNBDDevices E) w)"
  using assms nbd_listing_set [of w] distinct_nbd_listing [of w]
  by (simp add: run_listNBDDevices is_dir_def) (simp add: nbd_listing_def)

definition three_devices :: "unit world" where
  "three_devices = mk_world [(''/dev'', FDir), (''/dev/nbd10'', FNode), (''/dev/nbd2'', FNode),
     (''/dev/nbd2p1'', FNode), (''/dev/sda'', FNode)] ()"

theorem listNBDDevices_correct_witness:
  "result (listNBDDevices quiet_env) three_devices = [''/dev/nbd2'', ''/dev/nbd10''] \<and>
   sorted (map nbd_number (result (listNBDDevices quiet_env) three_devices))"
proof -
  have "no_faults (quiet_env :: unit env)" by (simp add: no_faults_def quiet_env_def)
  moreover have "node three_devices ''/dev'' = Some FDir" by code_simp
  ultimately have "sorted (map nbd_number (result (listNBDDevices quiet_env) three_devices))"
    using listNBDDevices_correct by blast
  moreover have "result (listNBDDevices quiet_env) three_devices = [''/dev/nbd2'', ''/dev/nbd10'']"
    by code_simp
  ultimately show ?thesis by blast
qed

section \<open>Reserving a device\<close>

text \<open>The run directories can be created, and the volume's state file is not something else.\<close>

definition usable :: "'x world \<Rightarrow> string \<Rightarrow> bool" where
  "usable w v \<longleftrightarrow> valid_volume v \<and> (\<forall>p\<in>run_dirs. node w p \<in> {None, Some FDir}) \<and>
     node w (volumeNBDStatePath v) \<notin> {Some FDir, Some FNode}"

abbreviation with_dirs :: "'x env \<Rightarrow> 'x world \<Rightarrow> 'x world" where
  "with_dirs E w \<equiv> final (ensureRunDirs E) w"

lemma mkdirs_ok: "\<forall>p\<in>set ds. node w p \<in> {None, Some FDir} \<Longrightarrow> fst (mkdirs ds w) = None"
  by (induction ds arbitrary: w) (auto split: option.splits fnode.splits)

lemma ensureRunDirs_ok:
  assumes "no_faults E" "\<forall>p\<in>run_dirs. node w p \<in> {None, Some FDir}"
  shows "result (ensureRunDirs E) w = None" "\<forall>p\<in>run_dirs. node (with_dirs E w) p = Some FDir"
proof -
  have mk: "run_state (os_MkdirAll E p) u = (None, snd (mkdirs (dirs_to p) (tick u)))"
    if "\<forall>q\<in>set (dirs_to p). node u q \<in> {None, Some FDir}" for p u
    using that mkdirs_ok [of "dirs_to p" "tick u"] assms(1)
    by (simp add: os_MkdirAll_def run_step prod_eq_iff)
  let ?u = "snd (mkdirs (dirs_to ZeroFSRunDir) (tick w))"
  have s: "set (dirs_to ZeroFSRunDir) \<subseteq> run_dirs" "set (dirs_to nbdByDeviceDir) = run_dirs"
    by (auto simp: dirs_to_run run_dirs_def)
  have u: "\<forall>q\<in>run_dirs. node ?u q \<in> {None, Some FDir}"
    using assms(2) mkdirs_rel [OF s(1), of "tick w"] by (auto simp: mkdir_rel_def) metis
  have "\<forall>q\<in>set (dirs_to ZeroFSRunDir). node w q \<in> {None, Some FDir}" using assms(2) s(1) by blast
  then have e: "run_state (ensureRunDirs E) w = (None, snd (mkdirs (dirs_to nbdByDeviceDir) (tick ?u)))"
    using mk [of ZeroFSRunDir w] mk [of nbdByDeviceDir ?u] s(2) u by (simp add: ensureRunDirs_def)
  then show "result (ensureRunDirs E) w = None" by simp
  show "\<forall>p\<in>run_dirs. node (with_dirs E w) p = Some FDir"
    using mkdirs_ok [of "dirs_to nbdByDeviceDir" "tick ?u"] mkdirs_done [of "dirs_to nbdByDeviceDir" "tick ?u"]
      u s(2) by (simp add: e)
qed

lemma mkdir_views:
  assumes "mkdir_rel w w'"
  shows "vol_dev w' v = vol_dev w v" "dev_owner w' d = dev_owner w d" "clock w' = clock w"
    "nbdDevicePathRe d \<Longrightarrow> node w' (deviceReservationPath d) = node w (deviceReservationPath d)"
    "valid_volume v \<Longrightarrow> node w' (volumeNBDStatePath v) = node w (volumeNBDStatePath v)"
    "p \<notin> run_dirs \<Longrightarrow> node w' p = node w p"
proof -
  have eq: "node w' p = node w p \<or> node w p = None \<and> node w' p = Some FDir" for p
    using assms by (auto simp: mkdir_rel_def)
  show "vol_dev w' v = vol_dev w v" "dev_owner w' d = dev_owner w d"
    using eq [of "volumeNBDStatePath v"] eq [of "deviceReservationPath d"]
    by (auto simp: vol_dev_def dev_owner_def)
  show "clock w' = clock w" using assms by (simp add: mkdir_rel_def)
  show out: "p \<notin> run_dirs \<Longrightarrow> node w' p = node w p" for p
    using assms unfolding mkdir_rel_def by metis
  show "nbdDevicePathRe d \<Longrightarrow> node w' (deviceReservationPath d) = node w (deviceReservationPath d)"
    by (simp add: out reservation_path_not_dir)
  show "valid_volume v \<Longrightarrow> node w' (volumeNBDStatePath v) = node w (volumeNBDStatePath v)"
    by (simp add: out volume_path_not_dir)
qed

lemma pid_path_plain:
  assumes "plain_name n"
  shows "path_Join [''/sys/block'', n, ''pid''] = ''/sys/block/'' @ n @ ''/pid''"
proof -
  have "path_Join [''/sys/block'', n] = ''/sys/block'' @ ''/'' @ n"
    using assms by (intro path_Join_plain) (auto, code_simp)
  moreover have n: "n \<noteq> []" "CHR ''/'' \<notin> set n" using assms by (auto simp: plain_name_def)
  ultimately have c: "Clean (''/sys/block/'' @ n) = ''/sys/block/'' @ n"
    by (simp add: path_Join_def)
  have "path_Join [''/sys/block/'' @ n, ''pid''] = (''/sys/block/'' @ n) @ ''/'' @ ''pid''"
    using c by (intro path_Join_plain) (auto simp: plain_name_def)
  then show ?thesis using n by (simp add: path_Join_def)
qed

lemma pid_path_not_dir:
  assumes "nbdDevicePathRe d"
  shows "path_Join [''/sys/block'', path_Base (TrimSpace d), ''pid''] \<notin> run_dirs"
proof -
  obtain ds where d: "d = ''/dev/nbd'' @ ds" "ds \<noteq> []" "list_all is_digit ds"
    using assms by (rule nbd_dev_cases)
  have "path_Base (TrimSpace d) = ''nbd'' @ ds"
    using d(1) nbd_dev_base [OF d(2,3)] nbd_dev_trim [OF assms] by simp
  then show ?thesis
    using pid_path_plain [OF nbd_dev_plain [OF d(2,3)]]
    by (simp add: run_dirs_def nbdByDeviceDir_def ZeroFSRunDir_def)
qed

lemma mkdir_connected: "mkdir_rel w w' \<Longrightarrow> nbdDevicePathRe d \<Longrightarrow> dev_connected w' d = dev_connected w d"
  by (simp add: dev_connected_def mkdir_views(6) pid_path_not_dir)

lemma mkdir_inv:
  assumes "mkdir_rel w w'"
  shows "reg_inv w' = reg_inv w" "timely w' = timely w"
  using assms by (auto simp: reg_inv_def timely_def mkdir_views mkdir_connected)

text \<open>The path without a usable state file: the first free device of the listing.\<close>

lemma reserve_fresh_spec:
  assumes E: "no_faults E" and r: "ready_to_reserve w v"
  shows "case find (free_dev w) (nbd_listing w) of
      None \<Rightarrow> (\<exists>m. result (reserve_fresh E v) w = Inl m) \<and> same_store w (final (reserve_fresh E v) w)
    | Some d \<Rightarrow> result (reserve_fresh E v) w = Inr d \<and>
        node (final (reserve_fresh E v) w) = reserved_store w v d \<and>
        clock (final (reserve_fresh E v) w) = clock w"
proof -
  have t: "free_dev (tick w) = free_dev w" "reserved_store (tick w) v = reserved_store w v"
    using same_free [OF same_tick] by (auto simp: reserved_store_def fun_eq_iff)
  have "ready_to_reserve (tick w) v" using r same_ready [OF same_tick] by blast
  note scan = scan_spec [OF E this nbd_listing_devs [of w]]
  show ?thesis
  proof (cases "nbd_listing w = []")
    case True
    then show ?thesis by (simp add: reserve_fresh_def run_listNBDDevices [OF E])
  next
    case False
    then have "run_state (reserve_fresh E v) w = run_state (reserve_scan E v (nbd_listing w)) (tick w)"
      by (simp add: reserve_fresh_def run_listNBDDevices [OF E])
    with scan t show ?thesis
      by (auto split: option.splits intro: same.step_trans [OF same_tick])
  qed
qed

lemma reserve_run:
  assumes E: "no_faults E" and u: "usable w v"
  shows "run_state (reserveNBDDevice E v) w =
    (let w1 = tick (with_dirs E w) in
     case vol_dev w v of
       None \<Rightarrow> run_state (reserve_fresh E v) w1
     | Some d \<Rightarrow> if node w1 d \<noteq> None
         then (Inr d, final (ensure_reservation E v d) (tick w1))
         else run_state (reserve_fresh E v) (final (clearVolumeNBDState E v d) (tick w1)))"
proof -
  have "run_state (ensureRunDirs E) w = (None, with_dirs E w)"
    using ensureRunDirs_ok(1) [OF E] u by (simp add: usable_def prod_eq_iff)
  moreover have "vol_dev (with_dirs E w) v = vol_dev w v"
    by (rule mkdir_views(1) [OF io_relD [OF rel_ensureRunDirs]])
  ultimately show ?thesis
    by (auto simp: reserveNBDDevice_def run_readVolumeNBDState [OF E] run_Stat [OF E] Let_def
        split: option.split prod.split)
qed

text \<open>With the invariant, a volume that holds an existing device keeps it and nothing changes.\<close>

lemma ensure_reservation_inv:
  assumes "no_faults E" "reg_inv w" "valid_volume v" "vol_dev w v = Some d"
  shows "same_store w (final (ensure_reservation E v d) w)"
proof -
  have "dev_owner w d = Some v" using assms by (simp add: reg_inv_def)
  then have "node w (deviceReservationPath d) \<noteq> None"
    by (auto simp: dev_owner_def split: option.splits)
  then show ?thesis
    using assms(1) by (auto simp: ensure_reservation_def run_Stat Let_def)
qed

text \<open>Taking a free device for a volume keeps the invariant: nobody holds a free device.\<close>

lemma free_not_held:
  assumes "reg_inv w" "timely w" "free_dev w d" "nbdDevicePathRe d" "valid_volume u"
  shows "vol_dev w u \<noteq> Some d"
proof
  assume h: "vol_dev w u = Some d"
  with assms(1,5) have "dev_owner w d = Some u" by (simp add: reg_inv_def)
  then obtain c t where c: "node w (deviceReservationPath d) = Some (FReg c t)" "TrimSpace c = u"
    by (auto simp: dev_owner_def split: option.splits fnode.splits)
  have "clock w - t \<le> reservation_ttl"
    using assms(2-4) c(1) by (auto simp: timely_def free_dev_def)
  moreover have "node w (volumeNBDStatePath u) \<noteq> None"
    using h by (auto simp: vol_dev_def split: option.splits)
  ultimately show False
    using assms(3,5) c by (auto simp: free_dev_def stale_def)
qed

lemma reserved_views:
  assumes w': "node w' = reserved_store w v d" and v: "valid_volume v" and d: "nbdDevicePathRe d"
  shows "vol_dev w' v = Some d" "dev_owner w' d = Some v"
    "valid_volume u \<Longrightarrow> u \<noteq> v \<Longrightarrow> vol_dev w' u = vol_dev w u"
    "nbdDevicePathRe e \<Longrightarrow> e \<noteq> d \<Longrightarrow> dev_owner w' e = dev_owner w e"
proof -
  have ne: "deviceReservationPath d \<noteq> volumeNBDStatePath u" if "valid_volume u" for u
    using reservation_never_volume [OF that] .
  have "d \<noteq> []" using d by (auto elim: nbd_dev_cases)
  with ne [OF v] show "vol_dev w' v = Some d" "dev_owner w' d = Some v"
    using w' v nbd_dev_trim [OF d] by (simp_all add: vol_dev_def dev_owner_def reserved_store_def)
  show "vol_dev w' u = vol_dev w u" if "valid_volume u" "u \<noteq> v"
    using ne [OF that(1)] that v w' volume_path_inj [of u v]
    by (simp add: vol_dev_def reserved_store_def valid_volume_def)
  show "dev_owner w' e = dev_owner w e" if e: "nbdDevicePathRe e" "e \<noteq> d"
  proof -
    have "deviceReservationPath e \<noteq> deviceReservationPath d"
      using reservation_path_inj [OF e(1) d] e(2) by blast
    moreover have "deviceReservationPath e \<noteq> volumeNBDStatePath v"
      by (rule reservation_never_volume [OF v])
    ultimately show ?thesis using w' by (simp add: dev_owner_def reserved_store_def)
  qed
qed

lemma reserved_inv:
  assumes inv: "reg_inv w" "timely w" and free: "free_dev w d" and d: "nbdDevicePathRe d"
    and v: "valid_volume v" and w': "node w' = reserved_store w v d"
  shows "reg_inv w'"
  unfolding reg_inv_def
proof (intro allI impI)
  fix u e assume u: "valid_volume u" and h: "vol_dev w' u = Some e"
  note views = reserved_views [OF w' v d]
  show "nbdDevicePathRe e \<and> dev_owner w' e = Some u"
  proof (cases "u = v")
    case True
    with h views(1,2) d show ?thesis by simp
  next
    case False
    with h u views(3) have e: "vol_dev w u = Some e" by simp
    with inv(1) u have "nbdDevicePathRe e" "dev_owner w e = Some u" by (auto simp: reg_inv_def)
    moreover have "e \<noteq> d" using free_not_held [OF inv free d u] e by blast
    ultimately show ?thesis using views(4) by simp
  qed
qed

lemma clear_inv:
  assumes E: "no_faults E" and inv: "reg_inv w" and v: "valid_volume v"
    and d: "d = [] \<or> (\<forall>u e. valid_volume u \<longrightarrow> u \<noteq> v \<longrightarrow> vol_dev w u = Some e \<longrightarrow>
       deviceReservationPath e \<noteq> deviceReservationPath d)"
  shows "reg_inv (final (clearVolumeNBDState E v d) w)"
  unfolding reg_inv_def
proof (intro allI impI)
  fix u e assume u: "valid_volume u" and h: "vol_dev (final (clearVolumeNBDState E v d) w) u = Some e"
  have ne: "u \<noteq> v" using h clear_vol_dev [OF E v] by auto
  with h have e: "vol_dev w u = Some e" using clear_vol_dev_other [OF E u v] by simp
  with inv u have *: "nbdDevicePathRe e" "dev_owner w e = Some u" by (auto simp: reg_inv_def)
  have "d = [] \<or> deviceReservationPath e \<noteq> deviceReservationPath d" using d u ne e by blast
  with * show "nbdDevicePathRe e \<and> dev_owner (final (clearVolumeNBDState E v d) w) e = Some u"
    using clear_dev_owner_other [OF E v *(1)] by simp
qed

text \<open>The volume's own device, or a string that is no volume's device, may be cleared.\<close>

lemma clear_inv_own:
  assumes E: "no_faults E" and inv: "reg_inv w" and v: "valid_volume v" and d: "vol_dev w v = Some d"
  shows "reg_inv (final (clearVolumeNBDState E v d) w)"
proof (rule clear_inv [OF E inv v])
  show "d = [] \<or> (\<forall>u e. valid_volume u \<longrightarrow> u \<noteq> v \<longrightarrow> vol_dev w u = Some e \<longrightarrow>
      deviceReservationPath e \<noteq> deviceReservationPath d)"
    using reservation_path_inj reg_inv_exclusive [OF inv] v d inv unfolding reg_inv_def by metis
qed

end
