(* ===== verification/Nbd_Protocol.thy ===== *)
theory Nbd_Protocol
  imports Nbd_Properties
begin

text \<open>
  The reservation protocol: the interface \<open>device_registry\<close>, the proof that the functions of
  \<^verbatim>\<open>nbd.go\<close> provide it, and the properties its clients (the node service) rely on.
\<close>

section \<open>The interface\<close>

locale device_registry =
  fixes ok :: "'e \<Rightarrow> bool"
    and inv :: "'s \<Rightarrow> bool"
    and can :: "'s \<Rightarrow> string \<Rightarrow> bool"
    and holds :: "'s \<Rightarrow> string \<Rightarrow> string option"
    and reserve :: "'e \<Rightarrow> string \<Rightarrow> ('s, string + string) state"
    and release :: "'e \<Rightarrow> string \<Rightarrow> string \<Rightarrow> ('s, unit) state"
  assumes exclusive: "inv s \<Longrightarrow> valid_volume u \<Longrightarrow> valid_volume v \<Longrightarrow>
      holds s u = Some d \<Longrightarrow> holds s v = Some d \<Longrightarrow> u = v"
    and can_valid: "can s v \<Longrightarrow> valid_volume v"
    and reserve_inv: "ok e \<Longrightarrow> inv s \<Longrightarrow> can s v \<Longrightarrow> inv (final (reserve e v) s)"
    and reserve_holds: "ok e \<Longrightarrow> inv s \<Longrightarrow> can s v \<Longrightarrow>
      result (reserve e v) s = Inr d \<Longrightarrow> holds (final (reserve e v) s) v = Some d"
    and reserve_frame: "ok e \<Longrightarrow> inv s \<Longrightarrow> can s v \<Longrightarrow> valid_volume u \<Longrightarrow> u \<noteq> v \<Longrightarrow>
      holds (final (reserve e v) s) u = holds s u"
    and release_inv: "ok e \<Longrightarrow> inv s \<Longrightarrow> valid_volume v \<Longrightarrow> holds s v = Some d \<Longrightarrow>
      inv (final (release e v d) s)"
    and release_frees: "ok e \<Longrightarrow> valid_volume v \<Longrightarrow> holds (final (release e v d) s) v = None"
    and release_frame: "ok e \<Longrightarrow> valid_volume u \<Longrightarrow> valid_volume v \<Longrightarrow> u \<noteq> v \<Longrightarrow>
      holds (final (release e v d) s) u = holds s u"
begin

lemma reserve_not_taken:
  assumes "ok e" "inv s" "can s v" "result (reserve e v) s = Inr d" "valid_volume u" "u \<noteq> v"
  shows "holds s u \<noteq> Some d"
proof
  assume "holds s u = Some d"
  then have "holds (final (reserve e v) s) u = Some d"
    using assms reserve_frame by metis
  moreover have "holds (final (reserve e v) s) v = Some d"
    using assms reserve_holds by blast
  ultimately show False
    using exclusive reserve_inv assms can_valid by metis
qed

lemma reserve_two_differ:
  assumes "ok e" "inv s" "can s u" "can (final (reserve e u) s) v" "u \<noteq> v"
    and "result (reserve e u) s = Inr d" and "result (reserve e v) (final (reserve e u) s) = Inr d'"
  shows "d \<noteq> d'"
  using assms reserve_not_taken [of e "final (reserve e u) s" v d' u] reserve_holds [of e s u d]
    reserve_inv [of e s u] can_valid by metis

lemma reserve_then_release:
  assumes "ok e" "inv s" "can s v" "result (reserve e v) s = Inr d"
  defines "t \<equiv> final (release e v d) (final (reserve e v) s)"
  shows "inv t \<and> holds t v = None \<and> (\<forall>u. valid_volume u \<longrightarrow> u \<noteq> v \<longrightarrow> holds t u = holds s u)"
  using assms reserve_inv reserve_holds release_inv release_frees release_frame reserve_frame can_valid
  unfolding t_def by metis

end

section \<open>The functions of nbd.go provide it\<close>

lemma same_inv: "same_store w w' \<Longrightarrow> reg_inv w' = reg_inv w" "same_store w w' \<Longrightarrow> timely w' = timely w"
  by (simp_all add: reg_inv_def timely_def same_views)

lemma pid_path_cases:
  assumes "nbdDevicePathRe d"
  obtains n where "path_Join [''/sys/block'', path_Base (TrimSpace d), ''pid''] = ''/sys/block/'' @ n"
proof -
  obtain ds where d: "d = ''/dev/nbd'' @ ds" "ds \<noteq> []" "list_all is_digit ds"
    using assms by (rule nbd_dev_cases)
  have "path_Base (TrimSpace d) = ''nbd'' @ ds"
    using d(1) nbd_dev_base [OF d(2,3)] nbd_dev_trim [OF assms] by simp
  then show ?thesis using that pid_path_plain [OF nbd_dev_plain [OF d(2,3)]] by simp
qed

lemma pid_path_not_state:
  assumes "nbdDevicePathRe d" "valid_volume v" "nbdDevicePathRe e"
  shows "path_Join [''/sys/block'', path_Base (TrimSpace d), ''pid''] \<noteq> volumeNBDStatePath v"
    and "path_Join [''/sys/block'', path_Base (TrimSpace d), ''pid''] \<noteq> deviceReservationPath e"
proof -
  obtain n where n: "path_Join [''/sys/block'', path_Base (TrimSpace d), ''pid''] = ''/sys/block/'' @ n"
    using assms(1) by (rule pid_path_cases)
  obtain m where m: "deviceReservationPath e = nbdByDeviceDir @ ''/'' @ m"
    using assms(3) by (rule reservation_cases)
  show "path_Join [''/sys/block'', path_Base (TrimSpace d), ''pid''] \<noteq> volumeNBDStatePath v"
    unfolding n using assms(2) by (simp add: valid_volume_def volume_path ZeroFSRunDir_def)
  show "path_Join [''/sys/block'', path_Base (TrimSpace d), ''pid''] \<noteq> deviceReservationPath e"
    unfolding n m by (simp add: nbdByDeviceDir_def ZeroFSRunDir_def)
qed

lemma clear_timely:
  assumes E: "no_faults E" and v: "valid_volume v" and e: "nbdDevicePathRe e" and t: "timely w"
  shows "timely (final (clearVolumeNBDState E v e) w)"
  unfolding timely_def
proof (intro allI impI)
  let ?w = "final (clearVolumeNBDState E v e) w"
  fix d c s assume d: "nbdDevicePathRe d" and con: "dev_connected ?w d = Some False"
    and f: "node ?w (deviceReservationPath d) = Some (FReg c s)"
  have "dev_connected ?w d = dev_connected w d"
    using pid_path_not_state [OF d v e] by (simp add: dev_connected_def clear_node [OF E])
  moreover have "node w (deviceReservationPath d) = Some (FReg c s)"
  proof (cases "deviceReservationPath d = deviceReservationPath e")
    case True
    with f clear_removes(2) [OF E, of e v w] e show ?thesis by (auto elim: nbd_dev_cases)
  next
    case False
    with f show ?thesis
      using reservation_never_volume [OF v, of d] by (simp add: clear_node [OF E])
  qed
  ultimately show "clock ?w - s \<le> reservation_ttl"
    using t d con by (simp add: timely_def)
qed

text \<open>The fresh path, from a store with the run directories.\<close>

lemma fresh_step:
  assumes E: "no_faults E" and r: "ready_to_reserve w v" and inv: "reg_inv w" "timely w"
  defines "w' \<equiv> final (reserve_fresh E v) w"
  shows "reg_inv w'" "valid_volume u \<Longrightarrow> u \<noteq> v \<Longrightarrow> vol_dev w' u = vol_dev w u"
    "result (reserve_fresh E v) w = Inr d \<Longrightarrow> vol_dev w' v = Some d"
    "result (reserve_fresh E v) w = Inr d \<Longrightarrow> d \<in> set (nbd_listing w) \<and> free_dev w d"
proof -
  have v: "valid_volume v" using r by (simp add: ready_to_reserve_def)
  note spec = reserve_fresh_spec [OF E r, folded w'_def]
  have "reg_inv w' \<and> (valid_volume u \<longrightarrow> u \<noteq> v \<longrightarrow> vol_dev w' u = vol_dev w u) \<and>
      (\<forall>d. result (reserve_fresh E v) w = Inr d \<longrightarrow> vol_dev w' v = Some d \<and>
         d \<in> set (nbd_listing w) \<and> free_dev w d)"
  proof (cases "find (free_dev w) (nbd_listing w)")
    case None
    with spec show ?thesis using inv by (auto simp: same_inv same_views)
  next
    case (Some d)
    then have d: "free_dev w d" "d \<in> set (nbd_listing w)"
      by (auto simp: find_Some_iff)
    then have re: "nbdDevicePathRe d" using nbd_listing_devs by blast
    have nd: "node w' = reserved_store w v d" "result (reserve_fresh E v) w = Inr d"
      using spec Some by auto
    show ?thesis
      using reserved_inv [OF inv d(1) re v nd(1)] reserved_views [OF nd(1) v re] nd(2) d by auto
  qed
  then show "reg_inv w'" "valid_volume u \<Longrightarrow> u \<noteq> v \<Longrightarrow> vol_dev w' u = vol_dev w u"
    "result (reserve_fresh E v) w = Inr d \<Longrightarrow> vol_dev w' v = Some d"
    "result (reserve_fresh E v) w = Inr d \<Longrightarrow> d \<in> set (nbd_listing w) \<and> free_dev w d" by blast+
qed

text \<open>Every branch of \<open>reserveNBDDevice\<close>: the world in which the fresh path starts, if it does.\<close>

lemma reserve_branches:
  assumes E: "no_faults E" and u: "usable w v" and inv: "reg_inv w" "timely w"
  obtains (reuse) d where "vol_dev w v = Some d" "result (reserveNBDDevice E v) w = Inr d"
      "mkdir_rel w (final (reserveNBDDevice E v) w)"
      "\<forall>p\<in>run_dirs. node (final (reserveNBDDevice E v) w) p = Some FDir"
    | (fresh) w1 where "run_state (reserveNBDDevice E v) w = run_state (reserve_fresh E v) w1"
      "ready_to_reserve w1 v" "reg_inv w1" "timely w1" "clock w1 = clock w"
      "\<And>x. valid_volume x \<Longrightarrow> x \<noteq> v \<Longrightarrow> vol_dev w1 x = vol_dev w x"
proof -
  let ?w0 = "with_dirs E w"
  have v: "valid_volume v" using u by (simp add: usable_def)
  have mk: "mkdir_rel w ?w0" by (rule io_relD [OF rel_ensureRunDirs])
  have dirs: "\<forall>p\<in>run_dirs. node ?w0 p = Some FDir" using ensureRunDirs_ok(2) [OF E] u by (simp add: usable_def)
  have r0: "ready_to_reserve ?w0 v"
    using u dirs mkdir_views(5) [OF mk] by (auto simp: ready_to_reserve_def usable_def)
  have i0: "reg_inv ?w0" "timely ?w0" using mkdir_inv [OF mk] inv by auto
  note run = reserve_run [OF E u, unfolded Let_def]
  show thesis
  proof (cases "vol_dev w v")
    case None
    show thesis
    proof (rule fresh [of "tick ?w0"])
      show "run_state (reserveNBDDevice E v) w = run_state (reserve_fresh E v) (tick ?w0)"
        using run None by simp
      show "ready_to_reserve (tick ?w0) v" "reg_inv (tick ?w0)" "timely (tick ?w0)"
        using r0 i0 by (simp_all add: same_ready [OF same_tick] same_inv [OF same_tick])
    qed (simp_all add: mkdir_views [OF mk])
  next
    case (Some d)
    have d: "nbdDevicePathRe d" using inv(1) v Some by (simp add: reg_inv_def)
    have h: "vol_dev (tick (tick ?w0)) v = Some d" using Some mkdir_views(1) [OF mk] by simp
    have i2: "reg_inv (tick (tick ?w0))" "timely (tick (tick ?w0))"
      using i0 by (simp_all add: same_inv [OF same_tick])
    show thesis
    proof (cases "node ?w0 d = None")
      case False
      let ?w' = "final (ensure_reservation E v d) (tick (tick ?w0))"
      have r: "run_state (reserveNBDDevice E v) w = (Inr d, ?w')" using run Some False by simp
      have s: "same_store (tick (tick ?w0)) ?w'" by (rule ensure_reservation_inv [OF E i2(1) v h])
      then have "mkdir_rel w ?w'" using mk by (simp add: mkdir_rel_def same_store_def)
      moreover have "\<forall>p\<in>run_dirs. node ?w' p = Some FDir" using s dirs by (simp add: same_store_def)
      ultimately show thesis using r Some by (intro reuse) auto
    next
      case True
      let ?w1 = "final (clearVolumeNBDState E v d) (tick (tick ?w0))"
      show thesis
      proof (rule fresh [of ?w1])
        show "run_state (reserveNBDDevice E v) w = run_state (reserve_fresh E v) ?w1"
          using run Some True by simp
        show "reg_inv ?w1" by (rule clear_inv_own [OF E i2(1) v h])
        show "timely ?w1" by (rule clear_timely [OF E v d i2(2)])
        have nd: "node ?w1 p = Some FDir" if "p \<in> run_dirs" for p
          using that dirs volume_path_not_dir [OF v] reservation_path_not_dir [OF d]
          by (subst clear_node [OF E]) auto
        have "node ?w1 (volumeNBDStatePath v) = None"
          using r0 reservation_never_volume [OF v, of d] E
          by (auto simp: clearVolumeNBDState_def split_beta node_Remove ready_to_reserve_def)
        with nd v show "ready_to_reserve ?w1 v" by (simp add: ready_to_reserve_def)
      qed (simp_all add: mkdir_views [OF mk] clear_vol_dev_other [OF E _ v])
    qed
  qed
qed

lemma reserve_step:
  assumes E: "no_faults E" and u: "usable w v" and inv: "reg_inv w" "timely w"
  defines "w' \<equiv> final (reserveNBDDevice E v) w"
  shows "reg_inv w'" "\<And>x. valid_volume x \<Longrightarrow> x \<noteq> v \<Longrightarrow> vol_dev w' x = vol_dev w x"
    "\<And>d. result (reserveNBDDevice E v) w = Inr d \<Longrightarrow> vol_dev w' v = Some d"
proof -
  from E u inv have "reg_inv w' \<and> (\<forall>x. valid_volume x \<longrightarrow> x \<noteq> v \<longrightarrow> vol_dev w' x = vol_dev w x) \<and>
    (\<forall>d. result (reserveNBDDevice E v) w = Inr d \<longrightarrow> vol_dev w' v = Some d)"
  proof (cases rule: reserve_branches)
    case (reuse d)
    then show ?thesis using inv by (simp add: w'_def mkdir_inv mkdir_views)
  next
    case (fresh w1)
    note step = fresh_step [OF E fresh(2-4), folded fresh(1)]
    show ?thesis using step fresh(6) unfolding w'_def by metis
  qed
  then show "reg_inv w'" "\<And>x. valid_volume x \<Longrightarrow> x \<noteq> v \<Longrightarrow> vol_dev w' x = vol_dev w x"
    "\<And>d. result (reserveNBDDevice E v) w = Inr d \<Longrightarrow> vol_dev w' v = Some d" by blast+
qed

lemma reserve_keeps_dirs:
  assumes E: "no_faults E" and u: "usable w v" and inv: "reg_inv w" "timely w"
    and run: "run_state (reserveNBDDevice E v) w = (r, w')"
  shows "\<forall>p\<in>run_dirs. node w' p = Some FDir"
  using E u inv
proof (cases rule: reserve_branches)
  case (reuse d)
  with run show ?thesis by simp
next
  case (fresh w1)
  then have d: "\<forall>p\<in>run_dirs. node w1 p = Some FDir" by (simp add: ready_to_reserve_def)
  have w': "w' = final (reserve_fresh E v) w1" using run fresh(1) by simp
  show ?thesis
  proof (cases "find (free_dev w1) (nbd_listing w1)")
    case None
    with reserve_fresh_spec [OF E fresh(2)] have "same_store w1 w'" by (simp add: w')
    with d show ?thesis by (simp add: same_store_def)
  next
    case (Some e)
    then have "e \<in> set (nbd_listing w1)" by (auto simp: find_Some_iff)
    then have e: "nbdDevicePathRe e" using nbd_listing_devs by blast
    have "valid_volume v" using u by (simp add: usable_def)
    moreover have "node w' = reserved_store w1 v e" using Some reserve_fresh_spec [OF E fresh(2)] by (simp add: w')
    ultimately show ?thesis
      using d e by (auto simp: reserved_store_def dest: volume_path_not_dir reservation_path_not_dir)
  qed
qed

text \<open>A reservation for a valid volume ID keeps the invariant also when the run directories or the state
  file cannot be made: then it fails, and at most a stale reservation is gone.\<close>

lemma forget_free_inv:
  assumes "reg_inv w" "timely w" "free_dev w d" "nbdDevicePathRe d"
    and w': "node w' = (node w)(deviceReservationPath d := None)"
  shows "reg_inv w'"
  unfolding reg_inv_def
proof (intro allI impI)
  fix u e assume u: "valid_volume u" and h: "vol_dev w' u = Some e"
  have "vol_dev w' u = vol_dev w u"
    using reservation_never_volume [OF u, of d] by (simp add: vol_dev_def w')
  with h have e: "vol_dev w u = Some e" by simp
  then have "nbdDevicePathRe e" "dev_owner w e = Some u" using assms(1) u by (auto simp: reg_inv_def)
  moreover have "e \<noteq> d" using free_not_held [OF assms(1-4) u] e by blast
  ultimately show "nbdDevicePathRe e \<and> dev_owner w' e = Some u"
    using reservation_path_inj [OF _ assms(4), of e] by (auto simp: dev_owner_def w')
qed

lemma scan_blocked_inv:
  assumes E: "no_faults E" and v: "valid_volume v"
  shows "reg_inv w \<Longrightarrow> timely w \<Longrightarrow> \<forall>p\<in>run_dirs. node w p = Some FDir \<Longrightarrow>
    node w (volumeNBDStatePath v) \<in> {Some FDir, Some FNode} \<Longrightarrow> \<forall>d\<in>set ds. nbdDevicePathRe d \<Longrightarrow>
    reg_inv (final (reserve_scan E v ds) w)"
proof (induction ds arbitrary: w)
  case (Cons d ds)
  show ?case
  proof (cases "free_dev w d")
    case True
    have d: "nbdDevicePathRe d" using Cons.prems(5) by simp
    show ?thesis
      by (rule forget_free_inv [OF Cons.prems(1,2) True d scan_blocked(2) [OF E Cons.prems(3) v Cons.prems(4) True d]])
  next
    case False
    obtain w' where w': "same_store w w'"
      "run_state (reserve_scan E v (d # ds)) w = run_state (reserve_scan E v ds) w'"
      using scan_skip [OF E False] by blast
    have "reg_inv (final (reserve_scan E v ds) w')"
      using Cons.prems w'(1) by (intro Cons.IH) (simp_all add: same_inv [OF w'(1)] same_store_def)
    then show ?thesis by (simp only: w'(2))
  qed
qed simp

lemma reserve_any_inv:
  assumes E: "no_faults E" and v: "valid_volume v" and inv: "reg_inv w" "timely w"
  shows "reg_inv (final (reserveNBDDevice E v) w)"
proof (cases "usable w v")
  case True
  then show ?thesis by (rule reserve_step(1) [OF E _ inv])
next
  case unusable: False
  let ?w0 = "with_dirs E w"
  have mk: "mkdir_rel w ?w0" by (rule io_relD [OF rel_ensureRunDirs])
  have i0: "reg_inv ?w0" "timely ?w0" using mkdir_inv [OF mk] inv by auto
  show ?thesis
  proof (cases "result (ensureRunDirs E) w")
    case (Some err)
    then show ?thesis using i0 by (simp add: reserveNBDDevice_def split_beta)
  next
    case None
    have dirs: "\<forall>p\<in>run_dirs. node ?w0 p = Some FDir" by (rule ensureRunDirs_all [OF None])
    have "\<forall>p\<in>run_dirs. node w p \<in> {None, Some FDir}" using dirs mk by (auto simp: mkdir_rel_def) metis
    then have "node w (volumeNBDStatePath v) \<in> {Some FDir, Some FNode}" using unusable v by (auto simp: usable_def)
    then have st: "node ?w0 (volumeNBDStatePath v) \<in> {Some FDir, Some FNode}" using mkdir_views(5) [OF mk] v by auto
    then have "vol_dev ?w0 v = None" by (auto simp: vol_dev_def)
    then have run: "final (reserveNBDDevice E v) w = final (reserve_fresh E v) (tick ?w0)"
      using None by (simp add: reserveNBDDevice_def run_readVolumeNBDState [OF E] split_beta)
    have "reg_inv (final (reserve_scan E v (nbd_listing ?w0)) (tick (tick ?w0)))"
      using i0 dirs st nbd_listing_devs
      by (intro scan_blocked_inv [OF E v]) (simp_all add: same_inv [OF same_tick])
    then show ?thesis
      using i0 by (auto simp: run reserve_fresh_def run_listNBDDevices [OF E] same_inv [OF same_tick] nbd_listing_def)
  qed
qed

interpretation nbd: device_registry no_faults reg_inv "\<lambda>w v. usable w v \<and> timely w" vol_dev
  reserveNBDDevice clearVolumeNBDState
proof
  fix E :: "'a env" and w :: "'a world" and u v d
  show "u = v" if "reg_inv w" "valid_volume u" "valid_volume v" "vol_dev w u = Some d" "vol_dev w v = Some d"
    using that by (rule reg_inv_exclusive)
  show "valid_volume v" if "usable w v \<and> timely w" using that by (simp add: usable_def)
  assume E: "no_faults E"
  show "reg_inv (final (clearVolumeNBDState E v d) w)"
    if "reg_inv w" "valid_volume v" "vol_dev w v = Some d"
    using that by (rule clear_inv_own [OF E])
  show "vol_dev (final (clearVolumeNBDState E v d) w) v = None" if "valid_volume v"
    using that by (rule clear_vol_dev [OF E])
  show "vol_dev (final (clearVolumeNBDState E v d) w) u = vol_dev w u"
    if "valid_volume u" "valid_volume v" "u \<noteq> v"
    using that by (rule clear_vol_dev_other [OF E])
  assume i: "reg_inv w" and c: "usable w v \<and> timely w"
  note step = reserve_step [OF E conjunct1 [OF c] i conjunct2 [OF c]]
  show "reg_inv (final (reserveNBDDevice E v) w)" by (rule step(1))
  show "vol_dev (final (reserveNBDDevice E v) w) v = Some d" if "result (reserveNBDDevice E v) w = Inr d"
    using that by (rule step(3))
  show "vol_dev (final (reserveNBDDevice E v) w) u = vol_dev w u" if "valid_volume u" "u \<noteq> v"
    using that by (rule step(2))
qed

section \<open>Properties\<close>

text \<open>C8: on a host without I/O faults, when the reservations are consistent and none of a
  disconnected device is older than two hours, a successful \<open>reserveNBDDevice\<close> never returns a device
  that another volume holds, records the device for the volume, and keeps the reservations
  consistent.\<close>

theorem reserveNBDDevice_exclusive:
  assumes "no_faults E" "reg_inv w" "timely w" "usable w v"
    and "result (reserveNBDDevice E v) w = Inr d"
  shows "(\<forall>u. valid_volume u \<and> u \<noteq> v \<longrightarrow> vol_dev w u \<noteq> Some d) \<and>
    vol_dev (final (reserveNBDDevice E v) w) v = Some d \<and>
    dev_owner (final (reserveNBDDevice E v) w) d = Some v \<and>
    reg_inv (final (reserveNBDDevice E v) w)"
proof -
  have c: "usable w v \<and> timely w" using assms by blast
  have i: "reg_inv (final (reserveNBDDevice E v) w)" by (rule nbd.reserve_inv [OF assms(1,2) c])
  have h: "vol_dev (final (reserveNBDDevice E v) w) v = Some d"
    by (rule nbd.reserve_holds [OF assms(1,2) c assms(5)])
  then show ?thesis
    using nbd.reserve_not_taken [OF assms(1,2) c assms(5)] i assms(4)
    by (auto simp: reg_inv_def usable_def)
qed

definition one_taken :: "unit world" where
  "one_taken = mk_world [(''/dev'', FDir), (''/dev/nbd0'', FNode), (''/dev/nbd1'', FNode),
     (''/run'', FDir), (ZeroFSRunDir, FDir), (nbdByDeviceDir, FDir),
     (''/run/zerofs-csi/pvc-a'', FReg ''/dev/nbd0'' 0),
     (''/run/zerofs-csi/by-device/nbd0'', FReg ''pvc-a'' 0)] ()"

text \<open>A store whose run directory has one state file and one reservation.\<close>

lemma one_entry_inv:
  assumes nodes: "\<And>p n. node w (ZeroFSRunDir @ ''/'' @ p) = Some n \<Longrightarrow>
      p = u \<and> n = FReg d t \<or> p = ''by-device'' \<or> p = ''by-device/'' @ q \<and> n = FReg u t"
    and own: "nbdDevicePathRe d" "deviceReservationPath d = ZeroFSRunDir @ ''/by-device/'' @ q"
      "node w (ZeroFSRunDir @ ''/by-device/'' @ q) = Some (FReg u t)" and u: "valid_volume u"
    and age: "clock w - t \<le> reservation_ttl"
  shows "reg_inv w" "timely w"
proof -
  have pl: "p = v" if "valid_volume v" "volumeNBDStatePath v = ZeroFSRunDir @ ''/'' @ p" for v p
    using that by (simp add: valid_volume_def volume_path)
  show "reg_inv w"
    unfolding reg_inv_def
  proof (intro allI impI)
    fix v e assume v: "valid_volume v" and h: "vol_dev w v = Some e"
    have "volumeNBDStatePath v = ZeroFSRunDir @ ''/'' @ v"
      using v by (simp add: valid_volume_def volume_path)
    with h obtain c s where n: "node w (ZeroFSRunDir @ ''/'' @ v) = Some (FReg c s)" "e = TrimSpace c"
      by (auto simp: vol_dev_def split: option.splits fnode.splits if_splits)
    have "v \<noteq> ''by-device''" "v \<noteq> ''by-device/'' @ q"
      using v by (auto simp: valid_volume_def plain_name_def)
    with nodes [OF n(1)] have "v = u" "e = d" using n(2) nbd_dev_trim [OF own(1)] by auto
    with own u show "nbdDevicePathRe e \<and> dev_owner w e = Some v" by (simp add: dev_owner_def)
  qed
  show "timely w"
    unfolding timely_def
  proof (intro allI impI)
    fix e c s assume e: "nbdDevicePathRe e" and n: "node w (deviceReservationPath e) = Some (FReg c s)"
    obtain m where m: "deviceReservationPath e = ZeroFSRunDir @ ''/'' @ (''by-device/'' @ m)" "m \<noteq> []"
      using e by (rule reservation_cases) (simp add: nbdByDeviceDir_def)
    have "''by-device/'' @ m \<noteq> u" using u by (auto simp: valid_volume_def plain_name_def)
    with nodes [of "''by-device/'' @ m" "FReg c s"] n m have "s = t" by auto
    with age show "clock w - s \<le> reservation_ttl" by simp
  qed
qed

lemma quiet_no_faults [simp]: "no_faults quiet_env"
  by (simp add: no_faults_def quiet_env_def)

lemma one_taken_ok: "reg_inv one_taken" "timely one_taken" "usable one_taken ''pvc-b''"
proof -
  have nodes: "p = ''pvc-a'' \<and> n = FReg ''/dev/nbd0'' 0 \<or> p = ''by-device'' \<or>
      p = ''by-device/'' @ ''nbd0'' \<and> n = FReg ''pvc-a'' 0"
    if "node one_taken (ZeroFSRunDir @ ''/'' @ p) = Some n" for p n
    using that by (auto simp: one_taken_def mk_world_def node_def ZeroFSRunDir_def nbdByDeviceDir_def
        split: if_splits)
  have facts: "nbdDevicePathRe ''/dev/nbd0''"
    "deviceReservationPath ''/dev/nbd0'' = ZeroFSRunDir @ ''/by-device/'' @ ''nbd0''"
    "node one_taken (ZeroFSRunDir @ ''/by-device/'' @ ''nbd0'') = Some (FReg ''pvc-a'' 0)"
    "valid_volume ''pvc-a''" "clock one_taken - 0 \<le> reservation_ttl"
    by code_simp+
  show "reg_inv one_taken" "timely one_taken" by (rule one_entry_inv [OF nodes facts], assumption)+
  show "usable one_taken ''pvc-b''" unfolding usable_def run_dirs_def by code_simp
qed

theorem reserveNBDDevice_exclusive_witness:
  "result (reserveNBDDevice quiet_env ''pvc-b'') one_taken = Inr ''/dev/nbd1'' \<and>
   vol_dev one_taken ''pvc-a'' \<noteq> Some ''/dev/nbd1''"
proof -
  have r: "result (reserveNBDDevice quiet_env ''pvc-b'') one_taken = Inr ''/dev/nbd1''" by code_simp
  have "valid_volume ''pvc-a''" "''pvc-a'' \<noteq> ''pvc-b''" by code_simp+
  then show ?thesis
    using reserveNBDDevice_exclusive [OF quiet_no_faults one_taken_ok r] r by blast
qed

lemma reserve_first_free:
  assumes "no_faults E" "usable w v" "vol_dev w v = None"
  shows "case find (free_dev (with_dirs E w)) (nbd_listing (with_dirs E w)) of
      None \<Rightarrow> (\<exists>m. result (reserveNBDDevice E v) w = Inl m) \<and>
        same_store (with_dirs E w) (final (reserveNBDDevice E v) w)
    | Some d \<Rightarrow> result (reserveNBDDevice E v) w = Inr d \<and>
        node (final (reserveNBDDevice E v) w) = reserved_store (with_dirs E w) v d"
proof -
  let ?w0 = "with_dirs E w"
  have mk: "mkdir_rel w ?w0" by (rule io_relD [OF rel_ensureRunDirs])
  have dirs: "\<forall>p\<in>run_dirs. node ?w0 p = Some FDir"
    using ensureRunDirs_ok(2) [OF assms(1)] assms(2) by (simp add: usable_def)
  then have r: "ready_to_reserve (tick ?w0) v"
    using assms(2) mkdir_views(5) [OF mk] by (auto simp: ready_to_reserve_def usable_def)
  have run: "run_state (reserveNBDDevice E v) w = run_state (reserve_fresh E v) (tick ?w0)"
    using reserve_run [OF assms(1,2)] assms(3) by simp
  have eq: "free_dev (tick ?w0) = free_dev ?w0" "nbd_listing (tick ?w0) = nbd_listing ?w0"
    "reserved_store (tick ?w0) v = reserved_store ?w0 v"
    using same_free [OF same_tick] by (auto simp: nbd_listing_def reserved_store_def fun_eq_iff)
  show ?thesis
    using reserve_fresh_spec [OF assms(1) r]
    unfolding run eq by (auto split: option.splits intro: same.step_trans [OF same_tick])
qed

text \<open>C9: on a host without I/O faults whose run directories are directories or absent, for a volume
  without recorded device, \<open>reserveNBDDevice\<close> is the specification "take the
  first free device": of the devices in numeric order it returns the first that is known to be
  disconnected and has no reservation or a stale one, writes exactly the two files, and fails without
  changing the store when there is none (the run directories themselves are created first in either
  case).\<close>

theorem reserveNBDDevice_first_free:
  assumes "no_faults E" "usable w v" "vol_dev w v = None"
  shows "case find (free_dev (with_dirs E w)) (nbd_listing (with_dirs E w)) of
      None \<Rightarrow> (\<exists>m. result (reserveNBDDevice E v) w = Inl m) \<and>
        same_store (with_dirs E w) (final (reserveNBDDevice E v) w)
    | Some d \<Rightarrow> result (reserveNBDDevice E v) w = Inr d \<and>
        node (final (reserveNBDDevice E v) w) = reserved_store (with_dirs E w) v d"
  using assms by (rule reserve_first_free)

definition bare_host :: "unit world" where
  "bare_host = mk_world [(''/dev'', FDir), (''/dev/nbd0'', FNode), (''/dev/nbd1'', FNode),
     (''/dev/nbd10'', FNode), (''/sys/block/nbd0/pid'', FReg ''77'' 0)] ()"

theorem reserveNBDDevice_first_free_witness:
  "find (free_dev (with_dirs quiet_env bare_host)) (nbd_listing (with_dirs quiet_env bare_host)) =
     Some ''/dev/nbd1'' \<and>
   result (reserveNBDDevice quiet_env ''pvc-a'') bare_host = Inr ''/dev/nbd1''"
proof -
  have f: "find (free_dev (with_dirs quiet_env bare_host)) (nbd_listing (with_dirs quiet_env bare_host)) =
      Some ''/dev/nbd1''" by code_simp
  have "usable bare_host ''pvc-a''" unfolding usable_def run_dirs_def by code_simp
  moreover have "vol_dev bare_host ''pvc-a'' = None" by code_simp
  ultimately show ?thesis
    using reserveNBDDevice_first_free [OF quiet_no_faults, of bare_host "''pvc-a''"] f by simp
qed

text \<open>C22: reserving again is idempotent: on a host without I/O faults, after a successful reservation made with
  consistent reservations that are in time, as long as the device node exists, a second call returns the same device and changes nothing.\<close>

theorem reserveNBDDevice_idempotent:
  assumes "no_faults E" "reg_inv w" "timely w" "usable w v"
    and "run_state (reserveNBDDevice E v) w = (Inr d, w')" and "node w' d \<noteq> None"
  shows "result (reserveNBDDevice E v) w' = Inr d \<and>
    same_store w' (final (reserveNBDDevice E v) w')"
proof -
  have v: "valid_volume v" using assms(4) by (simp add: usable_def)
  have i: "reg_inv w'" and h: "vol_dev w' v = Some d"
    using reserve_step(1,3) [OF assms(1,4,2,3)] assms(5) by simp_all
  have dirs: "\<forall>p\<in>run_dirs. node w' p = Some FDir" by (rule reserve_keeps_dirs [OF assms(1,4,2,3,5)])
  have st: "node w' (volumeNBDStatePath v) \<notin> {Some FDir, Some FNode}"
    using h by (auto simp: vol_dev_def split: option.splits)
  have u: "usable w' v" using v dirs st by (simp add: usable_def)
  let ?w1 = "tick (with_dirs E w')"
  have same: "same_store w' ?w1"
  proof -
    have "mkdir_rel w' (with_dirs E w')" by (rule io_relD [OF rel_ensureRunDirs])
    then show ?thesis using dirs by (auto simp: mkdir_rel_def same_store_def fun_eq_iff)
  qed
  have "run_state (reserveNBDDevice E v) w' = (Inr d, final (ensure_reservation E v d) (tick ?w1))"
    using reserve_run [OF assms(1) u] h assms(6) same by (simp add: Let_def same_store_def)
  moreover have "same_store w' (tick ?w1)" using same by (simp add: same_store_def)
  moreover have "same_store (tick ?w1) (final (ensure_reservation E v d) (tick ?w1))"
    using ensure_reservation_inv [OF assms(1) _ v, of "tick ?w1" d] i h
      same_inv(1) [OF calculation(2)] same_views [OF calculation(2)] by simp
  ultimately show ?thesis using same.step_trans by auto
qed

theorem reserveNBDDevice_idempotent_witness:
  "result (reserveNBDDevice quiet_env ''pvc-b'') (final (reserveNBDDevice quiet_env ''pvc-b'') one_taken) =
     Inr ''/dev/nbd1''"
proof -
  let ?w = "final (reserveNBDDevice quiet_env ''pvc-b'') one_taken"
  have "result (reserveNBDDevice quiet_env ''pvc-b'') one_taken = Inr ''/dev/nbd1''"
    "node ?w ''/dev/nbd1'' \<noteq> None" by code_simp+
  then show ?thesis
    using reserveNBDDevice_idempotent [OF quiet_no_faults one_taken_ok, of "''/dev/nbd1''" ?w]
    by (simp add: prod_eq_iff)
qed

end
