(* ===== verification/Frames.thy ===== *)
theory Frames
  imports Nbd Metrics
begin

text \<open>
  Frame properties that hold of a whole handler because they hold of its steps: which events a
  computation may add to the trace (\<open>emits A\<close>), that it leaves the error counters alone
  (\<open>same_errors\<close>), and that it leaves files alone (\<open>keeps A\<close>, when the environment does). The locale
  \<open>quiet_relation\<close> collects once what every relation of the first two kinds has of the functions that
  make no external call.
\<close>

section \<open>Computations without external effect\<close>

definition quiet_step :: "'x world \<Rightarrow> 'x world \<Rightarrow> bool" where
  "quiet_step w w' \<longleftrightarrow> trace w' = trace w \<and> stage_errors w' = stage_errors w"

interpretation quiet: step_relation quiet_step
  by unfold_locales (auto simp: quiet_step_def)

named_theorems quiet_facts \<open>computations that neither call outside nor count an error\<close>

lemma quiet_os_step [quiet_facts]: "state_io_rel quiet_step (os_step E op p)"
  by (simp add: state_io_rel_def os_step_def quiet_step_def)

lemma quiet_put_del [simp]:
  "quiet_step w (put_node p n w)" "quiet_step w (del_node p w)"
  by (simp_all add: quiet_step_def put_node_def del_node_def)

lemma quiet_mkdirs: "quiet_step w (snd (mkdirs ds w))"
proof (induction ds w rule: mkdirs.induct)
  case (2 d ds w)
  then show ?case
    by (auto split: option.splits fnode.splits simp: quiet.step_refl
        intro: quiet.step_trans [OF quiet_put_del(1)])
qed (simp add: quiet.step_refl)

lemma quiet_State: "(\<And>w. quiet_step w (snd (f w))) \<Longrightarrow> state_io_rel quiet_step (State f)"
  by (simp add: state_io_rel_def)

lemmas quiet_prim = quiet.rel_intros quiet_os_step quiet_State

lemma quiet_os [quiet_facts]:
  "state_io_rel quiet_step (os_Stat E p)" "state_io_rel quiet_step (os_ReadFile E p)"
  "state_io_rel quiet_step (os_Remove E p)" "state_io_rel quiet_step (os_OpenExcl E p)"
  "state_io_rel quiet_step (f_WriteString E p s)" "state_io_rel quiet_step (os_MkdirAll E p)"
  "state_io_rel quiet_step (filepath_Glob E d pre)"
  unfolding os_Stat_def os_ReadFile_def os_Remove_def os_OpenExcl_def f_WriteString_def
    os_MkdirAll_def filepath_Glob_def
  by (intro quiet_prim; auto simp: quiet.step_refl quiet_mkdirs split: option.splits fnode.splits)+

lemma quiet_WriteFile [quiet_facts]: "state_io_rel quiet_step (os_WriteFile E p s)"
  unfolding os_WriteFile_def by (intro quiet_prim quiet_facts)

lemma quiet_metrics [quiet_facts]:
  "state_io_rel quiet_step (startStage op st)" "state_io_rel quiet_step (observe t)"
  by (simp_all add: state_io_rel_def startStage_def observe_def quiet_step_def)

lemma quiet_nbd [quiet_facts]:
  "state_io_rel quiet_step (ensureRunDirs E)" "state_io_rel quiet_step (listNBDDevices E)"
  "state_io_rel quiet_step (isNBDConnected E d)" "state_io_rel quiet_step (readVolumeNBDState E v)"
  "state_io_rel quiet_step (clearVolumeNBDState E v d)" "state_io_rel quiet_step (mustReadFile E p)"
  "state_io_rel quiet_step (ensure_reservation E v d)"
  unfolding ensureRunDirs_def listNBDDevices_def isNBDConnected_def readVolumeNBDState_def
    clearVolumeNBDState_def mustReadFile_def ensure_reservation_def Let_def
  by (intro quiet.rel_intros quiet_facts)+

lemma quiet_writeVolumeNBDState [quiet_facts]: "state_io_rel quiet_step (writeVolumeNBDState E v d)"
  unfolding writeVolumeNBDState_def by (intro quiet.rel_intros quiet_facts)

lemma quiet_gc [quiet_facts]: "state_io_rel quiet_step (gc_reservation E p)"
  unfolding gc_reservation_def Let_def by (intro quiet.rel_intros quiet_facts)

lemma rel_bool:
  assumes "state_io_rel R m" and "state_io_rel R n"
  shows "state_io_rel R (case b of True \<Rightarrow> m | False \<Rightarrow> n)"
  using assms by (cases b) auto

lemma quiet_scan [quiet_facts]: "state_io_rel quiet_step (reserve_scan E v ds)"
proof (induction ds)
  case (Cons d ds)
  show ?case
    unfolding reserve_scan.simps Let_def
    by (intro quiet.rel_intros quiet_facts rel_bool Cons.IH)
qed (simp add: quiet.rel_ret)

lemma quiet_reserve [quiet_facts]:
  "state_io_rel quiet_step (reserve_fresh E v)" "state_io_rel quiet_step (reserveNBDDevice E v)"
  unfolding reserveNBDDevice_def reserve_fresh_def
  by (intro quiet.rel_intros quiet_facts)+

lemma quiet_client_read [quiet_facts]: "state_io_rel quiet_step (client_read m)"
  "state_io_rel quiet_step (select_budget E d)" "state_io_rel quiet_step (next_tick E)"
  by (simp_all add: state_io_rel_def client_read_def select_budget_def next_tick_def external_def
      quiet_step_def split_beta)

section \<open>The relations\<close>

text \<open>A step relation that every quiet step satisfies.\<close>

locale quiet_relation = step_relation R for R :: "'x world \<Rightarrow> 'x world \<Rightarrow> bool" +
  assumes of_quiet: "quiet_step w w' \<Longrightarrow> R w w'"
begin

lemma rel_quiet: "state_io_rel quiet_step m \<Longrightarrow> state_io_rel R m"
  by (auto simp: state_io_rel_def intro: of_quiet)

lemmas rel_facts = rel_intros quiet_facts [THEN rel_quiet]

end

definition emits :: "(event \<Rightarrow> bool) \<Rightarrow> 'x world \<Rightarrow> 'x world \<Rightarrow> bool" where
  "emits A w w' \<longleftrightarrow> (\<exists>es. trace w' = trace w @ es \<and> list_all A es)"

interpretation em: quiet_relation "emits A" for A
  by unfold_locales (force simp: emits_def quiet_step_def)+

definition same_errors :: "'x world \<Rightarrow> 'x world \<Rightarrow> bool" where
  "same_errors w w' \<longleftrightarrow> stage_errors w' = stage_errors w"

interpretation se: quiet_relation same_errors
  by unfold_locales (auto simp: same_errors_def quiet_step_def)

lemma emits_mono: "emits A w w' \<Longrightarrow> (\<And>e. A e \<Longrightarrow> B e) \<Longrightarrow> emits B w w'"
  by (auto simp: emits_def list_all_iff)

lemma io_emits_mono:
  "state_io_rel (emits A) m \<Longrightarrow> (\<And>e. A e \<Longrightarrow> B e) \<Longrightarrow> state_io_rel (emits B) m"
  by (auto simp: state_io_rel_def dest: emits_mono)

section \<open>External calls\<close>

lemma emits_external: "(\<And>r. list_all A (ev r)) \<Longrightarrow> state_io_rel (emits A) (external ev m)"
  by (auto simp: state_io_rel_def external_def emits_def split_beta)

lemma emits_calls:
  "(\<And>out err. A (Exec c args out err)) \<Longrightarrow> state_io_rel (emits A) (exec_Command E c args)"
  "A (Slept d) \<Longrightarrow> state_io_rel (emits A) (time_Sleep E d)"
  "(\<And>err. A (CreatedSecret s err)) \<Longrightarrow> state_io_rel (emits A) (client_CreateSecret E s)"
  "(\<And>err. A (UpdatedSecret s err)) \<Longrightarrow> state_io_rel (emits A) (client_UpdateSecret E s)"
  "(\<And>err. A (DeletedSecret ns n err)) \<Longrightarrow> state_io_rel (emits A) (client_DeleteSecret E ns n)"
  "(\<And>err. A (CreatedPod p err)) \<Longrightarrow> state_io_rel (emits A) (client_CreatePod E p)"
  "(\<And>err. A (DeletedPod ns n opts err)) \<Longrightarrow> state_io_rel (emits A) (client_DeletePod E ns n opts)"
  "(\<And>err. A (DeletedObjects b ks err)) \<Longrightarrow> state_io_rel (emits A) (client_DeleteObjects E cf b ks)"
  unfolding exec_Command_def time_Sleep_def client_CreateSecret_def client_UpdateSecret_def
    client_DeleteSecret_def client_CreatePod_def client_DeletePod_def client_DeleteObjects_def
  by (intro emits_external; auto)+

lemma errors_external: "state_io_rel same_errors (external ev m)"
  by (auto simp: state_io_rel_def external_def same_errors_def split_beta)

lemma errors_exec: "state_io_rel same_errors (exec_Command E c args)"
  "state_io_rel same_errors (time_Sleep E d)" "state_io_rel same_errors (client_CreateSecret E s)"
  "state_io_rel same_errors (client_UpdateSecret E s)"
  "state_io_rel same_errors (client_DeleteSecret E ns n)"
  "state_io_rel same_errors (client_CreatePod E p)"
  "state_io_rel same_errors (client_DeletePod E ns n opts)"
  unfolding exec_Command_def time_Sleep_def client_CreateSecret_def client_UpdateSecret_def
    client_DeleteSecret_def client_CreatePod_def client_DeletePod_def
  by (rule errors_external)+

lemma emits_recordStageError: "state_io_rel (emits A) (recordStageError op st)"
  by (simp add: state_io_rel_def recordStageError_def emits_def)

text \<open>What a command leaves in the trace.\<close>

lemma run_exec:
  "trace (final (exec_Command E c args) w) =
     trace w @ [Exec c args (fst (result (exec_Command E c args) w)) (snd (result (exec_Command E c args) w))]"
  by (simp add: exec_Command_def external_def split_beta)

end
