(* ===== verification/Nbd_Machine.thy ===== *)
theory Nbd_Machine
  imports Nbd_Protocol Frames Evaluation
begin

text \<open>
  The reservations of a node as a state machine. Its events are whole calls of \<open>reserveNBDDevice\<close> and of
  \<open>clearVolumeNBDState\<close> by any number of handlers in any order, and activity of the host that leaves the
  run directory alone. The step relation has no guards beyond that; what a call relies on (a valid
  volume ID, reservations in time, a device that is the volume's own) is a condition on the history of
  a run, which the properties state. With these conditions the invariant \<open>reg_inv\<close> holds in every state.

  An event is atomic, as \<open>nodeService.nbdMu\<close> makes the calls, with one exception: the deferred cleanup of
  a publish calls \<open>clearVolumeNBDState\<close> without the mutex (\<^verbatim>\<open>Nbd_Faults\<close> shows what this costs).
\<close>

section \<open>What the host leaves alone\<close>

definition run_files :: "string set" where
  "run_files = {p. HasPrefix p (ZeroFSRunDir @ ''/'')}"

lemma run_files_paths:
  "valid_volume v \<Longrightarrow> volumeNBDStatePath v \<in> run_files"
  "nbdDevicePathRe d \<Longrightarrow> deviceReservationPath d \<in> run_files"
proof -
  show "valid_volume v \<Longrightarrow> volumeNBDStatePath v \<in> run_files"
    by (simp add: run_files_def valid_volume_def volume_path HasPrefix_iff)
  show "nbdDevicePathRe d \<Longrightarrow> deviceReservationPath d \<in> run_files"
    by (erule reservation_cases) (simp add: run_files_def nbdByDeviceDir_def HasPrefix_iff)
qed

lemma keeps_views:
  assumes "keeps run_files w w'"
  shows "valid_volume v \<Longrightarrow> vol_dev w' v = vol_dev w v"
    and "nbdDevicePathRe d \<Longrightarrow> dev_owner w' d = dev_owner w d"
  using assms run_files_paths by (simp_all add: keeps_def vol_dev_def dev_owner_def)

lemma keeps_inv_imp: "keeps run_files w w' \<Longrightarrow> reg_inv w \<Longrightarrow> reg_inv w'"
  unfolding reg_inv_def by (auto simp: keeps_views)

lemma keeps_inv: "keeps run_files w w' \<Longrightarrow> reg_inv w' \<longleftrightarrow> reg_inv w"
  using keeps_inv_imp [of w w'] keeps_inv_imp [of w' w] by (auto simp: keeps_def)

section \<open>The machine\<close>

datatype reg_event = Reserve string | Release string string | Host

inductive reg_step :: "'x env \<Rightarrow> 'x world \<Rightarrow> reg_event \<Rightarrow> 'x world \<Rightarrow> bool" for E where
  reserve: "reg_step E w (Reserve v) (final (reserveNBDDevice E v) w)"
| release: "reg_step E w (Release v d) (final (clearVolumeNBDState E v d) w)"
| host: "keeps run_files w w' \<Longrightarrow> reg_step E w Host w'"

inductive_cases reg_stepE: "reg_step E w e w'"

text \<open>A run with its history: every event with the state it happened in.\<close>

inductive reg_run :: "'x env \<Rightarrow> 'x world \<Rightarrow> ('x world \<times> reg_event) list \<Rightarrow> 'x world \<Rightarrow> bool" for E where
  start: "reg_run E w [] w"
| step: "reg_run E w h w' \<Longrightarrow> reg_step E w' e w'' \<Longrightarrow> reg_run E w (h @ [(w', e)]) w''"

lemma reg_run_append:
  assumes "reg_run E w h w'" "reg_run E w' h' w''"
  shows "reg_run E w (h @ h') w''"
  using assms(2,1)
proof (induction rule: reg_run.induct)
  case (step w' h' w1 e w2)
  then show ?case using reg_run.step [of E w "h @ h'" w1 e w2] by simp
qed simp

text \<open>A string that may be given as the device when a volume is cleared, without harm for others: no other
  volume's reservation is the file it stands for.\<close>

definition releasable :: "'x world \<Rightarrow> string \<Rightarrow> string \<Rightarrow> bool" where
  "releasable w v d \<longleftrightarrow> d = [] \<or> (\<forall>u e. valid_volume u \<longrightarrow> u \<noteq> v \<longrightarrow> vol_dev w u = Some e \<longrightarrow>
     deviceReservationPath e \<noteq> deviceReservationPath d)"

text \<open>What an event relies on.\<close>

definition event_ok :: "'x world \<Rightarrow> reg_event \<Rightarrow> bool" where
  "event_ok w e = (case e of
      Reserve v \<Rightarrow> valid_volume v \<and> timely w
    | Release v d \<Rightarrow> valid_volume v \<and> (vol_dev w v = Some d \<or> releasable w v d)
    | Host \<Rightarrow> True)"

lemma reg_step_inv:
  assumes "reg_step E w e w'" "no_faults E" "event_ok w e" "reg_inv w"
  shows "reg_inv w'"
  using assms(1)
proof (cases rule: reg_step.cases)
  case (reserve v)
  then show ?thesis using assms(2-4) reserve_any_inv [of E v w] by (simp add: event_ok_def)
next
  case (release v d)
  then show ?thesis
    using assms(2-4) nbd.release_inv [of E w v d] clear_inv [of E w v d]
    by (auto simp: event_ok_def releasable_def dest: sym)
next
  case host
  then show ?thesis using assms(4) by (simp add: keeps_inv)
qed

lemma reg_run_inv:
  "reg_run E w h w' \<Longrightarrow> no_faults E \<Longrightarrow> \<forall>(w1, e)\<in>set h. event_ok w1 e \<Longrightarrow> reg_inv w \<Longrightarrow> reg_inv w'"
  by (induction rule: reg_run.induct) (auto intro: reg_step_inv)

lemma empty_registry_inv: "(\<And>v. valid_volume v \<Longrightarrow> vol_dev w v = None) \<Longrightarrow> reg_inv w"
  by (simp add: reg_inv_def)

lemma run_exclusive:
  assumes "no_faults E" "\<forall>v. valid_volume v \<longrightarrow> vol_dev w0 v = None" "reg_run E w0 h w"
    and "\<forall>(w1, e)\<in>set h. event_ok w1 e" "valid_volume u" "vol_dev w u = Some d"
  shows "dev_owner w d = Some u \<and> (\<forall>v. valid_volume v \<and> v \<noteq> u \<longrightarrow> vol_dev w v \<noteq> Some d)"
proof -
  have "reg_inv w0" using assms(2) by (blast intro: empty_registry_inv)
  then have "reg_inv w" by (rule reg_run_inv [OF assms(3,1,4)])
  then show ?thesis using assms(5,6) reg_inv_exclusive [of w u _ d] unfolding reg_inv_def by blast
qed

section \<open>Properties\<close>

text \<open>C1: take a node on which no volume has a device, a host without I/O faults, and any interleaving of
  reservations, releases (each atomic) and host activity outside the run directory. If every
  reservation is for a valid volume ID at a time when no reservation of a disconnected device is older
  than two hours, and every release names the volume's recorded device or at least no device of
  another volume, then no two volumes ever hold the same device, and every held device's reservation
  names its holder.\<close>

theorem registry_never_shares:
  assumes "no_faults E" "\<forall>v. valid_volume v \<longrightarrow> vol_dev w0 v = None" "reg_run E w0 h w"
    and "\<forall>w1 v. (w1, Reserve v) \<in> set h \<longrightarrow> valid_volume v \<and> timely w1"
    and "\<forall>w1 v e. (w1, Release v e) \<in> set h \<longrightarrow> valid_volume v \<and> (vol_dev w1 v = Some e \<or> releasable w1 v e)"
    and "valid_volume u" "vol_dev w u = Some d"
  shows "dev_owner w d = Some u \<and> (\<forall>v. valid_volume v \<and> v \<noteq> u \<longrightarrow> vol_dev w v \<noteq> Some d)"
proof (rule run_exclusive [OF assms(1-3) _ assms(6,7)])
  show "\<forall>(w1, e)\<in>set h. event_ok w1 e"
    using assms(4,5) by (force simp: event_ok_def split: reg_event.splits)
qed

lemma no_run_files:
  assumes "\<And>p. p \<in> run_files \<Longrightarrow> node w p = None"
  shows "reg_inv w" "timely w" "valid_volume v \<Longrightarrow> vol_dev w v = None"
proof -
  have vd: "vol_dev w v = None" if "valid_volume v" for v
    using assms [OF run_files_paths(1) [OF that]] by (simp add: vol_dev_def)
  show "reg_inv w" by (rule empty_registry_inv [OF vd])
  show "timely w" using assms run_files_paths(2) by (fastforce simp: timely_def)
  show "valid_volume v \<Longrightarrow> vol_dev w v = None" by (rule vd)
qed

lemma bare_host_ok: "reg_inv bare_host" "timely bare_host" "valid_volume v \<Longrightarrow> vol_dev bare_host v = None"
  "usable bare_host ''pvc-a''"
proof -
  have n: "node bare_host p = None" if "p \<in> run_files" for p
    using that by (auto simp: run_files_def HasPrefix_iff bare_host_def mk_world_def node_def ZeroFSRunDir_def)
  show "reg_inv bare_host" "timely bare_host" "valid_volume v \<Longrightarrow> vol_dev bare_host v = None"
    using no_run_files [OF n] by blast+
  show "usable bare_host ''pvc-a''" unfolding usable_def run_dirs_def by code_simp
qed

theorem registry_never_shares_witness:
  "dev_owner (final (reserveNBDDevice quiet_env ''pvc-a'') bare_host) ''/dev/nbd1'' = Some ''pvc-a''"
proof -
  let ?w = "final (reserveNBDDevice quiet_env ''pvc-a'') bare_host"
  have r: "reg_run quiet_env bare_host [(bare_host, Reserve ''pvc-a'')] ?w"
    using reg_run.step [OF reg_run.start reg_step.reserve] by simp
  have "valid_volume ''pvc-a''" "vol_dev ?w ''pvc-a'' = Some ''/dev/nbd1''" by code_simp+
  then show ?thesis
    using registry_never_shares [OF quiet_no_faults _ r] bare_host_ok(2,3) by simp
qed

text \<open>Reserving a device and releasing it again is a round trip: the volume has no device, every
  other volume has what it had, and the reservations stay consistent.\<close>

lemma reserve_release_roundtrip:
  assumes "no_faults E" "reg_inv w" "timely w" "usable w v" "result (reserveNBDDevice E v) w = Inr d"
  shows "let w' = final (clearVolumeNBDState E v d) (final (reserveNBDDevice E v) w) in
    reg_inv w' \<and> vol_dev w' v = None \<and> (\<forall>u. valid_volume u \<longrightarrow> u \<noteq> v \<longrightarrow> vol_dev w' u = vol_dev w u)"
  using nbd.reserve_then_release [of E w v d] assms by (simp add: Let_def)

end
