(* ===== verification/Nbd_Commands.thy ===== *)
theory Nbd_Commands
  imports Nbd_Machine
begin

text \<open>
  The functions of \<^verbatim>\<open>nbd.go\<close> that run commands: what they put into the trace, what they leave of the
  store, and the paths of the state files.
\<close>

section \<open>Frames\<close>

abbreviation is_exec_of :: "string set \<Rightarrow> event \<Rightarrow> bool" where
  "is_exec_of cs e \<equiv> (case e of Exec c _ _ _ \<Rightarrow> c \<in> cs | Slept _ \<Rightarrow> True | _ \<Rightarrow> False)"

lemma emits_findMountSource:
  assumes "\<And>out err. A (Exec ''findmnt'' [''-n'', ''-o'', ''SOURCE'', ''--target'', t] out err)"
  shows "state_io_rel (emits A) (findMountSource E t)"
  unfolding findMountSource_def Let_def by (intro em.rel_facts emits_calls assms)

lemma emits_unmountBestEffort:
  assumes "\<And>out err. A (Exec ''findmnt'' [''-n'', ''-o'', ''SOURCE'', ''--target'', t] out err)"
    and "\<And>out err. A (Exec ''umount'' [t] out err)"
  shows "state_io_rel (emits A) (unmountBestEffort E t)"
  unfolding unmountBestEffort_def by (intro em.rel_facts emits_findMountSource emits_calls assms)

lemma emits_detach_attempts:
  assumes "\<And>out err. A (Exec ''nbd-client'' [''-d'', d] out err)" and "A (Slept 500000000)"
  shows "state_io_rel (emits A) (detach_attempts E n d)"
  by (induction n) (auto intro!: em.rel_facts emits_calls assms)

lemma emits_detach:
  assumes "\<And>out err. A (Exec ''nbd-client'' [''-d'', TrimSpace d] out err)" and "A (Slept 500000000)"
  shows "state_io_rel (emits A) (detachNBDDeviceBestEffort E d)"
  unfolding detachNBDDeviceBestEffort_def Let_def by (intro em.rel_facts emits_detach_attempts assms)

lemma errors_nbd:
  "state_io_rel same_errors (findMountSource E t)" "state_io_rel same_errors (unmountBestEffort E t)"
  "state_io_rel same_errors (detachNBDDeviceBestEffort E d)"
proof -
  show f: "state_io_rel same_errors (findMountSource E t)"
    unfolding findMountSource_def Let_def by (intro se.rel_facts errors_exec)
  show "state_io_rel same_errors (unmountBestEffort E t)"
    unfolding unmountBestEffort_def by (intro se.rel_facts errors_exec f)
  have "state_io_rel same_errors (detach_attempts E n e)" for n e
    by (induction n) (auto intro!: se.rel_facts errors_exec)
  then show "state_io_rel same_errors (detachNBDDeviceBestEffort E d)"
    unfolding detachNBDDeviceBestEffort_def Let_def by (intro se.rel_facts)
qed

section \<open>The store under external calls\<close>

text \<open>The hypothesis that the outside, that is commands, the API server, the passage of time and whatever
  runs meanwhile, leaves the files of \<open>A\<close> alone. With \<open>A = run_files\<close> only this handler writes to the run
  directory; with \<open>A\<close> the state file of one volume, handlers of other volumes may run concurrently.\<close>

definition outside_keeps :: "string set \<Rightarrow> 'x env \<Rightarrow> bool" where
  "outside_keeps A E \<longleftrightarrow>
     (\<forall>c a. state_io_rel (keeps A) (run_cmd E c a)) \<and>
     (\<forall>d. state_io_rel (keeps A) (pass_time E d)) \<and>
     (\<forall>d. state_io_rel (keeps A) (tick_count E d)) \<and>
     (\<forall>n x. state_io_rel (keeps A) (get_ConfigMap E n x)) \<and>
     (\<forall>n x. state_io_rel (keeps A) (get_Secret E n x)) \<and>
     (\<forall>s. state_io_rel (keeps A) (create_Secret E s)) \<and>
     (\<forall>s. state_io_rel (keeps A) (update_Secret E s)) \<and>
     (\<forall>n x. state_io_rel (keeps A) (delete_Secret E n x)) \<and>
     (\<forall>n x. state_io_rel (keeps A) (get_Pod E n x)) \<and>
     (\<forall>p. state_io_rel (keeps A) (create_Pod E p)) \<and>
     (\<forall>n x opts. state_io_rel (keeps A) (delete_Pod E n x opts)) \<and>
     (\<forall>n x. state_io_rel (keeps A) (get_DaemonSet E n x))"

lemma keeps_mono: "A \<subseteq> B \<Longrightarrow> keeps B w w' \<Longrightarrow> keeps A w w'"
  by (auto simp: keeps_def)

lemma io_keeps_mono: "A \<subseteq> B \<Longrightarrow> state_io_rel (keeps B) m \<Longrightarrow> state_io_rel (keeps A) m"
  by (auto simp: state_io_rel_def intro: keeps_mono)

lemma outside_keeps_mono:
  assumes "A \<subseteq> B" "outside_keeps B E"
  shows "outside_keeps A E"
  using assms(2) unfolding outside_keeps_def
  by (intro conjI allI io_keeps_mono [OF assms(1)]) simp_all

lemma node_files_eq: "files w = files w' \<Longrightarrow> node w = node w'"
  by (simp add: node_def fun_eq_iff)

lemma keeps_external:
  assumes "state_io_rel (keeps A) m"
  shows "state_io_rel (keeps A) (external ev m)"
proof -
  have "keeps A w (snd (run_state (external ev m) w))" for w
    using io_relD [OF assms, of w] by (simp add: external_def keeps_def split_beta node_def)
  then show ?thesis by (simp add: state_io_rel_def)
qed

lemma keeps_calls:
  assumes "outside_keeps A E"
  shows "state_io_rel (keeps A) (exec_Command E c args)"
    "state_io_rel (keeps A) (time_Sleep E d)"
    "state_io_rel (keeps A) (select_budget E d)" "state_io_rel (keeps A) (next_tick E)"
    "state_io_rel (keeps A) (client_read (get_ConfigMap E n x))"
    "state_io_rel (keeps A) (client_read (get_Secret E n x))"
    "state_io_rel (keeps A) (client_read (get_Pod E n x))"
    "state_io_rel (keeps A) (client_read (get_DaemonSet E n x))"
    "state_io_rel (keeps A) (client_CreateSecret E s)"
    "state_io_rel (keeps A) (client_UpdateSecret E s)"
    "state_io_rel (keeps A) (client_DeleteSecret E n x)"
    "state_io_rel (keeps A) (client_CreatePod E p)"
    "state_io_rel (keeps A) (client_DeletePod E n x opts)"
  using assms
  unfolding exec_Command_def time_Sleep_def select_budget_def next_tick_def client_read_def
    client_CreateSecret_def client_UpdateSecret_def client_DeleteSecret_def client_CreatePod_def
    client_DeletePod_def outside_keeps_def
  by (auto intro!: keeps_external)

lemma keeps_metrics [guar]:
  "state_io_rel (keeps A) (startStage op st)" "state_io_rel (keeps A) (observe t)"
  "state_io_rel (keeps A) (recordStageError op st)"
  by (simp_all add: state_io_rel_def startStage_def observe_def recordStageError_def keeps_def)

lemma keeps_nbd_reads [guar]:
  "state_io_rel (keeps A) (listNBDDevices E)" "state_io_rel (keeps A) (isNBDConnected E d)"
  "state_io_rel (keeps A) (readVolumeNBDState E v)"
  unfolding listNBDDevices_def isNBDConnected_def readVolumeNBDState_def Let_def
  by (intro keep.rel_intros guar)+

lemma keeps_nbd_commands:
  assumes "outside_keeps A E"
  shows "state_io_rel (keeps A) (findMountSource E t)"
    "state_io_rel (keeps A) (unmountBestEffort E t)"
    "state_io_rel (keeps A) (detachNBDDeviceBestEffort E d)"
proof -
  show f: "state_io_rel (keeps A) (findMountSource E t)"
    unfolding findMountSource_def Let_def by (intro keep.rel_intros keeps_calls assms)
  show "state_io_rel (keeps A) (unmountBestEffort E t)"
    unfolding unmountBestEffort_def by (intro keep.rel_intros keeps_calls f assms)
  have "state_io_rel (keeps A) (detach_attempts E n e)" for n e
    by (induction n) (auto intro!: keep.rel_intros keeps_calls assms)
  then show "state_io_rel (keeps A) (detachNBDDeviceBestEffort E d)"
    unfolding detachNBDDeviceBestEffort_def Let_def by (intro keep.rel_intros)
qed

section \<open>Properties\<close>

text \<open>For the volume IDs of Kubernetes' provisioner the state files are all different, lie directly in
  the run directory, and are never a reservation file; reservation files of different devices differ.\<close>

lemma state_paths_disjoint:
  assumes "valid_volume v" "valid_volume u" "nbdDevicePathRe d" "nbdDevicePathRe e"
  shows "(volumeNBDStatePath v = volumeNBDStatePath u \<longleftrightarrow> v = u) \<and>
    (deviceReservationPath d = deviceReservationPath e \<longleftrightarrow> d = e) \<and>
    volumeNBDStatePath v \<noteq> deviceReservationPath d \<and>
    parent_dir (volumeNBDStatePath v) = ZeroFSRunDir \<and> parent_dir (deviceReservationPath d) = nbdByDeviceDir"
  using assms volume_path_inj [of v u] reservation_path_inj [of d e]
    reservation_never_volume [of v d] parent_dirs(1) [of v] parent_dirs(2) [of d]
  by (auto simp: valid_volume_def)

text \<open>A volume ID is not checked before it becomes a path: one with a slash can name the
  reservation file of a device, and one with \<open>..\<close> any file of the host, which the driver would
  overwrite or remove.\<close>

lemma unchecked_volume_id_paths:
  "volumeNBDStatePath ''by-device/nbd0'' = deviceReservationPath ''/dev/nbd0'' \<and>
   volumeNBDStatePath ''../../etc/passwd'' = ''/etc/passwd''"
  by code_simp

text \<open>The events of a detach: the failed attempts, each followed by a sleep, then perhaps a success.\<close>

definition detach_log :: "string \<Rightarrow> (string \<times> string) list \<Rightarrow> string option \<Rightarrow> event list" where
  "detach_log d fails ok = concat (map (\<lambda>(out, e).
      [Exec ''nbd-client'' [''-d'', d] out (Some e), Slept 500000000]) fails) @
    (case ok of None \<Rightarrow> [] | Some out \<Rightarrow> [Exec ''nbd-client'' [''-d'', d] out None])"

lemma detach_attempts_log:
  "\<exists>fails ok. trace (final (detach_attempts E n d) w) = trace w @ detach_log d fails ok \<and>
     (ok = None \<longrightarrow> length fails = n) \<and> (ok \<noteq> None \<longrightarrow> length fails < n)"
proof (induction n arbitrary: w)
  case 0
  then show ?case by (intro exI [of _ "[]"] exI [of _ None]) (simp add: detach_log_def)
next
  case (Suc n)
  obtain out err w1 where x: "run_state (exec_Command E ''nbd-client'' [''-d'', d]) w = ((out, err), w1)"
    by (metis surj_pair)
  have t: "trace w1 = trace w @ [Exec ''nbd-client'' [''-d'', d] out err]"
    using run_exec [of E "''nbd-client''" "[''-d'', d]" w] x by simp
  show ?case
  proof (cases err)
    case None
    then show ?thesis using x t
      by (intro exI [of _ "[]"] exI [of _ "Some out"]) (simp add: detach_log_def)
  next
    case (Some e)
    let ?w2 = "final (time_Sleep E 500000000) w1"
    have t2: "trace ?w2 = trace w1 @ [Slept 500000000]"
      by (simp add: time_Sleep_def external_def split_beta)
    obtain fails ok where ih: "trace (final (detach_attempts E n d) ?w2) = trace ?w2 @ detach_log d fails ok"
      "ok = None \<longrightarrow> length fails = n" "ok \<noteq> None \<longrightarrow> length fails < n"
      using Suc.IH by blast
    have "final (detach_attempts E (Suc n) d) w = final (detach_attempts E n d) ?w2"
      using x Some by (simp add: split_beta)
    then show ?thesis using ih t t2 Some
      by (intro exI [of _ "(out, e) # fails"] exI [of _ ok]) (simp add: detach_log_def)
  qed
qed

lemma detach_first:
  assumes "TrimSpace d = d" "d \<noteq> []"
  shows "\<exists>out err es. trace (final (detachNBDDeviceBestEffort E d) w) = trace w @ Exec ''nbd-client'' [''-d'', d] out err # es"
proof -
  obtain fails ok where t: "trace (final (detachNBDDeviceBestEffort E d) w) = trace w @ detach_log d fails ok"
    "ok = None \<longrightarrow> length fails = 5"
    using detach_attempts_log [of E 5 d w] assms by (auto simp: detachNBDDeviceBestEffort_def Let_def)
  show ?thesis using t by (cases fails; cases ok) (auto simp: detach_log_def split_beta)
qed

text \<open>C31: detaching a device runs \<open>nbd-client -d\<close> at most five times, sleeps half a second after each
  failure, stops at the first success, and does nothing else.\<close>

theorem detach_at_most_five:
  assumes "TrimSpace d \<noteq> []"
  shows "\<exists>fails ok. trace (final (detachNBDDeviceBestEffort E d) w) = trace w @ detach_log (TrimSpace d) fails ok \<and>
    length fails \<le> 5 \<and> (ok = None \<longleftrightarrow> length fails = 5)"
  using detach_attempts_log [of E 5 "TrimSpace d" w] assms
  by (force simp: detachNBDDeviceBestEffort_def Let_def)

theorem detach_at_most_five_witness:
  "\<exists>fails ok. trace (final (detachNBDDeviceBestEffort quiet_env ''/dev/nbd3'') bare_host) =
     trace bare_host @ detach_log ''/dev/nbd3'' fails ok \<and> length fails \<le> 5 \<and> (ok = None \<longleftrightarrow> length fails = 5)"
proof -
  have "TrimSpace ''/dev/nbd3'' = ''/dev/nbd3''" by code_simp
  then show ?thesis using detach_at_most_five [of "''/dev/nbd3''" quiet_env bare_host] by simp
qed

end
