(* ===== verification/Zerofs_Properties.thy ===== *)
theory Zerofs_Properties
  imports Simulated_Host Nbd_Commands
begin

text \<open>
  What the mounter of \<^verbatim>\<open>zerofs.go\<close> guarantees: the pod and the secret of a volume, the configuration
  file, the time-outs and the waiting loops.
\<close>

section \<open>Frames\<close>

text \<open>Objects of one volume only.\<close>

fun pod_event :: "string \<Rightarrow> string \<Rightarrow> event \<Rightarrow> bool" where
  "pod_event ns v (CreatedSecret s err) \<longleftrightarrow> sec_Namespace s = ns \<and> sec_Name s = secretName v"
| "pod_event ns v (UpdatedSecret s err) \<longleftrightarrow> sec_Namespace s = ns \<and> sec_Name s = secretName v"
| "pod_event ns v (DeletedSecret n x err) \<longleftrightarrow> n = ns \<and> x = secretName v"
| "pod_event ns v (CreatedPod p err) \<longleftrightarrow> pod_Namespace p = ns \<and> pod_Name p = podName v"
| "pod_event ns v (DeletedPod n x opts err) \<longleftrightarrow> n = ns \<and> x = podName v"
| "pod_event ns v e \<longleftrightarrow> False"

lemma quiet_wait [quiet_facts]:
  "state_io_rel quiet_step (waitForPodDeletion E pod ns d)" "state_io_rel quiet_step (waitForPodReady E pod ns d)"
  "state_io_rel quiet_step (zerofs_credentials E m cfg)" "state_io_rel quiet_step (getDaemonSetUID E m)"
proof -
  have "state_io_rel quiet_step (deletion_loop E ns pod n)" for n
    by (induction n) (auto intro!: quiet.rel_intros quiet_facts)
  then show "state_io_rel quiet_step (waitForPodDeletion E pod ns d)"
    unfolding waitForPodDeletion_def by (intro quiet.rel_intros quiet_facts)
  have "state_io_rel quiet_step (ready_loop E ns pod n)" for n
    by (induction n) (auto intro!: quiet.rel_intros quiet_facts)
  then show "state_io_rel quiet_step (waitForPodReady E pod ns d)"
    unfolding waitForPodReady_def by (intro quiet.rel_intros quiet_facts)
  show "state_io_rel quiet_step (zerofs_credentials E m cfg)" "state_io_rel quiet_step (getDaemonSetUID E m)"
    unfolding zerofs_credentials_def getDaemonSetUID_def Let_def by (intro quiet.rel_intros quiet_facts)+
qed

lemma errors_mounter:
  "state_io_rel same_errors (CreatePod E m v n c)" "state_io_rel same_errors (RemovePod E m v)"
proof -
  note rules = se.rel_intros quiet_wait [THEN se.rel_quiet] quiet_client_read [THEN se.rel_quiet] errors_exec
  show "state_io_rel same_errors (RemovePod E m v)"
    unfolding RemovePod_def remove_secret_def force_delete_def by (intro rules)
  show "state_io_rel same_errors (CreatePod E m v n c)"
    unfolding CreatePod_def apply_secret_def apply_pod_def create_and_wait_def finish_ready_def Let_def
    by (intro rules)
qed

lemma keeps_mounter:
  assumes "outside_keeps A E"
  shows "state_io_rel (keeps A) (CreatePod E m v n c)" "state_io_rel (keeps A) (RemovePod E m v)"
    "state_io_rel (keeps A) (waitForPodDeletion E pod ns d)"
proof -
  note rules = keep.rel_intros keeps_calls [OF assms]
  have "state_io_rel (keeps A) (deletion_loop E ns pod n)" for ns pod n
    by (induction n) (auto intro!: rules)
  then show del: "state_io_rel (keeps A) (waitForPodDeletion E pod ns d)" for pod ns d
    unfolding waitForPodDeletion_def by (intro rules)
  have "state_io_rel (keeps A) (ready_loop E ns pod n)" for ns pod n
    by (induction n) (auto intro!: rules)
  then have rdy: "state_io_rel (keeps A) (waitForPodReady E pod ns d)" for pod ns d
    unfolding waitForPodReady_def by (intro rules)
  show "state_io_rel (keeps A) (RemovePod E m v)"
    unfolding RemovePod_def remove_secret_def force_delete_def by (intro rules del)
  show "state_io_rel (keeps A) (CreatePod E m v n c)"
    unfolding CreatePod_def apply_secret_def apply_pod_def create_and_wait_def finish_ready_def
      zerofs_credentials_def getDaemonSetUID_def Let_def
    by (intro rules del rdy)
qed

text \<open>An API server returns the object it was asked for.\<close>

definition pods_named :: "'x env \<Rightarrow> bool" where
  "pods_named E \<longleftrightarrow> (\<forall>ns n w p. result (get_Pod E ns n) w = Inr p \<longrightarrow> pod_Namespace p = ns \<and> pod_Name p = n)"

lemma run_client_read: "result (client_read m) w = result m w"
  by (simp add: client_read_def external_def split_beta)

lemma rel_read_bind:
  assumes "state_io_rel R (client_read m)" "\<And>s t u. R s t \<Longrightarrow> R t u \<Longrightarrow> R s u"
    and "\<And>x w. result m w = x \<Longrightarrow> state_io_rel R (f x)"
  shows "state_io_rel R (client_read m \<bind> f)"
proof -
  have "R w (final (client_read m \<bind> f) w)" for w
  proof -
    have "R w (final (client_read m) w)" by (rule io_relD [OF assms(1)])
    moreover have "R (final (client_read m) w)
        (final (f (result (client_read m) w)) (final (client_read m) w))"
      by (rule io_relD [OF assms(3) [OF run_client_read [symmetric]]])
    ultimately show ?thesis by (simp add: split_beta assms(2))
  qed
  then show ?thesis by (simp add: state_io_rel_def)
qed

lemma emits_RemovePod:
  assumes "pods_named E"
  shows "state_io_rel (emits (pod_event (m_namespace m) v)) (RemovePod E m v)"
  unfolding RemovePod_def
proof (rule rel_read_bind)
  fix x w assume x: "result (get_Pod E (m_namespace m) (podName v)) w = x"
  note rules = em.rel_intros quiet_wait [THEN em.rel_quiet] quiet_client_read [THEN em.rel_quiet] emits_calls
  show "state_io_rel (emits (pod_event (m_namespace m) v)) (case x of
      Inl err \<Rightarrow> do { remove_secret E m v; ret None }
    | Inr pod \<Rightarrow> do {
        d \<leftarrow> client_DeletePod E (pod_Namespace pod) (pod_Name pod) None;
        case d of
          Some err \<Rightarrow>
            if Contains err ''not found'' then do { remove_secret E m v; ret None }
            else ret (Some (''failed to delete pod: '' @ err))
        | None \<Rightarrow> do {
            wt \<leftarrow> waitForPodDeletion E (podName v) (m_namespace m) (45 * second);
            case wt of
              Some err \<Rightarrow> do { force_delete E m (podName v); remove_secret E m v; ret None }
            | None \<Rightarrow> do { remove_secret E m v; ret None } } })"
    unfolding remove_secret_def force_delete_def
    using x assms by (intro rules) (auto simp: pods_named_def)
qed (rule quiet_client_read [THEN em.rel_quiet], rule em.step_trans)


section \<open>The configuration file\<close>

text \<open>The configuration file has a value for every placeholder of its template, whatever the
  ConfigMap holds: no \<open><no value>\<close> is ever rendered, and missing settings get their defaults.\<close>

lemma config_template_complete:
  "\<forall>k. Field k \<in> set templateContent \<longrightarrow> (\<exists>x. configValues cfg volumeID cr k = Some x)"
  by (auto simp: templateContent_def section_line_def quoted_line_def plain_line_def socket_line_def
      configValues_def)

section \<open>Time-outs\<close>

lemma seconds_exact:
  assumes "0 \<le> n" "n \<le> 9223372036"
  shows "seconds n = n * second"
proof -
  have "seconds n = sint (word_of_int (n * second) :: 64 word)"
    by (simp only: seconds_def wi_hom_mult)
  also have "\<dots> = signed_take_bit 63 (n * second)"
    by (simp only: sint_sbintrunc') simp
  also have "\<dots> = n * second"
    using assms by (intro signed_take_bit_int_eq_self) (auto simp: second_def)
  finally show ?thesis .
qed

text \<open>C33: \<open>podReadyTimeout\<close> reads the seconds as printed, up to the largest number that fits a
  \<open>time.Duration\<close>, and falls back to 120 seconds for a blank value, a value that is no number and a
  number that is not positive; the result is then always positive.\<close>

theorem podReadyTimeout_correct:
  assumes "TrimSpace (mget cfg ''podReadyTimeoutSeconds'') = raw"
  shows "(\<forall>n. raw = show_int n \<and> 0 < n \<and> n \<le> 9223372036 \<longrightarrow> podReadyTimeout cfg = n * second) \<and>
    (raw = [] \<or> snd (Atoi raw) \<noteq> None \<or> fst (Atoi raw) \<le> 0 \<longrightarrow> podReadyTimeout cfg = 120 * second)"
proof -
  have d: "seconds 120 = 120 * second" by (rule seconds_exact) auto
  have "podReadyTimeout cfg = n * second" if n: "raw = show_int n" "0 < n" "n \<le> 9223372036" for n
  proof -
    have a: "Atoi raw = (n, None)" unfolding n(1) using n(2,3) by (intro Atoi_show_int) (auto simp: int64_max_def)
    then have "raw \<noteq> []" by (auto simp: Atoi_def strip_sign_def)
    then show ?thesis using a n(2,3) assms seconds_exact [of n] by (simp add: podReadyTimeout_def)
  qed
  then show ?thesis using assms d by (auto simp: podReadyTimeout_def Let_def split_beta)
qed

theorem podReadyTimeout_correct_witness:
  "podReadyTimeout [''podReadyTimeoutSeconds'' \<mapsto> '' 300 ''] = 300 * second"
proof -
  have "TrimSpace (mget [''podReadyTimeoutSeconds'' \<mapsto> '' 300 ''] ''podReadyTimeoutSeconds'') = show_int 300"
    by code_simp
  then show ?thesis using podReadyTimeout_correct [of "[''podReadyTimeoutSeconds'' \<mapsto> '' 300 '']" "show_int 300"]
    by simp
qed

text \<open>A larger number of seconds is accepted by the check and wraps: the time-out is then negative,
  and the wait for the pod ends at once.\<close>

lemma podReadyTimeout_overflow:
  "podReadyTimeout [''podReadyTimeoutSeconds'' \<mapsto> ''9223372037''] < 0"
  by code_simp

section \<open>The waiting loops\<close>

lemma ready_loop_sound:
  "result (ready_loop E ns pod n) w = None \<Longrightarrow>
     \<exists>w1 p. result (get_Pod E ns pod) w1 = Inr p \<and> pod_ready p \<and>
       final (ready_loop E ns pod n) w = final (client_read (get_Pod E ns pod)) w1"
proof (induction n arbitrary: w)
  case (Suc n)
  let ?w1 = "final (next_tick E) w"
  let ?w2 = "final (client_read (get_Pod E ns pod)) ?w1"
  show ?case
  proof (cases "\<exists>p. result (get_Pod E ns pod) ?w1 = Inr p \<and> pod_ready p")
    case True
    then show ?thesis
      by (intro exI [of _ ?w1]) (auto simp: split_beta run_client_read)
  next
    case False
    then have "run_state (ready_loop E ns pod (Suc n)) w = run_state (ready_loop E ns pod n) ?w2"
      by (auto simp: split_beta run_client_read split: sum.splits)
    then show ?thesis using Suc by simp
  qed
qed simp

section \<open>Removing the pod\<close>

text \<open>What a computation that ends by deleting the volume's secret leaves as its last event.\<close>

definition ends_with_secret :: "string \<Rightarrow> string \<Rightarrow> 'x world \<Rightarrow> 'x world \<Rightarrow> bool" where
  "ends_with_secret ns v w w' \<longleftrightarrow> (\<exists>es err. trace w' = trace w @ es @ [DeletedSecret ns (secretName v) err])"

lemma run_remove_secret:
  "\<exists>err. trace (final (remove_secret E m v) w) = trace w @ [DeletedSecret (m_namespace m) (secretName v) err]"
  by (simp add: remove_secret_def client_DeleteSecret_def external_def split_beta)

lemma quiet_trace: "state_io_rel quiet_step m \<Longrightarrow> trace (final m w) = trace w"
  by (auto dest: io_relD simp: quiet_step_def)

lemma remove_secret_ends:
  assumes "emits A w w1"
  shows "ends_with_secret (m_namespace m) v w (final (remove_secret E m v) w1)"
  using assms run_remove_secret [of E m v w1] by (auto simp: emits_def ends_with_secret_def)

lemma emits_True: "state_io_rel (emits (\<lambda>_. True)) (client_read g)"
  "state_io_rel (emits (\<lambda>_. True)) (client_DeletePod E n x opts)"
  "state_io_rel (emits (\<lambda>_. True)) (waitForPodDeletion E pod ns d)"
  "state_io_rel (emits (\<lambda>_. True)) (force_delete E m pod)"
proof -
  note rules = em.rel_intros quiet_wait [THEN em.rel_quiet] quiet_client_read [THEN em.rel_quiet] emits_calls
  show "state_io_rel (emits (\<lambda>_. True)) (client_read g)"
    "state_io_rel (emits (\<lambda>_. True)) (client_DeletePod E n x opts)"
    "state_io_rel (emits (\<lambda>_. True)) (waitForPodDeletion E pod ns d)"
    by (intro rules TrueI)+
  show "state_io_rel (emits (\<lambda>_. True)) (force_delete E m pod)"
    unfolding force_delete_def by (intro rules TrueI)
qed

text \<open>C20: \<open>RemovePod\<close> fails only when the API server refuses the deletion of an existing pod for
  another reason than that it is gone, and then leaves the secret; otherwise it succeeds and its last
  action is the deletion of the volume's secret, also when the pod did not go away in time and was
  deleted by force.\<close>

theorem RemovePod_outcome:
  "case result (RemovePod E m v) w of
     None \<Rightarrow> \<exists>es err. trace (final (RemovePod E m v) w) =
       trace w @ es @ [DeletedSecret (m_namespace m) (secretName v) err]
   | Some e \<Rightarrow> \<exists>ns n err. trace (final (RemovePod E m v) w) =
       trace w @ [DeletedPod ns n None (Some err)] \<and>
       \<not> Contains err ''not found'' \<and> e = ''failed to delete pod: '' @ err"
proof -
  let ?g = "client_read (get_Pod E (m_namespace m) (podName v))"
  obtain r w1 where g: "run_state ?g w = (r, w1)" by (metis surj_pair)
  have "w1 = final ?g w" using g by simp
  then have w1: "emits (\<lambda>_. True) w w1" "trace w1 = trace w"
    by (simp_all add: io_relD [OF emits_True(1)] quiet_trace [OF quiet_client_read(1)])
  show ?thesis
  proof (cases r)
    case (Inl err)
    then show ?thesis
      using g remove_secret_ends [OF w1(1), of m v E] by (simp add: RemovePod_def split_beta ends_with_secret_def)
  next
    case (Inr pod)
    obtain d w2 where d: "run_state (client_DeletePod E (pod_Namespace pod) (pod_Name pod) None) w1 = (d, w2)"
      by (metis surj_pair)
    have t2: "trace w2 = trace w @ [DeletedPod (pod_Namespace pod) (pod_Name pod) None d]"
      using d w1(2) by (auto simp: client_DeletePod_def external_def split_beta)
    have w2: "emits (\<lambda>_. True) w w2" by (simp add: emits_def t2)
    show ?thesis
    proof (cases d)
      case (Some err)
      then show ?thesis
        using g Inr d t2 remove_secret_ends [OF w2, of m v E]
        by (auto simp: RemovePod_def split_beta ends_with_secret_def)
    next
      case None
      obtain wt w3 where wt: "run_state (waitForPodDeletion E (podName v) (m_namespace m) (45 * second)) w2 = (wt, w3)"
        by (metis surj_pair)
      have w3: "emits (\<lambda>_. True) w w3"
        using em.step_trans [OF w2] io_relD [OF emits_True(3), where s = w2] wt by (metis snd_conv)
      have w4: "emits (\<lambda>_. True) w (final (force_delete E m (podName v)) w3)"
        by (rule em.step_trans [OF w3 io_relD [OF emits_True(4)]])
      show ?thesis
        using g Inr d None wt remove_secret_ends [OF w3, of m v E] remove_secret_ends [OF w4, of m v E]
        by (cases wt) (simp_all add: RemovePod_def split_beta ends_with_secret_def)
    qed
  qed
qed


section \<open>Creating the pod\<close>

lemma apply_secret_ok:
  assumes "result (apply_secret E m s) w = None"
  shows "\<exists>sec. sec_Name sec = sec_Name s \<and> sec_Namespace sec = sec_Namespace s \<and> sec_Data sec = sec_Data s \<and>
    (CreatedSecret sec None \<in> set (trace (final (apply_secret E m s) w)) \<or>
     UpdatedSecret sec None \<in> set (trace (final (apply_secret E m s) w)))"
proof (cases "result (client_read (get_Secret E (m_namespace m) (sec_Name s))) w")
  case (Inl err)
  then show ?thesis using assms
    by (intro exI [of _ s])
      (simp add: apply_secret_def client_CreateSecret_def external_def split_beta)
next
  case (Inr old)
  then show ?thesis using assms
    by (intro exI [of _ "s\<lparr>sec_ResourceVersion := sec_ResourceVersion old, sec_Type := sec_Type old\<rparr>"])
      (simp add: apply_secret_def client_UpdateSecret_def external_def split_beta)
qed

lemma finish_ready_ok:
  assumes "result (finish_ready E m pod t msg) w = None"
  shows "\<exists>w1 p. result (get_Pod E (m_namespace m) pod) w1 = Inr p \<and> pod_ready p"
  using assms ready_loop_sound [of E "m_namespace m" pod]
  by (simp add: finish_ready_def waitForPodReady_def split_beta) blast

lemma apply_pod_ok:
  assumes "result (apply_pod E m pod t) w = None"
  shows "\<exists>w1 p. result (get_Pod E (m_namespace m) (pod_Name pod)) w1 = Inr p \<and> pod_ready p"
proof -
  have fr: "result (finish_ready E m (pod_Name pod) t msg) w' = None \<Longrightarrow> ?thesis" for msg w'
    by (rule finish_ready_ok)
  have cw: "result (create_and_wait E m pod t) w' = None \<Longrightarrow> ?thesis" for w'
    by (auto simp: create_and_wait_def split_beta split: option.splits intro: fr)
  show ?thesis
    using assms by (auto simp: apply_pod_def split_beta split: sum.splits option.splits if_splits intro: fr cw)
qed

lemma credentials_ok:
  assumes "result (zerofs_credentials E m cfg) w = Inr cr"
  shows "cr_EncryptionPassword cr \<noteq> [] \<and> cr_AWSAccessKeyID cr \<noteq> [] \<and> cr_AWSSecretAccessKey cr \<noteq> []"
    and "\<exists>w1 w2 ps aws. result (get_Secret E (m_namespace m) (mget cfg ''encryptionPasswordSecretName'')) w1 = Inr ps \<and>
      result (get_Secret E (m_namespace m) (mget cfg ''awsCredentialsSecretName'')) w2 = Inr aws \<and>
      cr_EncryptionPassword cr = mget (sec_Data ps) ''password'' \<and>
      cr_AWSAccessKeyID cr = cmp_Or (mget (sec_Data aws) ''AWS_ACCESS_KEY_ID'') (mget (sec_Data aws) ''username'') \<and>
      cr_AWSSecretAccessKey cr = cmp_Or (mget (sec_Data aws) ''AWS_SECRET_ACCESS_KEY'') (mget (sec_Data aws) ''password'')"
  using assms
  by (force simp: zerofs_credentials_def split_beta Let_def run_client_read split: sum.splits if_splits)+

lemma emits_trace_mono: "emits A w w' \<Longrightarrow> set (trace w) \<subseteq> set (trace w')"
  by (auto simp: emits_def)

lemma emits_apply_pod:
  "state_io_rel (emits (\<lambda>_. True)) (getDaemonSetUID E m)" "state_io_rel (emits (\<lambda>_. True)) (apply_pod E m pod t)"
proof -
  note rules = em.rel_intros quiet_wait [THEN em.rel_quiet] quiet_client_read [THEN em.rel_quiet] emits_calls
  show "state_io_rel (emits (\<lambda>_. True)) (getDaemonSetUID E m)" by (intro rules)
  show "state_io_rel (emits (\<lambda>_. True)) (apply_pod E m pod t)"
    unfolding apply_pod_def create_and_wait_def finish_ready_def by (intro rules TrueI)
qed

text \<open>C18: when \<open>CreatePod\<close> succeeds, the ConfigMap was read, all three credentials were present in the
  two secrets it names (the access key and the secret key under either of two fields), the volume's secret was created or updated with exactly the
  configuration rendered with these credentials, and the API server has reported the volume's pod ready.\<close>

theorem CreatePod_success:
  assumes "run_state (CreatePod E m v nodeName configMapName) w = (None, w')"
  shows "\<exists>cm cr sec. result (get_ConfigMap E (m_namespace m) configMapName) w = Inr cm \<and>
    (\<exists>w1 w2 ps aws. result (get_Secret E (m_namespace m) (mget (cm_Data cm) ''encryptionPasswordSecretName'')) w1 = Inr ps \<and>
      result (get_Secret E (m_namespace m) (mget (cm_Data cm) ''awsCredentialsSecretName'')) w2 = Inr aws \<and>
      cr_EncryptionPassword cr = mget (sec_Data ps) ''password'' \<and>
      cr_AWSAccessKeyID cr = cmp_Or (mget (sec_Data aws) ''AWS_ACCESS_KEY_ID'') (mget (sec_Data aws) ''username'') \<and>
      cr_AWSSecretAccessKey cr = cmp_Or (mget (sec_Data aws) ''AWS_SECRET_ACCESS_KEY'') (mget (sec_Data aws) ''password'')) \<and>
    cr_EncryptionPassword cr \<noteq> [] \<and> cr_AWSAccessKeyID cr \<noteq> [] \<and> cr_AWSSecretAccessKey cr \<noteq> [] \<and>
    sec_Namespace sec = m_namespace m \<and> sec_Name sec = secretName v \<and>
    sec_Data sec = [''config.toml'' \<mapsto> config_toml (cm_Data cm) v cr] \<and>
    (CreatedSecret sec None \<in> set (trace w') \<or> UpdatedSecret sec None \<in> set (trace w')) \<and>
    (\<exists>w1 p. result (get_Pod E (m_namespace m) (podName v)) w1 = Inr p \<and> pod_ready p)"
proof -
  let ?g = "client_read (get_ConfigMap E (m_namespace m) configMapName)"
  obtain cm where cm: "result ?g w = Inr cm"
    using assms by (auto simp: CreatePod_def split_beta split: sum.splits)
  let ?c = "zerofs_credentials E m (cm_Data cm)"
  obtain cr where cr: "result ?c (final ?g w) = Inr cr"
    using assms cm by (auto simp: CreatePod_def Let_def split_beta split: sum.splits)
  define s where "s = apply_secret E m (config_secret m v (config_toml (cm_Data cm) v cr))"
  define w2 where "w2 = final ?c (final ?g w)"
  have s: "result s w2 = None"
    using assms cm cr by (auto simp: CreatePod_def Let_def split_beta s_def w2_def split: option.splits)
  obtain sec where sec: "sec_Name sec = secretName v" "sec_Namespace sec = m_namespace m"
      "sec_Data sec = [''config.toml'' \<mapsto> config_toml (cm_Data cm) v cr]"
      "CreatedSecret sec None \<in> set (trace (final s w2)) \<or> UpdatedSecret sec None \<in> set (trace (final s w2))"
    using apply_secret_ok [OF s [unfolded s_def]] by (auto simp: config_secret_def s_def)
  define w3 where "w3 = final (getDaemonSetUID E m) (final s w2)"
  obtain pod where pod: "run_state (apply_pod E m pod (podReadyTimeout (cm_Data cm))) w3 = (None, w')"
      "pod_Name pod = podName v"
  proof
    let ?pod = "zerofs_pod E m (cm_Data cm) v nodeName (owner_refs (result (getDaemonSetUID E m) (final s w2)))"
    show "run_state (apply_pod E m ?pod (podReadyTimeout (cm_Data cm))) w3 = (None, w')"
      using assms cm cr s by (simp add: CreatePod_def Let_def split_beta w3_def s_def [symmetric] w2_def [symmetric])
    show "pod_Name ?pod = podName v" by (simp add: zerofs_pod_def)
  qed
  have "emits (\<lambda>_. True) (final s w2) w'"
    using em.step_trans [OF io_relD [OF emits_apply_pod(1)] io_relD [OF emits_apply_pod(2)]] pod(1)
    unfolding w3_def by (metis snd_conv)
  from emits_trace_mono [OF this] sec(4)
  have "CreatedSecret sec None \<in> set (trace w') \<or> UpdatedSecret sec None \<in> set (trace w')" by blast
  moreover have "\<exists>w1 p. result (get_Pod E (m_namespace m) (podName v)) w1 = Inr p \<and> pod_ready p"
    using apply_pod_ok [of E m pod "podReadyTimeout (cm_Data cm)" w3] pod by simp
  ultimately show ?thesis
    using cm sec(1-3) credentials_ok [OF cr] unfolding run_client_read
    by (intro exI [of _ cm] exI [of _ cr] exI [of _ sec]) simp
qed

text \<open>\<open>CreatePod\<close> checks its inputs before it touches anything: when the ConfigMap cannot be read or
  the credentials are missing or incomplete, it returns the error and changes nothing outside.\<close>

lemma CreatePod_checks_first:
  assumes "result (get_ConfigMap E (m_namespace m) configMapName) w = Inl err \<or>
    (\<exists>cm. result (get_ConfigMap E (m_namespace m) configMapName) w = Inr cm \<and>
      result (zerofs_credentials E m (cm_Data cm))
        (final (client_read (get_ConfigMap E (m_namespace m) configMapName)) w) = Inl err)"
  shows "(\<exists>msg. result (CreatePod E m v nodeName configMapName) w = Some msg) \<and>
    trace (final (CreatePod E m v nodeName configMapName) w) = trace w"
  using assms
  by (auto simp: CreatePod_def Let_def split_beta run_client_read quiet_trace [OF quiet_client_read(1)]
      quiet_trace [OF quiet_wait(3)])


theorem CreatePod_success_witness:
  "\<exists>cm. result (get_ConfigMap sim_env ''zerofs'' ''zerofs-config'') sim_world = Inr cm"
proof -
  let ?m = "CreatePod sim_env sim_mounter ''pvc-1'' ''node-1'' ''zerofs-config''"
  have "result ?m sim_world = None" by (simp add: eval sim_world_eval cong: bind_weak_cong)
  then have "run_state ?m sim_world = (None, final ?m sim_world)" by (simp add: prod_eq_iff)
  from CreatePod_success [OF this] show ?thesis by (auto simp: sim_mounter_def)
qed

end
