(* ===== verification/Node_Properties.thy ===== *)
theory Node_Properties
  imports Node_Simulation Zerofs_Properties
begin

text \<open>
  What the node service of \<^verbatim>\<open>node.go\<close> guarantees in terms of its external actions: idempotency and
  formatting only blank devices.
\<close>

section \<open>Idempotency\<close>

text \<open>C23: publishing is idempotent: when \<open>findmnt\<close> reports the target as mounted from an NBD device,
  the call succeeds without touching anything; its only action is the \<open>findmnt\<close> itself.\<close>

theorem NodePublishVolume_idempotent:
  assumes "publish_validate req = Inr fs"
    and "result (run_cmd E ''findmnt'' [''-n'', ''-o'', ''SOURCE'', ''--target'', pr_TargetPath req]) w = (out, None)"
    and "HasPrefix (TrimSpace out) ''/dev/nbd''"
  shows "result (NodePublishVolume E ns req) w = Inr () \<and>
    trace (final (NodePublishVolume E ns req) w) = trace w @
      [Exec ''findmnt'' [''-n'', ''-o'', ''SOURCE'', ''--target'', pr_TargetPath req] out None] \<and>
    oscalls (final (NodePublishVolume E ns req) w) = oscalls w \<and>
    stage_errors (final (NodePublishVolume E ns req) w) = stage_errors w"
proof -
  have "TrimSpace out \<noteq> []" using assms(3) by (auto simp: HasPrefix_def)
  then show ?thesis
    using assms by (simp add: NodePublishVolume_def startStage_def findMountSource_def exec_Command_def
        external_def split_beta observe_def Let_def)
qed

definition sim_mounted :: "sim world" where
  "sim_mounted = sim_world\<lparr>ext := sim_cluster\<lparr>s_mounts := [(''/t'', ''/dev/nbd0'')]\<rparr>\<rparr>"

theorem NodePublishVolume_idempotent_witness:
  "result (NodePublishVolume sim_env sim_node (sim_publish ''pvc-1'' ''/t'')) sim_mounted = Inr ()"
proof -
  have v: "publish_validate (sim_publish ''pvc-1'' ''/t'') = Inr ''ext4''"
    by (simp add: publish_validate_def sim_publish_def)
  have f: "result (run_cmd sim_env ''findmnt'' [''-n'', ''-o'', ''SOURCE'', ''--target'',
      pr_TargetPath (sim_publish ''pvc-1'' ''/t'')]) sim_mounted = (''/dev/nbd0\<newline>'', None)"
    by (simp add: eval sim_mounted_def sim_world_eval)
  have p: "HasPrefix (TrimSpace ''/dev/nbd0\<newline>'') ''/dev/nbd''" by code_simp
  show ?thesis using NodePublishVolume_idempotent [OF v f p] by blast
qed

section \<open>Formatting\<close>

text \<open>A trace in which every \<open>mkfs\<close> comes right after a \<open>blkid\<close> of the same device that printed nothing.\<close>

definition mkfs_guarded :: "event list \<Rightarrow> bool" where
  "mkfs_guarded es \<longleftrightarrow> (\<forall>pre c args out err post. es = pre @ Exec c args out err # post \<longrightarrow> HasPrefix c ''mkfs'' \<longrightarrow>
     (\<exists>o' e'. pre \<noteq> [] \<and> last pre = Exec ''blkid'' [''-o'', ''value'', ''-s'', ''TYPE'', last args] o' e' \<and>
        TrimSpace o' = []))"

abbreviation not_mkfs :: "event \<Rightarrow> bool" where
  "not_mkfs e \<equiv> (case e of Exec c _ _ _ \<Rightarrow> \<not> HasPrefix c ''mkfs'' | _ \<Rightarrow> True)"

lemma mkfs_guarded_append:
  assumes "mkfs_guarded es" "mkfs_guarded fs"
  shows "mkfs_guarded (es @ fs)"
  unfolding mkfs_guarded_def
proof (intro allI impI)
  fix pre c args out err post
  assume eq: "es @ fs = pre @ Exec c args out err # post" and c: "HasPrefix c ''mkfs''"
  from eq consider us where "es = pre @ Exec c args out err # us"
    | us where "pre = es @ us" "fs = us @ Exec c args out err # post"
    by (auto simp: append_eq_append_conv2 append_eq_Cons_conv)
  then show "\<exists>o' e'. pre \<noteq> [] \<and> last pre = Exec ''blkid'' [''-o'', ''value'', ''-s'', ''TYPE'', last args] o' e' \<and>
      TrimSpace o' = []"
  proof cases
    case 1
    then show ?thesis using assms(1) c unfolding mkfs_guarded_def by blast
  next
    case (2 us)
    then obtain o' e' where "us \<noteq> []" "last us = Exec ''blkid'' [''-o'', ''value'', ''-s'', ''TYPE'', last args] o' e'"
      "TrimSpace o' = []"
      using assms(2) c unfolding mkfs_guarded_def by blast
    with 2 show ?thesis by auto
  qed
qed

lemma mkfs_guarded_none: "list_all not_mkfs es \<Longrightarrow> mkfs_guarded es"
  by (auto simp: mkfs_guarded_def list_all_iff)

definition formats_safely :: "'x world \<Rightarrow> 'x world \<Rightarrow> bool" where
  "formats_safely w w' \<longleftrightarrow> (\<exists>es. trace w' = trace w @ es \<and> mkfs_guarded es)"

interpretation fmt: quiet_relation formats_safely
proof
  show "formats_safely s s" for s :: "'x world"
    by (simp add: formats_safely_def mkfs_guarded_def)
  show "formats_safely s t \<Longrightarrow> formats_safely t u \<Longrightarrow> formats_safely s u" for s t u :: "'x world"
    by (auto simp: formats_safely_def intro: mkfs_guarded_append)
  show "quiet_step s t \<Longrightarrow> formats_safely s t" for s t :: "'x world"
    by (simp add: formats_safely_def quiet_step_def mkfs_guarded_def)
qed

lemma fmt_emits: "state_io_rel (emits not_mkfs) m \<Longrightarrow> state_io_rel formats_safely m"
  by (force simp: state_io_rel_def emits_def formats_safely_def intro: mkfs_guarded_none)

lemma mkfsCommand_shape:
  "HasPrefix (fst (mkfsCommand fs d)) ''mkfs''" "last (snd (mkfsCommand fs d)) = d"
  by (auto simp: mkfsCommand_def Let_def HasPrefix_def)

lemma fmt_record: "state_io_rel formats_safely (recordStageError op st)"
  by (rule fmt_emits [OF emits_recordStageError])

lemma fmt_exec: "\<not> HasPrefix c ''mkfs'' \<Longrightarrow> state_io_rel formats_safely (exec_Command E c args)"
  by (rule fmt_emits, rule emits_calls) simp

lemma fmt_stage_mkfs: "state_io_rel formats_safely (stage_mkfs E fs d)"
proof -
  let ?b = "exec_Command E ''blkid'' [''-o'', ''value'', ''-s'', ''TYPE'', d]"
  have "formats_safely w (final (stage_mkfs E fs d) w)" for w
  proof -
    obtain out err w1 where b: "run_state ?b w = ((out, err), w1)" by (metis surj_pair)
    have t1: "trace w1 = trace w @ [Exec ''blkid'' [''-o'', ''value'', ''-s'', ''TYPE'', d] out err]"
      using run_exec [of E "''blkid''" "[''-o'', ''value'', ''-s'', ''TYPE'', d]" w] b by simp
    show ?thesis
    proof (cases "TrimSpace out = []")
      case False
      then have "final (stage_mkfs E fs d) w = w1" using b by (simp add: stage_mkfs_def)
      then show ?thesis using t1
        by (auto simp: formats_safely_def HasPrefix_def intro!: mkfs_guarded_none)
    next
      case True
      obtain c args where m: "mkfsCommand fs d = (c, args)" by (metis surj_pair)
      have c: "HasPrefix c ''mkfs''" "last args = d" using mkfsCommand_shape [of fs d] m by simp_all
      let ?m = "exec_Command E c args"
      let ?w2 = "final ?m w1"
      have t2: "trace ?w2 = trace w @ [Exec ''blkid'' [''-o'', ''value'', ''-s'', ''TYPE'', d] out err,
          Exec c args (fst (result ?m w1)) (snd (result ?m w1))]"
        using t1 run_exec [of E c args w1] by simp
      have "mkfs_guarded [Exec ''blkid'' [''-o'', ''value'', ''-s'', ''TYPE'', d] out err,
          Exec c args o2 e2]" for o2 e2
        using True c(2) by (auto simp: mkfs_guarded_def Cons_eq_append_conv HasPrefix_def)
      then have 2: "formats_safely w ?w2" using t2 by (auto simp: formats_safely_def)
      show ?thesis
      proof (cases "snd (result ?m w1)")
        case None
        then have "final (stage_mkfs E fs d) w = final (observe (result (startStage ''node_publish'' ''mkfs'') w1)) ?w2"
          using b True m by (simp add: stage_mkfs_def split_beta startStage_def Let_def)
        then show ?thesis
          using fmt.step_trans [OF 2 io_relD [OF fmt.rel_quiet [OF quiet_metrics(2)]]] by simp
      next
        case (Some e)
        then have "final (stage_mkfs E fs d) w = final (exec_Command E ''nbd-client'' [''-d'', d])
            (final (recordStageError ''node_publish'' ''mkfs'') ?w2)"
          using b True m by (simp add: stage_mkfs_def split_beta startStage_def Let_def)
        then show ?thesis
          using fmt.step_trans [OF 2 fmt.step_trans [OF io_relD [OF fmt_record] io_relD [OF fmt_exec]]]
          by (simp add: HasPrefix_def)
      qed
    qed
  qed
  then show ?thesis by (simp add: state_io_rel_def)
qed


lemma rel_os_error:
  assumes "state_io_rel R a" "state_io_rel R b" "\<And>m. state_io_rel R (c m)"
  shows "state_io_rel R (case e of NotExist \<Rightarrow> a | Exist \<Rightarrow> b | OsErr m \<Rightarrow> c m)"
  using assms by (simp split: os_error.split)

lemma fmt_mounter: "state_io_rel formats_safely (CreatePod E m v n c)" "state_io_rel formats_safely (RemovePod E m v)"
proof -
  note rules = em.rel_intros quiet_wait [THEN em.rel_quiet] quiet_client_read [THEN em.rel_quiet] emits_calls
  have "state_io_rel (emits not_mkfs) (CreatePod E m v n c)"
    unfolding CreatePod_def apply_secret_def apply_pod_def create_and_wait_def finish_ready_def Let_def
    by (intro rules) simp_all
  then show "state_io_rel formats_safely (CreatePod E m v n c)" by (rule fmt_emits)
  have "state_io_rel (emits not_mkfs) (RemovePod E m v)"
    unfolding RemovePod_def remove_secret_def force_delete_def by (intro rules) simp_all
  then show "state_io_rel formats_safely (RemovePod E m v)" by (rule fmt_emits)
qed

lemma fmt_nbd: "state_io_rel formats_safely (findMountSource E t)" "state_io_rel formats_safely (unmountBestEffort E t)"
  "state_io_rel formats_safely (detachNBDDeviceBestEffort E d)" "state_io_rel formats_safely (time_Sleep E n)"
  by (rule fmt_emits, intro emits_findMountSource emits_unmountBestEffort emits_detach emits_calls;
      simp add: HasPrefix_def)+

lemma fmt_wait_socket: "state_io_rel formats_safely (wait_socket E p n)"
  unfolding publish_fail_def stage_fail_def
proof (induction n)
  case (Suc n)
  then show ?case
    unfolding wait_socket.simps publish_fail_def stage_fail_def
    by (intro fmt.rel_facts fmt_record fmt_nbd rel_os_error)
qed (simp add: fmt.rel_ret)

lemma fmt_publish_parts:
  "state_io_rel formats_safely (clean_stale E v)" "state_io_rel formats_safely (publish_cleanup E ns v t)"
  "state_io_rel formats_safely (stage_mkdir E t)" "state_io_rel formats_safely (stage_create_pod E ns req)"
  "state_io_rel formats_safely (stage_mount_9p E s t)" "state_io_rel formats_safely (stage_disk E req)"
  "state_io_rel formats_safely (stage_umount_9p E t)" "state_io_rel formats_safely (stage_reserve E v)"
  "state_io_rel formats_safely (stage_connect E v d)" "state_io_rel formats_safely (stage_mount_fs E req fs d)"
  unfolding clean_stale_def publish_cleanup_def stage_mkdir_def stage_create_pod_def stage_mount_9p_def
    stage_disk_def stage_umount_9p_def stage_reserve_def stage_connect_def stage_mount_fs_def
    publish_fail_def stage_fail_def Let_def
  by (intro fmt.rel_facts fmt_record fmt_nbd fmt_mounter fmt_exec rel_os_error; simp add: HasPrefix_def)+

text \<open>C7: a publish never formats a device unless the \<open>blkid\<close> of the same device right before printed no
  file-system type.\<close>

theorem NodePublishVolume_formats_only_blank:
  "\<exists>es. trace (final (NodePublishVolume E ns req) w) = trace w @ es \<and> mkfs_guarded es"
proof -
  have "state_io_rel formats_safely (NodePublishVolume E ns req)"
    unfolding NodePublishVolume_def publish_attempt_def publish_stages_def publish_device_def
      publish_fail_def stage_fail_def
    by (intro fmt.rel_facts fmt_record fmt_nbd fmt_publish_parts fmt_stage_mkfs fmt_wait_socket)
  from io_relD [OF this] show ?thesis by (simp add: formats_safely_def)
qed

end
