(* ===== verification/Node_Metrics.thy ===== *)
theory Node_Metrics
  imports Node_Properties
begin

text \<open>
  The errors of a publish with their codes and the counters they increment, the waiting for the
  socket, the start-up reconciliation, and the parsing of \<open>df\<close>.
\<close>

section \<open>Errors\<close>

text \<open>The stage whose counter an error of \<open>NodePublishVolume\<close> increments, told by how its message starts.
  Two errors are not in the table: the missing capacity and the failing check of the disk file.\<close>

definition error_stages :: "(string \<times> string) list" where
  "error_stages = [
     (''volume ID cannot be empty'', ''validate''),
     (''target path cannot be empty'', ''validate''),
     (''volume capability cannot be empty'', ''validate''),
     (''failed to determine filesystem for volume'', ''validate''),
     (''failed to determine configMapName for volume'', ''validate''),
     (''failed to create target directory: '', ''mkdir''),
     (''failed to create pod: '', ''create_pod''),
     (''socket file does not exist after '', ''wait_socket''),
     (''error checking socket file: '', ''wait_socket''),
     (''failed to mount volume: '', ''mount_9p''),
     (''failed to create disk file: '', ''create_disk''),
     (''failed to unmount 9p volume: '', ''umount_9p''),
     (''failed to reserve NBD device: '', ''reserve_nbd''),
     (''failed to connect to NBD device: '', ''connect_nbd''),
     (''failed to format NBD device: '', ''mkfs''),
     (''failed to mount NBD device: '', ''mount_fs'')]"

definition stage_of :: "rpc_error \<Rightarrow> string option" where
  "stage_of e = (case e of Status c m \<Rightarrow> map_option snd (find (\<lambda>(pre, st). HasPrefix m pre) error_stages))"

text \<open>A request that lacks a field the publish may need.\<close>

definition incomplete :: "NodePublishVolumeRequest \<Rightarrow> bool" where
  "incomplete req \<longleftrightarrow> pr_VolumeId req = [] \<or> pr_TargetPath req = [] \<or> pr_VolumeCapability req = None \<or>
     pr_VolumeContext req ''filesystem'' = None \<or> pr_VolumeContext req ''configMapName'' = None \<or>
     pr_VolumeContext req ''capacity_bytes'' = None"

definition uncounted :: "rpc_error \<Rightarrow> bool" where
  "uncounted e \<longleftrightarrow> e = Status InvalidArgument ''no capacity information provided for volume'' \<or>
     (\<exists>m. e = Status Internal (''error checking disk file: '' @ m))"

definition blameless :: "NodePublishVolumeRequest \<Rightarrow> rpc_error \<Rightarrow> bool" where
  "blameless req e \<longleftrightarrow> (case e of Status c m \<Rightarrow> c \<noteq> InvalidArgument \<or> incomplete req)"

definition bumped :: "string \<Rightarrow> 'x world \<Rightarrow> 'x world \<Rightarrow> bool" where
  "bumped st w w' \<longleftrightarrow> stage_errors w' =
     (stage_errors w)((''node_publish'', st) := Suc (stage_errors w (''node_publish'', st)))"

definition count_ok :: "NodePublishVolumeRequest \<Rightarrow> rpc_error + 'a \<Rightarrow> 'x world \<Rightarrow> 'x world \<Rightarrow> bool" where
  "count_ok req r w w' \<longleftrightarrow> (case r of
      Inl e \<Rightarrow> blameless req e \<and> (case stage_of e of
          None \<Rightarrow> same_errors w w' \<and> uncounted e
        | Some st \<Rightarrow> bumped st w w')
    | Inr _ \<Rightarrow> same_errors w w')"

definition counted :: "NodePublishVolumeRequest \<Rightarrow> ('x, rpc_error + 'a) io \<Rightarrow> bool" where
  "counted req m \<longleftrightarrow> (\<forall>w. count_ok req (result m w) w (final m w))"

named_theorems counted_intros \<open>rules for the counting of errors\<close>

lemma count_ok_trans:
  "same_errors w w1 \<Longrightarrow> count_ok req r w1 w2 \<Longrightarrow> count_ok req r w w2"
  "count_ok req r w w1 \<Longrightarrow> same_errors w1 w2 \<Longrightarrow> count_ok req r w w2"
  by (auto simp: count_ok_def bumped_def same_errors_def split: sum.splits option.splits)

lemma counted_bind [counted_intros]:
  assumes "state_io_rel same_errors m" "\<And>x. counted req (f x)"
  shows "counted req (m \<bind> f)"
  unfolding counted_def
proof
  fix w
  show "count_ok req (result (m \<bind> f) w) w (final (m \<bind> f) w)"
    using assms(2)
    by (auto simp: counted_def split_beta intro: count_ok_trans(1) [OF io_relD [OF assms(1)]])
qed

lemma counted_sum_bind:
  assumes "counted req m"
    and "\<And>e w. result (f (Inl e)) w = Inl e \<and> same_errors w (final (f (Inl e)) w)"
    and "\<And>x. counted req (f (Inr x))"
  shows "counted req (m \<bind> f)"
  unfolding counted_def
proof
  fix w
  have c: "count_ok req (result m w) w (final m w)" using assms(1) by (simp add: counted_def)
  show "count_ok req (result (m \<bind> f) w) w (final (m \<bind> f) w)"
  proof (cases "result m w")
    case (Inl e)
    with c assms(2) [of e "final m w"] show ?thesis
      by (auto simp: split_beta count_ok_def bumped_def same_errors_def split: option.splits)
  next
    case (Inr x)
    then have "same_errors w (final m w)" using c by (simp add: count_ok_def)
    with assms(3) [of x] Inr show ?thesis
      by (auto simp: counted_def split_beta intro: count_ok_trans(1))
  qed
qed

lemma counted_try [counted_intros]:
  assumes "counted req m" "\<And>x. counted req (f x)"
  shows "counted req (try_then m f)"
  unfolding try_then_def by (rule counted_sum_bind [OF assms(1)]) (simp_all add: se.step_refl assms(2))

lemma counted_ok [counted_intros]: "counted req (ret (Inr x))"
  by (simp add: counted_def count_ok_def se.step_refl)

lemma counted_uncounted [counted_intros]:
  "stage_of e = None \<Longrightarrow> uncounted e \<Longrightarrow> blameless req e \<Longrightarrow> counted req (ret (Inl e))"
  by (simp add: counted_def count_ok_def se.step_refl)

lemma counted_fail [counted_intros]:
  "stage_of e = Some st \<Longrightarrow> blameless req e \<Longrightarrow> counted req (publish_fail st e)"
  by (auto simp: counted_def count_ok_def publish_fail_def stage_fail_def recordStageError_def bumped_def)

lemma counted_record [counted_intros]:
  assumes "stage_of e = Some st" "blameless req e" "state_io_rel same_errors m"
  shows "counted req (do { recordStageError ''node_publish'' st; _ \<leftarrow> m; ret (Inl e) })"
proof -
  have "same_errors w (final m w)" for w by (rule io_relD [OF assms(3)])
  then show ?thesis
    using assms(1,2)
    by (auto simp: counted_def count_ok_def recordStageError_def bumped_def split_beta same_errors_def)
qed

lemma counted_if [counted_intros]:
  "(b \<Longrightarrow> counted req m) \<Longrightarrow> (\<not> b \<Longrightarrow> counted req n) \<Longrightarrow> counted req (if b then m else n)"
  by simp

lemma counted_cases [counted_intros]:
  "(\<And>x. s = Inl x \<Longrightarrow> counted req (f x)) \<Longrightarrow> (\<And>y. s = Inr y \<Longrightarrow> counted req (g y)) \<Longrightarrow>
     counted req (case s of Inl x \<Rightarrow> f x | Inr y \<Rightarrow> g y)"
  "(p = None \<Longrightarrow> counted req m) \<Longrightarrow> (\<And>y. p = Some y \<Longrightarrow> counted req (k y)) \<Longrightarrow>
     counted req (case p of None \<Rightarrow> m | Some y \<Rightarrow> k y)"
  "(\<And>x y. counted req (h x y)) \<Longrightarrow> counted req (case q of (x, y) \<Rightarrow> h x y)"
  "counted req a \<Longrightarrow> counted req b \<Longrightarrow> (\<And>e. counted req (l e)) \<Longrightarrow>
     counted req (case r of NotExist \<Rightarrow> a | Exist \<Rightarrow> b | OsErr e \<Rightarrow> l e)"
  by (simp_all split: sum.split option.split prod.split os_error.split)

text \<open>The stages of the messages.\<close>

lemmas stage_table = stage_of_def error_stages_def HasPrefix_def

lemma stage_of_messages:
  "stage_of (Status c ''volume ID cannot be empty'') = Some ''validate''"
  "stage_of (Status c ''target path cannot be empty'') = Some ''validate''"
  "stage_of (Status c ''volume capability cannot be empty'') = Some ''validate''"
  "stage_of (Status c ''failed to determine filesystem for volume, ensure filesystem is specified'') = Some ''validate''"
  "stage_of (Status c ''failed to determine configMapName for volume, ensure configMapName is specified'') = Some ''validate''"
  "stage_of (Status c (''failed to create target directory: '' @ m)) = Some ''mkdir''"
  "stage_of (Status c (''failed to create pod: '' @ m)) = Some ''create_pod''"
  "stage_of (Status c (''socket file does not exist after '' @ m)) = Some ''wait_socket''"
  "stage_of (Status c (''error checking socket file: '' @ m)) = Some ''wait_socket''"
  "stage_of (Status c (''failed to mount volume: '' @ m)) = Some ''mount_9p''"
  "stage_of (Status c (''failed to create disk file: '' @ m)) = Some ''create_disk''"
  "stage_of (Status c (''failed to unmount 9p volume: '' @ m)) = Some ''umount_9p''"
  "stage_of (Status c (''failed to reserve NBD device: '' @ m)) = Some ''reserve_nbd''"
  "stage_of (Status c (''failed to connect to NBD device: '' @ m)) = Some ''connect_nbd''"
  "stage_of (Status c (''failed to format NBD device: '' @ m)) = Some ''mkfs''"
  "stage_of (Status c (''failed to mount NBD device: '' @ m)) = Some ''mount_fs''"
  "stage_of (Status c ''no capacity information provided for volume'') = None"
  "stage_of (Status c (''error checking disk file: '' @ m)) = None"
  by (simp_all add: stage_table)

lemma blameless_codes [simp]:
  "blameless req (Status Internal m)" "blameless req (Status ResourceExhausted m)"
  "incomplete req \<Longrightarrow> blameless req (Status c m)"
  by (simp_all add: blameless_def)

lemmas errors_all = se.rel_facts errors_exec errors_nbd errors_mounter

lemma counted_wait_socket [counted_intros]: "counted req (wait_socket E p n)"
proof (induction n)
  case (Suc n)
  then show ?case
    unfolding wait_socket.simps by (intro counted_intros errors_all) (simp_all only: stage_of_messages blameless_codes)
qed (simp add: counted_ok)

lemma counted_stages [counted_intros]:
  "counted req (stage_mkdir E t)" "counted req (stage_create_pod E ns req)" "counted req (stage_mount_9p E s t)"
  "counted req (stage_umount_9p E t)" "counted req (stage_reserve E v)" "counted req (stage_connect E v d)"
  "counted req (stage_mkfs E fs d)" "counted req (stage_mount_fs E req fs d)"
  unfolding stage_mkdir_def stage_create_pod_def stage_mount_9p_def stage_umount_9p_def stage_reserve_def
    stage_connect_def stage_mkfs_def stage_mount_fs_def Let_def
  by (intro counted_intros errors_all; simp add: stage_of_messages incomplete_def del: append.simps)+

lemma counted_disk [counted_intros]: "counted req (stage_disk E req)"
  unfolding stage_disk_def Let_def
  by (intro counted_intros errors_all; simp add: stage_of_messages uncounted_def incomplete_def del: append.simps)

lemma errors_cleanup: "state_io_rel same_errors (publish_cleanup E ns v t)" "state_io_rel same_errors (clean_stale E v)"
  unfolding publish_cleanup_def clean_stale_def by (intro errors_all)+

lemma counted_attempt [counted_intros]: "counted req (publish_attempt E ns req fs)"
proof -
  have "counted req (publish_stages E ns req fs)"
    unfolding publish_stages_def publish_device_def by (intro counted_intros)
  then show ?thesis
    unfolding publish_attempt_def
    by (rule counted_sum_bind) (simp_all add: counted_ok split_beta io_relD [OF errors_cleanup(1)])
qed

lemma counted_last:
  assumes "counted req m"
  shows "counted req (do { r \<leftarrow> m; case r of Inl err \<Rightarrow> ret (Inl err) | Inr _ \<Rightarrow> do { observe t; ret (Inr ()) } })"
  by (rule counted_sum_bind [OF assms])
    (auto simp: se.step_refl intro!: counted_intros se.rel_quiet quiet_metrics)

lemma validate_error:
  assumes "publish_validate req = Inl msg"
  shows "stage_of (Status c msg) = Some ''validate''" "incomplete req"
  using assms by (auto simp: publish_validate_def stage_of_messages incomplete_def split: if_splits option.splits)

lemma counted_publish: "counted req (NodePublishVolume E ns req)"
proof (cases "publish_validate req")
  case (Inl msg)
  show ?thesis
    unfolding NodePublishVolume_def Inl sum.case
    by (intro counted_bind counted_fail errors_all validate_error [OF Inl] blameless_codes)
next
  case (Inr fs)
  show ?thesis
    unfolding NodePublishVolume_def Inr sum.case
    by (intro counted_last [OF counted_attempt] counted_intros errors_all errors_cleanup)
qed


text \<open>C24: a publish request without volume ID, target path, capability or file system is refused with
  \<open>InvalidArgument\<close> and the first of them that is missing, before anything is done: only the counter of the stage
  \<open>validate\<close> changes. And no other request is answered with \<open>InvalidArgument\<close>, unless its volume context
  lacks the config map's name or the capacity.\<close>

theorem NodePublishVolume_refuses:
  defines "refused \<equiv> (\<lambda>E ns req w m. run_state (NodePublishVolume E ns req) w =
    (Inl (Status InvalidArgument m), w\<lparr>stage_errors := (stage_errors w)((''node_publish'', ''validate'') :=
       Suc (stage_errors w (''node_publish'', ''validate'')))\<rparr>))"
  shows "(pr_VolumeId req = [] \<longrightarrow> refused E ns req w ''volume ID cannot be empty'') \<and>
    (pr_VolumeId req \<noteq> [] \<and> pr_TargetPath req = [] \<longrightarrow> refused E ns req w ''target path cannot be empty'') \<and>
    (pr_VolumeId req \<noteq> [] \<and> pr_TargetPath req \<noteq> [] \<and> pr_VolumeCapability req = None \<longrightarrow>
       refused E ns req w ''volume capability cannot be empty'') \<and>
    (pr_VolumeId req \<noteq> [] \<and> pr_TargetPath req \<noteq> [] \<and> pr_VolumeCapability req \<noteq> None \<and>
       pr_VolumeContext req ''filesystem'' = None \<longrightarrow>
       refused E ns req w ''failed to determine filesystem for volume, ensure filesystem is specified'') \<and>
    (\<forall>m. result (NodePublishVolume E ns req) w = Inl (Status InvalidArgument m) \<longrightarrow>
       pr_VolumeId req = [] \<or> pr_TargetPath req = [] \<or> pr_VolumeCapability req = None \<or>
       pr_VolumeContext req ''filesystem'' = None \<or> pr_VolumeContext req ''configMapName'' = None \<or>
       pr_VolumeContext req ''capacity_bytes'' = None)"
proof -
  have ref: "refused E ns req w msg" if "publish_validate req = Inl msg" for msg
    using that
    by (simp add: refused_def NodePublishVolume_def publish_fail_def stage_fail_def startStage_def recordStageError_def)
  have "incomplete req" if "result (NodePublishVolume E ns req) w = Inl (Status InvalidArgument m)" for m
    using counted_publish [of req E ns] that
    by (auto simp: counted_def count_ok_def blameless_def dest!: spec [of _ w])
  then show ?thesis
    using ref by (auto simp: publish_validate_def incomplete_def)
qed

theorem NodePublishVolume_refuses_witness:
  "result (NodePublishVolume sim_env sim_node ((sim_publish ''pvc-1'' ''/t'')\<lparr>pr_VolumeCapability := None\<rparr>)) sim_world =
     Inl (Status InvalidArgument ''volume capability cannot be empty'')"
  using NodePublishVolume_refuses [of "(sim_publish ''pvc-1'' ''/t'')\<lparr>pr_VolumeCapability := None\<rparr>" sim_env sim_node sim_world]
  by (simp add: sim_publish_def)

section \<open>Waiting for the socket\<close>

text \<open>The state in which the \<open>i\<close>-th attempt looks for the socket: after \<open>i\<close> failed looks and sleeps.\<close>

fun before_attempt :: "'x env \<Rightarrow> string \<Rightarrow> nat \<Rightarrow> 'x world \<Rightarrow> 'x world" where
  "before_attempt E p 0 w = w"
| "before_attempt E p (Suc i) w = before_attempt E p i (final (time_Sleep E (10 * second)) (final (os_Stat E p) w))"

abbreviation look :: "'x env \<Rightarrow> string \<Rightarrow> 'x world \<Rightarrow> nat \<Rightarrow> os_error + fnode" where
  "look E p w i \<equiv> result (os_Stat E p) (before_attempt E p i w)"

lemma wait_socket_exact:
  "\<exists>k\<le>n. (\<forall>i<k. look E p w i = Inl NotExist) \<and> (look E p w k = Inl NotExist \<longrightarrow> k = n) \<and>
     trace (final (wait_socket E p (Suc n)) w) = trace w @ replicate k (Slept (10 * second)) \<and>
     (result (wait_socket E p (Suc n)) w = Inr () \<longleftrightarrow> look E p w k \<in> range Inr)"
proof (induction n arbitrary: w)
  case 0
  have "trace (final (os_Stat E p) w) = trace w" by (rule quiet_trace [OF quiet_os(1)])
  then show ?case
    by (auto simp: split_beta publish_fail_def stage_fail_def recordStageError_def
        split: sum.splits os_error.splits)
next
  case (Suc n)
  let ?w1 = "final (os_Stat E p) w"
  have t1: "trace ?w1 = trace w" by (rule quiet_trace [OF quiet_os(1)])
  show ?case
  proof (cases "result (os_Stat E p) w = Inl NotExist")
    case True
    let ?w2 = "final (time_Sleep E (10 * second)) ?w1"
    have t2: "trace ?w2 = trace w @ [Slept (10 * second)]"
      using t1 by (simp add: time_Sleep_def external_def split_beta)
    have eq: "run_state (wait_socket E p (Suc (Suc n))) w = run_state (wait_socket E p (Suc n)) ?w2"
      using True by (subst wait_socket.simps) (simp add: split_beta del: wait_socket.simps)
    obtain k where k: "k \<le> n" "\<forall>i<k. look E p ?w2 i = Inl NotExist" "look E p ?w2 k = Inl NotExist \<longrightarrow> k = n"
      "trace (final (wait_socket E p (Suc n)) ?w2) = trace ?w2 @ replicate k (Slept (10 * second))"
      "result (wait_socket E p (Suc n)) ?w2 = Inr () \<longleftrightarrow> look E p ?w2 k \<in> range Inr"
      using Suc.IH [of ?w2] by blast
    have "\<forall>i<Suc k. look E p w i = Inl NotExist" using k(2) True by (auto simp: less_Suc_eq_0_disj)
    then show ?thesis
      using k t2 by (intro exI [of _ "Suc k"]) (simp add: eq del: wait_socket.simps)
  next
    case False
    then show ?thesis using t1
      by (intro exI [of _ 0])
        (auto simp: split_beta publish_fail_def stage_fail_def recordStageError_def
          split: sum.splits os_error.splits)
  qed
qed

text \<open>C32: the wait for the server's socket looks for it at most six times. It stops at the first look
  that does not say the socket is missing, or at the sixth; it succeeds if and only if that last look
  finds the socket; it sleeps ten seconds after every other look and does nothing else outside.\<close>

theorem wait_socket_bounded:
  "\<exists>k\<le>5. (\<forall>i<k. look E p w i = Inl NotExist) \<and> (look E p w k = Inl NotExist \<longrightarrow> k = 5) \<and>
     trace (final (wait_socket E p maxRetries) w) = trace w @ replicate k (Slept (10 * second)) \<and>
     (result (wait_socket E p maxRetries) w = Inr () \<longleftrightarrow> look E p w k \<in> range Inr)"
  using wait_socket_exact [of 5 E p w] by (simp add: maxRetries_def numeral_eq_Suc)

theorem wait_socket_bounded_witness:
  "result (wait_socket sim_env ''/dev/nbd0'' maxRetries) sim_world = Inr () \<and>
   result (wait_socket sim_env ''/dev/nbd7'' maxRetries) sim_world \<noteq> Inr ()"
proof -
  have "look sim_env ''/dev/nbd0'' sim_world 0 = Inr FNode" by (simp add: eval sim_world_eval)
  moreover have "look sim_env ''/dev/nbd7'' sim_world i = Inl NotExist" if "i \<le> 5" for i
  proof -
    have "i \<in> {0, 1, 2, 3, 4, 5}" using that by auto
    then show ?thesis by (auto simp: eval sim_world_eval numeral_eq_Suc)
  qed
  moreover obtain k where "k \<le> 5" "\<forall>i<k. look sim_env ''/dev/nbd0'' sim_world i = Inl NotExist"
      "result (wait_socket sim_env ''/dev/nbd0'' maxRetries) sim_world = Inr () \<longleftrightarrow> look sim_env ''/dev/nbd0'' sim_world k \<in> range Inr"
    using wait_socket_bounded [of sim_env "''/dev/nbd0''" sim_world] by blast
  moreover obtain k' where "k' \<le> 5"
      "result (wait_socket sim_env ''/dev/nbd7'' maxRetries) sim_world = Inr () \<longleftrightarrow> look sim_env ''/dev/nbd7'' sim_world k' \<in> range Inr"
    using wait_socket_bounded [of sim_env "''/dev/nbd7''" sim_world] by blast
  ultimately show ?thesis by (cases k) auto
qed

section \<open>Start-up reconciliation\<close>

lemma emits_exec_result:
  assumes "\<And>w out err. result (run_cmd E c args) w = (out, err) \<Longrightarrow> A (Exec c args out err)"
  shows "state_io_rel (emits A) (exec_Command E c args)"
  using assms by (auto simp: state_io_rel_def exec_Command_def external_def emits_def split_beta)

lemma rel_exec_bind:
  assumes "state_io_rel R (exec_Command E c args)" "\<And>s t u. R s t \<Longrightarrow> R t u \<Longrightarrow> R s u"
    and "\<And>x w. result (run_cmd E c args) w = x \<Longrightarrow> state_io_rel R (f x)"
  shows "state_io_rel R (exec_Command E c args \<bind> f)"
proof -
  have "R w (final (exec_Command E c args \<bind> f) w)" for w
  proof -
    have r: "result (run_cmd E c args) w = result (exec_Command E c args) w"
      by (simp add: exec_Command_def external_def split_beta)
    from assms(2) [OF io_relD [OF assms(1)] io_relD [OF assms(3) [OF r]]]
    show ?thesis by (simp add: split_beta)
  qed
  then show ?thesis by (simp add: state_io_rel_def)
qed

text \<open>What the reconciliation may do to a given device.\<close>

definition spares :: "string \<Rightarrow> event \<Rightarrow> bool" where
  "spares d e \<longleftrightarrow> (case e of Exec c args _ _ \<Rightarrow> c \<noteq> ''nbd-client'' \<or> args \<noteq> [''-d'', d] | _ \<Rightarrow> True)"

lemma reconcile_loop_spares:
  assumes m: "\<And>w. \<exists>out. result (run_cmd E ''findmnt'' [''-n'', ''-S'', d]) w = (out, None) \<and> TrimSpace out \<noteq> []"
    and ds: "list_all nbdDevicePathRe ds"
  shows "state_io_rel (emits (spares d)) (reconcile_loop E ds)"
  using ds
proof (induction ds)
  case (Cons dev devs)
  then have IH: "state_io_rel (emits (spares d)) (reconcile_loop E devs)" and dev: "TrimSpace dev = dev"
    using nbd_dev_trim [of dev] by simp_all
  have f: "state_io_rel (emits (spares d)) (exec_Command E ''findmnt'' [''-n'', ''-S'', dev])"
    by (rule emits_calls) (simp add: spares_def)
  have inner: "state_io_rel (emits (spares d)) (do {
      (out, err) \<leftarrow> exec_Command E ''findmnt'' [''-n'', ''-S'', dev];
      if err = None \<and> TrimSpace out \<noteq> [] then reconcile_loop E devs
      else do { detachNBDDeviceBestEffort E dev; reconcile_loop E devs } })"
  proof (rule rel_exec_bind [OF f em.step_trans], assumption, assumption)
    fix x w assume x: "result (run_cmd E ''findmnt'' [''-n'', ''-S'', dev]) w = x"
    show "state_io_rel (emits (spares d)) (case x of (out, err) \<Rightarrow>
        if err = None \<and> TrimSpace out \<noteq> [] then reconcile_loop E devs
        else do { detachNBDDeviceBestEffort E dev; reconcile_loop E devs })"
    proof (cases "dev = d")
      case True
      then show ?thesis using m [of w] x IH by auto
    next
      case False
      then show ?thesis using dev
        by (intro em.rel_intros IH emits_detach) (simp_all add: spares_def)
    qed
  qed
  show ?case
    unfolding reconcile_loop.simps by (intro inner em.rel_facts IH)
qed (simp add: em.rel_ret)

text \<open>C26: the start-up reconciliation never detaches a device that \<open>findmnt\<close> reports as mounted.\<close>

theorem reconcile_spares_mounted:
  assumes "\<forall>w. \<exists>out. result (run_cmd E ''findmnt'' [''-n'', ''-S'', d]) w = (out, None) \<and> TrimSpace out \<noteq> []"
  shows "\<exists>es. trace (final (reconcileOrphanedNBDDevices E) w) = trace w @ es \<and>
    (\<forall>out err. Exec ''nbd-client'' [''-d'', d] out err \<notin> set es)"
proof -
  let ?ds = "result (listNBDDevices E) w" and ?w1 = "final (listNBDDevices E) w"
  have ds: "list_all nbdDevicePathRe ?ds"
    by (simp add: listNBDDevices_def split_beta list_all_iff)
  have "emits (spares d) w (final (reconcileOrphanedNBDDevices E) w)"
    using io_relD [OF reconcile_loop_spares [OF spec [OF assms] ds], of ?w1]
      quiet_trace [OF quiet_nbd(2), of E w]
    by (simp add: reconcileOrphanedNBDDevices_def split_beta emits_def)
  then show ?thesis by (fastforce simp: emits_def list_all_iff spares_def)
qed

text \<open>A host on which every device is mounted.\<close>

definition busy_env :: "unit env" where
  "busy_env = quiet_env\<lparr>run_cmd := \<lambda>c args. ret (if c = ''findmnt'' then ''/data\<newline>'' else [], None)\<rparr>"

theorem reconcile_spares_mounted_witness:
  "\<exists>es. trace (final (reconcileOrphanedNBDDevices busy_env) bare_host) = trace bare_host @ es \<and>
    (\<forall>out err. Exec ''nbd-client'' [''-d'', ''/dev/nbd0''] out err \<notin> set es)"
proof (rule reconcile_spares_mounted)
  have "TrimSpace ''/data\<newline>'' \<noteq> []" by code_simp
  then show "\<forall>w. \<exists>out. result (run_cmd busy_env ''findmnt'' [''-n'', ''-S'', ''/dev/nbd0'']) w = (out, None) \<and>
      TrimSpace out \<noteq> []"
    by (simp add: busy_env_def)
qed


section \<open>Volume statistics\<close>

abbreviation is_word :: "string \<Rightarrow> bool" where
  "is_word x \<equiv> x \<noteq> [] \<and> (\<forall>c\<in>set x. \<not> is_space c)"

text \<open>A line of a table: a first word and further columns, each after one or more spaces.\<close>

definition table_line :: "string \<Rightarrow> (nat \<times> string) list \<Rightarrow> string" where
  "table_line name cols = name @ concat (map (\<lambda>(n, x). replicate n (CHR '' '') @ x) cols)"

lemma Fields_spaces: "Fields (replicate n (CHR '' '') @ s) = Fields s"
proof (induction n)
  case (Suc n)
  have "is_space (CHR '' '')" by code_simp
  with Suc show ?case
    using split_by_append_sep [of is_space "CHR '' ''" "[]"] by (simp add: Fields_def split_by_none)
qed simp

lemma Fields_word:
  assumes "is_word x" "0 < n"
  shows "Fields (x @ replicate n (CHR '' '') @ s) = x # Fields s"
proof -
  obtain m where m: "n = Suc m" using assms(2) by (cases n) auto
  have sp: "is_space (CHR '' '')" by code_simp
  have "Fields (x @ CHR '' '' # (replicate m (CHR '' '') @ s)) = x # Fields (replicate m (CHR '' '') @ s)"
    using assms(1) sp by (simp add: Fields_def split_by_append_sep split_by_none)
  then show ?thesis by (simp add: m Fields_spaces)
qed

lemma Fields_table_line:
  assumes "is_word name" "\<forall>(n, x)\<in>set cols. 0 < n \<and> is_word x"
  shows "Fields (table_line name cols) = name # map snd cols"
  using assms
proof (induction cols arbitrary: name)
  case Nil
  then show ?case by (simp add: table_line_def Fields_def split_by_none)
next
  case (Cons c cols)
  obtain n x where c: "c = (n, x)" by fastforce
  have "table_line name (c # cols) = name @ replicate n (CHR '' '') @ table_line x cols"
    by (simp add: table_line_def c)
  then show ?case using Cons.IH [of x] Cons.prems Fields_word [of name n] by (simp add: c)
qed

lemma table_line_chars: "c \<in> set (table_line name cols) \<Longrightarrow> c \<in> set name \<or> c = CHR '' '' \<or> (\<exists>x\<in>set cols. c \<in> set (snd x))"
  by (force simp: table_line_def)

lemma show_int_word: "0 \<le> n \<Longrightarrow> is_word (show_int n)"
  using show_dec_digits [of n] by (auto simp: show_int_def list_all_iff is_digit_not_space)

text \<open>C30: the statistics are read back as \<open>df -B1\<close> prints them: from a header line and a line with the
  file system's name, the three numbers and further columns, each column after any positive number of
  spaces, the response has exactly these numbers.\<close>

theorem NodeGetVolumeStats_reads_df:
  assumes "CHR 0x0A \<notin> set header" "is_word name" "\<forall>(n, x)\<in>set cols. 0 < n \<and> is_word x"
    and "map snd cols = [show_int tot, show_int used, show_int avail] @ rest"
    and "0 \<le> tot" "tot \<le> int64_max" "0 \<le> used" "used \<le> int64_max" "0 \<le> avail" "avail \<le> int64_max"
    and "gr_VolumeId req \<noteq> []" "gr_VolumePath req \<noteq> []"
    and "result (run_cmd E ''df'' [''-B1'', gr_VolumePath req]) w =
      (header @ [CHR 0x0A] @ table_line name cols @ [CHR 0x0A], None)"
  shows "result (NodeGetVolumeStats E req) w =
    Inr \<lparr>vu_Unit = ''BYTES'', vu_Total = tot, vu_Used = used, vu_Available = avail\<rparr>"
proof -
  let ?line = "table_line name cols"
  have nl: "is_space (CHR 0x0A)" by code_simp
  have "CHR 0x0A \<notin> set ?line"
  proof
    assume "CHR 0x0A \<in> set ?line"
    from table_line_chars [OF this] show False using assms(2,3) nl by fastforce
  qed
  then have "SplitChar (header @ [CHR 0x0A] @ ?line @ [CHR 0x0A]) (CHR 0x0A) = [header, ?line, []]"
    using assms(1) by (simp add: SplitChar_append SplitChar_plain)
  moreover have "Fields ?line = name # [show_int tot, show_int used, show_int avail] @ rest"
    using Fields_table_line [OF assms(2,3)] assms(4) by simp
  moreover have "Atoi (show_int n) = (n, None)" if "0 \<le> n" "n \<le> int64_max" for n
    using that by (intro Atoi_show_int) (auto simp: int64_max_def)
  ultimately have "parse_df (header @ [CHR 0x0A] @ ?line @ [CHR 0x0A]) =
      Inr \<lparr>vu_Unit = ''BYTES'', vu_Total = tot, vu_Used = used, vu_Available = avail\<rparr>"
    using assms(5-10) by (simp add: parse_df_def Let_def)
  then show ?thesis
    using assms(11-13) by (simp add: NodeGetVolumeStats_def exec_Command_def external_def split_beta)
qed

definition df_output :: string where
  "df_output = ''Filesystem     1B-blocks  Used Available Use% Mounted on'' @ [CHR 0x0A] @
     ''/dev/nbd0        1048576  4096   1044480   1% /t'' @ [CHR 0x0A]"

definition df_env :: "unit env" where
  "df_env = quiet_env\<lparr>run_cmd := \<lambda>_ _. ret (df_output, None)\<rparr>"

theorem NodeGetVolumeStats_reads_df_witness:
  "result (NodeGetVolumeStats df_env \<lparr>gr_VolumeId = ''pvc-1'', gr_VolumePath = ''/t''\<rparr>) bare_host =
    Inr \<lparr>vu_Unit = ''BYTES'', vu_Total = 1048576, vu_Used = 4096, vu_Available = 1044480\<rparr>"
proof -
  let ?cols = "[(8::nat, ''1048576''), (2, ''4096''), (3, ''1044480''), (3, ''1%''), (1, ''/t'')]"
  have "df_output = ''Filesystem     1B-blocks  Used Available Use% Mounted on'' @ [CHR 0x0A] @
      table_line ''/dev/nbd0'' ?cols @ [CHR 0x0A]" by code_simp
  moreover have "map snd ?cols = [show_int 1048576, show_int 4096, show_int 1044480] @ [''1%'', ''/t'']" by code_simp
  moreover have "is_word ''/dev/nbd0''" "\<forall>(n, x)\<in>set ?cols. 0 < n \<and> is_word x" by code_simp+
  ultimately show ?thesis
    using NodeGetVolumeStats_reads_df [of "''Filesystem     1B-blocks  Used Available Use% Mounted on''" "''/dev/nbd0''"
        ?cols 1048576 4096 1044480 "[''1%'', ''/t'']" _ df_env bare_host]
    by (simp add: df_env_def int64_max_def)
qed

end
