(* ===== verification/Node_Publish.thy ===== *)
theory Node_Publish
  imports Node_Metrics
begin

text \<open>
  What publishing and unpublishing do to the volumes' devices on a host without I/O faults: success
  records the device, failure and unpublish clear it, and no other volume is touched. The last two
  sections say which device an unpublish detaches and releases, and when a publish detaches the device
  the volume already has.
\<close>

section \<open>Other volumes\<close>

definition state_file :: "string \<Rightarrow> string set" where
  "state_file u = {volumeNBDStatePath u}"

lemma state_file_run: "valid_volume u \<Longrightarrow> state_file u \<subseteq> run_files"
  by (simp add: state_file_def run_files_paths)

lemma keeps_state_file: "keeps (state_file u) w w' \<Longrightarrow> vol_dev w' u = vol_dev w u"
  by (simp add: keeps_def state_file_def vol_dev_def)

lemma keeps_mkdirs: "set ds \<inter> A = {} \<Longrightarrow> keeps A w (snd (mkdirs ds w))"
proof (induction ds arbitrary: w)
  case (Cons d ds)
  have "keeps A w (put_node d FDir w)" using Cons.prems by (auto simp: keeps_def)
  with Cons show ?case
    by (auto split: option.splits fnode.splits intro: keep.step_trans keep.step_refl)
qed (simp add: keep.step_refl)

lemma keeps_MkdirAll: "set (dirs_to p) \<inter> A = {} \<Longrightarrow> state_io_rel (keeps A) (os_MkdirAll E p)"
proof -
  assume d: "set (dirs_to p) \<inter> A = {}"
  have "keeps A w (snd (mkdirs (dirs_to p) (w\<lparr>oscalls := n\<rparr>)))" for w :: "'a world" and n
    using keeps_mkdirs [OF d, of "w\<lparr>oscalls := n\<rparr>"] by (simp add: keeps_def)
  then show "state_io_rel (keeps A) (os_MkdirAll E p)"
    by (auto simp: state_io_rel_def os_MkdirAll_def os_step_def split: option.splits)
      (simp add: keeps_def)
qed

lemma dirs_to_outside: "t \<notin> run_files \<Longrightarrow> set (dirs_to t) \<inter> run_files = {}"
  by (auto simp: dirs_to_def run_files_def HasPrefix_iff)

lemma keeps_other_nbd:
  assumes u: "valid_volume u" and v: "valid_volume v" and ne: "u \<noteq> v"
  shows "state_io_rel (keeps (state_file u)) (clearVolumeNBDState E v d)"
    and "state_io_rel (keeps (state_file u)) (reserveNBDDevice E v)"
proof -
  have np: "volumeNBDStatePath v \<notin> state_file u" "deviceReservationPath e \<notin> state_file u" for e
    using u v ne volume_path_inj [of v u] reservation_never_volume [OF u, of e]
    by (auto simp: state_file_def valid_volume_def)
  have dirs: "set (dirs_to ZeroFSRunDir) \<inter> state_file u = {}" "set (dirs_to nbdByDeviceDir) \<inter> state_file u = {}"
    using volume_path_not_dir [OF u] by (auto simp: dirs_to_run state_file_def run_dirs_def)
  note rules = keep.rel_intros guar np keeps_MkdirAll dirs
  show c: "state_io_rel (keeps (state_file u)) (clearVolumeNBDState E v d)" for d
    unfolding clearVolumeNBDState_def by (intro rules)
  have e: "state_io_rel (keeps (state_file u)) (ensureRunDirs E)"
    unfolding ensureRunDirs_def by (intro rules)
  have w: "state_io_rel (keeps (state_file u)) (writeVolumeNBDState E v d)" for d
    unfolding writeVolumeNBDState_def by (intro rules e)
  have g: "state_io_rel (keeps (state_file u)) (gc_reservation E (deviceReservationPath d))" for d
    unfolding gc_reservation_def mustReadFile_def Let_def by (intro rules)
  have s: "state_io_rel (keeps (state_file u)) (reserve_scan E v ds)" for ds
  proof (induction ds)
    case (Cons d ds)
    show ?case unfolding reserve_scan.simps Let_def by (intro rules rel_bool Cons.IH w g)
  qed (simp add: keep.rel_ret)
  show "state_io_rel (keeps (state_file u)) (reserveNBDDevice E v)"
    unfolding reserveNBDDevice_def reserve_fresh_def ensure_reservation_def Let_def
    by (intro rules e s c)
qed

section \<open>A successful reservation is recorded\<close>

lemma triple_seq: "(\<And>x. triple (\<lambda>_. True) (f x) Q) \<Longrightarrow> triple (\<lambda>_. True) (m \<bind> f) Q"
  by (simp add: triple_def split_beta)

lemma WriteFile_done:
  assumes "no_faults E" "result (os_WriteFile E p s) w = None"
  shows "\<exists>t. node (final (os_WriteFile E p s) w) p = Some (FReg s t)"
  using assms by (auto simp: os_WriteFile_def run_step run_WriteString split: option.splits fnode.splits if_splits)

lemma write_records:
  assumes "no_faults E" "nbdDevicePathRe d"
  shows "triple (\<lambda>_. True) (writeVolumeNBDState E v d) (\<lambda>e w. e = None \<longrightarrow> vol_dev w v = Some d)"
proof -
  have d: "TrimSpace d = d" "d \<noteq> []" using assms(2) nbd_dev_trim by (auto elim: nbd_dev_cases)
  have "vol_dev (final (os_WriteFile E (volumeNBDStatePath v) (TrimSpace d)) w) v = Some d"
    if "result (os_WriteFile E (volumeNBDStatePath v) (TrimSpace d)) w = None" for w
    using WriteFile_done [OF assms(1) that] d by (auto simp: vol_dev_def)
  then show ?thesis
    by (auto simp: triple_def writeVolumeNBDState_def split_beta split: option.splits)
qed

lemma scan_records:
  assumes "no_faults E" "list_all nbdDevicePathRe ds"
  shows "triple (\<lambda>_. True) (reserve_scan E v ds) (\<lambda>r w. \<forall>d. r = Inr d \<longrightarrow> vol_dev w v = Some d)"
  using assms(2)
proof (induction ds)
  case Nil
  then show ?case by (simp add: triple_def)
next
  case (Cons d ds)
  have IH: "triple (\<lambda>_. True) (reserve_scan E v ds) (\<lambda>r w. \<forall>d. r = Inr d \<longrightarrow> vol_dev w v = Some d)"
    using Cons by simp
  have w: "triple (\<lambda>_. True) (writeVolumeNBDState E v d) (\<lambda>e w. e = None \<longrightarrow> vol_dev w v = Some d)"
    using write_records [OF assms(1)] Cons.prems by simp
  have b: "triple P (case b of True \<Rightarrow> m | False \<Rightarrow> n) Q" if "triple P m Q" "triple P n Q"
    for P and m n :: "('a, string + string) io" and Q b
    using that by (cases b) auto
  have last: "triple (\<lambda>_. True) (do { e \<leftarrow> writeVolumeNBDState E v d;
      case e of Some err \<Rightarrow> do { _ \<leftarrow> os_Remove E p; ret (Inl err) } | None \<Rightarrow> ret (Inr d) })
      (\<lambda>r w. \<forall>d. r = Inr d \<longrightarrow> vol_dev w v = Some d)" for p
    by (rule triple_bind [OF w]) (auto simp: triple_def split_beta split: option.split)
  show ?case
    unfolding reserve_scan.simps Let_def by (intro triple_seq triple_sum triple_option b IH last)
qed

lemma fresh_records:
  assumes "no_faults E"
  shows "triple (\<lambda>_. True) (reserve_fresh E v) (\<lambda>r w. \<forall>d. r = Inr d \<longrightarrow> vol_dev w v = Some d)"
  unfolding reserve_fresh_def
proof (rule triple_bind)
  show "triple (\<lambda>_. True) (listNBDDevices E) (\<lambda>ds _. list_all nbdDevicePathRe ds)"
    by (auto simp: triple_def listNBDDevices_def split_beta list_all_iff)
  show "triple (\<lambda>_. list_all nbdDevicePathRe ds)
      (if ds = [] then ret (Inl ''no /dev/nbd* devices found (is the nbd module loaded and /dev mounted?)'')
       else reserve_scan E v ds) (\<lambda>r w. \<forall>d. r = Inr d \<longrightarrow> vol_dev w v = Some d)" for ds
    using scan_records [OF assms, of ds v] by (auto simp: triple_def)
qed

lemma reserve_records:
  assumes E: "no_faults E" and v: "valid_volume v" and r: "result (reserveNBDDevice E v) w = Inr d"
  shows "vol_dev (final (reserveNBDDevice E v) w) v = Some d"
proof -
  let ?w0 = "with_dirs E w"
  have f: "result (reserve_fresh E v) w' = Inr d \<Longrightarrow> vol_dev (final (reserve_fresh E v) w') v = Some d" for w'
    using fresh_records [OF E, of v] by (simp add: triple_def)
  have kr: "state_io_rel (keeps (state_file v)) (ensure_reservation E v e)" for e
    unfolding ensure_reservation_def Let_def
    using reservation_never_volume [OF v, of e]
    by (intro keep.rel_intros guar) (auto simp: state_file_def)
  have k: "vol_dev (final (ensure_reservation E v e) w') v = vol_dev w' v" for e w'
    by (rule keeps_state_file, rule io_relD, rule kr)
  have "result (ensureRunDirs E) w = None"
    using r by (auto simp: reserveNBDDevice_def split_beta split: option.splits)
  then have run: "run_state (reserveNBDDevice E v) w = run_state (case vol_dev ?w0 v of
        Some existing \<Rightarrow> do {
          st \<leftarrow> os_Stat E existing;
          case st of
            Inr _ \<Rightarrow> do { ensure_reservation E v existing; ret (Inr existing) }
          | Inl _ \<Rightarrow> do { clearVolumeNBDState E v existing; reserve_fresh E v } }
      | None \<Rightarrow> reserve_fresh E v) (tick ?w0)"
    by (simp add: reserveNBDDevice_def split_beta run_readVolumeNBDState [OF E])
  show ?thesis
    using r f k unfolding run
    by (auto simp: split_beta run_Stat [OF E] split: option.splits)
qed


section \<open>The handlers and the run directory\<close>

text \<open>Everything but the reservation and the clearing leaves the run directory alone.\<close>

lemma keeps_stages:
  assumes E: "outside_keeps A E"
  shows "set (dirs_to t) \<inter> A = {} \<Longrightarrow> state_io_rel (keeps A) (stage_mkdir E t)"
    and "state_io_rel (keeps A) (stage_create_pod E ns req)"
    and "state_io_rel (keeps A) (wait_socket E p n)"
    and "state_io_rel (keeps A) (stage_mount_9p E s t')"
    and "state_io_rel (keeps A) (stage_disk E req)"
    and "state_io_rel (keeps A) (stage_umount_9p E t')"
    and "state_io_rel (keeps A) (stage_mkfs E fs d)"
    and "state_io_rel (keeps A) (stage_mount_fs E req fs d)"
proof -
  note rules = keep.rel_intros guar keeps_calls [OF E] keeps_nbd_commands [OF E] keeps_mounter [OF E] rel_os_error
  show "set (dirs_to t) \<inter> A = {} \<Longrightarrow> state_io_rel (keeps A) (stage_mkdir E t)"
    unfolding stage_mkdir_def publish_fail_def stage_fail_def by (intro rules keeps_MkdirAll)
  show "state_io_rel (keeps A) (wait_socket E p n)"
  proof (induction n)
    case (Suc n)
    then show ?case unfolding wait_socket.simps publish_fail_def stage_fail_def by (intro rules)
  qed (simp add: keep.rel_ret)
  show "state_io_rel (keeps A) (stage_create_pod E ns req)"
    "state_io_rel (keeps A) (stage_mount_9p E s t')" "state_io_rel (keeps A) (stage_disk E req)"
    "state_io_rel (keeps A) (stage_umount_9p E t')" "state_io_rel (keeps A) (stage_mkfs E fs d)"
    "state_io_rel (keeps A) (stage_mount_fs E req fs d)"
    unfolding stage_create_pod_def stage_mount_9p_def stage_disk_def stage_umount_9p_def stage_mkfs_def
      stage_mount_fs_def publish_fail_def stage_fail_def Let_def
    by (intro rules)+
qed

text \<open>The guarantee of a publish towards other volumes: it leaves their state files alone. This is what
  the handlers of those volumes rely on when they run at the same time.\<close>

lemma keeps_publish_other:
  assumes E: "outside_keeps (state_file u) E" and u: "valid_volume u" and v: "valid_volume (pr_VolumeId req)"
    and ne: "u \<noteq> pr_VolumeId req" and t: "pr_TargetPath req \<notin> run_files"
  shows "state_io_rel (keeps (state_file u)) (NodePublishVolume E ns req)"
proof -
  have d: "set (dirs_to (pr_TargetPath req)) \<inter> state_file u = {}"
    using dirs_to_outside [OF t] state_file_run [OF u] by blast
  note rules = keep.rel_intros keeps_metrics keeps_nbd_reads keeps_calls [OF E] keeps_nbd_commands [OF E]
    keeps_mounter [OF E] keeps_stages(1) [OF E d] keeps_stages(2-) [OF E] keeps_other_nbd [OF u v ne]
  show ?thesis
    unfolding NodePublishVolume_def publish_attempt_def publish_stages_def publish_device_def clean_stale_def
      publish_cleanup_def stage_reserve_def stage_connect_def publish_fail_def stage_fail_def
    by (intro rules)
qed

lemma cleanup_clears:
  assumes E: "no_faults E" "outside_keeps (state_file v) E" and v: "valid_volume v"
  shows "vol_dev (final (publish_cleanup E ns v t) w) v = None"
proof -
  let ?w1 = "final (unmountBestEffort E t) w"
  have kd: "vol_dev (final (RemovePod E m v) w') v = vol_dev w' v" for m w'
    by (rule keeps_state_file [OF io_relD [OF keeps_mounter(2) [OF E(2)]]])
  show ?thesis
    by (cases "vol_dev ?w1 v")
      (simp_all add: publish_cleanup_def split_beta run_readVolumeNBDState [OF E(1)] kd clear_vol_dev [OF E(1) v])
qed

text \<open>C5: on a host without I/O faults, a publish of a valid volume ID at a target outside the run directory
  that fails after validation leaves the volume without device, whatever stage it failed in, as long as nobody else writes the volume's state file; handlers of other volumes may run
  meanwhile. And it leaves every other volume's device as it was, if the outside does.\<close>

theorem NodePublishVolume_failure_releases:
  assumes "no_faults E" "outside_keeps (state_file (pr_VolumeId req)) E" "valid_volume (pr_VolumeId req)"
    and "pr_TargetPath req \<notin> run_files" "publish_validate req = Inr fs" "result (NodePublishVolume E ns req) w = Inl e"
  shows "vol_dev (final (NodePublishVolume E ns req) w) (pr_VolumeId req) = None \<and>
    (\<forall>u. valid_volume u \<and> u \<noteq> pr_VolumeId req \<and> outside_keeps (state_file u) E \<longrightarrow>
       vol_dev (final (NodePublishVolume E ns req) w) u = vol_dev w u)"
proof -
  have "vol_dev (final (NodePublishVolume E ns req) w) (pr_VolumeId req) = None"
    using assms(5,6) cleanup_clears [OF assms(1-3), of ns "pr_TargetPath req"]
    by (auto simp: NodePublishVolume_def publish_attempt_def split_beta split: if_splits sum.splits)
  moreover have "vol_dev (final (NodePublishVolume E ns req) w) u = vol_dev w u"
    if "valid_volume u" "u \<noteq> pr_VolumeId req" "outside_keeps (state_file u) E" for u
    by (rule keeps_state_file, rule io_relD, rule keeps_publish_other) (use assms that in auto)
  ultimately show ?thesis by blast
qed


section \<open>The simulated host satisfies the hypotheses\<close>

lemma sim_no_faults: "no_faults sim_env"
  by (simp add: no_faults_def sim_fields)

lemma outside_run: "HasPrefix p ''/run/'' = False \<Longrightarrow> p \<notin> run_files"
  by (auto simp: run_files_def HasPrefix_iff ZeroFSRunDir_def)

lemma pid_outside: "pid_file d \<notin> run_files" "ZeroFSBaseDir @ s \<notin> run_files"
  by (rule outside_run, simp add: pid_file_def ZeroFSBaseDir_def HasPrefix_def)+

lemma keeps_sim_cmd: "keeps run_files w (snd (sim_cmd c args w))"
  using pid_outside outside_run
  by (auto simp: sim_cmd_def sim_findmnt_def sim_umount_def sim_mount_def sim_nbd_client_def sim_truncate_def
      keeps_def Let_def)

lemma keeps_sim_pod: "keeps run_files w (snd (sim_create_pod p w))"
  using pid_outside
  by (auto simp: sim_create_pod_def sim_sockets_def keeps_def Let_def split: option.splits)

lemma sim_outside_keeps: "outside_keeps run_files sim_env"
  unfolding outside_keeps_def sim_fields state_io_rel_def
  by (simp add: keeps_sim_cmd keeps_sim_pod) (simp add: keeps_def)

lemma sim_keeps_state: "valid_volume v \<Longrightarrow> outside_keeps (state_file v) sim_env"
  by (rule outside_keeps_mono [OF state_file_run sim_outside_keeps])

definition sim_no_config :: NodePublishVolumeRequest where
  "sim_no_config = (sim_publish ''pvc-1'' ''/t'')\<lparr>pr_VolumeContext := [''filesystem'' \<mapsto> ''ext4'']\<rparr>"

theorem NodePublishVolume_failure_releases_witness:
  "vol_dev (final (NodePublishVolume sim_env sim_node sim_no_config) sim_world) ''pvc-1'' = None"
proof -
  have r: "result (NodePublishVolume sim_env sim_node sim_no_config) sim_world = Inl (Status InvalidArgument
      ''failed to determine configMapName for volume, ensure configMapName is specified'')"
    by (simp add: eval sim_no_config_def sim_world_eval cong: bind_weak_cong)
  have v: "valid_volume (pr_VolumeId sim_no_config)" unfolding sim_no_config_def by code_simp
  have t: "pr_TargetPath sim_no_config \<notin> run_files"
    by (rule outside_run) (simp add: sim_no_config_def sim_publish_def HasPrefix_def)
  have p: "publish_validate sim_no_config = Inr ''ext4''"
    by (simp add: publish_validate_def sim_no_config_def sim_publish_def)
  show ?thesis
    using NodePublishVolume_failure_releases [OF sim_no_faults sim_keeps_state [OF v] v t p r]
    by (simp add: sim_no_config_def sim_publish_def)
qed

section \<open>Success\<close>

lemma try_then_Inr:
  assumes "result (try_then m f) w = Inr y"
  obtains x where "result m w = Inr x" "result (f x) (final m w) = Inr y"
    "final (try_then m f) w = final (f x) (final m w)"
  using assms by (auto simp: try_then_def split_beta split: sum.splits)

abbreviation any :: "event \<Rightarrow> bool" where
  "any \<equiv> (\<lambda>_. True)"

lemma any_exec: "state_io_rel (emits any) (exec_Command E c args)" "state_io_rel (emits any) (recordStageError op st)"
  "state_io_rel (emits any) (time_Sleep E n)"
  by (rule emits_calls emits_recordStageError, simp?)+

lemma any_nbd: "state_io_rel (emits any) (findMountSource E t)" "state_io_rel (emits any) (unmountBestEffort E t)"
  "state_io_rel (emits any) (detachNBDDeviceBestEffort E d)"
  by (rule emits_findMountSource emits_unmountBestEffort emits_detach, simp, simp?)+

lemma any_mounter: "state_io_rel (emits any) (CreatePod E m v n c)"
proof -
  note rules = em.rel_intros quiet_wait [THEN em.rel_quiet] quiet_client_read [THEN em.rel_quiet] emits_calls
  show ?thesis
    unfolding CreatePod_def apply_secret_def apply_pod_def create_and_wait_def finish_ready_def Let_def
    by (intro rules TrueI)
qed

lemma any_wait_socket: "state_io_rel (emits any) (wait_socket E p n)"
proof (induction n)
  case (Suc n)
  then show ?case
    unfolding wait_socket.simps publish_fail_def stage_fail_def
    by (intro em.rel_facts any_exec rel_os_error)
qed (simp add: em.rel_ret)

lemma any_stages:
  "state_io_rel (emits any) (stage_mkdir E t)" "state_io_rel (emits any) (stage_create_pod E ns req)"
  "state_io_rel (emits any) (stage_mount_9p E s t)" "state_io_rel (emits any) (stage_disk E req)"
  "state_io_rel (emits any) (stage_umount_9p E t)" "state_io_rel (emits any) (stage_reserve E v)"
  "state_io_rel (emits any) (stage_mkfs E fs d)" "state_io_rel (emits any) (clean_stale E v)"
  unfolding stage_mkdir_def stage_create_pod_def stage_mount_9p_def stage_disk_def stage_umount_9p_def
    stage_reserve_def stage_mkfs_def clean_stale_def publish_fail_def stage_fail_def Let_def
  by (intro em.rel_facts any_exec any_nbd any_mounter rel_os_error)+

definition connect_args :: "string \<Rightarrow> string \<Rightarrow> string list" where
  "connect_args v d = [''-unix'', nbd_socket v, ''-N'', ''disk'', ''-persist'', ''-timeout'', ''0'',
     ''-connections'', ''4'', d]"

lemma connect_success:
  assumes "result (stage_connect E v d) w = Inr ()"
  shows "\<exists>out. trace (final (stage_connect E v d) w) = trace w @ [Exec ''nbd-client'' (connect_args v d) out None]"
    and "outside_keeps A E \<Longrightarrow> keeps A w (final (stage_connect E v d) w)"
proof -
  let ?c = "exec_Command E ''nbd-client'' (connect_args v d)"
  obtain out err w1 where c: "run_state ?c w = ((out, err), w1)" by (metis surj_pair)
  have err: "err = None" and fin: "final (stage_connect E v d) w =
      final (observe \<lparr>st_operation = ''node_publish'', st_stage = ''connect_nbd'', st_start = clock w\<rparr>) w1"
    using assms c
    by (auto simp: stage_connect_def startStage_def publish_fail_def stage_fail_def recordStageError_def
        connect_args_def [symmetric] split_beta split: option.splits)
  have "trace w1 = trace w @ [Exec ''nbd-client'' (connect_args v d) out None]"
    using run_exec [of E "''nbd-client''" "connect_args v d" w] c err by simp
  then show "\<exists>out. trace (final (stage_connect E v d) w) =
      trace w @ [Exec ''nbd-client'' (connect_args v d) out None]"
    by (simp add: fin)
  assume E: "outside_keeps A E"
  have "w1 = final ?c w" using c by simp
  then have "keeps A w w1" by (simp only: io_relD [OF keeps_calls(1) [OF E]])
  then show "keeps A w (final (stage_connect E v d) w)"
    unfolding fin by (rule keep.step_trans [OF _ io_relD [OF keeps_metrics(2)]])
qed

lemma mount_success:
  assumes "result (stage_mount_fs E req fs d) w = Inr ()"
  shows "\<exists>out. trace (final (stage_mount_fs E req fs d) w) =
    trace w @ [Exec ''mount'' (mount_args fs (mount_flags req) d (pr_TargetPath req)) out None]"
proof -
  let ?a = "mount_args fs (mount_flags req) d (pr_TargetPath req)"
  obtain out err w1 where c: "run_state (exec_Command E ''mount'' ?a) w = ((out, err), w1)" by (metis surj_pair)
  have "trace w1 = trace w @ [Exec ''mount'' ?a out err]"
    using run_exec [of E "''mount''" ?a w] c by simp
  then show ?thesis
    using assms c by (auto simp: stage_mount_fs_def startStage_def split_beta split: option.splits)
qed


lemma device_success:
  assumes r: "result (publish_device E req fs d) w = Inr ()"
  defines "w' \<equiv> final (publish_device E req fs d) w"
  shows "\<exists>es out o'. trace w' = trace w @ es @
        [Exec ''mount'' (mount_args fs (mount_flags req) d (pr_TargetPath req)) out None] \<and>
      Exec ''nbd-client'' (connect_args (pr_VolumeId req) d) o' None \<in> set es"
    and "outside_keeps A E \<Longrightarrow> keeps A w w'"
proof -
  let ?c = "stage_connect E (pr_VolumeId req) d" and ?k = "stage_mkfs E fs d" and ?m = "stage_mount_fs E req fs d"
  from r have c: "result ?c w = Inr ()" and m: "result ?m (final ?k (final ?c w)) = Inr ()"
    and w': "w' = final ?m (final ?k (final ?c w))"
    unfolding publish_device_def w'_def by (auto elim!: try_then_Inr)
  obtain o' where tc: "trace (final ?c w) = trace w @ [Exec ''nbd-client'' (connect_args (pr_VolumeId req) d) o' None]"
    using connect_success(1) [OF c] by blast
  obtain es where tk: "trace (final ?k (final ?c w)) = trace (final ?c w) @ es"
    using io_relD [OF any_stages(7)] unfolding emits_def by blast
  obtain out where tm: "trace w' = trace (final ?k (final ?c w)) @
      [Exec ''mount'' (mount_args fs (mount_flags req) d (pr_TargetPath req)) out None]"
    using mount_success [OF m] w' by auto
  show "\<exists>es out o'. trace w' = trace w @ es @
        [Exec ''mount'' (mount_args fs (mount_flags req) d (pr_TargetPath req)) out None] \<and>
      Exec ''nbd-client'' (connect_args (pr_VolumeId req) d) o' None \<in> set es"
    using tc tk tm
    by (intro exI [of _ "Exec ''nbd-client'' (connect_args (pr_VolumeId req) d) o' None # es"]) auto
  assume E: "outside_keeps A E"
  show "keeps A w w'"
    unfolding w'
    by (rule keep.step_trans [OF keep.step_trans [OF connect_success(2) [OF c E] io_relD [OF keeps_stages(7) [OF E]]]
          io_relD [OF keeps_stages(8) [OF E]]])
qed

lemma stages_success:
  assumes E: "no_faults E" "outside_keeps (state_file (pr_VolumeId req)) E" and v: "valid_volume (pr_VolumeId req)"
    and r: "result (publish_stages E ns req fs) w = Inr ()"
  defines "w' \<equiv> final (publish_stages E ns req fs) w"
  shows "\<exists>d es out o'. vol_dev w' (pr_VolumeId req) = Some d \<and>
      trace w' = trace w @ es @ [Exec ''mount'' (mount_args fs (mount_flags req) d (pr_TargetPath req)) out None] \<and>
      Exec ''nbd-client'' (connect_args (pr_VolumeId req) d) o' None \<in> set es"
proof -
  let ?done = "\<lambda>m w1. emits any w w1 \<and> result m w1 = Inr () \<and> final m w1 = w'"
  have start: "?done (publish_stages E ns req fs) w" using r by (simp add: w'_def em.step_refl)
  have chain: "?done g (final m w1)"
    if "?done (try_then m (\<lambda>_. g)) w1" "state_io_rel (emits any) m" for m :: "('a, rpc_error + unit) io" and g w1
    using that(1) em.step_trans [OF _ io_relD [OF that(2)]] by (auto elim!: try_then_Inr)
  note stages = start [unfolded publish_stages_def, THEN chain, OF any_stages(1), THEN chain, OF any_stages(2),
      THEN chain, OF any_wait_socket, THEN chain, OF any_stages(3), THEN chain, OF any_stages(4),
      THEN chain, OF any_stages(5)]
  from stages obtain w1 where w1: "emits any w w1"
    and t: "result (try_then (stage_reserve E (pr_VolumeId req)) (publish_device E req fs)) w1 = Inr ()"
      "final (try_then (stage_reserve E (pr_VolumeId req)) (publish_device E req fs)) w1 = w'" by blast
  obtain d w2 where res: "run_state (stage_reserve E (pr_VolumeId req)) w1 = (Inr d, w2)"
    and dev: "result (publish_device E req fs d) w2 = Inr ()" and w': "w' = final (publish_device E req fs d) w2"
    using t by (auto simp: prod_eq_iff elim!: try_then_Inr)
  have "result (reserveNBDDevice E (pr_VolumeId req)) w1 = Inr d" "w2 = final (reserveNBDDevice E (pr_VolumeId req)) w1"
    using res by (auto simp: stage_reserve_def split_beta publish_fail_def stage_fail_def split: sum.splits)
  then have "vol_dev w2 (pr_VolumeId req) = Some d" using reserve_records [OF E(1) v] by blast
  then have vd: "vol_dev w' (pr_VolumeId req) = Some d"
    using keeps_state_file [OF device_success(2) [OF dev E(2)]] w' by simp
  have "w2 = final (stage_reserve E (pr_VolumeId req)) w1" using res by simp
  then have "emits any w1 w2" by (simp only: io_relD [OF any_stages(6)])
  from em.step_trans [OF w1 this] obtain es1 where "trace w2 = trace w @ es1" by (auto simp: emits_def)
  with device_success(1) [OF dev] vd show ?thesis unfolding w' by fastforce
qed

text \<open>C4: on a host without I/O faults, a publish of a valid volume ID that succeeds either found the target already mounted from an NBD device, or has
  connected the device that the volume's state file now names to the volume's socket, and its last
  action was the successful mount of that device on the target with the requested file system and
  mount flags. Only the volume's own state file must be left alone meanwhile: handlers of other volumes
  may run at the same time.\<close>

theorem NodePublishVolume_success:
  assumes "no_faults E" "outside_keeps (state_file (pr_VolumeId req)) E" "valid_volume (pr_VolumeId req)"
    and "publish_validate req = Inr fs" "run_state (NodePublishVolume E ns req) w = (Inr (), w')"
  shows "(\<exists>out. trace w' = trace w @ [Exec ''findmnt'' [''-n'', ''-o'', ''SOURCE'', ''--target'', pr_TargetPath req]
        out None] \<and> HasPrefix (TrimSpace out) ''/dev/nbd'') \<or>
    (\<exists>d es out o'. vol_dev w' (pr_VolumeId req) = Some d \<and>
      trace w' = trace w @ es @ [Exec ''mount'' (mount_args fs (mount_flags req) d (pr_TargetPath req)) out None] \<and>
      Exec ''nbd-client'' (connect_args (pr_VolumeId req) d) o' None \<in> set es)"
proof -
  let ?f = "findMountSource E (pr_TargetPath req)"
  obtain src mounted w1 where f: "run_state ?f w = ((src, mounted), w1)" by (metis surj_pair)
  show ?thesis
  proof (cases "mounted \<and> HasPrefix src ''/dev/nbd''")
    case True
    then show ?thesis
      using f assms(4,5)
      by (auto simp: NodePublishVolume_def startStage_def findMountSource_def exec_Command_def external_def
          split_beta observe_def Let_def split: if_splits)
  next
    case False
    define w2 where "w2 = final (if mounted then unmountBestEffort E (pr_TargetPath req) else ret ()) w1"
    define w3 where "w3 = final (clean_stale E (pr_VolumeId req)) w2"
    have st: "result (publish_stages E ns req fs) w3 = Inr ()"
      "w' = final (observe \<lparr>st_operation = ''node_publish'', st_stage = ''total'', st_start = clock w\<rparr>)
        (final (publish_stages E ns req fs) w3)"
      using assms(4,5) f False
      by (auto simp: NodePublishVolume_def startStage_def publish_attempt_def w2_def w3_def split_beta
          split: if_splits sum.splits)
    have "w1 = final ?f w" using f by simp
    then have "emits any w w1" by (simp only: io_relD [OF any_nbd(1)])
    moreover have "emits any w1 w2" by (simp add: w2_def em.step_refl io_relD [OF any_nbd(2)])
    moreover have "emits any w2 w3" unfolding w3_def by (rule io_relD [OF any_stages(8)])
    ultimately have "emits any w w3" by (blast intro: em.step_trans)
    then obtain es0 where "trace w3 = trace w @ es0" by (auto simp: emits_def)
    moreover have "vol_dev w' = vol_dev (final (publish_stages E ns req fs) w3)"
      "trace w' = trace (final (publish_stages E ns req fs) w3)"
      by (auto simp: st(2) vol_dev_def node_def fun_eq_iff)
    ultimately show ?thesis using stages_success [OF assms(1-3) st(1)] by fastforce
  qed
qed


lemma sim_publish_run: "result (NodePublishVolume sim_env sim_node (sim_publish ''pvc-1'' ''/t'')) sim_world = Inr ()"
  by (simp add: eval sim_world_eval cong: bind_weak_cong)

lemma sim_publish_ok:
  "publish_validate (sim_publish v t) = (if v = [] then Inl ''volume ID cannot be empty''
     else if t = [] then Inl ''target path cannot be empty'' else Inr ''ext4'')"
  "pr_VolumeId (sim_publish v t) = v" "pr_TargetPath (sim_publish v t) = t"
  by (simp_all add: publish_validate_def sim_publish_def)

theorem NodePublishVolume_success_witness:
  "\<exists>w'. run_state (NodePublishVolume sim_env sim_node (sim_publish ''pvc-1'' ''/t'')) sim_world = (Inr (), w') \<and>
     (set (trace w') \<noteq> {})"
proof -
  let ?w = "final (NodePublishVolume sim_env sim_node (sim_publish ''pvc-1'' ''/t'')) sim_world"
  have r: "run_state (NodePublishVolume sim_env sim_node (sim_publish ''pvc-1'' ''/t'')) sim_world = (Inr (), ?w)"
    using sim_publish_run by (simp add: prod_eq_iff)
  have v: "valid_volume (pr_VolumeId (sim_publish ''pvc-1'' ''/t''))" by code_simp
  have p: "publish_validate (sim_publish ''pvc-1'' ''/t'') = Inr ''ext4''" by (simp add: sim_publish_ok)
  show ?thesis
    using NodePublishVolume_success [OF sim_no_faults sim_keeps_state [OF v] v p r] r by auto
qed

section \<open>Unpublishing\<close>

lemma keeps_unpublish_parts:
  assumes E: "outside_keeps A E"
  shows "state_io_rel (keeps A) (unpublish_umount E t)" "state_io_rel (keeps A) (unpublish_device E v src)"
    "state_io_rel (keeps A) (unpublish_detach E d)" "state_io_rel (keeps A) (unpublish_pod E ns v)"
  unfolding unpublish_umount_def unpublish_device_def unpublish_detach_def unpublish_pod_def
  by (intro keep.rel_intros guar keeps_calls [OF E] keeps_mounter [OF E])+

lemma keeps_unpublish_other:
  assumes "valid_volume u" "u \<noteq> ur_VolumeId req" "outside_keeps (state_file u) E" "valid_volume (ur_VolumeId req)"
  shows "state_io_rel (keeps (state_file u)) (NodeUnpublishVolume E ns req)"
  unfolding NodeUnpublishVolume_def stage_fail_def
  by (intro keep.rel_intros keeps_metrics keeps_unpublish_parts [OF assms(3)] keeps_nbd_commands [OF assms(3)]
      keeps_other_nbd [OF assms(1,4,2)])

text \<open>C10: on a host without I/O faults, an unpublish with a valid volume ID and a target path always succeeds, whatever the commands and the
  API server answer and whatever other handlers do meanwhile; afterwards the volume has no device, and
  every other volume's device is as it was, if the outside leaves it alone.\<close>

theorem NodeUnpublishVolume_always_succeeds:
  assumes "no_faults E" "valid_volume (ur_VolumeId req)" "ur_TargetPath req \<noteq> []"
  shows "result (NodeUnpublishVolume E ns req) w = Inr () \<and>
    vol_dev (final (NodeUnpublishVolume E ns req) w) (ur_VolumeId req) = None \<and>
    (\<forall>u. valid_volume u \<and> u \<noteq> ur_VolumeId req \<and> outside_keeps (state_file u) E \<longrightarrow>
       vol_dev (final (NodeUnpublishVolume E ns req) w) u = vol_dev w u)"
proof -
  have ne: "ur_VolumeId req \<noteq> []" using assms(2) by auto
  have obs: "vol_dev (final (observe t) w') = vol_dev w'" for t and w' :: "'a world"
    by (simp add: observe_def vol_dev_def fun_eq_iff)
  have "vol_dev (final (NodeUnpublishVolume E ns req) w) u = vol_dev w u"
    if "valid_volume u" "u \<noteq> ur_VolumeId req" "outside_keeps (state_file u) E" for u
    by (rule keeps_state_file [OF io_relD [OF keeps_unpublish_other [OF that assms(2)]]])
  then show ?thesis
    using assms(3) ne by (simp add: NodeUnpublishVolume_def split_beta obs clear_vol_dev [OF assms(1,2)])
qed

theorem NodeUnpublishVolume_always_succeeds_witness:
  "result (NodeUnpublishVolume sim_env sim_node (sim_unpublish ''pvc-1'' ''/t'')) sim_world = Inr ()"
proof -
  have "valid_volume (ur_VolumeId (sim_unpublish ''pvc-1'' ''/t''))" by code_simp
  moreover have "ur_TargetPath (sim_unpublish ''pvc-1'' ''/t'') \<noteq> []" by (simp add: sim_unpublish_def)
  ultimately show ?thesis
    using NodeUnpublishVolume_always_succeeds [OF sim_no_faults] by blast
qed

section \<open>The device of an unpublish\<close>

text \<open>What a call may do to a given device, and to the trace: no \<open>nbd-client -d\<close> of it.\<close>

lemma spares_RemovePod: "state_io_rel (emits (spares d)) (RemovePod E m v)"
proof -
  note rules = em.rel_intros quiet_wait [THEN em.rel_quiet] quiet_client_read [THEN em.rel_quiet] emits_calls
  show ?thesis
    unfolding RemovePod_def remove_secret_def force_delete_def by (intro rules) (simp_all add: spares_def)
qed

lemma spares_unpublish_parts:
  "state_io_rel (emits (spares d)) (findMountSource E t)" "state_io_rel (emits (spares d)) (unpublish_umount E t)"
  "state_io_rel (emits (spares d)) (unpublish_pod E ns v)" "state_io_rel (emits (spares d)) (unpublish_device E v src)"
  "e \<noteq> d \<Longrightarrow> state_io_rel (emits (spares d)) (unpublish_detach E e)"
proof -
  note rules = em.rel_intros em.rel_facts emits_recordStageError emits_calls spares_RemovePod
    quiet_wait [THEN em.rel_quiet]
  show "state_io_rel (emits (spares d)) (findMountSource E t)" by (rule emits_findMountSource) (simp add: spares_def)
  show "state_io_rel (emits (spares d)) (unpublish_umount E t)" "state_io_rel (emits (spares d)) (unpublish_pod E ns v)"
    "state_io_rel (emits (spares d)) (unpublish_device E v src)"
    "e \<noteq> d \<Longrightarrow> state_io_rel (emits (spares d)) (unpublish_detach E e)"
    unfolding unpublish_umount_def unpublish_pod_def unpublish_device_def unpublish_detach_def
    by (intro rules; simp add: spares_def)+
qed

text \<open>The handler taken apart: the device \<open>dev\<close> that it detaches and releases, and the state in which it
  releases it.\<close>

lemma unpublish_run:
  assumes "ur_VolumeId req \<noteq> []" "ur_TargetPath req \<noteq> []"
  obtains w1 dev w2 where
    "w1 = final (unpublish_umount E (ur_TargetPath req)) (final (findMountSource E (ur_TargetPath req)) w)"
    "dev = result (unpublish_device E (ur_VolumeId req) (fst (result (findMountSource E (ur_TargetPath req)) w))) w1"
    "w2 = final (unpublish_pod E ns (ur_VolumeId req)) (final (unpublish_detach E dev)
       (final (unpublish_device E (ur_VolumeId req) (fst (result (findMountSource E (ur_TargetPath req)) w))) w1))"
    "run_state (NodeUnpublishVolume E ns req) w = (Inr (), final (observe
       \<lparr>st_operation = ''node_unpublish'', st_stage = ''total'', st_start = clock w\<rparr>)
       (final (clearVolumeNBDState E (ur_VolumeId req) dev) w2))"
proof -
  let ?f = "findMountSource E (ur_TargetPath req)"
  have "\<not> snd (result ?f w) \<Longrightarrow> fst (result ?f w) = []"
    by (auto simp: findMountSource_def split_beta Let_def split: if_splits)
  then have src: "(if snd (result ?f w) then fst (result ?f w) else []) = fst (result ?f w)" by simp
  show thesis
    by (rule that [OF refl refl refl])
      (use assms src in \<open>simp add: NodeUnpublishVolume_def startStage_def split_beta\<close>)
qed

lemma keeps_unpublish_before:
  assumes E: "outside_keeps A E"
  shows "keeps A w (final (unpublish_umount E t) (final (findMountSource E t) w))"
    "keeps A w (final (unpublish_pod E ns v) (final (unpublish_detach E d) (final (unpublish_device E v src) w)))"
proof -
  note parts = keeps_unpublish_parts [OF E]
  show "keeps A w (final (unpublish_umount E t) (final (findMountSource E t) w))"
    by (rule keep.step_trans [OF io_relD [OF keeps_nbd_commands(1) [OF E]] io_relD [OF parts(1)]])
  show "keeps A w (final (unpublish_pod E ns v) (final (unpublish_detach E d) (final (unpublish_device E v src) w)))"
    by (rule keep.step_trans [OF io_relD [OF parts(2)] keep.step_trans [OF io_relD [OF parts(3)] io_relD [OF parts(4)]]])
qed

text \<open>C37: an unpublish trusts \<open>findmnt\<close>. On a host without I/O faults, when \<open>findmnt --target\<close> names a source
  that is not the volume's recorded device (it reports the file system that holds the directory, so for
  a target that is not mounted any more this is an ordinary answer), the unpublish succeeds and removes the
  volume's state file, but never detaches the recorded device, and the device's reservation stays,
  in the name of a volume that is gone.\<close>

theorem unpublish_leaks_device:
  assumes "no_faults E" "outside_keeps {deviceReservationPath d} E" "valid_volume (ur_VolumeId req)" "ur_TargetPath req \<noteq> []"
    and "dev_owner w d = Some (ur_VolumeId req)"
    and "result (findMountSource E (ur_TargetPath req)) w = (src, True)"
    and "deviceReservationPath src \<noteq> deviceReservationPath d"
  shows "\<exists>es. result (NodeUnpublishVolume E ns req) w = Inr () \<and>
    vol_dev (final (NodeUnpublishVolume E ns req) w) (ur_VolumeId req) = None \<and>
    dev_owner (final (NodeUnpublishVolume E ns req) w) d = Some (ur_VolumeId req) \<and>
    trace (final (NodeUnpublishVolume E ns req) w) = trace w @ es \<and>
    (\<forall>out err. Exec ''nbd-client'' [''-d'', d] out err \<notin> set es)"
proof -
  let ?v = "ur_VolumeId req" and ?t = "ur_TargetPath req" and ?p = "deviceReservationPath d"
  have ne: "?v \<noteq> []" using assms(3) by auto
  have sd: "src \<noteq> d" using assms(7) by auto
  have src: "src \<noteq> []" using assms(6) by (auto simp: findMountSource_def split_beta Let_def split: if_splits)
  let ?w1 = "final (unpublish_umount E ?t) (final (findMountSource E ?t) w)"
  let ?w2 = "final (unpublish_pod E ns ?v) (final (unpublish_detach E src) (final (unpublish_device E ?v src) ?w1))"
  have run: "run_state (NodeUnpublishVolume E ns req) w = (Inr (), final (observe
      \<lparr>st_operation = ''node_unpublish'', st_stage = ''total'', st_start = clock w\<rparr>)
      (final (clearVolumeNBDState E ?v src) ?w2))"
    using assms(6) src by (rule_tac unpublish_run [OF ne assms(4), of E w ns]) (simp add: unpublish_device_def)
  have k: "keeps {?p} w ?w2"
    by (rule keep.step_trans [OF keeps_unpublish_before(1) [OF assms(2)] keeps_unpublish_before(2) [OF assms(2)]])
  have "node (final (clearVolumeNBDState E ?v src) ?w2) ?p = node ?w2 ?p"
    using reservation_never_volume [OF assms(3), of d] assms(7) by (intro clear_node [OF assms(1)]) auto
  then have "node (final (clearVolumeNBDState E ?v src) ?w2) ?p = node w ?p" using k by (simp add: keeps_def)
  then have own: "dev_owner (final (clearVolumeNBDState E ?v src) ?w2) d = Some ?v"
    using assms(5) by (simp add: dev_owner_def)
  have "emits (spares d) w ?w2"
    by (intro em.rel_after em.step_refl spares_unpublish_parts sd)
  moreover have "trace (final (clearVolumeNBDState E ?v src) ?w2) = trace ?w2" by (rule quiet_trace [OF quiet_nbd(5)])
  ultimately obtain es where "trace (final (clearVolumeNBDState E ?v src) ?w2) = trace w @ es" "list_all (spares d) es"
    by (auto simp: emits_def)
  then show ?thesis
    using own clear_vol_dev [OF assms(1,3), of src ?w2]
    by (intro exI [of _ es])
      (auto simp: run observe_def vol_dev_def dev_owner_def list_all_iff spares_def)
qed

section \<open>Publishing a volume that has a device\<close>

lemma any_rest: "state_io_rel (emits any) (publish_attempt E ns req fs)"
proof -
  have "state_io_rel (emits any) (RemovePod E m v)" for m v
    by (rule io_emits_mono [OF spares_RemovePod]) simp
  then show ?thesis
    unfolding publish_attempt_def publish_stages_def publish_device_def publish_cleanup_def stage_connect_def
      stage_mount_fs_def publish_fail_def stage_fail_def
    by (intro em.rel_facts any_exec any_nbd any_stages any_wait_socket)
qed

text \<open>C36: publishing a volume whose recorded device is connected, at a target that is not mounted from an
  NBD device, detaches that device first, whatever it is used for: also when the volume is published at
  another target of the node and mounted there.\<close>

theorem publish_detaches_recorded_device:
  assumes "no_faults E" "publish_validate req = Inr fs" "nbdDevicePathRe d"
    and "vol_dev w (pr_VolumeId req) = Some d" "dev_connected w d = Some True"
    and "\<forall>c args w. c \<in> {''findmnt'', ''umount''} \<longrightarrow>
      vol_dev (final (run_cmd E c args) w) (pr_VolumeId req) = vol_dev w (pr_VolumeId req) \<and>
      dev_connected (final (run_cmd E c args) w) d = dev_connected w d"
    and "\<not> HasPrefix (fst (result (findMountSource E (pr_TargetPath req)) w)) ''/dev/nbd''"
  shows "\<exists>es out err. trace (final (NodePublishVolume E ns req) w) = trace w @ es \<and>
    Exec ''nbd-client'' [''-d'', d] out err \<in> set es"
proof -
  let ?v = "pr_VolumeId req" and ?t = "pr_TargetPath req"
  let ?f = "findMountSource E ?t"
  let ?u = "if snd (result ?f w) then unmountBestEffort E ?t else ret ()"
  define w2 where "w2 = final ?u (final ?f w)"
  define w3 where "w3 = final (clean_stale E ?v) w2"
  have "node (final (exec_Command E c args) w') = node (final (run_cmd E c args) w')" for c args w'
    by (simp add: exec_Command_def external_def split_beta node_def fun_eq_iff)
  then have cmd: "vol_dev (final (exec_Command E c args) w') ?v = vol_dev w' ?v \<and>
      dev_connected (final (exec_Command E c args) w') d = dev_connected w' d"
    if "c \<in> {''findmnt'', ''umount''}" for c args w'
    using assms(6) [rule_format, OF that, of args w'] by (simp add: vol_dev_def dev_connected_def)
  have fm: "vol_dev (final (findMountSource E t) w') ?v = vol_dev w' ?v \<and>
      dev_connected (final (findMountSource E t) w') d = dev_connected w' d" for t w'
    using cmd [of "''findmnt''"] by (simp add: findMountSource_def split_beta Let_def)
  have h: "vol_dev w2 ?v = Some d" "dev_connected w2 d = Some True"
    using assms(4,5) fm cmd [of "''umount''"] unfolding w2_def
    by (auto simp: unmountBestEffort_def split_beta)
  have d: "TrimSpace d = d" "d \<noteq> []" using assms(3) nbd_dev_trim by (auto elim: nbd_dev_cases)
  have c: "result (isNBDConnected E d) (tick w2) = Inr True" "final (isNBDConnected E d) (tick w2) = tick (tick w2)"
    using run_isNBDConnected [OF assms(1), of d "tick w2"] h(2) by auto
  have "w3 = final (clearVolumeNBDState E ?v d) (final (detachNBDDeviceBestEffort E d) (tick (tick w2)))"
    using h(1) c by (simp add: w3_def clean_stale_def run_readVolumeNBDState [OF assms(1)] split_beta)
  moreover obtain out err es1 where "trace (final (detachNBDDeviceBestEffort E d) (tick (tick w2))) =
      trace (tick (tick w2)) @ Exec ''nbd-client'' [''-d'', d] out err # es1"
    using detach_first [OF d, of E "tick (tick w2)"] by blast
  ultimately have t3: "trace w3 = trace w2 @ Exec ''nbd-client'' [''-d'', d] out err # es1"
    by (simp add: quiet_trace [OF quiet_nbd(5)] tick_def)
  have "emits any w w2"
    unfolding w2_def by (rule em.step_trans [OF io_relD [OF any_nbd(1)]], rule io_relD, intro em.rel_intros any_nbd)
  then obtain es0 where t2: "trace w2 = trace w @ es0" by (auto simp: emits_def)
  obtain es2 where t4: "trace (final (publish_attempt E ns req fs) w3) = trace w3 @ es2"
    using io_relD [OF any_rest, of w3 E ns req fs] by (auto simp: emits_def)
  have "trace (final (NodePublishVolume E ns req) w) = trace (final (publish_attempt E ns req fs) w3)"
    using assms(2,7)
    by (auto simp: NodePublishVolume_def startStage_def observe_def w2_def w3_def split_beta split: sum.splits)
  then show ?thesis
    using t2 t3 t4 by (intro exI [of _ "es0 @ Exec ''nbd-client'' [''-d'', d] out err # es1 @ es2"]) auto
qed

section \<open>On the simulated host\<close>

text \<open>A node on which \<open>pvc-1\<close> was published at \<open>/t\<close> from \<open>/dev/nbd0\<close>.\<close>

definition sim_published :: "(string \<times> string) list \<Rightarrow> sim world" where
  "sim_published ms = mk_world [(''/dev'', FDir), (''/dev/nbd0'', FNode), (''/dev/nbd1'', FNode), (''/run'', FDir),
     (''/run/zerofs-csi'', FDir), (''/run/zerofs-csi/by-device'', FDir),
     (''/run/zerofs-csi/by-device/nbd0'', FReg ''pvc-1'' 0), (''/run/zerofs-csi/pvc-1'', FReg ''/dev/nbd0'' 0),
     (''/sys/block/nbd0/pid'', FReg ''4711'' 0)] (sim_cluster\<lparr>s_mounts := ms\<rparr>)"

lemma sim_published_views:
  "vol_dev (sim_published ms) ''pvc-1'' = Some ''/dev/nbd0''" "dev_owner (sim_published ms) ''/dev/nbd0'' = Some ''pvc-1''"
  "dev_connected (sim_published ms) ''/dev/nbd0'' = Some True"
proof -
  have "Atoi (TrimSpace ''4711'') = (4711, None)" by code_simp
  then show "vol_dev (sim_published ms) ''pvc-1'' = Some ''/dev/nbd0''"
    "dev_owner (sim_published ms) ''/dev/nbd0'' = Some ''pvc-1''"
    "dev_connected (sim_published ms) ''/dev/nbd0'' = Some True"
    by (simp_all add: vol_dev_def dev_owner_def dev_connected_def eval sim_published_def mk_world_def)
qed

text \<open>The target is no longer mounted, and \<open>findmnt\<close> names the root file system.\<close>

theorem unpublish_leaks_device_witness:
  "dev_owner (final (NodeUnpublishVolume sim_env sim_node (sim_unpublish ''pvc-1'' ''/t''))
     (sim_published [(''/'', ''overlay'')])) ''/dev/nbd0'' = Some ''pvc-1''"
proof -
  have r: "ur_VolumeId (sim_unpublish ''pvc-1'' ''/t'') = ''pvc-1''" "ur_TargetPath (sim_unpublish ''pvc-1'' ''/t'') = ''/t''"
    by (simp_all add: sim_unpublish_def)
  have v: "valid_volume ''pvc-1''" "TrimSpace ''overlay\<newline>'' = ''overlay''"
    "deviceReservationPath ''overlay'' \<noteq> deviceReservationPath ''/dev/nbd0''" "nbdDevicePathRe ''/dev/nbd0''" by code_simp+
  have "outside_keeps {deviceReservationPath ''/dev/nbd0''} sim_env"
    using outside_keeps_mono [OF _ sim_outside_keeps] run_files_paths(2) [OF v(4)] by blast
  moreover have "result (findMountSource sim_env ''/t'') (sim_published [(''/'', ''overlay'')]) = (''overlay'', True)"
    by (simp add: eval sim_published_def mk_world_def sim_cluster_def v(2) cong: bind_weak_cong)
  ultimately show ?thesis
    using unpublish_leaks_device [OF sim_no_faults, of "''/dev/nbd0''" "sim_unpublish ''pvc-1'' ''/t''"] v sim_published_views(2)
    unfolding r by blast
qed

text \<open>A second pod asks for the volume at \<open>/u\<close> while \<open>/t\<close> is mounted.\<close>

theorem publish_detaches_recorded_device_witness:
  "\<exists>es out err. trace (final (NodePublishVolume sim_env sim_node (sim_publish ''pvc-1'' ''/u''))
       (sim_published [(''/t'', ''/dev/nbd0'')])) = trace (sim_published [(''/t'', ''/dev/nbd0'')]) @ es \<and>
     Exec ''nbd-client'' [''-d'', ''/dev/nbd0''] out err \<in> set es"
proof -
  have r: "publish_validate (sim_publish ''pvc-1'' ''/u'') = Inr ''ext4''" "pr_VolumeId (sim_publish ''pvc-1'' ''/u'') = ''pvc-1''"
    "pr_TargetPath (sim_publish ''pvc-1'' ''/u'') = ''/u''" by (simp_all add: sim_publish_ok)
  have d: "nbdDevicePathRe ''/dev/nbd0''" by code_simp
  have f: "\<not> HasPrefix (fst (result (findMountSource sim_env ''/u'') (sim_published [(''/t'', ''/dev/nbd0'')]))) ''/dev/nbd''"
    by (simp add: eval sim_published_def mk_world_def sim_cluster_def cong: bind_weak_cong)
  have c: "\<forall>c args w. c \<in> {''findmnt'', ''umount''} \<longrightarrow>
      vol_dev (final (run_cmd sim_env c args) w) ''pvc-1'' = vol_dev w ''pvc-1'' \<and>
      dev_connected (final (run_cmd sim_env c args) w) ''/dev/nbd0'' = dev_connected w ''/dev/nbd0''"
    by (auto simp: sim_fields sim_cmd_def sim_findmnt_def sim_umount_def vol_dev_def dev_connected_def Let_def)
  show ?thesis
    using publish_detaches_recorded_device [OF sim_no_faults r(1) d, unfolded r] sim_published_views(1,3) c f by blast
qed

end
