(* ===== verification/Node_Machine.thy ===== *)
theory Node_Machine
  imports Node_Publish
begin

text \<open>
  The node service as a whole: every call of the CSI node API, run to completion on any branch, is a
  run of the registry machine of \<^verbatim>\<open>Nbd_Machine\<close> whose reservations and releases are for the call's own
  volume. So no sequence of calls makes two volumes share a device, as long as reservations are made in
  time and \<^verbatim>\<open>findmnt\<close> does not name another volume's device.
\<close>

section \<open>Runs of the registry machine\<close>

text \<open>Runs all of whose events satisfy a condition.\<close>

definition reg_via :: "'x env \<Rightarrow> ('x world \<Rightarrow> reg_event \<Rightarrow> bool) \<Rightarrow> 'x world \<Rightarrow> 'x world \<Rightarrow> bool" where
  "reg_via E P w w' \<longleftrightarrow> (\<exists>h. reg_run E w h w' \<and> (\<forall>(w1, e)\<in>set h. P w1 e))"

interpretation rv: step_relation "reg_via E P" for E P
proof
  show "reg_via E P s s" for s
    unfolding reg_via_def by (rule exI [of _ "[]"]) (simp add: reg_run.start)
  show "reg_via E P s u" if st: "reg_via E P s t" and tu: "reg_via E P t u" for s t u
  proof -
    obtain h h' where "reg_run E s h t" "reg_run E t h' u" "\<forall>(w1, e)\<in>set h. P w1 e" "\<forall>(w1, e)\<in>set h'. P w1 e"
      using st tu unfolding reg_via_def by blast
    then show ?thesis unfolding reg_via_def using reg_run_append by (intro exI [of _ "h @ h'"]) auto
  qed
qed

lemma via_step: "reg_step E w e w' \<Longrightarrow> P w e \<Longrightarrow> reg_via E P w w'"
  unfolding reg_via_def using reg_run.step [OF reg_run.start] by (intro exI [of _ "[(w, e)]"]) auto

text \<open>The conditions a call's own events satisfy: host steps are free, and a release is of the recorded
  device on a host without I/O faults.\<close>

definition lenient :: "'x env \<Rightarrow> string \<Rightarrow> ('x world \<Rightarrow> reg_event \<Rightarrow> bool) \<Rightarrow> bool" where
  "lenient E v P \<longleftrightarrow> (\<forall>w. P w Host) \<and>
     (\<forall>w d. (no_faults E \<longrightarrow> valid_volume v \<longrightarrow> vol_dev w v = Some d) \<longrightarrow> P w (Release v d))"

lemma via_keeps: "lenient E v P \<Longrightarrow> keeps run_files w w' \<Longrightarrow> reg_via E P w w'"
  by (rule via_step [OF reg_step.host]) (simp_all add: lenient_def)

lemma via_io: "lenient E v P \<Longrightarrow> state_io_rel (keeps run_files) m \<Longrightarrow> state_io_rel (reg_via E P) m"
  by (auto simp: state_io_rel_def intro: via_keeps)

lemma via_clear:
  assumes "lenient E v P" "no_faults E \<Longrightarrow> valid_volume v \<Longrightarrow> vol_dev w v = Some d" "keeps run_files w w1"
  shows "reg_via E P w (final (clearVolumeNBDState E v d) w1)"
proof -
  have "P w1 (Release v d)"
    using assms keeps_views(1) [OF assms(3)] by (simp add: lenient_def)
  then show ?thesis
    by (rule rv.step_trans [OF via_keeps [OF assms(1,3)] via_step [OF reg_step.release]])
qed

lemma try_then_assoc: "try_then (try_then m f) g = try_then m (\<lambda>x. try_then (f x) g)"
  by (rule state.expand) (auto simp: try_then_def split_beta fun_eq_iff split: sum.split)

lemma read_state:
  "keeps run_files w (final (readVolumeNBDState E v) w)"
  "no_faults E \<Longrightarrow> result (readVolumeNBDState E v) w = vol_dev w v"
proof -
  show "keeps run_files w (final (readVolumeNBDState E v) w)" by (rule io_relD, rule keeps_nbd_reads)
  show "no_faults E \<Longrightarrow> result (readVolumeNBDState E v) w = vol_dev w v" by (simp add: run_readVolumeNBDState)
qed

section \<open>Publishing\<close>

lemma via_clean_stale:
  assumes E: "outside_keeps run_files E" and P: "lenient E v P"
  shows "reg_via E P w (final (clean_stale E v) w)"
proof -
  let ?r = "readVolumeNBDState E v"
  show ?thesis
  proof (cases "result ?r w")
    case None
    then show ?thesis using via_keeps [OF P read_state(1) [of w E v]] by (simp add: clean_stale_def split_beta)
  next
    case (Some d)
    define m where "m = do { c \<leftarrow> isNBDConnected E d; if c = Inr True then detachNBDDeviceBestEffort E d else ret () }"
    have "state_io_rel (keeps run_files) m"
      unfolding m_def by (intro keep.rel_intros guar keeps_nbd_commands E)
    then have k: "keeps run_files w (final m (final ?r w))" by (rule keep.rel_after [OF read_state(1)])
    have "no_faults E \<Longrightarrow> valid_volume v \<Longrightarrow> vol_dev w v = Some d" using read_state(2) [of E v w] Some by simp
    from via_clear [OF P this k] Some show ?thesis by (simp add: clean_stale_def m_def split_beta)
  qed
qed

lemma via_cleanup:
  assumes E: "outside_keeps run_files E" and P: "lenient E v P"
  shows "reg_via E P w (final (publish_cleanup E ns v t) w)"
proof -
  let ?w1 = "final (unmountBestEffort E t) w" and ?r = "readVolumeNBDState E v"
  have w1: "reg_via E P w ?w1" by (rule via_keeps [OF P io_relD [OF keeps_nbd_commands(2) [OF E]]])
  have rm: "state_io_rel (reg_via E P) (RemovePod E m v)" for m by (rule via_io [OF P keeps_mounter(2) [OF E]])
  have "reg_via E P w (final (case result ?r ?w1 of None \<Rightarrow> ret ()
      | Some dev \<Rightarrow> do { detachNBDDeviceBestEffort E dev; clearVolumeNBDState E v dev }) (final ?r ?w1))"
  proof (cases "result ?r ?w1")
    case None
    then show ?thesis using rv.step_trans [OF w1 via_keeps [OF P read_state(1)]] by simp
  next
    case (Some d)
    have k: "keeps run_files ?w1 (final (detachNBDDeviceBestEffort E d) (final ?r ?w1))"
      by (rule keep.rel_after [OF read_state(1) keeps_nbd_commands(3) [OF E]])
    have "no_faults E \<Longrightarrow> valid_volume v \<Longrightarrow> vol_dev ?w1 v = Some d" using read_state(2) [of E v ?w1] Some by simp
    from rv.step_trans [OF w1 via_clear [OF P this k]] Some show ?thesis by (simp add: split_beta)
  qed
  from rv.rel_after [OF this rm] show ?thesis by (simp add: publish_cleanup_def split_beta)
qed

text \<open>With the device recorded, its connection, formatting and mount.\<close>

lemma via_device:
  assumes E: "outside_keeps run_files E" and P: "lenient E (pr_VolumeId req) P"
    and d: "no_faults E \<Longrightarrow> valid_volume (pr_VolumeId req) \<Longrightarrow> vol_dev w (pr_VolumeId req) = Some d"
  shows "reg_via E P w (final (publish_device E req fs d) w)"
proof -
  let ?c = "exec_Command E ''nbd-client'' [''-unix'', nbd_socket (pr_VolumeId req), ''-N'', ''disk'',
       ''-persist'', ''-timeout'', ''0'', ''-connections'', ''4'', d]"
  let ?rest = "try_then (stage_mkfs E fs d) (\<lambda>_. stage_mount_fs E req fs d)"
  have k: "keeps run_files w (final ?c w)" by (rule io_relD [OF keeps_calls(1) [OF E]])
  have rest: "state_io_rel (reg_via E P) ?rest" by (rule via_io [OF P], intro keep.rel_try keeps_stages E)
  have met: "state_io_rel (reg_via E P) (observe x)" "state_io_rel (reg_via E P) (recordStageError op st)" for x op st
    by (rule via_io [OF P], rule keeps_metrics)+
  show ?thesis
  proof (cases "snd (result ?c w)")
    case None
    then have "final (publish_device E req fs d) w = final ?rest (final (observe
        \<lparr>st_operation = ''node_publish'', st_stage = ''connect_nbd'', st_start = clock w\<rparr>) (final ?c w))"
      by (simp add: publish_device_def stage_connect_def try_then_def startStage_def split_beta)
    then show ?thesis
      using rv.rel_after [OF rv.rel_after [OF via_keeps [OF P k] met(1)] rest] by simp
  next
    case (Some e)
    then have "final (publish_device E req fs d) w = final (recordStageError ''node_publish'' ''connect_nbd'')
        (final (clearVolumeNBDState E (pr_VolumeId req) d) (final ?c w))"
      by (simp add: publish_device_def stage_connect_def try_then_def startStage_def split_beta publish_fail_def
          stage_fail_def)
    then show ?thesis using rv.rel_after [OF via_clear [OF P d k] met(2)] by simp
  qed
qed

text \<open>The world in which the device is reserved: after the check of the target, the removal of what a
  previous attempt left, and the stages before the reservation.\<close>

definition publish_prologue :: "'x env \<Rightarrow> NodePublishVolumeRequest \<Rightarrow> ('x, unit) io" where
  "publish_prologue E req = do {
     (src, mounted) \<leftarrow> findMountSource E (pr_TargetPath req);
     (if mounted then unmountBestEffort E (pr_TargetPath req) else ret ());
     clean_stale E (pr_VolumeId req) }"

definition before_reserve :: "'x env \<Rightarrow> nodeService \<Rightarrow> NodePublishVolumeRequest \<Rightarrow> ('x, rpc_error + unit) io" where
  "before_reserve E ns req =
     try_then (stage_mkdir E (pr_TargetPath req)) (\<lambda>_.
     try_then (stage_create_pod E ns req) (\<lambda>_.
     try_then (wait_socket E (ninep_socket (pr_VolumeId req)) maxRetries) (\<lambda>_.
     try_then (stage_mount_9p E (ninep_socket (pr_VolumeId req)) (pr_TargetPath req)) (\<lambda>_.
     try_then (stage_disk E req) (\<lambda>_.
     stage_umount_9p E (pr_TargetPath req))))))"

definition reservation_world :: "'x env \<Rightarrow> nodeService \<Rightarrow> NodePublishVolumeRequest \<Rightarrow> 'x world \<Rightarrow> 'x world" where
  "reservation_world E ns req w = final (before_reserve E ns req) (final (publish_prologue E req) w)"

lemma publish_stages_split:
  "publish_stages E ns req fs = try_then (before_reserve E ns req) (\<lambda>_.
     try_then (stage_reserve E (pr_VolumeId req)) (publish_device E req fs))"
  by (simp add: publish_stages_def before_reserve_def try_then_assoc)

lemma keeps_before_reserve:
  assumes "outside_keeps run_files E" "pr_TargetPath req \<notin> run_files"
  shows "state_io_rel (keeps run_files) (before_reserve E ns req)"
  unfolding before_reserve_def by (intro keep.rel_intros keeps_stages assms(1) dirs_to_outside [OF assms(2)])

lemma via_reserve:
  assumes E: "outside_keeps run_files E" and P: "lenient E (pr_VolumeId req) P" "P w (Reserve (pr_VolumeId req))"
  shows "reg_via E P w (final (try_then (stage_reserve E (pr_VolumeId req)) (publish_device E req fs)) w)"
proof -
  let ?r = "reserveNBDDevice E (pr_VolumeId req)"
  have s: "reg_via E P w (final ?r w)" by (rule via_step, rule reg_step.reserve, rule P(2))
  have met: "state_io_rel (reg_via E P) (recordStageError op st)" for op st
    by (rule via_io [OF P(1)], rule keeps_metrics)
  show ?thesis
  proof (cases "result ?r w")
    case (Inl e)
    then show ?thesis
      using rv.rel_after [OF s met]
      by (simp add: try_then_def stage_reserve_def publish_fail_def stage_fail_def split_beta)
  next
    case (Inr d)
    have "no_faults E \<Longrightarrow> valid_volume (pr_VolumeId req) \<Longrightarrow> vol_dev (final ?r w) (pr_VolumeId req) = Some d"
      by (rule reserve_records [OF _ _ Inr])
    from rv.step_trans [OF s via_device [OF E P(1) this]] Inr show ?thesis
      by (simp add: try_then_def stage_reserve_def split_beta)
  qed
qed

lemma via_prologue:
  assumes E: "outside_keeps run_files E" and P: "lenient E (pr_VolumeId req) P"
  shows "reg_via E P w (final (publish_prologue E req) w)"
proof -
  let ?f = "findMountSource E (pr_TargetPath req)"
  let ?u = "\<lambda>m. if m then unmountBestEffort E (pr_TargetPath req) else ret ()"
  have "keeps run_files w (final (?u (snd (result ?f w))) (final ?f w))"
    by (rule keep.rel_after [OF io_relD [OF keeps_nbd_commands(1) [OF E]]]) (intro keep.rel_intros keeps_nbd_commands E)
  from rv.step_trans [OF via_keeps [OF P this] via_clean_stale [OF E P]] show ?thesis
    by (simp add: publish_prologue_def split_beta split: if_splits)
qed

text \<open>The whole handler: the check of the target alone, or the attempt after the prologue.\<close>

lemma publish_run:
  obtains (invalid) msg where "publish_validate req = Inl msg"
      "final (NodePublishVolume E ns req) w = final (recordStageError ''node_publish'' ''validate'') w"
    | (mounted) fs where "publish_validate req = Inr fs"
      "final (NodePublishVolume E ns req) w = final (observe
        \<lparr>st_operation = ''node_publish'', st_stage = ''total'', st_start = clock w\<rparr>)
        (final (findMountSource E (pr_TargetPath req)) w)"
    | (failed) fs where "publish_validate req = Inr fs"
      "final (NodePublishVolume E ns req) w = final (publish_attempt E ns req fs) (final (publish_prologue E req) w)"
    | (finished) fs where "publish_validate req = Inr fs"
      "final (NodePublishVolume E ns req) w = final (observe
        \<lparr>st_operation = ''node_publish'', st_stage = ''total'', st_start = clock w\<rparr>)
        (final (publish_attempt E ns req fs) (final (publish_prologue E req) w))"
proof (cases "publish_validate req")
  case (Inl msg)
  then show thesis
    by (rule invalid) (simp add: NodePublishVolume_def startStage_def publish_fail_def stage_fail_def split_beta Inl)
next
  case (Inr fs)
  let ?f = "findMountSource E (pr_TargetPath req)"
  show thesis
  proof (cases "snd (result ?f w) \<and> HasPrefix (fst (result ?f w)) ''/dev/nbd''")
    case True
    show thesis by (rule mounted [OF Inr]) (use True Inr in \<open>simp add: NodePublishVolume_def startStage_def split_beta\<close>)
  next
    case False
    let ?a = "publish_attempt E ns req fs" and ?w0 = "final (publish_prologue E req) w"
    show thesis
    proof (cases "result ?a ?w0")
      case (Inl e)
      show thesis
        by (rule failed [OF Inr])
          (use False Inr Inl in \<open>auto simp: NodePublishVolume_def startStage_def publish_prologue_def split_beta\<close>)
    next
      case r: (Inr u)
      show thesis
        by (rule finished [OF Inr])
          (use False Inr r in \<open>auto simp: NodePublishVolume_def startStage_def publish_prologue_def split_beta\<close>)
    qed
  qed
qed

lemma via_publish:
  assumes E: "outside_keeps run_files E" and t: "pr_TargetPath req \<notin> run_files"
    and P: "lenient E (pr_VolumeId req) P" "P (reservation_world E ns req w) (Reserve (pr_VolumeId req))"
  shows "reg_via E P w (final (NodePublishVolume E ns req) w)"
proof -
  let ?w0 = "final (publish_prologue E req) w"
  have met: "state_io_rel (reg_via E P) (observe x)" "state_io_rel (reg_via E P) (recordStageError op st)" for x op st
    by (rule via_io [OF P(1)], rule keeps_metrics)+
  have f: "reg_via E P w (final (findMountSource E (pr_TargetPath req)) w)"
    by (rule via_keeps [OF P(1) io_relD [OF keeps_nbd_commands(1) [OF E]]])
  note pro = via_prologue [OF E P(1), of w]
  have bef: "reg_via E P ?w0 (reservation_world E ns req w)"
    unfolding reservation_world_def by (rule via_keeps [OF P(1) io_relD [OF keeps_before_reserve [OF E t]]])
  have "reg_via E P ?w0 (final (publish_stages E ns req fs) ?w0)" for fs
    using rv.step_trans [OF bef via_reserve [OF E P]] bef
    by (simp add: publish_stages_split try_then_def [of "before_reserve E ns req"] split_beta
        reservation_world_def split: sum.split)
  then have att: "reg_via E P w (final (publish_attempt E ns req fs) ?w0)" for fs
    using rv.step_trans [OF pro]
    by (auto simp: publish_attempt_def split_beta split: sum.split
        intro: rv.step_trans [OF _ via_cleanup [OF E P(1)]])
  show ?thesis
    by (cases rule: publish_run [of req E ns w])
      (simp_all add: rv.rel_after [OF att met(1)] att rv.rel_after [OF f met(1)] io_relD [OF met(2)])
qed

section \<open>Unpublishing and the other calls\<close>

text \<open>What \<^verbatim>\<open>findmnt\<close> says of the target is not another volume's device.\<close>

definition own_source :: "'x env \<Rightarrow> NodeUnpublishVolumeRequest \<Rightarrow> 'x world \<Rightarrow> bool" where
  "own_source E req w \<longleftrightarrow> releasable w (ur_VolumeId req) (fst (result (findMountSource E (ur_TargetPath req)) w))"

lemma releasable_keeps: "keeps run_files w w' \<Longrightarrow> releasable w v d \<Longrightarrow> releasable w' v d"
  unfolding releasable_def by (auto simp: keeps_views(1))

text \<open>The device an unpublish releases is the volume's own, or the source that \<^verbatim>\<open>findmnt\<close> named.\<close>

lemma via_unpublish:
  assumes E: "outside_keeps run_files E" and P: "lenient E (ur_VolumeId req) P"
    and rel: "\<And>w' d. (no_faults E \<Longrightarrow> valid_volume (ur_VolumeId req) \<Longrightarrow> own_source E req w \<Longrightarrow>
        vol_dev w' (ur_VolumeId req) = Some d \<or> releasable w' (ur_VolumeId req) d) \<Longrightarrow> P w' (Release (ur_VolumeId req) d)"
  shows "reg_via E P w (final (NodeUnpublishVolume E ns req) w)"
proof (cases "ur_VolumeId req \<noteq> [] \<and> ur_TargetPath req \<noteq> []")
  case False
  have "state_io_rel (reg_via E P) (recordStageError op st)" for op st by (rule via_io [OF P], rule keeps_metrics)
  from io_relD [OF this, of w] False show ?thesis
    by (auto simp: NodeUnpublishVolume_def startStage_def stage_fail_def split_beta)
next
  case True
  let ?v = "ur_VolumeId req" and ?t = "ur_TargetPath req"
  let ?src = "fst (result (findMountSource E ?t) w)"
  have met: "state_io_rel (reg_via E P) (observe x)" for x by (rule via_io [OF P], rule keeps_metrics)
  from True show ?thesis
  proof (rule_tac unpublish_run [of req E w ns], blast, blast)
    fix w1 dev w2
    assume w1: "w1 = final (unpublish_umount E ?t) (final (findMountSource E ?t) w)"
      and dev: "dev = result (unpublish_device E ?v ?src) w1"
      and w2: "w2 = final (unpublish_pod E ns ?v) (final (unpublish_detach E dev) (final (unpublish_device E ?v ?src) w1))"
      and run: "run_state (NodeUnpublishVolume E ns req) w = (Inr (), final (observe
        \<lparr>st_operation = ''node_unpublish'', st_stage = ''total'', st_start = clock w\<rparr>) (final (clearVolumeNBDState E ?v dev) w2))"
    have k1: "keeps run_files w w1" unfolding w1 by (rule keeps_unpublish_before(1) [OF E])
    have k12: "keeps run_files w1 w2" unfolding w2 by (rule keeps_unpublish_before(2) [OF E])
    have k2: "keeps run_files w w2" by (rule keep.step_trans [OF k1 k12])
    have "vol_dev w2 ?v = Some dev \<or> releasable w2 ?v dev"
      if "no_faults E" "valid_volume ?v" "own_source E req w"
    proof (cases "?src = []")
      case True
      then have "vol_dev w1 ?v = Some dev \<or> dev = []"
        using that(1) by (auto simp: dev unpublish_device_def os_ReadFile_def run_step vol_dev_def
            split: option.splits fnode.splits)
      then show ?thesis using keeps_views(1) [OF k12 that(2)] by (auto simp: releasable_def)
    next
      case False
      then show ?thesis
        using that(3) releasable_keeps [OF k2] by (simp add: dev unpublish_device_def own_source_def)
    qed
    then have "P w2 (Release ?v dev)" by (rule rel)
    then have "reg_via E P w (final (clearVolumeNBDState E ?v dev) w2)"
      by (rule rv.step_trans [OF via_keeps [OF P k2] via_step [OF reg_step.release]])
    from rv.rel_after [OF this met] show ?thesis by (simp only: run snd_conv)
  qed
qed

lemma keeps_reconcile:
  assumes "outside_keeps run_files E" "state_io_rel (keeps run_files) (ctx_Done E)"
  shows "state_io_rel (keeps run_files) (reconcileOrphanedNBDDevices E)"
proof -
  have c: "state_io_rel (keeps run_files) (client_read (ctx_Done E))"
    unfolding client_read_def by (rule keeps_external [OF assms(2)])
  have "state_io_rel (keeps run_files) (reconcile_loop E ds)" for ds
    by (induction ds) (auto intro!: keep.rel_intros guar c keeps_calls keeps_nbd_commands assms(1))
  then show ?thesis unfolding reconcileOrphanedNBDDevices_def by (intro keep.rel_intros guar)
qed

lemma keeps_stats: "outside_keeps run_files E \<Longrightarrow> state_io_rel (keeps run_files) (NodeGetVolumeStats E req)"
  unfolding NodeGetVolumeStats_def by (intro keep.rel_intros keeps_calls)

section \<open>The node machine\<close>

text \<open>The calls of the node API and the start-up reconciliation, each run to completion, and the host's
  own activity. The step relation has no further guards.\<close>

datatype node_event = Publish NodePublishVolumeRequest | Unpublish NodeUnpublishVolumeRequest
  | Stats NodeGetVolumeStatsRequest | Reconciliation | Outside

inductive node_step :: "'x env \<Rightarrow> nodeService \<Rightarrow> 'x world \<Rightarrow> node_event \<Rightarrow> 'x world \<Rightarrow> bool" for E ns where
  publish: "node_step E ns w (Publish req) (final (NodePublishVolume E ns req) w)"
| unpublish: "node_step E ns w (Unpublish ureq) (final (NodeUnpublishVolume E ns ureq) w)"
| stats: "node_step E ns w (Stats sreq) (final (NodeGetVolumeStats E sreq) w)"
| reconcile: "node_step E ns w Reconciliation (final (reconcileOrphanedNBDDevices E) w)"
| host: "keeps run_files w w' \<Longrightarrow> node_step E ns w Outside w'"

inductive_cases node_stepE: "node_step E ns w e w'"

inductive node_run :: "'x env \<Rightarrow> nodeService \<Rightarrow> 'x world \<Rightarrow> ('x world \<times> node_event) list \<Rightarrow> 'x world \<Rightarrow> bool" for E ns where
  start: "node_run E ns w [] w"
| step: "node_run E ns w h w' \<Longrightarrow> node_step E ns w' e w'' \<Longrightarrow> node_run E ns w (h @ [(w', e)]) w''"

text \<open>The volume a call is for, and the registry events that are for this volume.\<close>

definition concerns :: "node_event \<Rightarrow> reg_event \<Rightarrow> bool" where
  "concerns ne e \<longleftrightarrow> (case e of Host \<Rightarrow> True
     | Reserve v \<Rightarrow> (case ne of Publish req \<Rightarrow> v = pr_VolumeId req | _ \<Rightarrow> False)
     | Release v d \<Rightarrow> (case ne of Publish req \<Rightarrow> v = pr_VolumeId req | Unpublish req \<Rightarrow> v = ur_VolumeId req | _ \<Rightarrow> False))"

text \<open>One proof for every condition on the events.\<close>

lemma node_step_via:
  assumes "node_step E ns w e w'" "outside_keeps run_files E" "state_io_rel (keeps run_files) (ctx_Done E)"
    and pub: "\<And>req. e = Publish req \<Longrightarrow> pr_TargetPath req \<notin> run_files \<and> lenient E (pr_VolumeId req) P \<and>
        P (reservation_world E ns req w) (Reserve (pr_VolumeId req))"
    and unpub: "\<And>req w' d. e = Unpublish req \<Longrightarrow> lenient E (ur_VolumeId req) P \<and>
        ((no_faults E \<longrightarrow> valid_volume (ur_VolumeId req) \<longrightarrow> own_source E req w \<longrightarrow>
          vol_dev w' (ur_VolumeId req) = Some d \<or> releasable w' (ur_VolumeId req) d) \<longrightarrow> P w' (Release (ur_VolumeId req) d))"
    and free: "\<And>w. P w Host"
  shows "reg_via E P w w'"
  using assms(1)
proof (cases rule: node_step.cases)
  case (publish req)
  then show ?thesis using via_publish [OF assms(2)] pub by simp
next
  case (unpublish req)
  then show ?thesis using via_unpublish [OF assms(2), of req P w ns] unpub [OF unpublish(1)] by blast
next
  case (stats req)
  then show ?thesis using via_step [OF reg_step.host [OF io_relD [OF keeps_stats [OF assms(2)]]]] free by simp
next
  case reconcile
  then show ?thesis
    using via_step [OF reg_step.host [OF io_relD [OF keeps_reconcile [OF assms(2,3)]]]] free by simp
next
  case host
  then show ?thesis using via_step [OF reg_step.host, of w w' P E] free by simp
qed

lemma node_step_ok:
  fixes w :: "'x world"
  assumes "node_step E ns w e w'" "no_faults E" "outside_keeps run_files E" "state_io_rel (keeps run_files) (ctx_Done E)"
    and pub: "\<And>req. e = Publish req \<Longrightarrow> pr_TargetPath req \<notin> run_files \<and> valid_volume (pr_VolumeId req) \<and>
        timely (reservation_world E ns req w)"
    and unpub: "\<And>req. e = Unpublish req \<Longrightarrow> valid_volume (ur_VolumeId req) \<and> own_source E req w"
  shows "reg_via E event_ok w w'"
proof (rule node_step_via [OF assms(1,3,4)])
  show "pr_TargetPath req \<notin> run_files \<and> lenient E (pr_VolumeId req) event_ok \<and>
      event_ok (reservation_world E ns req w) (Reserve (pr_VolumeId req))" if "e = Publish req" for req
    using pub [OF that] assms(2) by (simp add: lenient_def event_ok_def)
  show "lenient E (ur_VolumeId req) event_ok \<and>
      ((no_faults E \<longrightarrow> valid_volume (ur_VolumeId req) \<longrightarrow> own_source E req w \<longrightarrow>
        vol_dev w' (ur_VolumeId req) = Some d \<or> releasable w' (ur_VolumeId req) d) \<longrightarrow>
       event_ok w' (Release (ur_VolumeId req) d))" if "e = Unpublish req" for req d and w' :: "'x world"
    using unpub [OF that] assms(2) by (simp add: lenient_def event_ok_def)
qed (simp add: event_ok_def)

lemma node_run_ok:
  assumes "node_run E ns w h w'" "no_faults E" "outside_keeps run_files E" "state_io_rel (keeps run_files) (ctx_Done E)"
    and "\<forall>w1 req. (w1, Publish req) \<in> set h \<longrightarrow> pr_TargetPath req \<notin> run_files \<and> valid_volume (pr_VolumeId req) \<and>
      timely (reservation_world E ns req w1)"
    and "\<forall>w1 req. (w1, Unpublish req) \<in> set h \<longrightarrow> valid_volume (ur_VolumeId req) \<and> own_source E req w1"
  shows "reg_via E event_ok w w'"
  using assms
proof (induction rule: node_run.induct)
  case (start w)
  show ?case by (rule rv.step_refl)
next
  case (step w h w' e w'')
  have "reg_via E event_ok w w'" using step.IH step.prems by simp
  moreover have "reg_via E event_ok w' w''"
    using step.prems by (intro node_step_ok [OF step.hyps(2)]) auto
  ultimately show ?case by (rule rv.step_trans)
qed

section \<open>Properties\<close>

text \<open>C2: the node service refines the registry. Whatever a call of the node API or the start-up
  reconciliation does to the run directory, on any branch, early returns and I/O errors included, is a
  run of the registry machine: reservations and releases of the volume the call is for, and steps that
  leave the directory alone. It relies on this: the outside (commands, API server, the context) leaves
  the run directory alone, and the target path of a publish is outside it.\<close>

theorem node_refines_registry:
  assumes "node_step E ns w e w'" "outside_keeps run_files E" "state_io_rel (keeps run_files) (ctx_Done E)"
    and "\<forall>req. e = Publish req \<longrightarrow> pr_TargetPath req \<notin> run_files"
  shows "\<exists>h. reg_run E w h w' \<and> (\<forall>(w1, re)\<in>set h. concerns e re)"
proof -
  have "reg_via E (\<lambda>_. concerns e) w w'"
    by (rule node_step_via [OF assms(1-3)]) (use assms(4) in \<open>auto simp: lenient_def concerns_def\<close>)
  then show ?thesis by (simp add: reg_via_def)
qed

abbreviation sim_request :: NodePublishVolumeRequest where
  "sim_request \<equiv> sim_publish ''pvc-1'' ''/t''"

lemma sim_request_ok: "pr_VolumeId sim_request = ''pvc-1''" "pr_TargetPath sim_request = ''/t''" "''/t'' \<notin> run_files"
proof -
  show "pr_VolumeId sim_request = ''pvc-1''" "pr_TargetPath sim_request = ''/t''" by (simp_all add: sim_publish_ok)
  show "''/t'' \<notin> run_files" by (rule outside_run) code_simp
qed

lemma sim_ctx: "state_io_rel (keeps run_files) (ctx_Done sim_env)"
  by (simp add: sim_env_def quiet_env_def keep.rel_ret)

theorem node_refines_registry_witness:
  "\<exists>h. reg_run sim_env sim_world h (final (NodePublishVolume sim_env sim_node sim_request) sim_world) \<and>
     (\<forall>(w1, re)\<in>set h. concerns (Publish sim_request) re)"
  using node_refines_registry [OF node_step.publish sim_outside_keeps sim_ctx] sim_request_ok(2,3) by simp

text \<open>C3: take a node on which no volume has a device, a host without I/O faults whose commands and services
  leave the run directory alone, and any sequence of completed calls of the node API, start-up
  reconciliations and host activity. If every publish is for a valid volume ID and a target outside the
  run directory, and at its reservation no reservation of a disconnected device is older than two hours,
  and every unpublish is for a valid volume ID for which \<^verbatim>\<open>findmnt\<close> does not name a device of another volume, then no two volumes ever hold
  the same device, and the reservation of every held device names its holder.\<close>

theorem node_never_shares:
  assumes "no_faults E" "outside_keeps run_files E" "state_io_rel (keeps run_files) (ctx_Done E)"
    and "\<forall>v. valid_volume v \<longrightarrow> vol_dev w0 v = None" "node_run E ns w0 h w"
    and "\<forall>w1 req. (w1, Publish req) \<in> set h \<longrightarrow> pr_TargetPath req \<notin> run_files \<and> valid_volume (pr_VolumeId req) \<and>
      timely (reservation_world E ns req w1)"
    and "\<forall>w1 req. (w1, Unpublish req) \<in> set h \<longrightarrow> valid_volume (ur_VolumeId req) \<and> own_source E req w1"
    and "valid_volume u" "vol_dev w u = Some d"
  shows "dev_owner w d = Some u \<and> (\<forall>v. valid_volume v \<and> v \<noteq> u \<longrightarrow> vol_dev w v \<noteq> Some d)"
proof -
  obtain h' where "reg_run E w0 h' w" "\<forall>(w1, e)\<in>set h'. event_ok w1 e"
    using node_run_ok [OF assms(5,1-3,6,7)] by (auto simp: reg_via_def)
  then show ?thesis by (rule run_exclusive [OF assms(1,4) _ _ assms(8,9)])
qed

lemma sim_reservation_files:
  "files (reservation_world sim_env sim_node sim_request sim_world) =
     [(''/dev'', FDir), (''/dev/nbd0'', FNode), (''/dev/nbd1'', FNode), (''/t'', FDir),
      (''/var/lib/kubelet/plugins/zerofs.csi.driver/zerofs-pvc-1.nbd.sock'', FNode),
      (''/var/lib/kubelet/plugins/zerofs.csi.driver/zerofs-pvc-1.9p.sock'', FNode),
      (''/t/.nbd/disk'', FReg [] 1000000000)]"
  by (simp add: eval sim_world_eval reservation_world_def publish_prologue_def before_reserve_def cong: bind_weak_cong)

lemma sim_world_empty: "\<forall>v. valid_volume v \<longrightarrow> vol_dev sim_world v = None"
proof (intro allI impI)
  have n: "node sim_world p = None" if "p \<in> run_files" for p
    using that by (auto simp: run_files_def HasPrefix_iff node_def sim_world_def mk_world_def ZeroFSRunDir_def)
  show "valid_volume v \<Longrightarrow> vol_dev sim_world v = None" for v by (rule no_run_files(3) [OF n])
qed

lemma sim_reservation_timely: "timely (reservation_world sim_env sim_node sim_request sim_world)"
proof -
  let ?w = "reservation_world sim_env sim_node sim_request sim_world"
  have n: "node ?w p = None" if "p \<in> run_files" for p
    using that by (auto simp: run_files_def HasPrefix_iff node_def sim_reservation_files ZeroFSRunDir_def)
  show ?thesis by (rule no_run_files(2) [OF n])
qed

theorem node_never_shares_witness:
  "dev_owner (final (NodePublishVolume sim_env sim_node sim_request) sim_world) ''/dev/nbd0'' = Some ''pvc-1''"
proof -
  let ?w = "final (NodePublishVolume sim_env sim_node sim_request) sim_world"
  have r: "node_run sim_env sim_node sim_world [(sim_world, Publish sim_request)] ?w"
    using node_run.step [OF node_run.start node_step.publish] by simp
  have d: "vol_dev ?w ''pvc-1'' = Some ''/dev/nbd0''"
    by (simp add: eval sim_world_eval vol_dev_def cong: bind_weak_cong)
  have v: "valid_volume ''pvc-1''" by code_simp
  show ?thesis
    using node_never_shares [OF sim_no_faults sim_outside_keeps sim_ctx sim_world_empty r _ _ v d]
      sim_request_ok sim_reservation_timely v by simp
qed

end
