(* ===== verification/Polling.thy ===== *)
theory Polling
  imports Go_Prelude
begin

text \<open>
  The polling loops of the driver: a number of rounds, each of which decides the result or goes on,
  and a result for the case that no round decides. What such a loop returns, and where it stops, is
  shown once, in the locale.
\<close>

text \<open>The state after \<open>i\<close> rounds.\<close>

definition after :: "('s \<Rightarrow> 'r option \<times> 's) \<Rightarrow> nat \<Rightarrow> 's \<Rightarrow> 's" where
  "after round i = (snd \<circ> round) ^^ i"

lemma after_simps [simp]: "after round 0 s = s" "after round (Suc i) s = after round i (snd (round s))"
  by (simp_all add: after_def funpow_swap1)

lemma all_rounds_Suc:
  "(\<forall>i < Suc n. P (after round i s)) \<longleftrightarrow> P s \<and> (\<forall>i < n. P (after round i (snd (round s))))"
  by (auto simp: less_Suc_eq_0_disj)

locale polling =
  fixes loop :: "nat \<Rightarrow> ('s, 'r) state"
    and round :: "'s \<Rightarrow> 'r option \<times> 's"
    and timeout :: 'r
  assumes loop_out: "run_state (loop 0) s = (timeout, s)"
    and loop_round: "run_state (loop (Suc n)) s = (case round s of
        (Some r, s') \<Rightarrow> (r, s')
      | (None, s') \<Rightarrow> run_state (loop n) s')"
begin

lemma loop_undecided:
  "(\<forall>i < n. fst (round (after round i s)) = None) \<Longrightarrow> run_state (loop n) s = (timeout, after round n s)"
proof (induction n arbitrary: s)
  case (Suc n)
  have "fst (round s) = None" "\<forall>i < n. fst (round (after round i (snd (round s)))) = None"
    using all_rounds_Suc [of n "\<lambda>s. fst (round s) = None" round s, THEN iffD1, OF Suc.prems] by blast+
  then show ?case using Suc.IH by (simp add: loop_round split_beta)
qed (simp add: loop_out)

lemma loop_decided:
  assumes "i < n" "\<forall>j < i. fst (round (after round j s)) = None" "fst (round (after round i s)) = Some r"
  shows "run_state (loop n) s = (r, after round (Suc i) s)"
  using assms
proof (induction i arbitrary: n s)
  case 0
  then obtain m where "n = Suc m" using gr0_conv_Suc by blast
  with 0 show ?case by (simp add: loop_round split_beta)
next
  case (Suc i)
  then obtain m where m: "n = Suc m" "i < m" by (cases n) auto
  have "fst (round s) = None" "\<forall>j < i. fst (round (after round j (snd (round s)))) = None"
    using all_rounds_Suc [of i "\<lambda>s. fst (round s) = None" round s, THEN iffD1, OF Suc.prems(2)] by blast+
  then show ?case using Suc.IH [OF m(2)] Suc.prems(3) by (simp add: m(1) loop_round split_beta)
qed

text \<open>The first deciding round, if there is one among the first \<open>n\<close>.\<close>

lemma first_decision:
  assumes "\<not> (\<forall>i < n. fst (round (after round i s)) = None)"
  obtains i r where "i < n" "\<forall>j < i. fst (round (after round j s)) = None" "fst (round (after round i s)) = Some r"
proof -
  let ?P = "\<lambda>i. i < n \<and> fst (round (after round i s)) \<noteq> None"
  have ex: "\<exists>i. ?P i" using assms by blast
  define i where "i = (LEAST i. ?P i)"
  have i: "?P i" unfolding i_def by (rule LeastI_ex [OF ex])
  have "\<forall>j < i. fst (round (after round j s)) = None"
    using not_less_Least [of _ ?P] i unfolding i_def by (meson less_trans)
  with i that show thesis by blast
qed

lemma loop_exact:
  assumes "r \<noteq> timeout"
  shows "result (loop n) s = r \<longleftrightarrow>
    (\<exists>i < n. fst (round (after round i s)) = Some r \<and> (\<forall>j < i. fst (round (after round j s)) = None))"
proof
  assume r: "result (loop n) s = r"
  then have "\<not> (\<forall>i < n. fst (round (after round i s)) = None)" using loop_undecided assms by fastforce
  then show "\<exists>i < n. fst (round (after round i s)) = Some r \<and> (\<forall>j < i. fst (round (after round j s)) = None)"
  proof (rule first_decision)
    fix i r' assume i: "i < n" "\<forall>j < i. fst (round (after round j s)) = None" "fst (round (after round i s)) = Some r'"
    then have "r' = r" using loop_decided [OF i] r by simp
    with i show ?thesis by blast
  qed
next
  assume "\<exists>i < n. fst (round (after round i s)) = Some r \<and> (\<forall>j < i. fst (round (after round j s)) = None)"
  then show "result (loop n) s = r" using loop_decided by fastforce
qed

text \<open>When rounds can only decide one way, any deciding round will do.\<close>

lemma loop_exact_single:
  assumes "r \<noteq> timeout" "\<And>s. fst (round s) = None \<or> fst (round s) = Some r"
  shows "result (loop n) s = r \<longleftrightarrow> (\<exists>i < n. fst (round (after round i s)) = Some r)"
proof
  assume "\<exists>i < n. fst (round (after round i s)) = Some r"
  then have "\<not> (\<forall>i < n. fst (round (after round i s)) = None)" by auto
  then show "result (loop n) s = r"
  proof (rule first_decision)
    fix i r' assume i: "i < n" "\<forall>j < i. fst (round (after round j s)) = None" "fst (round (after round i s)) = Some r'"
    then have "r' = r" using assms(2) [of "after round i s"] by auto
    then show "result (loop n) s = r" using loop_decided [OF i] by simp
  qed
qed (use loop_exact [OF assms(1)] in blast)

end

end
