(* ===== verification/Zerofs_Waits.thy ===== *)
theory Zerofs_Waits
  imports Zerofs_Properties Polling
begin

text \<open>
  The waiting loops of \<^verbatim>\<open>zerofs.go\<close> round by round: \<open>answer i\<close> is what the API server says in round \<open>i\<close>.
  A wait succeeds exactly when the answers say so within the rounds it has, which gives soundness and
  liveness at once.
\<close>

definition poll :: "'x env \<Rightarrow> string \<Rightarrow> string \<Rightarrow> 'x world \<Rightarrow> 'x world" where
  "poll E ns pod w = final (client_read (get_Pod E ns pod)) (final (next_tick E) w)"

definition answer :: "'x env \<Rightarrow> string \<Rightarrow> string \<Rightarrow> 'x world \<Rightarrow> nat \<Rightarrow> string + Pod" where
  "answer E ns pod w i = result (get_Pod E ns pod) (final (next_tick E) ((poll E ns pod ^^ i) w))"

definition says_ready :: "string + Pod \<Rightarrow> bool" where
  "says_ready r \<longleftrightarrow> (\<exists>p. r = Inr p \<and> (''Ready'', ''True'') \<in> set (pod_Conditions p))"

definition says_gone :: "string + Pod \<Rightarrow> bool" where
  "says_gone r \<longleftrightarrow> (\<exists>err. r = Inl err \<and> Contains err ''not found'')"

lemma says_ready_Inr [simp]: "says_ready (Inl err) = False" "says_ready (Inr p) = pod_ready p"
  by (auto simp: says_ready_def pod_ready_def list_ex_iff)

text \<open>One round of each loop: its decision, if it makes one, and the next world.\<close>

definition ready_round :: "'x env \<Rightarrow> string \<Rightarrow> string \<Rightarrow> 'x world \<Rightarrow> string option option \<times> 'x world" where
  "ready_round E ns pod w = (if says_ready (answer E ns pod w 0) then Some None else None, poll E ns pod w)"

definition deletion_round :: "'x env \<Rightarrow> string \<Rightarrow> string \<Rightarrow> 'x world \<Rightarrow> string option option \<times> 'x world" where
  "deletion_round E ns pod w = (case answer E ns pod w 0 of
      Inl err \<Rightarrow> Some (if Contains err ''not found'' then None else Some (''error checking pod status: '' @ err))
    | Inr p \<Rightarrow> None, poll E ns pod w)"

interpretation ready: polling "ready_loop E ns pod" "ready_round E ns pod" "Some ''timeout waiting for pod to be ready''"
  for E ns pod
  by unfold_locales
    (simp_all add: ready_round_def answer_def poll_def split_beta run_client_read split: sum.split)

interpretation deletion: polling "deletion_loop E ns pod" "deletion_round E ns pod"
  "Some ''timeout waiting for pod to be deleted''" for E ns pod
  by unfold_locales
    (simp_all add: deletion_round_def answer_def poll_def split_beta run_client_read split: sum.split)

lemma after_rounds: "after (ready_round E ns pod) i w = (poll E ns pod ^^ i) w"
  "after (deletion_round E ns pod) i w = (poll E ns pod ^^ i) w"
  by (simp_all add: after_def ready_round_def deletion_round_def comp_def)

lemma ready_loop_exact:
  "result (ready_loop E ns pod n) w = None \<longleftrightarrow> (\<exists>i < n. says_ready (answer E ns pod w i))"
proof -
  have "fst (ready_round E ns pod (after (ready_round E ns pod) i w)) = Some None \<longleftrightarrow> says_ready (answer E ns pod w i)" for i
    by (simp add: ready_round_def after_rounds answer_def)
  then show ?thesis
    using ready.loop_exact_single [of None E ns pod n w] by (simp add: ready_round_def)
qed

lemma deletion_loop_exact:
  "result (deletion_loop E ns pod n) w = None \<longleftrightarrow>
     (\<exists>i < n. says_gone (answer E ns pod w i) \<and> (\<forall>j < i. \<exists>p. answer E ns pod w j = Inr p))"
proof -
  have "fst (deletion_round E ns pod (after (deletion_round E ns pod) i w)) = Some None \<longleftrightarrow> says_gone (answer E ns pod w i)"
    "fst (deletion_round E ns pod (after (deletion_round E ns pod) i w)) = None \<longleftrightarrow> (\<exists>p. answer E ns pod w i = Inr p)" for i
    by (auto simp: deletion_round_def after_rounds answer_def says_gone_def split: sum.split)
  then show ?thesis using deletion.loop_exact [of None E ns pod n w] by simp
qed

text \<open>C19: the waits are exact. With \<open>n\<close> rounds before its time-out, \<open>waitForPodReady\<close> succeeds if and only if
  in one of them the API server returns the pod with the condition \<open>Ready\<close> true, errors of other rounds
  notwithstanding; \<open>waitForPodDeletion\<close> succeeds if and only if the first round in which the server does
  not return the pod says that it is not found.\<close>

theorem waits_exact:
  assumes "run_state (select_budget E d) w = (n, w1)"
  shows "(result (waitForPodReady E pod ns d) w = None \<longleftrightarrow> (\<exists>i < n. says_ready (answer E ns pod w1 i))) \<and>
    (result (waitForPodDeletion E pod ns d) w = None \<longleftrightarrow>
      (\<exists>i < n. says_gone (answer E ns pod w1 i) \<and> (\<forall>j < i. \<exists>p. answer E ns pod w1 j = Inr p)))"
  using assms
  by (simp add: waitForPodReady_def waitForPodDeletion_def ready_loop_exact deletion_loop_exact)

text \<open>A cluster that answers after two failing rounds: the world counts the ticks.\<close>

definition slow_pod :: Pod where
  "slow_pod = \<lparr>pod_Name = ''zerofs-volume-1'', pod_Namespace = ''zerofs'', pod_Labels = Map.empty,
     pod_OwnerReferences = [], pod_Spec = \<lparr>ps_NodeName = ''node-1'', ps_TerminationGracePeriodSeconds = None,
       ps_RunAsUser = None, ps_RunAsGroup = None, ps_Containers = [], ps_InitContainers = [], ps_Volumes = []\<rparr>,
     pod_Conditions = [(''Ready'', ''True'')]\<rparr>"

definition slow_env :: "nat env" where
  "slow_env = quiet_env\<lparr>tick_count := \<lambda>_. ret 5, pass_time := \<lambda>_. modifies (\<lambda>w. w\<lparr>ext := Suc (ext w)\<rparr>),
     get_Pod := \<lambda>_ _. asks (\<lambda>w. if ext w < 3 then Inl ''connection refused'' else Inr slow_pod)\<rparr>"

theorem waits_exact_witness:
  "result (waitForPodReady slow_env ''zerofs-volume-1'' ''zerofs'' second) (mk_world [] 0) = None"
proof -
  have b: "run_state (select_budget slow_env second) (mk_world [] 0) = (5, mk_world [] 0)"
    by (simp add: select_budget_def external_def slow_env_def mk_world_def)
  have "says_ready (answer slow_env ''zerofs'' ''zerofs-volume-1'' (mk_world [] 0) 2)"
    by (simp add: answer_def poll_def slow_env_def next_tick_def client_read_def external_def mk_world_def
        numeral_2_eq_2 slow_pod_def pod_ready_def)
  moreover have "(2::nat) < 5" by simp
  ultimately show ?thesis using waits_exact [OF b, of "''zerofs-volume-1''" "''zerofs''"] by blast
qed

end
