(* ===== verification/Zerofs_Manifest.thy ===== *)
theory Zerofs_Manifest
  imports Node_Metrics Zerofs_Waits
begin

text \<open>
  The objects the driver creates for a volume: every pod a publish creates is well formed and is the
  pod of that volume, every secret is the volume's configuration, and the sockets named in the
  configuration, in the pod's probe and in the node service are the same.
\<close>

section \<open>Well-formed pods\<close>

text \<open>What the API server demands of a manifest's names and mounts: container names and volume names are
  unique, every mount names a volume of the pod, no container has two mounts at one path; and no volume
  is left unused.\<close>

definition pod_containers :: "Pod \<Rightarrow> Container list" where
  "pod_containers p = ps_Containers (pod_Spec p) @ ps_InitContainers (pod_Spec p)"

definition pod_mounts :: "Pod \<Rightarrow> VolumeMount list" where
  "pod_mounts p = concat (map ct_VolumeMounts (pod_containers p))"

definition well_formed_pod :: "Pod \<Rightarrow> bool" where
  "well_formed_pod p \<longleftrightarrow> ps_Containers (pod_Spec p) \<noteq> [] \<and>
     distinct (map ct_Name (pod_containers p)) \<and> distinct (map fst (ps_Volumes (pod_Spec p))) \<and>
     list_all (\<lambda>c. distinct (map vm_MountPath (ct_VolumeMounts c))) (pod_containers p) \<and>
     vm_Name ` set (pod_mounts p) = fst ` set (ps_Volumes (pod_Spec p))"

lemma zerofs_pod_well_formed: "well_formed_pod (zerofs_pod E m cfg v n os)"
  by (auto simp: well_formed_pod_def pod_mounts_def pod_containers_def zerofs_pod_def zerofs_container_def
      envoy_container_def)

text \<open>A pod of the volume: named after it, on the node, with the volume's secret mounted where the server
  reads its configuration.\<close>

definition pod_of :: "zerofsMounter \<Rightarrow> string \<Rightarrow> string \<Rightarrow> Pod \<Rightarrow> bool" where
  "pod_of m nodeName v p \<longleftrightarrow> pod_Namespace p = m_namespace m \<and> pod_Name p = podName v \<and>
     ps_NodeName (pod_Spec p) = nodeName \<and>
     (''zerofs-config'', SecretVolume (secretName v)) \<in> set (ps_Volumes (pod_Spec p)) \<and>
     (\<exists>c\<in>set (ps_Containers (pod_Spec p)). ct_Args c = [''run'', ''--config'', ''/etc/zerofs/config.toml''] \<and>
        (\<exists>vm\<in>set (ct_VolumeMounts c). vm_Name vm = ''zerofs-config'' \<and> vm_MountPath vm = ''/etc/zerofs''))"

lemma zerofs_pod_of: "pod_of m n v (zerofs_pod E m cfg v n os)"
  by (simp add: pod_of_def zerofs_pod_def zerofs_container_def)

definition secret_of :: "zerofsMounter \<Rightarrow> string \<Rightarrow> Secret \<Rightarrow> bool" where
  "secret_of m v s \<longleftrightarrow> sec_Namespace s = m_namespace m \<and> sec_Name s = secretName v \<and>
     dom (sec_Data s) = {''config.toml''}"

text \<open>The events of a publish for the volume: objects it creates or updates are the volume's.\<close>

fun own_object :: "zerofsMounter \<Rightarrow> string \<Rightarrow> string \<Rightarrow> event \<Rightarrow> bool" where
  "own_object m n v (CreatedPod p err) \<longleftrightarrow> well_formed_pod p \<and> pod_of m n v p"
| "own_object m n v (CreatedSecret s err) \<longleftrightarrow> secret_of m v s"
| "own_object m n v (UpdatedSecret s err) \<longleftrightarrow> secret_of m v s"
| "own_object m n v (DeletedObjects b ks err) \<longleftrightarrow> False"
| "own_object m n v e \<longleftrightarrow> True"

lemmas own_rules = em.rel_facts quiet_wait [THEN em.rel_quiet] emits_calls emits_recordStageError

lemma own_CreatePod: "state_io_rel (emits (own_object m n v)) (CreatePod E m v n c)"
  unfolding CreatePod_def apply_secret_def apply_pod_def create_and_wait_def finish_ready_def Let_def
  by (intro own_rules) (simp_all add: config_secret_def secret_of_def zerofs_pod_well_formed zerofs_pod_of)

lemma own_RemovePod: "state_io_rel (emits (own_object m n v)) (RemovePod E m' v')"
  unfolding RemovePod_def remove_secret_def force_delete_def by (intro own_rules) simp_all

lemma own_nbd: "state_io_rel (emits (own_object m n v)) (findMountSource E t)"
  "state_io_rel (emits (own_object m n v)) (unmountBestEffort E t)"
  "state_io_rel (emits (own_object m n v)) (detachNBDDeviceBestEffort E d)"
  by (rule emits_findMountSource emits_unmountBestEffort emits_detach; simp)+

lemma own_wait_socket: "state_io_rel (emits (own_object m n v)) (wait_socket E p k)"
proof (induction k)
  case (Suc k)
  then show ?case
    unfolding wait_socket.simps publish_fail_def stage_fail_def by (intro own_rules rel_os_error) simp_all
qed (simp add: em.rel_ret)

lemma own_publish:
  "state_io_rel (emits (own_object (ns_mounter ns) (ns_nodeID ns) (pr_VolumeId req))) (NodePublishVolume E ns req)"
  unfolding NodePublishVolume_def publish_attempt_def publish_stages_def publish_device_def clean_stale_def
    publish_cleanup_def stage_mkdir_def stage_create_pod_def stage_mount_9p_def stage_disk_def stage_umount_9p_def
    stage_reserve_def stage_connect_def stage_mkfs_def stage_mount_fs_def publish_fail_def stage_fail_def Let_def
  by (intro own_rules rel_os_error own_CreatePod own_RemovePod own_nbd own_wait_socket) simp_all

text \<open>C16: every pod that a publish creates is a well-formed manifest and the pod of the published volume,
  bound to this node and reading the volume's secret; every secret it creates or updates is the
  volume's, with the configuration file as its only entry; and a publish deletes no object of the
  store. This holds of every run, the failing ones included.\<close>

theorem NodePublishVolume_objects_well_formed:
  "\<exists>es. trace (final (NodePublishVolume E ns req) w) = trace w @ es \<and>
     list_all (own_object (ns_mounter ns) (ns_nodeID ns) (pr_VolumeId req)) es"
  using io_relD [OF own_publish] unfolding emits_def .

section \<open>The sockets\<close>

lemma base_dir_clean: "Clean ZeroFSBaseDir = ZeroFSBaseDir"
  by code_simp

lemma socket_paths:
  assumes "plain_name v"
  shows "ninep_socket v = ZeroFSBaseDir @ ''/zerofs-'' @ v @ ''.9p.sock''"
    and "nbd_socket v = ZeroFSBaseDir @ ''/zerofs-'' @ v @ ''.nbd.sock''"
proof -
  have j: "path_Join [ZeroFSBaseDir, n] = ZeroFSBaseDir @ ''/'' @ n" if "plain_name n" for n
    using that base_dir_clean by (intro path_Join_plain) (auto simp: ZeroFSBaseDir_def)
  have "plain_name (''zerofs-'' @ v @ ''.9p.sock'')" "plain_name (''zerofs-'' @ v @ ''.nbd.sock'')"
    using assms by (auto simp: plain_name_def)
  then show "ninep_socket v = ZeroFSBaseDir @ ''/zerofs-'' @ v @ ''.9p.sock''"
    "nbd_socket v = ZeroFSBaseDir @ ''/zerofs-'' @ v @ ''.nbd.sock''"
    by (simp_all add: ninep_socket_def nbd_socket_def j)
qed

text \<open>The lines of a server's section of the configuration file.\<close>

definition server_section :: "string \<Rightarrow> string \<Rightarrow> string" where
  "server_section name socket = ''[servers.'' @ name @ '']'' @ nl @ ''addresses = []'' @ nl @
     ''unix_socket = '' @ dq @ socket @ dq @ nl"

lemma template_append: "template_Execute (s @ t) vs = template_Execute s vs @ template_Execute t vs"
  by (simp add: template_Execute_def)

definition server_template :: "string \<Rightarrow> string \<Rightarrow> tpart list" where
  "server_template name kind = section_line (''servers.'' @ name) @ [Lit (''addresses = []'' @ nl)] @ socket_line kind"

lemma server_template_run:
  "template_Execute (server_template name kind) (configValues cfg v cr) =
     server_section name (ZeroFSBaseDir @ ''/zerofs-'' @ v @ ''.'' @ kind @ ''.sock'')"
  by (simp add: server_template_def server_section_def template_Execute_def section_line_def socket_line_def
      configValues_def)

lemma template_has_servers:
  "\<exists>t1 t2 t3. templateContent = t1 @ server_template ''ninep'' ''9p'' @ t2 @ server_template ''nbd'' ''nbd'' @ t3"
  by (rule exI [of _ "take 19 templateContent"], rule exI [of _ "[Lit nl]"], rule exI [of _ "drop 34 templateContent"])
    code_simp

text \<open>C15: the volume's server, its pod and the node service agree on the sockets: the configuration file
  has the two server sections with the sockets that the publish waits for and connects to, the
  readiness probe tests the first of them, and their directory is a host directory mounted in the
  server's container under the same path.\<close>

theorem sockets_agree:
  assumes "valid_volume v"
  shows "(\<exists>s1 s2 s3. config_toml cfg v cr = s1 @ server_section ''ninep'' (ninep_socket v) @ s2 @
      server_section ''nbd'' (nbd_socket v) @ s3) \<and>
    (\<exists>pr. ct_ReadinessProbe (zerofs_container E cfg v) = Some pr \<and>
      pr_Command pr = [''sh'', ''-c'', ''test -S '' @ ninep_socket v]) \<and>
    (\<exists>vm\<in>set (ct_VolumeMounts (zerofs_container E cfg v)).
      (vm_Name vm, HostPathVolume (vm_MountPath vm) ''DirectoryOrCreate'') \<in>
        set (ps_Volumes (pod_Spec (zerofs_pod E m cfg v n os))) \<and> \<not> vm_ReadOnly vm \<and>
      HasPrefix (ninep_socket v) (vm_MountPath vm @ ''/'') \<and> HasPrefix (nbd_socket v) (vm_MountPath vm @ ''/''))"
proof -
  have v: "plain_name v" using assms by (simp add: valid_volume_def)
  obtain t1 t2 t3 where
    t: "templateContent = t1 @ server_template ''ninep'' ''9p'' @ t2 @ server_template ''nbd'' ''nbd'' @ t3"
    using template_has_servers by blast
  let ?X = "\<lambda>t. template_Execute t (configValues cfg v cr)"
  have "''.'' @ ''9p'' @ ''.sock'' = ''.9p.sock''" "''.'' @ ''nbd'' @ ''.sock'' = ''.nbd.sock''" by simp_all
  then have "config_toml cfg v cr = ?X t1 @ server_section ''ninep'' (ninep_socket v) @ ?X t2 @
      server_section ''nbd'' (nbd_socket v) @ ?X t3"
    by (simp only: config_toml_def t template_append server_template_run socket_paths [OF v])
  then have "\<exists>s1 s2 s3. config_toml cfg v cr = s1 @ server_section ''ninep'' (ninep_socket v) @ s2 @
      server_section ''nbd'' (nbd_socket v) @ s3" by blast
  moreover have "\<exists>pr. ct_ReadinessProbe (zerofs_container E cfg v) = Some pr \<and>
      pr_Command pr = [''sh'', ''-c'', ''test -S '' @ ninep_socket v]"
    by (simp add: zerofs_container_def socket_paths [OF v])
  moreover have "\<exists>vm\<in>set (ct_VolumeMounts (zerofs_container E cfg v)).
      (vm_Name vm, HostPathVolume (vm_MountPath vm) ''DirectoryOrCreate'') \<in>
        set (ps_Volumes (pod_Spec (zerofs_pod E m cfg v n os))) \<and> \<not> vm_ReadOnly vm \<and>
      HasPrefix (ninep_socket v) (vm_MountPath vm @ ''/'') \<and> HasPrefix (nbd_socket v) (vm_MountPath vm @ ''/'')"
    by (simp add: zerofs_container_def zerofs_pod_def socket_paths [OF v] ZeroFSBaseDir_def HasPrefix_iff)
  ultimately show ?thesis by blast
qed

theorem sockets_agree_witness:
  "\<exists>pr. ct_ReadinessProbe (zerofs_container sim_env Map.empty ''pvc-1'') = Some pr \<and>
     pr_Command pr = [''sh'', ''-c'', ''test -S '' @ ninep_socket ''pvc-1'']"
proof -
  have "valid_volume ''pvc-1''" by code_simp
  then show ?thesis using sockets_agree [of "''pvc-1''" Map.empty _ sim_env] by blast
qed

end
