(* ===== verification/Nbd_Liveness.thy ===== *)
theory Nbd_Liveness
  imports Nbd_Machine
begin

text \<open>
  When a reservation succeeds: a device is idle, or there are fewer volumes than devices.
\<close>

section \<open>Capacity\<close>

text \<open>The devices of the node, and an idle one: disconnected and not reserved.\<close>

definition node_devices :: "'x world \<Rightarrow> string set" where
  "node_devices w = {d. nbdDevicePathRe d \<and> node w d \<noteq> None}"

definition idle :: "'x world \<Rightarrow> string \<Rightarrow> bool" where
  "idle w d \<longleftrightarrow> dev_connected w d = Some False \<and> node w (deviceReservationPath d) = None"

lemma idle_exists:
  assumes "finite V" "card V < card (node_devices w)"
    and "\<forall>d\<in>node_devices w. idle w d \<or> (\<exists>u\<in>V. vol_dev w u = Some d)"
  shows "\<exists>d\<in>node_devices w. idle w d"
proof (rule ccontr)
  assume "\<not> (\<exists>d\<in>node_devices w. idle w d)"
  then have "node_devices w \<subseteq> (\<lambda>u. the (vol_dev w u)) ` V" using assms(3) by force
  then have "card (node_devices w) \<le> card V" by (rule surj_card_le [OF assms(1)])
  with assms(2) show False by simp
qed

lemma idle_with_dirs:
  assumes "d \<in> node_devices w" "idle w d" "node w ''/dev'' = Some FDir"
  shows "free_dev (with_dirs E w) d \<and> d \<in> set (nbd_listing (with_dirs E w))"
proof -
  let ?w0 = "with_dirs E w"
  have mk: "mkdir_rel w ?w0" by (rule io_relD [OF rel_ensureRunDirs])
  have d: "nbdDevicePathRe d" "node w d \<noteq> None" using assms(1) by (auto simp: node_devices_def)
  have "d \<notin> run_dirs" using d(1) by (auto elim: nbd_dev_cases simp: run_dirs_def nbdByDeviceDir_def ZeroFSRunDir_def)
  then have "node ?w0 d \<noteq> None" using mkdir_views(6) [OF mk] d(2) by metis
  moreover have "is_dir ?w0 ''/dev''"
    using mkdir_views(6) [OF mk, of "''/dev''"] assms(3)
    by (simp add: is_dir_def run_dirs_def nbdByDeviceDir_def ZeroFSRunDir_def)
  ultimately show ?thesis
    using assms(2) d(1) mkdir_connected [OF mk d(1)] mkdir_views(4) [OF mk d(1)]
    by (simp add: nbd_listing_set free_dev_def idle_def)
qed

lemma reserve_idle:
  assumes "no_faults E" "usable w v" "vol_dev w v = None" "node w ''/dev'' = Some FDir"
    and "\<exists>d\<in>node_devices w. idle w d"
  shows "\<exists>d. result (reserveNBDDevice E v) w = Inr d \<and> vol_dev (final (reserveNBDDevice E v) w) v = Some d"
proof -
  let ?w0 = "with_dirs E w"
  obtain e where "e \<in> node_devices w" "idle w e" using assms(5) by blast
  from idle_with_dirs [OF this assms(4), of E]
  obtain d where f: "find (free_dev ?w0) (nbd_listing ?w0) = Some d"
    by (metis find_None_iff not_None_eq)
  then have "d \<in> set (nbd_listing ?w0)" by (auto simp: find_Some_iff)
  then have d: "nbdDevicePathRe d" using nbd_listing_devs by blast
  have v: "valid_volume v" using assms(2) by (simp add: usable_def)
  from reserve_first_free [OF assms(1-3)] f
  have "result (reserveNBDDevice E v) w = Inr d" "node (final (reserveNBDDevice E v) w) = reserved_store ?w0 v d"
    by simp_all
  then show ?thesis using reserved_views(1) [OF _ v d] by blast
qed

text \<open>C21: a reservation succeeds as long as there is room: on a host without I/O faults whose run directories
  are directories or absent, when every device of the node is idle or held
  by one of fewer volumes than there are devices, a volume without device gets one, and it is
  recorded for the volume.\<close>

theorem reserve_below_capacity:
  assumes "no_faults E" "usable w v" "vol_dev w v = None" "node w ''/dev'' = Some FDir"
    and "finite V" "card V < card (node_devices w)"
    and "\<forall>d\<in>node_devices w. idle w d \<or> (\<exists>u\<in>V. vol_dev w u = Some d)"
  shows "\<exists>d. result (reserveNBDDevice E v) w = Inr d \<and> vol_dev (final (reserveNBDDevice E v) w) v = Some d"
  by (rule reserve_idle [OF assms(1-4) idle_exists [OF assms(5-7)]])

theorem reserve_below_capacity_witness:
  "\<exists>d. result (reserveNBDDevice quiet_env ''pvc-b'') one_taken = Inr d \<and>
     vol_dev (final (reserveNBDDevice quiet_env ''pvc-b'') one_taken) ''pvc-b'' = Some d"
proof -
  have two: "node_devices one_taken = {''/dev/nbd0'', ''/dev/nbd1''}"
  proof -
    have "d \<in> {''/dev/nbd0'', ''/dev/nbd1''}" if "nbdDevicePathRe d" "node one_taken d \<noteq> None" for d
      using that by (auto elim!: nbd_dev_cases simp: node_def one_taken_def mk_world_def nbdByDeviceDir_def
          ZeroFSRunDir_def split: if_splits)
    moreover have "nbdDevicePathRe ''/dev/nbd0'' \<and> node one_taken ''/dev/nbd0'' \<noteq> None"
      "nbdDevicePathRe ''/dev/nbd1'' \<and> node one_taken ''/dev/nbd1'' \<noteq> None" by code_simp+
    ultimately show ?thesis by (auto simp: node_devices_def)
  qed
  have "vol_dev one_taken ''pvc-b'' = None" "node one_taken ''/dev'' = Some FDir"
    "vol_dev one_taken ''pvc-a'' = Some ''/dev/nbd0''" "idle one_taken ''/dev/nbd1''" by code_simp+
  moreover have "card {''pvc-a''} < card (node_devices one_taken)" by (simp add: two)
  ultimately show ?thesis
    using reserve_below_capacity [OF quiet_no_faults one_taken_ok(3), of "{''pvc-a''}"] by (simp add: two)
qed

end
