(* ===== verification/Node_Liveness.thy ===== *)
theory Node_Liveness
  imports Node_Machine Zerofs_Manifest Nbd_Liveness
begin

text \<open>
  When a publish succeeds: the cluster serves the configuration and starts the volume's server within
  the time-outs, the host's commands work, and a device is idle.
\<close>

section \<open>The hypotheses\<close>

text \<open>The configuration that the publish reads: the ConfigMap, with both secrets complete.\<close>

definition config_served :: "'x env \<Rightarrow> zerofsMounter \<Rightarrow> string \<Rightarrow> smap \<Rightarrow> bool" where
  "config_served E m configMapName cfg \<longleftrightarrow>
     (\<forall>w. result (get_ConfigMap E (m_namespace m) configMapName) w = Inr \<lparr>cm_Data = cfg\<rparr>) \<and>
     (\<forall>w. \<exists>s. result (get_Secret E (m_namespace m) (mget cfg ''encryptionPasswordSecretName'')) w = Inr s \<and>
        mget (sec_Data s) ''password'' \<noteq> []) \<and>
     (\<forall>w. \<exists>s. result (get_Secret E (m_namespace m) (mget cfg ''awsCredentialsSecretName'')) w = Inr s \<and>
        cmp_Or (mget (sec_Data s) ''AWS_ACCESS_KEY_ID'') (mget (sec_Data s) ''username'') \<noteq> [] \<and>
        cmp_Or (mget (sec_Data s) ''AWS_SECRET_ACCESS_KEY'') (mget (sec_Data s) ''password'') \<noteq> [])"

definition writes_accepted :: "'x env \<Rightarrow> bool" where
  "writes_accepted E \<longleftrightarrow> (\<forall>s w. result (create_Secret E s) w = None \<and> result (update_Secret E s) w = None) \<and>
     (\<forall>p w. result (create_Pod E p) w = None) \<and> (\<forall>n x opts w. result (delete_Pod E n x opts) w = None)"

text \<open>
  The volume's server comes up: \<open>up\<close> holds of the outside once the pod has been created, or when there is
  one on this node already, and it stays; then the API server reports the pod ready within the
  rounds of the wait, and the 9p socket appears within ten seconds.
\<close>

definition stays :: "('x \<Rightarrow> bool) \<Rightarrow> ('x, 'a) io \<Rightarrow> bool" where
  "stays up m \<longleftrightarrow> (\<forall>w. up (ext w) \<longrightarrow> up (ext (final m w)))"

definition comes_up :: "'x env \<Rightarrow> zerofsMounter \<Rightarrow> string \<Rightarrow> string \<Rightarrow> int \<Rightarrow> ('x \<Rightarrow> bool) \<Rightarrow> bool" where
  "comes_up E m nodeName v timeout up \<longleftrightarrow>
     (\<forall>p w. pod_Name p = podName v \<longrightarrow> up (ext (final (create_Pod E p) w))) \<and>
     (\<forall>w p. result (get_Pod E (m_namespace m) (podName v)) w = Inr p \<longrightarrow> ps_NodeName (pod_Spec p) = nodeName \<longrightarrow>
        up (ext (final (get_Pod E (m_namespace m) (podName v)) w))) \<and>
     (\<forall>d. stays up (pass_time E d)) \<and> (\<forall>d. stays up (tick_count E d)) \<and>
     stays up (get_Pod E (m_namespace m) (podName v)) \<and>
     (\<forall>w. up (ext w) \<longrightarrow> (\<exists>i < result (select_budget E timeout) w.
        says_ready (answer E (m_namespace m) (podName v) (final (select_budget E timeout) w) i))) \<and>
     (\<forall>w. up (ext w) \<longrightarrow> node (final (pass_time E (10 * second)) w) (ninep_socket v) \<noteq> None)"

definition commands_work :: "'x env \<Rightarrow> bool" where
  "commands_work E \<longleftrightarrow> (\<forall>c args w. c \<noteq> ''findmnt'' \<and> c \<noteq> ''blkid'' \<longrightarrow> snd (result (run_cmd E c args) w) = None)"

section \<open>The stages\<close>

lemma try_ok: "result m w = Inr x \<Longrightarrow> run_state (try_then m f) w = run_state (f x) (final m w)"
  by (simp add: try_then_def split_beta)

lemma run_external_sel:
  "result (external ev m) w = result m w" "ext (final (external ev m) w) = ext (final m w)"
  "files (final (external ev m) w) = files (final m w)"
  by (simp_all add: external_def split_beta)

lemma ext_metrics [simp]:
  "ext (final (startStage op st) w) = ext w" "ext (final (observe t) w) = ext w"
  by (simp_all add: startStage_def observe_def)

lemma stays_external: "stays up m \<Longrightarrow> stays up (external ev m)"
  by (simp add: stays_def run_external_sel)

lemma stays_bind: "stays up m \<Longrightarrow> (\<And>x. stays up (f x)) \<Longrightarrow> stays up (m \<bind> f)"
  by (simp add: stays_def split_beta)

lemma stays_ret: "stays up (ret x)"
  by (simp add: stays_def)

lemma stays_wait_ready:
  assumes "comes_up E m nodeName v timeout up"
  shows "stays up (waitForPodReady E (podName v) (m_namespace m) d)"
proof -
  have p: "stays up (next_tick E)" "stays up (select_budget E d)"
    "stays up (client_read (get_Pod E (m_namespace m) (podName v)))" for d
    using assms unfolding next_tick_def select_budget_def client_read_def comes_up_def
    by (auto intro: stays_external)
  have "stays up (ready_loop E (m_namespace m) (podName v) n)" for n
  proof (induction n)
    case (Suc n)
    then show ?case
      unfolding ready_loop.simps by (intro stays_bind p) (auto split: sum.split intro: stays_ret)
  qed (simp add: stays_ret)
  then show ?thesis unfolding waitForPodReady_def by (intro stays_bind p)
qed

lemma finish_ready_live:
  assumes "comes_up E m nodeName v timeout up" "up (ext w)"
  shows "result (finish_ready E m (podName v) timeout msg) w = None \<and>
    up (ext (final (finish_ready E m (podName v) timeout msg) w))"
proof -
  let ?w1 = "final (select_budget E timeout) w"
  have "\<exists>i < result (select_budget E timeout) w. says_ready (answer E (m_namespace m) (podName v) ?w1 i)"
    using assms by (auto simp: comes_up_def)
  then have "result (waitForPodReady E (podName v) (m_namespace m) timeout) w = None"
    by (simp add: waitForPodReady_def split_beta ready_loop_exact)
  then show ?thesis
    using stays_wait_ready [OF assms(1), of timeout] assms(2)
    by (simp add: finish_ready_def split_beta stays_def)
qed

lemma apply_pod_live:
  assumes up: "comes_up E m (ps_NodeName (pod_Spec pod)) v timeout up" and wr: "writes_accepted E" and n: "pod_Name pod = podName v"
  shows "result (apply_pod E m pod timeout) w = None \<and> up (ext (final (apply_pod E m pod timeout) w))"
proof -
  have cw: "result (create_and_wait E m pod timeout) w' = None \<and> up (ext (final (create_and_wait E m pod timeout) w'))" for w'
  proof -
    let ?c = "client_CreatePod E pod"
    have "result ?c w' = None" "up (ext (final ?c w'))"
      using wr up n by (simp_all add: client_CreatePod_def run_external_sel writes_accepted_def comes_up_def)
    then show ?thesis
      using finish_ready_live [OF up, of "final ?c w'"] n by (simp add: create_and_wait_def split_beta)
  qed
  let ?g = "client_read (get_Pod E (m_namespace m) (podName v))"
  show ?thesis
  proof (cases "result ?g w")
    case (Inl e)
    then show ?thesis using cw n by (simp add: apply_pod_def split_beta)
  next
    case (Inr p)
    have d: "result (client_DeletePod E a b None) w' = None" for a b w'
      using wr by (simp add: client_DeletePod_def run_external_sel writes_accepted_def)
    have "up (ext (final ?g w))" if "ps_NodeName (pod_Spec p) = ps_NodeName (pod_Spec pod)"
      using Inr that up by (simp add: client_read_def run_external_sel comes_up_def)
    then show ?thesis
      using Inr n cw d finish_ready_live [OF up, of "final ?g w"] by (simp add: apply_pod_def split_beta)
  qed
qed

lemma CreatePod_live:
  assumes "config_served E m configMapName cfg" and wr: "writes_accepted E"
    and up: "comes_up E m nodeName v (podReadyTimeout cfg) up"
  shows "result (CreatePod E m v nodeName configMapName) w = None \<and>
    up (ext (final (CreatePod E m v nodeName configMapName) w))"
proof -
  have cr: "\<exists>cr. result (zerofs_credentials E m cfg) w' = Inr cr" for w'
  proof -
    let ?r1 = "client_read (get_Secret E (m_namespace m) (mget cfg ''encryptionPasswordSecretName''))"
    obtain s1 where s1: "result ?r1 w' = Inr s1" "mget (sec_Data s1) ''password'' \<noteq> []"
      using assms(1) by (force simp: config_served_def run_client_read)
    let ?r2 = "client_read (get_Secret E (m_namespace m) (mget cfg ''awsCredentialsSecretName''))"
    obtain s2 where s2: "result ?r2 (final ?r1 w') = Inr s2"
      "cmp_Or (mget (sec_Data s2) ''AWS_ACCESS_KEY_ID'') (mget (sec_Data s2) ''username'') \<noteq> []"
      "cmp_Or (mget (sec_Data s2) ''AWS_SECRET_ACCESS_KEY'') (mget (sec_Data s2) ''password'') \<noteq> []"
      using assms(1) by (force simp: config_served_def run_client_read)
    show ?thesis using s1 s2 by (simp add: zerofs_credentials_def split_beta Let_def)
  qed
  have "result (apply_secret E m s) w' = None" for s w'
    using wr by (auto simp: apply_secret_def split_beta client_CreateSecret_def client_UpdateSecret_def
        run_external_sel writes_accepted_def split: sum.split)
  moreover have "result (apply_pod E m (zerofs_pod E m cfg v nodeName os) (podReadyTimeout cfg)) w' = None \<and>
      up (ext (final (apply_pod E m (zerofs_pod E m cfg v nodeName os) (podReadyTimeout cfg)) w'))" for os w'
    by (rule apply_pod_live [OF _ wr]) (simp_all add: up)
  moreover have "result (client_read (get_ConfigMap E (m_namespace m) configMapName)) w = Inr \<lparr>cm_Data = cfg\<rparr>"
    using assms(1) by (simp add: config_served_def run_client_read)
  moreover obtain c where "result (zerofs_credentials E m cfg)
      (final (client_read (get_ConfigMap E (m_namespace m) configMapName)) w) = Inr c" using cr by blast
  ultimately show ?thesis by (simp add: CreatePod_def split_beta Let_def)
qed

lemma create_pod_live:
  assumes "pr_VolumeContext req ''configMapName'' = Some configMapName"
    and "config_served E (ns_mounter ns) configMapName cfg" "writes_accepted E"
    and "comes_up E (ns_mounter ns) (ns_nodeID ns) (pr_VolumeId req) (podReadyTimeout cfg) up"
  shows "result (stage_create_pod E ns req) w = Inr () \<and> up (ext (final (stage_create_pod E ns req) w))"
  using assms(1) CreatePod_live [OF assms(2-4), of w]
  by (simp add: stage_create_pod_def startStage_def split_beta)

lemma wait_socket_live:
  assumes "no_faults E" "comes_up E m nodeName v timeout up" "up (ext w)"
  shows "result (wait_socket E (ninep_socket v) (Suc (Suc n))) w = Inr ()"
proof (cases "node w (ninep_socket v)")
  case None
  have "up (ext (tick w))" using assms(3) by simp
  then have "node (final (pass_time E (10 * second)) (tick w)) (ninep_socket v) \<noteq> None"
    using assms(2) unfolding comes_up_def by blast
  then have "node (final (time_Sleep E (10 * second)) (tick w)) (ninep_socket v) \<noteq> None"
    by (simp add: time_Sleep_def node_def run_external_sel)
  then show ?thesis
    using None by (auto simp: run_Stat [OF assms(1)] split_beta)
next
  case (Some x)
  then show ?thesis by (simp add: run_Stat [OF assms(1)])
qed

lemma command_ok:
  assumes "commands_work E" "c \<noteq> ''findmnt''" "c \<noteq> ''blkid''"
  shows "snd (result (exec_Command E c args) w) = None"
  using assms by (simp add: exec_Command_def run_external_sel commands_work_def)

lemma command_stages_live:
  assumes "no_faults E" and c: "commands_work E"
  shows "result (stage_mount_9p E s t) w = Inr ()" "result (stage_umount_9p E t) w = Inr ()"
    "pr_VolumeContext req ''capacity_bytes'' = Some cap \<Longrightarrow> result (stage_disk E req) w = Inr ()"
    "result (publish_device E req fs d) w = Inr ()"
proof -
  have mk: "fst (mkfsCommand fs d) \<noteq> ''findmnt''" "fst (mkfsCommand fs d) \<noteq> ''blkid''"
    by (auto simp: mkfsCommand_def Let_def)
  note ok = command_ok [OF c]
  show "result (stage_mount_9p E s t) w = Inr ()" "result (stage_umount_9p E t) w = Inr ()"
    by (simp_all add: stage_mount_9p_def stage_umount_9p_def startStage_def split_beta ok)
  show "pr_VolumeContext req ''capacity_bytes'' = Some cap \<Longrightarrow> result (stage_disk E req) w = Inr ()"
    by (simp add: stage_disk_def run_Stat [OF assms(1)] startStage_def split_beta Let_def ok split: option.split)
  have "result (stage_connect E v d) w' = Inr ()" "result (stage_mkfs E fs d) w' = Inr ()"
    "result (stage_mount_fs E req fs d) w' = Inr ()" for v w'
    by (simp_all add: stage_connect_def stage_mkfs_def stage_mount_fs_def startStage_def split_beta Let_def ok mk)
  then show "result (publish_device E req fs d) w = Inr ()"
    by (simp add: publish_device_def try_ok)
qed

text \<open>Before the reservation: after the stale state is gone, everything up to it goes through, and the
  volume has no device.\<close>

lemma before_reserve_live:
  assumes E: "no_faults E" "commands_work E" "writes_accepted E"
    and c: "pr_VolumeContext req ''configMapName'' = Some configMapName" "config_served E (ns_mounter ns) configMapName cfg"
      "pr_VolumeContext req ''capacity_bytes'' = Some cap"
    and up: "comes_up E (ns_mounter ns) (ns_nodeID ns) (pr_VolumeId req) (podReadyTimeout cfg) up"
    and mk: "result (os_MkdirAll E (pr_TargetPath req)) w = None"
  shows "result (before_reserve E ns req) w = Inr ()"
proof -
  let ?m = "stage_mkdir E (pr_TargetPath req)"
  have m: "result ?m w = Inr ()" using mk by (simp add: stage_mkdir_def split_beta)
  note cp = create_pod_live [OF c(1,2) E(3) up, of "final ?m w"]
  have mr: "maxRetries = Suc (Suc 4)" by (simp add: maxRetries_def)
  have "result (wait_socket E (ninep_socket (pr_VolumeId req)) maxRetries)
      (final (stage_create_pod E ns req) (final ?m w)) = Inr ()"
    unfolding mr by (rule wait_socket_live [OF E(1) up conjunct2 [OF cp]])
  then show ?thesis
    using m cp command_stages_live [OF E(1,2)] c(3) by (simp add: before_reserve_def try_ok)
qed

lemma prologue_clears:
  assumes "no_faults E" "valid_volume (pr_VolumeId req)"
  shows "vol_dev (final (publish_prologue E req) w) (pr_VolumeId req) = None"
proof -
  have "vol_dev (final (clean_stale E v) w') v = None" if "valid_volume v" for v w'
    by (cases "vol_dev w' v")
      (simp_all add: clean_stale_def run_readVolumeNBDState [OF assms(1)] split_beta clear_vol_dev [OF assms(1) that])
  then show ?thesis using assms(2) by (simp add: publish_prologue_def split_beta)
qed

section \<open>The publish\<close>

text \<open>C6: a publish goes through when nothing is in its way. If there are no I/O faults, nothing else writes the
  run directory, the target is outside it, the cluster serves the configuration, takes
  the driver's writes and brings the volume's server up within the time-outs, the host's commands
  work, the target directory can be made, and a device is idle when it is reserved, then a valid
  request ends with success.\<close>

theorem NodePublishVolume_live:
  assumes E: "no_faults E" "outside_keeps run_files E" "commands_work E" "writes_accepted E"
    and req: "publish_validate req = Inr fs" "pr_VolumeContext req ''configMapName'' = Some configMapName"
      "pr_VolumeContext req ''capacity_bytes'' = Some cap" "pr_TargetPath req \<notin> run_files"
    and c: "config_served E (ns_mounter ns) configMapName cfg"
    and up: "comes_up E (ns_mounter ns) (ns_nodeID ns) (pr_VolumeId req) (podReadyTimeout cfg) up"
    and mk: "result (os_MkdirAll E (pr_TargetPath req)) (final (publish_prologue E req) w) = None"
    and rw: "rw = reservation_world E ns req w" "usable rw (pr_VolumeId req)" "node rw ''/dev'' = Some FDir"
      "\<exists>d\<in>node_devices rw. idle rw d"
  shows "result (NodePublishVolume E ns req) w = Inr ()"
proof -
  let ?w0 = "final (publish_prologue E req) w"
  have v: "valid_volume (pr_VolumeId req)" using rw(2) by (simp add: usable_def)
  have b: "result (before_reserve E ns req) ?w0 = Inr ()"
    by (rule before_reserve_live [OF E(1,3,4) req(2) c req(3) up mk])
  have k: "keeps run_files ?w0 rw"
    unfolding rw(1) reservation_world_def by (rule io_relD [OF keeps_before_reserve [OF E(2) req(4)]])
  have none: "vol_dev rw (pr_VolumeId req) = None"
    using keeps_views(1) [OF k v] prologue_clears [OF E(1) v] by simp
  obtain d where "result (reserveNBDDevice E (pr_VolumeId req)) rw = Inr d"
    using reserve_idle [OF E(1) rw(2) none rw(3,4)] by blast
  then have "result (stage_reserve E (pr_VolumeId req)) rw = Inr d"
    by (simp add: stage_reserve_def split_beta)
  then have st: "result (publish_stages E ns req fs) ?w0 = Inr ()"
    using b command_stages_live(4) [OF E(1,3)]
    by (simp add: publish_stages_split try_ok rw(1) reservation_world_def)
  then have "result (publish_attempt E ns req fs) ?w0 = Inr ()"
    by (simp add: publish_attempt_def split_beta)
  then show ?thesis
    using req(1) by (auto simp: NodePublishVolume_def startStage_def publish_prologue_def split_beta)
qed

text \<open>A cluster whose server is up, and has its socket, after its pod was created.\<close>

definition live_pod :: Pod where
  "live_pod = slow_pod\<lparr>pod_Name := ''zerofs-volume-pvc-1''\<rparr>"

definition live_secret :: Secret where
  "live_secret = \<lparr>sec_Name = ''credentials'', sec_Namespace = ''zerofs'', sec_Data = [''username'' \<mapsto> ''AKIA'',
     ''password'' \<mapsto> ''hunter2''], sec_ResourceVersion = ''1'', sec_Type = ''Opaque''\<rparr>"

definition live_env :: "bool env" where
  "live_env = quiet_env\<lparr>run_cmd := \<lambda>_ _. ret ([], None),
     pass_time := \<lambda>_. modifies (\<lambda>w. if ext w then put_node (ninep_socket ''pvc-1'') FNode w else w),
     tick_count := \<lambda>_. ret 1,
     get_ConfigMap := \<lambda>_ _. ret (Inr \<lparr>cm_Data = Map.empty\<rparr>), get_Secret := \<lambda>_ _. ret (Inr live_secret),
     create_Secret := \<lambda>_. ret None, update_Secret := \<lambda>_. ret None,
     get_Pod := \<lambda>_ _. asks (\<lambda>w. if ext w then Inr live_pod else Inl ''pod not found''),
     create_Pod := \<lambda>_. State (\<lambda>w. (None, w\<lparr>ext := True\<rparr>)), delete_Pod := \<lambda>_ _ _. ret None\<rparr>"

definition live_world :: "bool world" where
  "live_world = mk_world [(''/dev'', FDir), (''/dev/nbd0'', FNode)] False"

lemma live_fields [eval]:
  "run_cmd live_env c a = ret ([], None)"
  "pass_time live_env d = modifies (\<lambda>w. if ext w then put_node (ninep_socket ''pvc-1'') FNode w else w)"
  "tick_count live_env d = ret 1" "get_ConfigMap live_env n x = ret (Inr \<lparr>cm_Data = Map.empty\<rparr>)"
  "get_Secret live_env n x = ret (Inr live_secret)" "create_Secret live_env s = ret None"
  "update_Secret live_env s = ret None"
  "get_Pod live_env n x = asks (\<lambda>w. if ext w then Inr live_pod else Inl ''pod not found'')"
  "create_Pod live_env p = State (\<lambda>w. (None, w\<lparr>ext := True\<rparr>))" "delete_Pod live_env n x opts = ret None" "delete_Secret live_env n x = ret (Some unreachable)"
  "get_DaemonSet live_env n x = ret (Inl unreachable)" "os_fault live_env k op path = None"
  by (simp_all add: live_env_def quiet_env_def)

lemma live_ok: "no_faults live_env" "commands_work live_env" "writes_accepted live_env"
  "config_served live_env m configMapName Map.empty"
  by (simp_all add: no_faults_def commands_work_def writes_accepted_def config_served_def live_fields live_secret_def
      cmp_Or_def)

lemma live_comes_up: "comes_up live_env m ''node-1'' ''pvc-1'' timeout (\<lambda>b. b)"
proof -
  have "says_ready (answer live_env n p w 0)" if "ext w" for n p w
    using that by (simp add: answer_def next_tick_def external_def live_fields live_pod_def slow_pod_def pod_ready_def
        put_node_def)
  moreover have "ext (final (select_budget live_env d) w) = ext w" "result (select_budget live_env d) w = 1" for d w
    by (simp_all add: select_budget_def external_def live_fields)
  ultimately show ?thesis
    by (auto simp: comes_up_def live_fields stays_def put_node_def intro!: exI [of _ 0])
      (simp add: node_def update_conv')
qed

lemma live_outside_keeps: "outside_keeps run_files live_env"
proof -
  have "ninep_socket ''pvc-1'' \<notin> run_files" by (rule outside_run) code_simp
  then show ?thesis
    by (simp add: outside_keeps_def live_fields state_io_rel_def keeps_def)
qed

lemma live_prologue: "files (final (publish_prologue live_env sim_request) live_world) = [(''/dev'', FDir), (''/dev/nbd0'', FNode)]"
  by (simp add: eval live_world_def mk_world_def publish_prologue_def cong: bind_weak_cong)

lemma live_reservation: "files (reservation_world live_env sim_node sim_request live_world) =
    [(''/dev'', FDir), (''/dev/nbd0'', FNode), (''/t'', FDir),
     (''/var/lib/kubelet/plugins/zerofs.csi.driver/zerofs-pvc-1.9p.sock'', FNode)]"
  by (simp add: eval live_world_def mk_world_def reservation_world_def publish_prologue_def before_reserve_def
      live_pod_def slow_pod_def live_secret_def sim_mounter_def cong: bind_weak_cong)

theorem NodePublishVolume_live_witness:
  "result (NodePublishVolume live_env sim_node sim_request) live_world = Inr ()"
proof -
  let ?rw = "reservation_world live_env sim_node sim_request live_world"
  have r: "pr_VolumeId sim_request = ''pvc-1''" "pr_TargetPath sim_request = ''/t''"
    "pr_VolumeContext sim_request ''configMapName'' = Some ''zerofs-config''"
    "pr_VolumeContext sim_request ''capacity_bytes'' = Some ''1048576''"
    "publish_validate sim_request = Inr ''ext4''" "ns_nodeID sim_node = ''node-1''"
    by (simp_all add: publish_validate_def sim_publish_def sim_node_def)
  have "valid_volume ''pvc-1''" by code_simp
  then have u: "usable ?rw ''pvc-1''"
    by (simp add: usable_def run_dirs_def node_def live_reservation path_eval ZeroFSRunDir_def nbdByDeviceDir_def)
  have "''/dev/nbd0'' \<in> node_devices ?rw" "idle ?rw ''/dev/nbd0''" "node ?rw ''/dev'' = Some FDir"
    by (simp_all add: node_devices_def idle_def dev_connected_def node_def live_reservation string_eval path_eval)
  moreover have "''/t'' \<notin> run_files" by (rule outside_run) code_simp
  moreover have "result (os_MkdirAll live_env ''/t'') (final (publish_prologue live_env sim_request) live_world) = None"
    by (simp add: os_MkdirAll_def run_step [OF live_ok(1)] node_path_eval node_def live_prologue)
  ultimately show ?thesis
    using NodePublishVolume_live [OF live_ok(1) live_outside_keeps live_ok(2,3) r(5,3,4) _ live_ok(4) _ _ refl]
      live_comes_up u r by (metis (no_types, lifting))
qed

end
