(* ===== verification/Node_Roundtrip.thy ===== *)
theory Node_Roundtrip
  imports Node_Machine
begin







end
