(* ===== verification/Nbd_Faults.thy ===== *)
theory Nbd_Faults
  imports Nbd_Liveness
begin

text \<open>
  Where the assumptions of the reservation protocol matter: exactly when the two-hour limit gives a
  held device away, what the ignored error of the write of a reservation file costs, and a race with
  the one release that is not made under the mutex.
\<close>

section \<open>The two-hour limit\<close>

lemma find_Some_split:
  "find P xs = Some x \<longleftrightarrow> P x \<and> (\<exists>pre post. xs = pre @ x # post \<and> (\<forall>y\<in>set pre. \<not> P y))"
proof
  assume "find P xs = Some x"
  then obtain i where i: "i < length xs" "P (xs ! i)" "x = xs ! i" "\<forall>j<i. \<not> P (xs ! j)"
    by (auto simp: find_Some_iff)
  have "\<forall>y\<in>set (take i xs). \<not> P y" using i(1,4) by (auto simp: in_set_conv_nth)
  with i show "P x \<and> (\<exists>pre post. xs = pre @ x # post \<and> (\<forall>y\<in>set pre. \<not> P y))" by (metis id_take_nth_drop)
next
  have skip: "\<forall>y\<in>set pre. \<not> P y \<Longrightarrow> find P (pre @ ys) = find P ys" for pre ys by (induction pre) auto
  show "P x \<and> (\<exists>pre post. xs = pre @ x # post \<and> (\<forall>y\<in>set pre. \<not> P y)) \<Longrightarrow> find P xs = Some x"
    by (auto simp: skip)
qed

lemma reserve_returns_iff:
  assumes "no_faults E" "usable w v" "vol_dev w v = None"
  shows "result (reserveNBDDevice E v) w = Inr d \<longleftrightarrow>
    find (free_dev (with_dirs E w)) (nbd_listing (with_dirs E w)) = Some d"
  using reserve_first_free [OF assms] by (auto split: option.splits)

text \<open>A held device is free exactly when it is disconnected and its reservation has expired.\<close>

lemma held_free_iff:
  assumes "reg_inv w" "valid_volume u" "vol_dev w u = Some d" "mkdir_rel w w'"
  shows "free_dev w' d \<longleftrightarrow> dev_connected w d = Some False \<and>
    (\<exists>c t. node w (deviceReservationPath d) = Some (FReg c t) \<and> clock w - t > reservation_ttl)"
proof -
  have d: "nbdDevicePathRe d" "dev_owner w d = Some u" using assms(1-3) by (auto simp: reg_inv_def)
  from d(2) obtain c t where r: "node w (deviceReservationPath d) = Some (FReg c t)" "TrimSpace c = u"
    by (auto simp: dev_owner_def split: option.splits fnode.splits)
  have "node w' (volumeNBDStatePath u) \<noteq> None"
    using assms(3) mkdir_views(5) [OF assms(4,2)] by (auto simp: vol_dev_def split: option.splits)
  then show ?thesis
    using r assms(2) mkdir_views(3) [OF assms(4)] mkdir_views(4) [OF assms(4) d(1)] mkdir_connected [OF assms(4) d(1)]
    by (auto simp: free_dev_def stale_def)
qed

text \<open>C40: when a reservation gives away a device that another volume holds. On a host without I/O faults and
  with consistent reservations this happens exactly when the device is disconnected, its reservation
  is older than two hours, and no device before it in the listing is free; then both volumes hold
  the device.\<close>

theorem reserve_gives_away_iff:
  assumes "no_faults E" "reg_inv w" "usable w v" "vol_dev w v = None" "valid_volume u" "vol_dev w u = Some d"
  shows "(result (reserveNBDDevice E v) w = Inr d \<longleftrightarrow>
      dev_connected w d = Some False \<and>
      (\<exists>c t. node w (deviceReservationPath d) = Some (FReg c t) \<and> clock w - t > reservation_ttl) \<and>
      (\<exists>pre post. nbd_listing (with_dirs E w) = pre @ d # post \<and> (\<forall>e\<in>set pre. \<not> free_dev (with_dirs E w) e))) \<and>
    (result (reserveNBDDevice E v) w = Inr d \<longrightarrow>
      vol_dev (final (reserveNBDDevice E v) w) u = Some d \<and> vol_dev (final (reserveNBDDevice E v) w) v = Some d)"
proof
  let ?w0 = "with_dirs E w"
  have mk: "mkdir_rel w ?w0" by (rule io_relD [OF rel_ensureRunDirs])
  have v: "valid_volume v" "u \<noteq> v" using assms(3,4,6) by (auto simp: usable_def)
  have d: "nbdDevicePathRe d" using assms(2,5,6) by (auto simp: reg_inv_def)
  note iff = reserve_returns_iff [OF assms(1,3,4), of d]
  show "result (reserveNBDDevice E v) w = Inr d \<longleftrightarrow>
      dev_connected w d = Some False \<and>
      (\<exists>c t. node w (deviceReservationPath d) = Some (FReg c t) \<and> clock w - t > reservation_ttl) \<and>
      (\<exists>pre post. nbd_listing ?w0 = pre @ d # post \<and> (\<forall>e\<in>set pre. \<not> free_dev ?w0 e))"
    unfolding iff find_Some_split held_free_iff [OF assms(2,5,6) mk] by simp
  show "result (reserveNBDDevice E v) w = Inr d \<longrightarrow>
      vol_dev (final (reserveNBDDevice E v) w) u = Some d \<and> vol_dev (final (reserveNBDDevice E v) w) v = Some d"
  proof
    assume "result (reserveNBDDevice E v) w = Inr d"
    then have "node (final (reserveNBDDevice E v) w) = reserved_store ?w0 v d"
      using reserve_first_free [OF assms(1,3,4)] iff by simp
    from reserved_views(1,3) [OF this v(1) d] show "vol_dev (final (reserveNBDDevice E v) w) u = Some d \<and>
        vol_dev (final (reserveNBDDevice E v) w) v = Some d"
      using v(2) assms(5,6) mkdir_views(1) [OF mk] by simp
  qed
qed

definition one_expired :: "unit world" where
  "one_expired = one_taken\<lparr>clock := reservation_ttl + 1\<rparr>"

theorem reserve_gives_away_iff_witness:
  "result (reserveNBDDevice quiet_env ''pvc-b'') one_expired = Inr ''/dev/nbd0'' \<and>
   vol_dev (final (reserveNBDDevice quiet_env ''pvc-b'') one_expired) ''pvc-a'' = Some ''/dev/nbd0''"
proof -
  have same: "node one_expired = node one_taken" by (auto simp: one_expired_def fun_eq_iff)
  have i: "reg_inv one_expired"
    using one_taken_ok(1) by (simp add: reg_inv_def vol_dev_def dev_owner_def same)
  have u: "usable one_expired ''pvc-b''" using one_taken_ok(3) by (simp add: usable_def same)
  have "vol_dev one_expired ''pvc-b'' = None" "valid_volume ''pvc-a''"
    "vol_dev one_expired ''pvc-a'' = Some ''/dev/nbd0''" "dev_connected one_expired ''/dev/nbd0'' = Some False"
    "node one_expired (deviceReservationPath ''/dev/nbd0'') = Some (FReg ''pvc-a'' 0)"
    "clock one_expired - 0 > reservation_ttl"
    "nbd_listing (with_dirs quiet_env one_expired) = [] @ ''/dev/nbd0'' # [''/dev/nbd1'']" by code_simp+
  with reserve_gives_away_iff [OF quiet_no_faults i u] show ?thesis by (metis empty_iff empty_set)
qed

section \<open>A reservation that cannot be written\<close>

text \<open>A host on which exactly the writes to reservation files fail, without a byte written (a full
  file system, say), and the same host without these faults.\<close>

definition reservation_writes_fail :: "'x env \<Rightarrow> bool" where
  "reservation_writes_fail E \<longleftrightarrow> (\<forall>n op p. os_fault E n op p = None \<longleftrightarrow>
     \<not> (op = OpWrite \<and> HasPrefix p (nbdByDeviceDir @ ''/''))) \<and> (\<forall>n. os_short E n = 0)"

definition sound :: "'x env \<Rightarrow> 'x env" where
  "sound E = E\<lparr>os_fault := \<lambda>_ _ _. None\<rparr>"

lemma sound_no_faults [simp]: "no_faults (sound E)"
  by (simp add: no_faults_def sound_def)

lemma sound_step:
  "reservation_writes_fail E \<Longrightarrow> op \<noteq> OpWrite \<or> \<not> HasPrefix p (nbdByDeviceDir @ ''/'') \<Longrightarrow>
     os_step E op p = os_step (sound E) op p"
  by (auto simp: os_step_def reservation_writes_fail_def sound_def fun_eq_iff)

text \<open>All calls but the write of a reservation are those of the host without faults.\<close>

lemma sound_calls:
  assumes "reservation_writes_fail E"
  shows "os_Stat E p = os_Stat (sound E) p" "os_ReadFile E p = os_ReadFile (sound E) p"
    "os_Remove E p = os_Remove (sound E) p" "os_OpenExcl E p = os_OpenExcl (sound E) p"
    "os_MkdirAll E p = os_MkdirAll (sound E) p" "filepath_Glob E d pre = filepath_Glob (sound E) d pre"
  by (simp_all add: os_Stat_def os_ReadFile_def os_Remove_def os_OpenExcl_def os_MkdirAll_def
      filepath_Glob_def sound_step [OF assms])

lemma sound_nbd:
  assumes "reservation_writes_fail E"
  shows "ensureRunDirs E = ensureRunDirs (sound E)" "isNBDConnected E d = isNBDConnected (sound E) d"
    "listNBDDevices E = listNBDDevices (sound E)" "readVolumeNBDState E v = readVolumeNBDState (sound E) v"
    "gc_reservation E p = gc_reservation (sound E) p"
  by (simp_all add: ensureRunDirs_def isNBDConnected_def listNBDDevices_def readVolumeNBDState_def
      gc_reservation_def mustReadFile_def sound_calls [OF assms] cong: option.case_cong sum.case_cong if_cong)

lemma state_path_not_reserved: "valid_volume v \<Longrightarrow> \<not> HasPrefix (volumeNBDStatePath v) (nbdByDeviceDir @ ''/'')"
  by (auto simp: valid_volume_def volume_path nbdByDeviceDir_def HasPrefix_iff plain_name_def)

lemma sound_write_state:
  assumes "reservation_writes_fail E" "valid_volume v"
  shows "writeVolumeNBDState E v d = writeVolumeNBDState (sound E) v d"
proof -
  have "f_WriteString E (volumeNBDStatePath v) s = f_WriteString (sound E) (volumeNBDStatePath v) s" for s
    using sound_step [OF assms(1), of OpWrite] state_path_not_reserved [OF assms(2)]
    by (simp add: f_WriteString_def sound_def cong: option.case_cong)
  then show ?thesis
    by (simp add: writeVolumeNBDState_def os_WriteFile_def sound_nbd [OF assms(1)] sound_step [OF assms(1)]
        cong: option.case_cong)
qed

lemma failed_write:
  assumes "reservation_writes_fail E" "nbdDevicePathRe d"
  shows "final (f_WriteString E (deviceReservationPath d) s) w = put_node (deviceReservationPath d) (FReg [] (clock w)) (tick w)"
proof -
  have "HasPrefix (deviceReservationPath d) (nbdByDeviceDir @ ''/'')"
    using assms(2) by (rule reservation_cases) (simp add: HasPrefix_iff)
  then obtain m where "os_fault E (oscalls w) OpWrite (deviceReservationPath d) = Some m"
    using assms(1) unfolding reservation_writes_fail_def by (metis not_None_eq)
  moreover have "os_short E n = 0" for n using assms(1) by (simp add: reservation_writes_fail_def)
  ultimately show ?thesis by (simp add: f_WriteString_def os_step_def tick_def)
qed

text \<open>The store after such a reservation: the reservation file is empty.\<close>

definition half_reserved :: "'x world \<Rightarrow> string \<Rightarrow> string \<Rightarrow> string \<Rightarrow> fnode option" where
  "half_reserved w v d = (node w)(deviceReservationPath d \<mapsto> FReg [] (clock w),
     volumeNBDStatePath v \<mapsto> FReg d (clock w))"

lemma faulty_take:
  assumes E: "reservation_writes_fail E" and r: "ready_to_reserve w v" and d: "free_dev w d" "nbdDevicePathRe d"
  shows "result (reserve_scan E v (d # ds)) w = Inr d"
    and "node (final (reserve_scan E v (d # ds)) w) = half_reserved w v d"
    and "clock (final (reserve_scan E v (d # ds)) w) = clock w"
proof -
  let ?p = "deviceReservationPath d"
  let ?w1 = "final (gc_reservation (sound E) ?p) (tick w)"
  let ?w2 = "put_node ?p (FReg [] (clock w)) (tick ?w1)"
  let ?w3 = "put_node ?p (FReg [] (clock w)) (tick ?w2)"
  note S = sound_no_faults [of E]
  have v: "valid_volume v" and dirs: "\<forall>p\<in>run_dirs. node w p = Some FDir" using r by (simp_all add: ready_to_reserve_def)
  have n1: "node ?w1 = (node w)(?p := None)" "clock ?w1 = clock w"
    using d(1) gc_effect [OF S, of ?p "tick w"] by (auto simp: free_dev_def fun_eq_iff)
  have nd: "?p \<notin> run_dirs" using d(2) by (rule reservation_path_not_dir)
  have nv: "volumeNBDStatePath v \<noteq> ?p" using reservation_never_volume [OF v, of d] by metis
  have c: "run_state (isNBDConnected (sound E) d) w = (Inr False, tick w)"
    using run_isNBDConnected [OF S, of d w] d(1) by (metis free_dev_def prod.collapse)
  have par: "is_dir ?w1 (parent_dir ?p)"
    using dirs nd d(2) by (auto simp: is_dir_def n1 parent_dirs run_dirs_def)
  have op: "run_state (os_OpenExcl (sound E) ?p) ?w1 = (None, ?w2)"
    using par by (simp add: run_OpenExcl [OF S] n1)
  have n3: "node ?w3 = (node w)(?p \<mapsto> FReg [] (clock w))" "clock ?w3 = clock w" by (auto simp: n1 fun_eq_iff)
  have dirs3: "\<forall>p\<in>run_dirs. node ?w3 p = Some FDir" using dirs nd by (auto simp: n3)
  have st3: "node ?w3 (volumeNBDStatePath v) \<notin> {Some FDir, Some FNode}"
    using r nv by (simp add: n3 ready_to_reserve_def)
  note wr = write_state_effect [OF S v dirs3 st3, of d]
  have "run_state (reserve_scan E v (d # ds)) w = (Inr d, final (writeVolumeNBDState (sound E) v d) ?w3)"
    using wr(1)
    by (simp add: c op Let_def split_beta failed_write [OF E d(2)] n1 sound_nbd [OF E] sound_calls [OF E]
        sound_write_state [OF E v])
  with wr(2,3) show "result (reserve_scan E v (d # ds)) w = Inr d"
    "node (final (reserve_scan E v (d # ds)) w) = half_reserved w v d"
    "clock (final (reserve_scan E v (d # ds)) w) = clock w"
    using nbd_dev_trim [OF d(2)] by (simp_all add: n1 n3 half_reserved_def)
qed

lemma faulty_skip:
  assumes E: "reservation_writes_fail E" and d: "\<not> free_dev w d"
  obtains w' where "same_store w w'"
    "run_state (reserve_scan E v (d # ds)) w = run_state (reserve_scan E v ds) w'"
proof (cases "dev_connected w d = Some False")
  case False
  have "run_state (reserve_scan E v (d # ds)) w = run_state (reserve_scan E v ds) (tick w)"
    using run_isNBDConnected [OF sound_no_faults, of E d w] False
    by (auto simp: split_beta sound_nbd [OF E] split: sum.splits bool.splits)
  with that [of "tick w"] show thesis by simp
next
  case True
  let ?p = "deviceReservationPath d"
  let ?w1 = "final (gc_reservation (sound E) ?p) (tick w)"
  have st: "\<not> stale w ?p" "node w ?p \<noteq> None" using d True by (auto simp: free_dev_def)
  from st gc_effect [OF sound_no_faults, of E ?p "tick w"] have w1: "same_store w ?w1" by (simp add: same_store_def)
  have c: "run_state (isNBDConnected (sound E) d) w = (Inr False, tick w)"
    using run_isNBDConnected [OF sound_no_faults, of E d w] True by (metis prod.collapse)
  have "run_state (os_OpenExcl (sound E) ?p) ?w1 = (Some Exist, tick ?w1)"
    using st(2) w1 by (simp add: run_OpenExcl [OF sound_no_faults] same_views)
  then have "run_state (reserve_scan E v (d # ds)) w = run_state (reserve_scan E v ds) (tick ?w1)"
    by (simp add: c Let_def split_beta sound_nbd [OF E] sound_calls [OF E])
  moreover have "same_store w (tick ?w1)" using w1 by (simp add: same_store_def)
  ultimately show thesis by (rule that [rotated])
qed

lemma faulty_scan:
  assumes E: "reservation_writes_fail E"
  shows "ready_to_reserve w v \<Longrightarrow> find (free_dev w) ds = Some d \<Longrightarrow> \<forall>d\<in>set ds. nbdDevicePathRe d \<Longrightarrow>
    result (reserve_scan E v ds) w = Inr d \<and> node (final (reserve_scan E v ds) w) = half_reserved w v d \<and>
    clock (final (reserve_scan E v ds) w) = clock w"
proof (induction ds arbitrary: w)
  case (Cons a ds)
  show ?case
  proof (cases "free_dev w a")
    case True
    then show ?thesis using Cons.prems faulty_take [OF E Cons.prems(1)] by simp
  next
    case False
    obtain w' where w': "same_store w w'"
      "run_state (reserve_scan E v (a # ds)) w = run_state (reserve_scan E v ds) w'"
      using faulty_skip [OF E False] by blast
    have eq: "free_dev w' = free_dev w" "half_reserved w' v d = half_reserved w v d"
      using w'(1) same_free [OF w'(1)] by (auto simp: half_reserved_def same_store_def fun_eq_iff)
    show ?thesis
      using Cons.IH [of w'] Cons.prems False eq w'(1) same_ready [OF w'(1), of v]
      unfolding w'(2) by (simp add: same_views)
  qed
qed simp

lemma nbd_listing_cong:
  assumes "\<And>p. HasPrefix p ''/dev'' \<Longrightarrow> node w' p = node w p"
  shows "nbd_listing w' = nbd_listing w"
proof -
  have "set (dir_names w' ''/dev'') = set (dir_names w ''/dev'')"
    by (auto simp: dir_names_iff assms HasPrefix_iff)
  then have "sort (remdups (filter (\<lambda>n. HasPrefix n ''nbd'') (dir_names w' ''/dev''))) =
      sort (remdups (filter (\<lambda>n. HasPrefix n ''nbd'') (dir_names w ''/dev'')))"
    by (simp flip: sorted_list_of_set_sort_remdups)
  moreover have "is_dir w' ''/dev'' = is_dir w ''/dev''" by (simp add: is_dir_def assms HasPrefix_iff)
  ultimately show ?thesis by (simp add: nbd_listing_def)
qed

lemma faulty_reserve:
  assumes E: "reservation_writes_fail E" and u: "usable w v" "vol_dev w v = None"
    and f: "find (free_dev (with_dirs E w)) (nbd_listing (with_dirs E w)) = Some d"
  shows "result (reserveNBDDevice E v) w = Inr d"
    and "node (final (reserveNBDDevice E v) w) = half_reserved (with_dirs E w) v d"
    and "clock (final (reserveNBDDevice E v) w) = clock (with_dirs E w)"
proof -
  note S = sound_no_faults [of E]
  define w0 where "w0 = with_dirs E w"
  have w0: "run_state (ensureRunDirs (sound E)) w = (None, w0)" "\<forall>p\<in>run_dirs. node w0 p = Some FDir"
    using ensureRunDirs_ok [OF S, of w] u(1) by (simp_all add: usable_def w0_def sound_nbd [OF E] prod_eq_iff)
  have mk: "mkdir_rel w w0" unfolding w0_def by (rule io_relD [OF rel_ensureRunDirs])
  have f0: "find (free_dev w0) (nbd_listing w0) = Some d" using f by (simp only: w0_def)
  then have ne: "nbd_listing w0 \<noteq> []" by auto
  have l: "nbd_listing (tick w0) = nbd_listing w0" by (simp add: nbd_listing_def)
  have "run_state (reserveNBDDevice E v) w = run_state (reserve_fresh E v) (tick w0)"
    using u(2) mkdir_views(1) [OF mk, of v]
    by (simp add: reserveNBDDevice_def sound_nbd [OF E] w0(1) run_readVolumeNBDState [OF S])
  also have "\<dots> = run_state (reserve_scan E v (nbd_listing w0)) (tick (tick w0))"
    using ne by (simp add: reserve_fresh_def sound_nbd [OF E] run_listNBDDevices [OF S] l)
  finally have run: "run_state (reserveNBDDevice E v) w = run_state (reserve_scan E v (nbd_listing w0)) (tick (tick w0))" .
  have r: "ready_to_reserve (tick (tick w0)) v"
    using u(1) w0(2) mkdir_views(5) [OF mk] by (auto simp: ready_to_reserve_def usable_def)
  have eq: "free_dev (tick (tick w0)) = free_dev w0" "half_reserved (tick (tick w0)) v d = half_reserved w0 v d"
    using same_free [OF same_tick] by (auto simp: half_reserved_def fun_eq_iff)
  from faulty_scan [OF E r, of "nbd_listing w0" d, OF _ nbd_listing_devs] f0
  show "result (reserveNBDDevice E v) w = Inr d"
    "node (final (reserveNBDDevice E v) w) = half_reserved (with_dirs E w) v d"
    "clock (final (reserveNBDDevice E v) w) = clock (with_dirs E w)"
    unfolding run w0_def [symmetric] by (simp_all add: eq)
qed

text \<open>After it, the device is still the first free one.\<close>

lemma half_reserved_views:
  assumes w': "node w' = half_reserved w v d" and v: "valid_volume v" and d: "nbdDevicePathRe d"
  shows "vol_dev w' v = Some d" "dev_owner w' d = Some []"
    "valid_volume u \<Longrightarrow> u \<noteq> v \<Longrightarrow> node w' (volumeNBDStatePath u) = node w (volumeNBDStatePath u)"
    "p \<in> run_dirs \<Longrightarrow> node w' p = node w p" "nbd_listing w' = nbd_listing w"
    "nbdDevicePathRe e \<Longrightarrow> dev_connected w' e = dev_connected w e"
proof -
  have ne: "deviceReservationPath d \<noteq> volumeNBDStatePath u" if "valid_volume u" for u
    using reservation_never_volume [OF that] .
  have "d \<noteq> []" "TrimSpace [] = []" using d by (auto elim: nbd_dev_cases)
  with ne [OF v] show "vol_dev w' v = Some d" "dev_owner w' d = Some []"
    using w' nbd_dev_trim [OF d] by (simp_all add: vol_dev_def dev_owner_def half_reserved_def)
  show "valid_volume u \<Longrightarrow> u \<noteq> v \<Longrightarrow> node w' (volumeNBDStatePath u) = node w (volumeNBDStatePath u)"
    using ne [of u] v volume_path_inj [of u v] by (auto simp: w' half_reserved_def valid_volume_def)
  show "p \<in> run_dirs \<Longrightarrow> node w' p = node w p"
    using volume_path_not_dir [OF v] reservation_path_not_dir [OF d] by (auto simp: w' half_reserved_def)
  have run: "HasPrefix (volumeNBDStatePath v) ''/run''" "HasPrefix (deviceReservationPath d) ''/run''"
    using v reservation_cases [OF d]
    by (auto simp: valid_volume_def volume_path HasPrefix_iff ZeroFSRunDir_def nbdByDeviceDir_def)
  show "nbd_listing w' = nbd_listing w"
    using run by (intro nbd_listing_cong) (auto simp: w' half_reserved_def HasPrefix_iff)
  show "nbdDevicePathRe e \<Longrightarrow> dev_connected w' e = dev_connected w e"
    using pid_path_not_state [OF _ v d] by (auto simp: dev_connected_def w' half_reserved_def)
qed

lemma half_reserved_free:
  assumes w': "node w' = half_reserved w v d" "clock w' = clock w" and v: "valid_volume v" and d: "nbdDevicePathRe d"
  shows "free_dev w d \<Longrightarrow> free_dev w' d"
    and "nbdDevicePathRe e \<Longrightarrow> e \<noteq> d \<Longrightarrow> \<not> free_dev w e \<Longrightarrow> \<not> free_dev w' e"
proof -
  note views = half_reserved_views [OF w'(1) v d]
  show "free_dev w d \<Longrightarrow> free_dev w' d"
    using views(2) views(6) [OF d]
    by (auto simp: free_dev_def stale_def dev_owner_def split: option.splits fnode.splits)
  assume e: "nbdDevicePathRe e" "e \<noteq> d" and nf: "\<not> free_dev w e"
  have p: "node w' (deviceReservationPath e) = node w (deviceReservationPath e)"
    using reservation_path_inj [OF e(1) d] e(2) reservation_never_volume [OF v, of e]
    by (auto simp: w'(1) half_reserved_def)
  have more: "node w' q \<noteq> None" if "node w q \<noteq> None" for q using that by (auto simp: w'(1) half_reserved_def)
  have "has_children w' q" if "has_children w q" for q
    using that more by (auto simp: has_children_node) blast
  with nf p more views(6) [OF e(1)] show "\<not> free_dev w' e"
    by (auto simp: free_dev_def stale_def w'(2) split: option.splits fnode.splits)
qed

text \<open>C39: the error of \<open>f.WriteString\<close> is ignored. On a host on which the writes to reservation files fail, a
  reservation that finds a free device still succeeds and records it in the volume's state file, but
  leaves an empty reservation file; the next volume that asks gets the same device, and both hold it.\<close>

theorem failed_reservation_write_shares:
  assumes "reservation_writes_fail E" "usable w v" "vol_dev w v = None"
    and "find (free_dev (with_dirs E w)) (nbd_listing (with_dirs E w)) = Some d"
    and "usable w u" "vol_dev w u = None" "u \<noteq> v"
  defines "w' \<equiv> final (reserveNBDDevice E v) w"
  shows "result (reserveNBDDevice E v) w = Inr d \<and> vol_dev w' v = Some d \<and> dev_owner w' d = Some [] \<and>
    result (reserveNBDDevice E u) w' = Inr d \<and>
    vol_dev (final (reserveNBDDevice E u) w') v = Some d \<and> vol_dev (final (reserveNBDDevice E u) w') u = Some d"
proof -
  let ?w0 = "with_dirs E w"
  note S = sound_no_faults [of E]
  have v: "valid_volume v" "valid_volume u" using assms(2,5) by (auto simp: usable_def)
  have mk: "mkdir_rel w ?w0" by (rule io_relD [OF rel_ensureRunDirs])
  have f: "free_dev ?w0 d" "d \<in> set (nbd_listing ?w0)" using assms(4) by (auto simp: find_Some_iff)
  have d: "nbdDevicePathRe d" using f(2) nbd_listing_devs by blast
  note first = faulty_reserve [OF assms(1-4), folded w'_def]
  note views = half_reserved_views [OF first(2) v(1) d]
  have dirs: "\<forall>p\<in>run_dirs. node w' p = Some FDir"
    using views(4) ensureRunDirs_ok(2) [OF S, of w] assms(2) by (simp add: usable_def sound_nbd [OF assms(1)])
  then have wd: "with_dirs E w' = tick (tick w')"
    by (simp add: sound_nbd [OF assms(1)] ensureRunDirs_exist [OF S])
  have st: "node w' (volumeNBDStatePath u) = node w (volumeNBDStatePath u)"
    using views(3) [OF v(2) assms(7)] mkdir_views(5) [OF mk v(2)] by simp
  have u: "usable w' u" "vol_dev w' u = None" using assms(5,6) dirs st by (simp_all add: usable_def vol_dev_def)
  note free = half_reserved_free [OF first(2,3) v(1) d]
  obtain pre post where pre: "nbd_listing ?w0 = pre @ d # post" "\<forall>e\<in>set pre. \<not> free_dev ?w0 e"
    using assms(4) unfolding find_Some_split by blast
  have "\<forall>e\<in>set pre. \<not> free_dev w' e"
  proof
    fix e assume e: "e \<in> set pre"
    then have "nbdDevicePathRe e" "e \<noteq> d" using pre nbd_listing_devs [of ?w0] f(1) by auto
    then show "\<not> free_dev w' e" using free(2) pre(2) e by blast
  qed
  then have f': "find (free_dev w') (nbd_listing w') = Some d"
    unfolding find_Some_split using free(1) [OF f(1)] views(5) pre(1) by metis
  have "free_dev (tick (tick w')) = free_dev w'" "nbd_listing (tick (tick w')) = nbd_listing w'"
    using same_free [OF same_tick] by (auto simp: nbd_listing_def fun_eq_iff)
  with f' have f2: "find (free_dev (with_dirs E w')) (nbd_listing (with_dirs E w')) = Some d" by (simp add: wd)
  note second = faulty_reserve [OF assms(1) u f2]
  note views2 = half_reserved_views [OF second(2) v(2) d]
  have "vol_dev (final (reserveNBDDevice E u) w') v = vol_dev w' v"
    using views2(3) [OF v(1)] assms(7) by (simp add: vol_dev_def wd)
  then show ?thesis using first(1) views(1,2) second(1) views2(1) by simp
qed

definition full_run_env :: "unit env" where
  "full_run_env = quiet_env\<lparr>os_fault := \<lambda>n op p. if op = OpWrite \<and> HasPrefix p (nbdByDeviceDir @ ''/'')
     then Some ''no space left on device'' else None\<rparr>"

theorem failed_reservation_write_shares_witness:
  "result (reserveNBDDevice full_run_env ''pvc-a'') bare_host = Inr ''/dev/nbd1'' \<and>
   result (reserveNBDDevice full_run_env ''pvc-b'') (final (reserveNBDDevice full_run_env ''pvc-a'') bare_host) =
     Inr ''/dev/nbd1''"
proof -
  have E: "reservation_writes_fail full_run_env"
    by (simp add: reservation_writes_fail_def full_run_env_def quiet_env_def)
  have f: "find (free_dev (with_dirs full_run_env bare_host)) (nbd_listing (with_dirs full_run_env bare_host)) =
      Some ''/dev/nbd1''" by code_simp
  have "vol_dev bare_host ''pvc-a'' = None" "vol_dev bare_host ''pvc-b'' = None" by code_simp+
  moreover have "usable bare_host ''pvc-b''" unfolding usable_def run_dirs_def by code_simp
  ultimately show ?thesis
    using failed_reservation_write_shares [OF E bare_host_ok(4) _ f, of "''pvc-b''"] by simp
qed

section \<open>A release without the mutex\<close>

text \<open>
  \<open>NodePublishVolume\<close>'s deferred cleanup calls \<open>clearVolumeNBDState\<close> without holding \<open>nbdMu\<close>, unlike every
  other caller. Another handler's reservation can then run between the two removals.
\<close>

definition clear_state_file :: "'x env \<Rightarrow> string \<Rightarrow> ('x, unit) io" where
  "clear_state_file E volumeID = do { _ \<leftarrow> os_Remove E (volumeNBDStatePath volumeID); ret () }"

definition clear_reservation :: "'x env \<Rightarrow> string \<Rightarrow> ('x, unit) io" where
  "clear_reservation E dev =
     (if dev \<noteq> [] then do { _ \<leftarrow> os_Remove E (deviceReservationPath dev); ret () } else ret ())"

lemma clear_halves: "clearVolumeNBDState E v d = do { clear_state_file E v; clear_reservation E d }"
  by (rule state.expand) (simp add: clearVolumeNBDState_def clear_state_file_def clear_reservation_def fun_eq_iff split_beta)

definition two_devices :: "unit world" where
  "two_devices = mk_world [(''/dev'', FDir), (''/dev/nbd0'', FNode), (''/dev/nbd1'', FNode)] ()"

text \<open>The files of the run: the two devices and, in the run directory, what is listed.\<close>

definition race_world :: "(string \<times> fnode) list \<Rightarrow> nat \<Rightarrow> unit world" where
  "race_world fs n = (mk_world ([(''/dev'', FDir), (''/dev/nbd0'', FNode), (''/dev/nbd1'', FNode), (''/run'', FDir),
     (''/run/zerofs-csi'', FDir), (''/run/zerofs-csi/by-device'', FDir)] @ fs) ())\<lparr>oscalls := n\<rparr>"

abbreviation res0 :: "string \<Rightarrow> string \<times> fnode" where
  "res0 v \<equiv> (''/run/zerofs-csi/by-device/nbd0'', FReg v 0)"

abbreviation on0 :: "string \<Rightarrow> string \<times> fnode" where
  "on0 v \<equiv> (''/run/zerofs-csi/'' @ v, FReg ''/dev/nbd0'' 0)"

lemmas race_eval = eval race_world_def mk_world_def clear_state_file_def clear_reservation_def

lemma race_steps:
  "\<exists>n. run_state (reserveNBDDevice quiet_env ''pvc-a'') two_devices =
     (Inr ''/dev/nbd0'', race_world [res0 ''pvc-a'', on0 ''pvc-a''] n)"
  "\<exists>m. run_state (clear_state_file quiet_env ''pvc-a'') (race_world [res0 ''pvc-a'', on0 ''pvc-a''] n) =
     ((), race_world [res0 ''pvc-a''] m)"
  "\<exists>m. run_state (reserveNBDDevice quiet_env ''pvc-b'') (race_world [res0 ''pvc-a''] n) =
     (Inr ''/dev/nbd0'', race_world [res0 ''pvc-b'', on0 ''pvc-b''] m)"
  "\<exists>m. run_state (clear_reservation quiet_env ''/dev/nbd0'') (race_world [res0 ''pvc-b'', on0 ''pvc-b''] n) =
     ((), race_world [on0 ''pvc-b''] m)"
  "\<exists>m. run_state (reserveNBDDevice quiet_env ''pvc-1'') (race_world [on0 ''pvc-b''] n) =
     (Inr ''/dev/nbd0'', race_world [on0 ''pvc-b'', res0 ''pvc-1'', on0 ''pvc-1''] m)"
  by (simp_all add: race_eval two_devices_def cong: bind_weak_cong)

lemma race_end:
  "vol_dev (race_world [on0 ''pvc-b'', res0 ''pvc-1'', on0 ''pvc-1''] n) ''pvc-b'' = Some ''/dev/nbd0''"
  "vol_dev (race_world [on0 ''pvc-b'', res0 ''pvc-1'', on0 ''pvc-1''] n) ''pvc-1'' = Some ''/dev/nbd0''"
  "idle (race_world [on0 ''pvc-b'', res0 ''pvc-1'', on0 ''pvc-1''] n) ''/dev/nbd1''"
  by (simp_all add: race_eval vol_dev_def idle_def dev_connected_def)

text \<open>A race of three volumes on a node with two devices. The cleanup of a failed publish of the first
  has removed the state file when the second reserves: it takes the first's device, whose reservation
  looks stale. The cleanup then removes the second's reservation, and the third volume gets the same
  device, although the other one is free.\<close>

lemma unlocked_cleanup_shares_device:
  "clearVolumeNBDState quiet_env ''pvc-a'' ''/dev/nbd0'' =
     do { clear_state_file quiet_env ''pvc-a''; clear_reservation quiet_env ''/dev/nbd0'' } \<and>
   (let w0 = final (reserveNBDDevice quiet_env ''pvc-a'') two_devices;
        w1 = final (clear_state_file quiet_env ''pvc-a'') w0;
        w2 = final (reserveNBDDevice quiet_env ''pvc-b'') w1;
        w3 = final (clear_reservation quiet_env ''/dev/nbd0'') w2;
        w4 = final (reserveNBDDevice quiet_env ''pvc-1'') w3
    in result (reserveNBDDevice quiet_env ''pvc-b'') w1 = Inr ''/dev/nbd0'' \<and>
       result (reserveNBDDevice quiet_env ''pvc-1'') w3 = Inr ''/dev/nbd0'' \<and>
       vol_dev w4 ''pvc-b'' = Some ''/dev/nbd0'' \<and> vol_dev w4 ''pvc-1'' = Some ''/dev/nbd0'' \<and>
       idle w4 ''/dev/nbd1'')"
proof
  show "clearVolumeNBDState quiet_env ''pvc-a'' ''/dev/nbd0'' =
     do { clear_state_file quiet_env ''pvc-a''; clear_reservation quiet_env ''/dev/nbd0'' }"
    by (rule clear_halves)
  obtain n0 where s0: "run_state (reserveNBDDevice quiet_env ''pvc-a'') two_devices =
      (Inr ''/dev/nbd0'', race_world [res0 ''pvc-a'', on0 ''pvc-a''] n0)" using race_steps(1) by blast
  obtain n1 where s1: "run_state (clear_state_file quiet_env ''pvc-a'') (race_world [res0 ''pvc-a'', on0 ''pvc-a''] n0) =
      ((), race_world [res0 ''pvc-a''] n1)" using race_steps(2) by blast
  obtain n2 where s2: "run_state (reserveNBDDevice quiet_env ''pvc-b'') (race_world [res0 ''pvc-a''] n1) =
      (Inr ''/dev/nbd0'', race_world [res0 ''pvc-b'', on0 ''pvc-b''] n2)" using race_steps(3) by blast
  obtain n3 where s3: "run_state (clear_reservation quiet_env ''/dev/nbd0'') (race_world [res0 ''pvc-b'', on0 ''pvc-b''] n2) =
      ((), race_world [on0 ''pvc-b''] n3)" using race_steps(4) by blast
  obtain n4 where s4: "run_state (reserveNBDDevice quiet_env ''pvc-1'') (race_world [on0 ''pvc-b''] n3) =
      (Inr ''/dev/nbd0'', race_world [on0 ''pvc-b'', res0 ''pvc-1'', on0 ''pvc-1''] n4)" using race_steps(5) by blast
  show "let w0 = final (reserveNBDDevice quiet_env ''pvc-a'') two_devices;
        w1 = final (clear_state_file quiet_env ''pvc-a'') w0;
        w2 = final (reserveNBDDevice quiet_env ''pvc-b'') w1;
        w3 = final (clear_reservation quiet_env ''/dev/nbd0'') w2;
        w4 = final (reserveNBDDevice quiet_env ''pvc-1'') w3
    in result (reserveNBDDevice quiet_env ''pvc-b'') w1 = Inr ''/dev/nbd0'' \<and>
       result (reserveNBDDevice quiet_env ''pvc-1'') w3 = Inr ''/dev/nbd0'' \<and>
       vol_dev w4 ''pvc-b'' = Some ''/dev/nbd0'' \<and> vol_dev w4 ''pvc-1'' = Some ''/dev/nbd0'' \<and>
       idle w4 ''/dev/nbd1''"
    by (simp only: Let_def s0 s1 s2 s3 s4 fst_conv snd_conv race_end simp_thms)
qed

end
