(* ===== verification/S3_Cleanup.thy ===== *)
theory S3_Cleanup
  imports Environment
begin

text \<open>
  \<^verbatim>\<open>pkg/csi/s3_cleanup.go\<close>: the location of a volume's data and its deletion. The first section
  models what \<open>parseS3Location\<close> uses of Go's \<^verbatim>\<open>net/url\<close>: scheme, host and path of \<open>url.Parse\<close>, with the
  errors that make it fail. The AWS SDK is reached through the parameter \<open>env\<close>.
\<close>

section \<open>Package net/url\<close>

definition Cut :: "string \<Rightarrow> char \<Rightarrow> string \<times> string" where
  "Cut s c = (takeWhile (\<lambda>d. d \<noteq> c) s, tl (dropWhile (\<lambda>d. d \<noteq> c) s))"

definition is_alpha :: "char \<Rightarrow> bool" where
  "is_alpha c \<longleftrightarrow> (let n = (of_char c :: nat) in (97 \<le> n \<and> n \<le> 122) \<or> (65 \<le> n \<and> n \<le> 90))"

definition is_hex :: "char \<Rightarrow> bool" where
  "is_hex c \<longleftrightarrow> is_digit c \<or> (let n = (of_char c :: nat) in (97 \<le> n \<and> n \<le> 102) \<or> (65 \<le> n \<and> n \<le> 70))"

definition unhex :: "char \<Rightarrow> nat" where
  "unhex c = (let n = (of_char c :: nat) in
     if n \<le> 57 then n - 48 else if n \<le> 70 then n - 55 else n - 87)"

definition is_ctl :: "char \<Rightarrow> bool" where
  "is_ctl c \<longleftrightarrow> (of_char c :: nat) < 32 \<or> (of_char c :: nat) = 127"

text \<open>The characters that may stand unescaped in a host.\<close>

definition host_char :: "char \<Rightarrow> bool" where
  "host_char c \<longleftrightarrow> is_alpha c \<or> is_digit c \<or> c \<in> set ''-_.~!$&()*+,;=:[]<>'' \<or> c = CHR 0x22 \<or>
     c = CHR 0x27 \<or> (of_char c :: nat) \<ge> 128"

datatype url_mode = EncodePath | EncodeHost | EncodeZone

text \<open>\<open>unescape(s, mode)\<close>; the result is \<open>None\<close> for an error.\<close>

fun unescape :: "url_mode \<Rightarrow> string \<Rightarrow> string option" where
  "unescape m [] = Some []"
| "unescape m (c # s) =
     (if c = CHR ''%'' then
        (case s of
           a # b # t \<Rightarrow>
             let v = char_of (16 * unhex a + unhex b) in
             if \<not> (is_hex a \<and> is_hex b) then None
             else if m = EncodeHost \<and> unhex a < 8 \<and> [a, b] \<noteq> ''25'' then None
             else if m = EncodeZone \<and> [a, b] \<noteq> ''25'' \<and> v \<noteq> CHR '' '' \<and> \<not> host_char v then None
             else map_option (\<lambda>r. v # r) (unescape m t)
         | _ \<Rightarrow> None)
      else if m \<noteq> EncodePath \<and> \<not> host_char c then None
      else map_option (\<lambda>r. c # r) (unescape m s))"

definition getScheme :: "string \<Rightarrow> string + (string \<times> string)" where
  "getScheme raw = (let pre = takeWhile (\<lambda>c. is_alpha c \<or> is_digit c \<or> c \<in> set ''+-.'') raw;
       rest = drop (length pre) raw
     in if raw \<noteq> [] \<and> hd raw = CHR '':'' then Inl ''missing protocol scheme''
        else if pre \<noteq> [] \<and> is_alpha (hd pre) \<and> rest \<noteq> [] \<and> hd rest = CHR '':'' then Inr (pre, tl rest)
        else Inr ([], raw))"

text \<open>\<open>s[:i]\<close> and \<open>s[i:]\<close> for \<open>i = strings.LastIndex(s, c)\<close>; \<open>None\<close> if \<open>c\<close> does not occur.\<close>

definition split_last :: "string \<Rightarrow> char \<Rightarrow> (string \<times> string) option" where
  "split_last s c = (if c \<in> set s
     then let k = length (takeWhile (\<lambda>d. d \<noteq> c) (rev s))
          in Some (take (length s - Suc k) s, drop (length s - Suc k) s)
     else None)"

definition validOptionalPort :: "string \<Rightarrow> bool" where
  "validOptionalPort port \<longleftrightarrow> port = [] \<or> hd port = CHR '':'' \<and> list_all is_digit (tl port)"

fun find_zone :: "string \<Rightarrow> (string \<times> string) option" where
  "find_zone [] = None"
| "find_zone (c # s) = (if HasPrefix (c # s) ''%25'' then Some ([], c # s)
     else map_option (\<lambda>(a, b). (c # a, b)) (find_zone s))"

definition parseHost :: "string \<Rightarrow> string + string" where
  "parseHost host = (
     let plain = (case unescape EncodeHost host of None \<Rightarrow> Inl ''invalid host'' | Some h \<Rightarrow> Inr h)
     in if HasPrefix host ''['' then
          (case split_last host (CHR '']'') of
             None \<Rightarrow> Inl ''missing ']' in host''
           | Some (pre, post) \<Rightarrow>
               if \<not> validOptionalPort (tl post) then Inl ''invalid port after host''
               else (case find_zone pre of
                   None \<Rightarrow> plain
                 | Some (h, z) \<Rightarrow> (case (unescape EncodeHost h, unescape EncodeZone z, unescape EncodeHost post) of
                       (Some h1, Some h2, Some h3) \<Rightarrow> Inr (h1 @ h2 @ h3)
                     | _ \<Rightarrow> Inl ''invalid host'')))
        else (case split_last host (CHR '':'') of
            None \<Rightarrow> plain
          | Some (_, colonPort) \<Rightarrow>
              if \<not> validOptionalPort colonPort then Inl ''invalid port after host'' else plain))"

definition userinfo_char :: "char \<Rightarrow> bool" where
  "userinfo_char c \<longleftrightarrow> is_alpha c \<or> is_digit c \<or> c \<in> set ''-._:~!$&()*+,;=%@'' \<or> c = CHR 0x27"

definition parseAuthority :: "string \<Rightarrow> string + string" where
  "parseAuthority authority = (case split_last authority (CHR ''@'') of
      None \<Rightarrow> parseHost authority
    | Some (userinfo, rest) \<Rightarrow> (case parseHost (tl rest) of
          Inl e \<Rightarrow> Inl e
        | Inr host \<Rightarrow>
            if \<not> list_all userinfo_char userinfo \<or> unescape EncodePath userinfo = None
            then Inl ''net/url: invalid userinfo'' else Inr host))"

record URL =
  u_Scheme :: string
  u_Host :: string
  u_Path :: string

definition url_setPath :: "string \<Rightarrow> string \<Rightarrow> string \<Rightarrow> string + URL" where
  "url_setPath scheme host p = (case unescape EncodePath p of
      None \<Rightarrow> Inl ''invalid URL escape''
    | Some q \<Rightarrow> Inr \<lparr>u_Scheme = scheme, u_Host = host, u_Path = q\<rparr>)"

definition url_parse_rest :: "string \<Rightarrow> string \<Rightarrow> string + URL" where
  "url_parse_rest scheme rest =
     (if \<not> HasPrefix rest ''/'' \<and> scheme \<noteq> [] then Inr \<lparr>u_Scheme = scheme, u_Host = [], u_Path = []\<rparr>
      else if \<not> HasPrefix rest ''/'' \<and> CHR '':'' \<in> set (fst (Cut rest (CHR ''/''))) then
        Inl ''first path segment in URL cannot contain colon''
      else if (scheme \<noteq> [] \<or> \<not> HasPrefix rest ''///'') \<and> HasPrefix rest ''//'' then
        let authority = takeWhile (\<lambda>c. c \<noteq> CHR ''/'') (drop 2 rest)
        in (case parseAuthority authority of
             Inl e \<Rightarrow> Inl e
           | Inr host \<Rightarrow> url_setPath scheme host (drop (2 + length authority) rest))
      else url_setPath scheme [] rest)"

definition url_Parse :: "string \<Rightarrow> string + URL" where
  "url_Parse rawURL = (case Cut rawURL (CHR ''#'') of (u, frag) \<Rightarrow>
     if list_ex is_ctl u then Inl ''net/url: invalid control character in URL''
     else if u = ''*'' then
       (if unescape EncodePath frag = None then Inl ''invalid URL escape''
        else Inr \<lparr>u_Scheme = [], u_Host = [], u_Path = ''*''\<rparr>)
     else (case getScheme u of
         Inl e \<Rightarrow> Inl e
       | Inr (scheme, rest) \<Rightarrow> (case url_parse_rest (ToLower scheme) (fst (Cut rest (CHR ''?''))) of
             Inl e \<Rightarrow> Inl e
           | Inr url \<Rightarrow> if unescape EncodePath frag = None then Inl ''invalid URL escape'' else Inr url)))"

section \<open>Locations\<close>

record s3DeleteConfig =
  dc_Endpoint :: string
  dc_Region :: string
  dc_AllowHTTP :: bool
  dc_AccessKeyID :: string
  dc_SecretKey :: string
  dc_UsePathStyle :: bool

record s3Location =
  loc_Bucket :: string
  loc_Prefix :: string

definition parseS3Location :: "string \<Rightarrow> string + s3Location" where
  "parseS3Location storageURL = (case url_Parse storageURL of
      Inl err \<Rightarrow> Inl err
    | Inr u \<Rightarrow>
        if u_Scheme u \<noteq> ''s3'' then
          Inl (''unsupported storageURL scheme '' @ quote (u_Scheme u) @ '' (expected s3)'')
        else if u_Host u = [] then Inl (''storageURL missing bucket: '' @ quote storageURL)
        else Inr \<lparr>loc_Bucket = u_Host u, loc_Prefix = TrimPrefix (u_Path u) ''/''\<rparr>)"

definition joinS3Prefix :: "string \<Rightarrow> string \<Rightarrow> string" where
  "joinS3Prefix basePrefix volumeID = (
     let base = TrimSlash (TrimSpace basePrefix);
         vol = TrimSlash (TrimSpace volumeID)
     in if base = [] then vol else path_Join [base, vol])"

section \<open>Deletion\<close>

text \<open>
  The paginator may deliver pages for as long as the object store says so: the loop has fuel, and
  \<open>OutOfFuel\<close> is a run that is still going on. \<open>n\<close> is the number of pages seen.
\<close>

datatype outcome = Done "string option" | OutOfFuel

definition page_keys :: "s3page \<Rightarrow> string list" where
  "page_keys page = map the (filter (\<lambda>k. k \<noteq> None \<and> k \<noteq> Some []) (pg_Contents page))"

fun delete_pages :: "'x env \<Rightarrow> nat \<Rightarrow> s3conf \<Rightarrow> string \<Rightarrow> string \<Rightarrow> nat \<Rightarrow> ('x, outcome) io" where
  "delete_pages E 0 c bucket pre n = ret OutOfFuel"
| "delete_pages E (Suc fuel) c bucket pre n = do {
     more \<leftarrow> client_read (s3_HasMorePages E c bucket pre n);
     if \<not> more then ret (Done None)
     else do {
       r \<leftarrow> client_read (s3_NextPage E c bucket pre n);
       case r of
         Inl err \<Rightarrow> ret (Done (Some err))
       | Inr page \<Rightarrow>
           if pg_Contents page = [] then delete_pages E fuel c bucket pre (Suc n)
           else do {
             e \<leftarrow> client_DeleteObjects E c bucket (page_keys page);
             case e of
               Some err \<Rightarrow> ret (Done (Some err))
             | None \<Rightarrow> delete_pages E fuel c bucket pre (Suc n) } } }"

definition delete_guard :: "s3DeleteConfig \<Rightarrow> s3Location \<Rightarrow> string option" where
  "delete_guard cfg loc =
     (if dc_Endpoint cfg = [] then Some ''missing aws endpoint''
      else if \<not> dc_AllowHTTP cfg \<and> HasPrefix (dc_Endpoint cfg) ''http://'' then
        Some (''refusing to use insecure endpoint '' @ quote (dc_Endpoint cfg) @ '' with awsAllowHTTP=false'')
      else if loc_Bucket loc = [] then Some ''missing bucket''
      else if TrimSpace (loc_Prefix loc) = [] then
        Some (''refusing to delete empty prefix in bucket '' @ quote (loc_Bucket loc))
      else None)"

definition delete_conf :: "s3DeleteConfig \<Rightarrow> s3conf" where
  "delete_conf cfg = \<lparr>s3_Region = cmp_Or (dc_Region cfg) ''us-east-1'', s3_Endpoint = dc_Endpoint cfg,
     s3_AccessKeyID = dc_AccessKeyID cfg, s3_SecretKey = dc_SecretKey cfg,
     s3_PathStyle = dc_UsePathStyle cfg\<rparr>"

definition deleteS3Prefix ::
    "'x env \<Rightarrow> nat \<Rightarrow> s3DeleteConfig \<Rightarrow> s3Location \<Rightarrow> ('x, outcome) io" where
  "deleteS3Prefix E fuel cfg loc = (case delete_guard cfg loc of
      Some err \<Rightarrow> ret (Done (Some err))
    | None \<Rightarrow> do {
        let c = delete_conf cfg;
        r \<leftarrow> client_read (s3_load_config E (s3_Region c) (s3_AccessKeyID c) (s3_SecretKey c));
        case r of
          Some err \<Rightarrow> ret (Done (Some err))
        | None \<Rightarrow> delete_pages E fuel c (loc_Bucket loc) (TrimSpace (loc_Prefix loc)) 0 })"

end
