(* ===== verification/Controller.thy ===== *)
theory Controller
  imports Zerofs Node S3_Cleanup
begin

text \<open>
  \<^verbatim>\<open>pkg/csi/controller.go\<close> and \<^verbatim>\<open>pkg/csi/controller_delete.go\<close>: the CSI controller service. Its errors
  are made with \<open>fmt.Errorf\<close>, which gRPC reports with the code \<open>Unknown\<close>.
\<close>

section \<open>Requests and responses\<close>

record controllerService =
  cs_name :: string
  cs_nodeID :: string
  cs_mounter :: "zerofsMounter option"

text \<open>\<open>CapacityRange\<close> is nil or has the required bytes; \<open>Parameters\<close> and \<open>VolumeCapabilities\<close> may be nil.\<close>

record CreateVolumeRequest =
  cv_Name :: string
  cv_VolumeCapabilities :: "VolumeCapability list option"
  cv_RequiredBytes :: "int option"
  cv_Parameters :: "smap option"

record Volume =
  vol_VolumeId :: string
  vol_CapacityBytes :: int
  vol_VolumeContext :: smap

record ControllerPublishVolumeRequest =
  cp_VolumeId :: string
  cp_NodeId :: string

record ValidateVolumeCapabilitiesRequest =
  vv_VolumeId :: string
  vv_VolumeCapabilities :: "VolumeCapability list option"

record Snapshot =
  sn_SnapshotId :: string
  sn_SourceVolumeId :: string
  sn_CreationTime :: "int option"
  sn_ReadyToUse :: bool

datatype controller_capability = CREATE_DELETE_VOLUME | PUBLISH_UNPUBLISH_VOLUME | LIST_VOLUMES

section \<open>Provisioning\<close>

definition GetRequiredBytes :: "int option \<Rightarrow> int" where
  "GetRequiredBytes r = (case r of None \<Rightarrow> 0 | Some n \<Rightarrow> n)"

definition CreateVolume :: "CreateVolumeRequest \<Rightarrow> rpc_error + Volume" where
  "CreateVolume req =
     (if cv_Name req = [] then Inl (Status Unknown ''volume name cannot be empty'')
      else if cv_VolumeCapabilities req = None then
        Inl (Status Unknown ''volume capabilities cannot be empty'')
      else Inr \<lparr>vol_VolumeId = cv_Name req,
        vol_CapacityBytes = GetRequiredBytes (cv_RequiredBytes req),
        vol_VolumeContext = (case cv_Parameters req of None \<Rightarrow> Map.empty | Some p \<Rightarrow> p)
          (''capacity_bytes'' \<mapsto> show_int (GetRequiredBytes (cv_RequiredBytes req)))\<rparr>)"

section \<open>Deleting a volume's data\<close>

definition findPersistentVolume :: "'x env \<Rightarrow> string \<Rightarrow> ('x, PersistentVolume option) io" where
  "findPersistentVolume E volumeID = do {
     r \<leftarrow> client_read (get_PersistentVolume E volumeID);
     case r of
       Inr pv \<Rightarrow> ret (Some pv)
     | Inl _ \<Rightarrow> do {
         l \<leftarrow> client_read (list_PersistentVolumes E);
         case l of
           Inl err \<Rightarrow> ret None
         | Inr items \<Rightarrow> ret (find (\<lambda>pv. pv_VolumeHandle pv = Some volumeID) items) } }"

text \<open>The storage class of a volume: the volume's own, or else that of its claim.\<close>

definition storage_class_name :: "'x env \<Rightarrow> PersistentVolume \<Rightarrow> ('x, string) io" where
  "storage_class_name E pv = (let scName = TrimSpace (pv_StorageClassName pv) in
     case pv_ClaimRef pv of
       None \<Rightarrow> ret scName
     | Some (ns, n) \<Rightarrow>
         if scName \<noteq> [] then ret scName
         else do {
           r \<leftarrow> client_read (get_PersistentVolumeClaim E ns n);
           ret (case r of
               Inl _ \<Rightarrow> []
             | Inr pvc \<Rightarrow> (case pvc_StorageClassName pvc of None \<Rightarrow> [] | Some s \<Rightarrow> TrimSpace s)) })"

definition delete_config :: "smap \<Rightarrow> string \<Rightarrow> string \<Rightarrow> s3DeleteConfig" where
  "delete_config cfg accessKey secretKey = \<lparr>
     dc_Endpoint = TrimSpace (mget cfg ''awsEndpoint''),
     dc_Region = TrimSpace (mget cfg ''awsDefaultRegion''),
     dc_AllowHTTP = EqualFold (TrimSpace (mget cfg ''awsAllowHTTP'')) ''true'',
     dc_AccessKeyID = accessKey, dc_SecretKey = secretKey, dc_UsePathStyle = True\<rparr>"

text \<open>The first of two fields of a secret that is not blank.\<close>

definition trimmed_field :: "smap \<Rightarrow> string \<Rightarrow> string \<Rightarrow> string" where
  "trimmed_field d k1 k2 = (let a = TrimSpace (mget d k1) in if a = [] then TrimSpace (mget d k2) else a)"

text \<open>From the ConfigMap on.\<close>

definition delete_volume_data ::
    "'x env \<Rightarrow> nat \<Rightarrow> string \<Rightarrow> string \<Rightarrow> string \<Rightarrow> ('x, outcome) io" where
  "delete_volume_data E fuel ns configMapName volumeID = do {
     r \<leftarrow> client_read (get_ConfigMap E ns configMapName);
     case r of
       Inl err \<Rightarrow> ret (Done (Some (''failed to read configmap '' @ ns @ ''/'' @ configMapName @ '': '' @ err)))
     | Inr cfgMap \<Rightarrow> let cfg = cm_Data cfgMap in
         (case parseS3Location (mget cfg ''storageURL'') of
            Inl err \<Rightarrow> ret (Done (Some
              (''failed to parse storageURL for '' @ ns @ ''/'' @ configMapName @ '': '' @ err)))
          | Inr loc \<Rightarrow> let credsSecretName = TrimSpace (mget cfg ''awsCredentialsSecretName'') in
              if credsSecretName = [] then ret (Done (Some
                (''configmap '' @ ns @ ''/'' @ configMapName @ '' missing awsCredentialsSecretName'')))
              else do {
                s \<leftarrow> client_read (get_Secret E ns credsSecretName);
                case s of
                  Inl err \<Rightarrow> ret (Done (Some
                    (''failed to read credentials secret '' @ ns @ ''/'' @ credsSecretName @ '': '' @ err)))
                | Inr creds \<Rightarrow>
                    let accessKey = trimmed_field (sec_Data creds) ''AWS_ACCESS_KEY_ID'' ''username'';
                        secretKey = trimmed_field (sec_Data creds) ''AWS_SECRET_ACCESS_KEY'' ''password''
                    in if accessKey = [] \<or> secretKey = [] then ret (Done (Some
                         (''credentials secret '' @ ns @ ''/'' @ credsSecretName @
                          '' missing access/secret key fields'')))
                       else deleteS3Prefix E fuel (delete_config cfg accessKey secretKey)
                         (loc\<lparr>loc_Prefix := joinS3Prefix (loc_Prefix loc) volumeID\<rparr>) }) }"

definition deleteVolumeDataIfEnabled ::
    "'x env \<Rightarrow> nat \<Rightarrow> controllerService \<Rightarrow> string \<Rightarrow> ('x, outcome) io" where
  "deleteVolumeDataIfEnabled E fuel cs volumeID = (case cs_mounter cs of
      None \<Rightarrow> ret (Done None)
    | Some m \<Rightarrow>
        if \<not> m_client m then ret (Done None)
        else do {
          p \<leftarrow> findPersistentVolume E volumeID;
          case p of
            None \<Rightarrow> ret (Done None)
          | Some pv \<Rightarrow> do {
              scName \<leftarrow> storage_class_name E pv;
              if scName = [] then ret (Done None)
              else do {
                s \<leftarrow> client_read (get_StorageClass E scName);
                case s of
                  Inl _ \<Rightarrow> ret (Done None)
                | Inr sc \<Rightarrow>
                    if \<not> EqualFold (TrimSpace (mget (sc_Parameters sc) ''deleteDataOnPVCDelete'')) ''true''
                    then ret (Done None)
                    else let configMapName = TrimSpace (mget (sc_Parameters sc) ''configMapName'') in
                      if configMapName = [] then ret (Done (Some
                        (''deleteDataOnPVCDelete=true but StorageClass '' @ quote scName @
                         '' is missing parameters.configMapName'')))
                      else delete_volume_data E fuel (m_namespace m) configMapName volumeID } } })"

text \<open>
  \<open>DeleteVolume\<close>: \<open>None\<close> is a deletion that is still going on (see \<open>OutOfFuel\<close>). The mounter of the
  running driver has a client (\<open>NewZeroFSDriver\<close> gets it from the manager).
\<close>

definition DeleteVolume ::
    "'x env \<Rightarrow> nat \<Rightarrow> controllerService \<Rightarrow> string \<Rightarrow> ('x, (rpc_error + unit) option) io" where
  "DeleteVolume E fuel cs volumeID =
     (if volumeID = [] then ret (Some (Inl (Status Unknown ''volume ID cannot be empty'')))
      else do {
        (case cs_mounter cs of
           None \<Rightarrow> ret ()
         | Some m \<Rightarrow> do { _ \<leftarrow> RemovePod E m volumeID; ret () });
        r \<leftarrow> deleteVolumeDataIfEnabled E fuel cs volumeID;
        ret (case r of
            OutOfFuel \<Rightarrow> None
          | Done (Some err) \<Rightarrow> Some (Inl (Status Unknown (''failed to delete volume data: '' @ err)))
          | Done None \<Rightarrow> Some (Inr ())) })"

section \<open>The remaining calls\<close>

definition ControllerPublishVolume :: "ControllerPublishVolumeRequest \<Rightarrow> rpc_error + smap" where
  "ControllerPublishVolume req =
     (if cp_VolumeId req = [] then Inl (Status Unknown ''volume ID cannot be empty'')
      else if cp_NodeId req = [] then Inl (Status Unknown ''node ID cannot be empty'')
      else Inr [''nodeName'' \<mapsto> cp_NodeId req, ''volumeId'' \<mapsto> cp_VolumeId req])"

definition ControllerUnpublishVolume :: "string \<Rightarrow> rpc_error + unit" where
  "ControllerUnpublishVolume volumeID =
     (if volumeID = [] then Inl (Status Unknown ''volume ID cannot be empty'') else Inr ())"

definition ValidateVolumeCapabilities ::
    "ValidateVolumeCapabilitiesRequest \<Rightarrow> rpc_error + VolumeCapability list" where
  "ValidateVolumeCapabilities req =
     (if vv_VolumeId req = [] then Inl (Status Unknown ''volume ID cannot be empty'')
      else (case vv_VolumeCapabilities req of
          None \<Rightarrow> Inl (Status Unknown ''volume capabilities cannot be empty'')
        | Some caps \<Rightarrow> Inr caps))"

definition ListVolumes :: "Volume list" where
  "ListVolumes = []"

definition ControllerGetCapabilities :: "controller_capability list" where
  "ControllerGetCapabilities = [CREATE_DELETE_VOLUME, PUBLISH_UNPUBLISH_VOLUME, LIST_VOLUMES]"

definition CreateSnapshot :: "string \<Rightarrow> Snapshot" where
  "CreateSnapshot sourceVolumeId = \<lparr>sn_SnapshotId = ''snapshot-'' @ sourceVolumeId,
     sn_SourceVolumeId = sourceVolumeId, sn_CreationTime = None, sn_ReadyToUse = True\<rparr>"

text \<open>\<open>DeleteSnapshot\<close> always succeeds.\<close>

definition DeleteSnapshot :: "string \<Rightarrow> rpc_error + unit" where
  "DeleteSnapshot snapshotId = Inr ()"

end
