(* ===== verification/Driver.thy ===== *)
theory Driver
  imports Controller
begin

text \<open>
  \<^verbatim>\<open>pkg/csi/driver.go\<close>: the driver object, its start, and the CSI identity service. A started
  goroutine is an element of \<open>d_spawned\<close>; what it runs is modelled by its own definition
  (\<open>reconcileOrphanedNBDDevices\<close>) and may interleave with the requests the server serves.
\<close>

definition driverName :: string where
  "driverName = ''zerofs.csi.driver''"

definition version :: string where
  "version = ''0.1.0''"

datatype service = IdentityService | ControllerService controllerService | NodeService nodeService

datatype goroutine = Reconcile nodeService | Serve

text \<open>The field \<open>server\<close>: nil, or a gRPC server with its connection time-out (in nanoseconds) and what it is
  doing.\<close>

datatype server_phase = Created | Serving | Stopped

datatype grpc_server = Server (connection_timeout: int) (phase: server_phase)

record zeroFSDriver =
  d_name :: string
  d_version :: string
  d_nodeID :: string
  d_enableController :: bool
  d_enableNode :: bool
  d_namespace :: string
  d_client :: bool
  d_mounter :: "zerofsMounter option"
  d_services :: "service list"
  d_spawned :: "goroutine list"
  d_server :: "grpc_server option"

definition NewZeroFSDriver :: "bool \<Rightarrow> bool \<Rightarrow> string \<Rightarrow> bool \<Rightarrow> zeroFSDriver" where
  "NewZeroFSDriver enableController enableNode ns cl = \<lparr>d_name = driverName, d_version = version,
     d_nodeID = [], d_enableController = enableController, d_enableNode = enableNode,
     d_namespace = ns, d_client = cl, d_mounter = None, d_services = [], d_spawned = [],
     d_server = None\<rparr>"

definition csi_socket :: string where
  "csi_socket = path_Join [''/var/lib/kubelet/plugins'', driverName, ''csi.sock'']"

text \<open>\<open>filepath.Dir\<close> of the socket path.\<close>

definition csi_socket_dir :: string where
  "csi_socket_dir = parent_dir csi_socket"

text \<open>The part of \<open>Start\<close> that sets up the server.\<close>

definition register_services :: "'x env \<Rightarrow> zeroFSDriver \<Rightarrow> zeroFSDriver" where
  "register_services E d = (
     let node_id = os_Getenv E ''NODE_ID'';
         m = NewZeroFSMounter (d_namespace d) (d_client d);
         cs = \<lparr>cs_name = driverName, cs_nodeID = node_id, cs_mounter = Some m\<rparr>;
         ns = \<lparr>ns_name = driverName, ns_nodeID = node_id, ns_mounter = m\<rparr>
     in d\<lparr>d_nodeID := node_id, d_server := Some (Server (30 * second) Created), d_mounter := Some m,
          d_services := [IdentityService] @
            (if d_enableController d then [ControllerService cs] else []) @
            (if d_enableNode d then [NodeService ns] else []),
          d_spawned := d_spawned d @ (if d_enableNode d then [Reconcile ns] else [])\<rparr>)"

definition set_phase :: "server_phase \<Rightarrow> zeroFSDriver \<Rightarrow> zeroFSDriver" where
  "set_phase ph d = d\<lparr>d_server := map_option (\<lambda>s. Server (connection_timeout s) ph) (d_server d)\<rparr>"

text \<open>\<open>if d.server != nil { d.server.GracefulStop() }\<close>\<close>

definition Stop :: "zeroFSDriver \<Rightarrow> zeroFSDriver" where
  "Stop d = (if d_server d \<noteq> None then set_phase Stopped d else d)"

text \<open>\<open>Start\<close> blocks in \<open>listen\<close> until its context is done, then stops the server and returns the
  context's error.\<close>

definition Start :: "'x env \<Rightarrow> zeroFSDriver \<Rightarrow> ('x, string \<times> zeroFSDriver) io" where
  "Start E d0 = (let d = register_services E d0 in do {
     r1 \<leftarrow> os_MkdirAll E csi_socket_dir;
     case r1 of
       Some e \<Rightarrow> ret (''failed to create directory for socket: '' @ os_message e, d)
     | None \<Rightarrow> do {
         r2 \<leftarrow> os_Remove E csi_socket;
         if r2 \<noteq> None \<and> r2 \<noteq> Some NotExist then
           ret (''failed to remove existing socket: '' @ os_message (the r2), d)
         else do {
           r3 \<leftarrow> client_read (net_Listen E csi_socket);
           case r3 of
             Some err \<Rightarrow> ret (''failed to listen on socket: '' @ err, d)
           | None \<Rightarrow> do {
               let serving = set_phase Serving (d\<lparr>d_spawned := d_spawned d @ [Serve]\<rparr>);
               _ \<leftarrow> client_read (ctx_Done E);
               err \<leftarrow> client_read (ctx_Err E);
               ret (err, Stop serving) } } } })"

section \<open>The identity service\<close>

datatype plugin_capability = CONTROLLER_SERVICE | VOLUME_ACCESSIBILITY_CONSTRAINTS

definition GetPluginInfo :: "string \<times> string" where
  "GetPluginInfo = (driverName, version)"

definition GetPluginCapabilities :: "plugin_capability list" where
  "GetPluginCapabilities = [CONTROLLER_SERVICE, VOLUME_ACCESSIBILITY_CONSTRAINTS]"

text \<open>The probe's answer: ready.\<close>

definition identity_Probe :: bool where
  "identity_Probe = True"

end
