(* ===== verification/S3_Properties.thy ===== *)
theory S3_Properties
  imports S3_Cleanup Zerofs_Properties
begin

text \<open>
  The deletion of a volume's objects: what is deleted, that a finite listing is worked off, and where a
  volume's data is. Fuel only bounds the number of pages; one more than the number of pages is enough.
\<close>

section \<open>What is deleted\<close>

text \<open>\<open>ListObjectsV2\<close> returns only keys with the requested prefix.\<close>

definition lists_prefix :: "'x env \<Rightarrow> bool" where
  "lists_prefix E \<longleftrightarrow> (\<forall>c b p n w page k. result (s3_NextPage E c b p n) w = Inr page \<longrightarrow>
     Some k \<in> set (pg_Contents page) \<longrightarrow> HasPrefix k p)"

text \<open>The events of a deletion below a prefix of a bucket.\<close>

definition deletes_below :: "string \<Rightarrow> string \<Rightarrow> event \<Rightarrow> bool" where
  "deletes_below b p e \<longleftrightarrow> (case e of DeletedObjects b' ks _ \<Rightarrow> b' = b \<and> (\<forall>k\<in>set ks. k \<noteq> [] \<and> HasPrefix k p)
     | _ \<Rightarrow> False)"

lemma page_keys_iff: "k \<in> set (page_keys page) \<longleftrightarrow> k \<noteq> [] \<and> Some k \<in> set (pg_Contents page)"
  by (force simp: page_keys_def)

lemma emits_delete_pages:
  assumes "lists_prefix E"
  shows "state_io_rel (emits (deletes_below b p)) (delete_pages E fuel c b p n)"
proof (induction fuel arbitrary: n)
  case (Suc fuel)
  have page: "state_io_rel (emits (deletes_below b p)) (do {
      r \<leftarrow> client_read (s3_NextPage E c b p n);
      case r of
        Inl err \<Rightarrow> ret (Done (Some err))
      | Inr page \<Rightarrow>
          if pg_Contents page = [] then delete_pages E fuel c b p (Suc n)
          else do {
            e \<leftarrow> client_DeleteObjects E c b (page_keys page);
            case e of
              Some err \<Rightarrow> ret (Done (Some err))
            | None \<Rightarrow> delete_pages E fuel c b p (Suc n) } })"
  proof (rule rel_read_bind [OF em.rel_quiet [OF quiet_client_read(1)] em.step_trans], assumption, assumption)
    fix x w assume x: "result (s3_NextPage E c b p n) w = x"
    have "deletes_below b p (DeletedObjects b (page_keys page) err)" if "x = Inr page" for page err
      using assms x that by (auto simp: deletes_below_def page_keys_iff lists_prefix_def)
    then show "state_io_rel (emits (deletes_below b p)) (case x of
        Inl err \<Rightarrow> ret (Done (Some err))
      | Inr page \<Rightarrow>
          if pg_Contents page = [] then delete_pages E fuel c b p (Suc n)
          else do {
            e \<leftarrow> client_DeleteObjects E c b (page_keys page);
            case e of
              Some err \<Rightarrow> ret (Done (Some err))
            | None \<Rightarrow> delete_pages E fuel c b p (Suc n) })"
      by (intro em.rel_intros emits_calls Suc.IH) auto
  qed
  show ?case
    unfolding delete_pages.simps by (intro page em.rel_facts)
qed (simp add: em.rel_ret)

text \<open>C11: \<open>deleteS3Prefix\<close> deletes only in the bucket of the location and only keys below the location's
  prefix; it deletes nothing at all without an endpoint, over plain HTTP unless that is allowed,
  without a bucket, or for a blank prefix, and then reports an error.\<close>

theorem deleteS3Prefix_confined:
  assumes "lists_prefix E"
  shows "(\<exists>es. trace (final (deleteS3Prefix E fuel cfg loc) w) = trace w @ es \<and>
      list_all (deletes_below (loc_Bucket loc) (TrimSpace (loc_Prefix loc))) es) \<and>
    (dc_Endpoint cfg = [] \<or> \<not> dc_AllowHTTP cfg \<and> HasPrefix (dc_Endpoint cfg) ''http://'' \<or>
       loc_Bucket loc = [] \<or> TrimSpace (loc_Prefix loc) = [] \<longrightarrow>
     (\<exists>err. result (deleteS3Prefix E fuel cfg loc) w = Done (Some err)) \<and>
       trace (final (deleteS3Prefix E fuel cfg loc) w) = trace w)"
proof -
  have "state_io_rel (emits (deletes_below (loc_Bucket loc) (TrimSpace (loc_Prefix loc))))
      (deleteS3Prefix E fuel cfg loc)"
    unfolding deleteS3Prefix_def Let_def by (intro em.rel_facts emits_delete_pages assms)
  from io_relD [OF this, of w] show ?thesis
    by (auto simp: emits_def deleteS3Prefix_def delete_guard_def)
qed

section \<open>Fuel\<close>

lemma delete_pages_enough:
  assumes "\<And>w. \<not> result (s3_HasMorePages E c b p k) w" and "n \<le> k" "k < fuel + n" "fuel \<le> fuel'"
  shows "result (delete_pages E fuel c b p n) w \<noteq> OutOfFuel \<and>
    run_state (delete_pages E fuel' c b p n) w = run_state (delete_pages E fuel c b p n) w"
  using assms(2-)
proof (induction fuel arbitrary: n fuel' w)
  case (Suc fuel)
  then obtain f' where f': "fuel' = Suc f'" "fuel \<le> f'" by (cases fuel') auto
  show ?case
  proof (cases "n = k")
    case True
    then show ?thesis using assms(1) [of w] by (simp add: f' split_beta run_client_read)
  next
    case False
    then have "Suc n \<le> k" "k < fuel + Suc n" using Suc.prems by auto
    note IH = Suc.IH [OF this f'(2)]
    have s: "delete_pages E f' c b p (Suc n) = delete_pages E fuel c b p (Suc n)"
      by (rule state.expand, rule ext, rule conjunct2 [OF IH])
    have o: "result (delete_pages E fuel c b p (Suc n)) w' \<noteq> OutOfFuel" for w'
      by (rule conjunct1 [OF IH])
    show ?thesis
      by (simp add: f'(1) s split_beta o split: sum.splits option.splits)
  qed
qed simp

text \<open>C28: the deletion ends: when the paginator says after \<open>k\<close> pages that there are no more, \<open>k + 1\<close>
  units of fuel are enough for an outcome, and more fuel changes nothing.\<close>

theorem deleteS3Prefix_ends:
  assumes "\<forall>w. \<not> result (s3_HasMorePages E (delete_conf cfg) (loc_Bucket loc) (TrimSpace (loc_Prefix loc)) k) w"
    and "k < fuel"
  shows "result (deleteS3Prefix E fuel cfg loc) w \<noteq> OutOfFuel \<and>
    run_state (deleteS3Prefix E (fuel + m) cfg loc) w = run_state (deleteS3Prefix E fuel cfg loc) w"
  using delete_pages_enough [of E "delete_conf cfg" "loc_Bucket loc" "TrimSpace (loc_Prefix loc)" k 0 fuel "fuel + m"] assms
  by (auto simp: deleteS3Prefix_def Let_def split_beta split: option.splits)

section \<open>Completeness\<close>

definition page_events :: "string \<Rightarrow> s3page list \<Rightarrow> event list" where
  "page_events b ps = concat (map (\<lambda>p. if pg_Contents p = [] then [] else [DeletedObjects b (page_keys p) None]) ps)"

lemma delete_pages_all:
  assumes "result (delete_pages E fuel c b p n) w = Done None"
  shows "\<exists>ps. trace (final (delete_pages E fuel c b p n) w) = trace w @ page_events b ps \<and>
    (\<forall>i<length ps. (\<exists>w1. result (s3_HasMorePages E c b p (n + i)) w1) \<and>
       (\<exists>w1. result (s3_NextPage E c b p (n + i)) w1 = Inr (ps ! i))) \<and>
    (\<exists>w1. \<not> result (s3_HasMorePages E c b p (n + length ps)) w1)"
  using assms
proof (induction fuel arbitrary: n w)
  case (Suc fuel)
  let ?h = "client_read (s3_HasMorePages E c b p n)" and ?g = "client_read (s3_NextPage E c b p n)"
  let ?w1 = "final ?h w" and ?w2 = "final ?g (final ?h w)"
  have tr: "trace ?w1 = trace w" "trace ?w2 = trace w" by (simp_all add: quiet_trace [OF quiet_client_read(1)])
  show ?case
  proof (cases "result (s3_HasMorePages E c b p n) w")
    case False
    then show ?thesis using tr
      by (intro exI [of _ "[]"]) (auto simp: split_beta run_client_read page_events_def)
  next
    case True
    obtain page where page: "result (s3_NextPage E c b p n) ?w1 = Inr page"
      using Suc.prems True by (auto simp: split_beta run_client_read split: sum.splits)
    define w3 where "w3 = (if pg_Contents page = [] then ?w2 else final (client_DeleteObjects E c b (page_keys page)) ?w2)"
    have ev: "trace w3 = trace w @ page_events b [page]"
      and rest: "run_state (delete_pages E (Suc fuel) c b p n) w = run_state (delete_pages E fuel c b p (Suc n)) w3"
      using Suc.prems True page tr
      by (auto simp: split_beta run_client_read w3_def page_events_def client_DeleteObjects_def external_def
          split: option.splits if_splits)
    obtain ps where ps: "trace (final (delete_pages E fuel c b p (Suc n)) w3) = trace w3 @ page_events b ps"
      "\<forall>i<length ps. (\<exists>w1. result (s3_HasMorePages E c b p (Suc n + i)) w1) \<and>
         (\<exists>w1. result (s3_NextPage E c b p (Suc n + i)) w1 = Inr (ps ! i))"
      "\<exists>w1. \<not> result (s3_HasMorePages E c b p (Suc n + length ps)) w1"
      using Suc.IH [of "Suc n" w3] Suc.prems rest by auto
    show ?thesis
    proof (intro exI [of _ "page # ps"] conjI allI impI)
      show "trace (final (delete_pages E (Suc fuel) c b p n) w) = trace w @ page_events b (page # ps)"
        unfolding rest using ps(1) ev by (simp add: page_events_def)
      show "\<exists>w1. result (s3_HasMorePages E c b p (n + i)) w1" if "i < length (page # ps)" for i
        using that ps(2) True by (cases i) auto
      show "\<exists>w1. result (s3_NextPage E c b p (n + i)) w1 = Inr ((page # ps) ! i)" if "i < length (page # ps)" for i
        using that ps(2) page by (cases i) auto
      show "\<exists>w1. \<not> result (s3_HasMorePages E c b p (n + length (page # ps))) w1" using ps(3) by simp
    qed
  qed
qed simp

lemma deleteS3Prefix_pages:
  assumes "result (deleteS3Prefix E fuel cfg loc) w = Done None"
  shows "\<exists>ps. trace (final (deleteS3Prefix E fuel cfg loc) w) = trace w @ page_events (loc_Bucket loc) ps \<and>
    (\<forall>i<length ps.
       (\<exists>w1. result (s3_HasMorePages E (delete_conf cfg) (loc_Bucket loc) (TrimSpace (loc_Prefix loc)) i) w1) \<and>
       (\<exists>w1. result (s3_NextPage E (delete_conf cfg) (loc_Bucket loc) (TrimSpace (loc_Prefix loc)) i) w1 =
          Inr (ps ! i))) \<and>
    (\<exists>w1. \<not> result (s3_HasMorePages E (delete_conf cfg) (loc_Bucket loc) (TrimSpace (loc_Prefix loc)) (length ps)) w1)"
proof -
  let ?l = "client_read (s3_load_config E (s3_Region (delete_conf cfg)) (s3_AccessKeyID (delete_conf cfg))
      (s3_SecretKey (delete_conf cfg)))"
  let ?d = "delete_pages E fuel (delete_conf cfg) (loc_Bucket loc) (TrimSpace (loc_Prefix loc)) 0"
  have "run_state (deleteS3Prefix E fuel cfg loc) w = run_state ?d (final ?l w)"
    using assms by (auto simp: deleteS3Prefix_def Let_def split_beta split: option.splits)
  moreover have "trace (final ?l w) = trace w" by (rule quiet_trace [OF quiet_client_read(1)])
  ultimately show ?thesis
    using delete_pages_all [of E fuel "delete_conf cfg" "loc_Bucket loc" "TrimSpace (loc_Prefix loc)" 0 "final ?l w"] assms
    by simp
qed

text \<open>C12: when \<open>deleteS3Prefix\<close> reports success, it has walked the whole listing: it has got every page
  up to the first one of which the paginator said that there are no more, and the events are exactly one accepted deletion
  request per page that is not empty, with all of the page's keys.\<close>

theorem deleteS3Prefix_complete:
  assumes "result (deleteS3Prefix E fuel cfg loc) w = Done None"
  shows "\<exists>ps. trace (final (deleteS3Prefix E fuel cfg loc) w) = trace w @ page_events (loc_Bucket loc) ps \<and>
    (\<forall>i<length ps.
       (\<exists>w1. result (s3_HasMorePages E (delete_conf cfg) (loc_Bucket loc) (TrimSpace (loc_Prefix loc)) i) w1) \<and>
       (\<exists>w1. result (s3_NextPage E (delete_conf cfg) (loc_Bucket loc) (TrimSpace (loc_Prefix loc)) i) w1 =
          Inr (ps ! i))) \<and>
    (\<exists>w1. \<not> result (s3_HasMorePages E (delete_conf cfg) (loc_Bucket loc) (TrimSpace (loc_Prefix loc)) (length ps)) w1)"
  using assms by (rule deleteS3Prefix_pages)


section \<open>A concrete bucket\<close>

definition bucket_keys :: "string list" where
  "bucket_keys = [''volumes/pvc-1/a'', ''volumes/pvc-1/b'', ''volumes/pvc-10/c'', ''other/d'']"

definition s3_env :: "unit env" where
  "s3_env = quiet_env\<lparr>s3_load_config := \<lambda>_ _ _. ret None,
     s3_HasMorePages := \<lambda>c b p n. ret (n < 1),
     s3_NextPage := \<lambda>c b p n. ret (Inr \<lparr>pg_Contents = map Some (filter (\<lambda>k. HasPrefix k p) bucket_keys)\<rparr>),
     s3_DeleteObjects := \<lambda>c b ks. ret None\<rparr>"

definition s3_cfg :: s3DeleteConfig where
  "s3_cfg = \<lparr>dc_Endpoint = ''https://s3.example.com'', dc_Region = [], dc_AllowHTTP = False,
     dc_AccessKeyID = ''AKIA'', dc_SecretKey = ''abc'', dc_UsePathStyle = True\<rparr>"

definition s3_loc :: s3Location where
  "s3_loc = \<lparr>loc_Bucket = ''bucket'', loc_Prefix = joinS3Prefix ''volumes'' ''pvc-1''\<rparr>"

lemma s3_lists: "lists_prefix s3_env"
  by (auto simp: lists_prefix_def s3_env_def)

theorem deleteS3Prefix_confined_witness:
  "\<exists>err. result (deleteS3Prefix s3_env 2 s3_cfg (s3_loc\<lparr>loc_Prefix := ''  ''\<rparr>)) bare_host = Done (Some err)"
proof -
  have "TrimSpace (loc_Prefix (s3_loc\<lparr>loc_Prefix := ''  ''\<rparr>)) = []" by code_simp
  then show ?thesis using deleteS3Prefix_confined [OF s3_lists] by blast
qed

theorem deleteS3Prefix_ends_witness:
  "result (deleteS3Prefix s3_env 2 s3_cfg s3_loc) bare_host \<noteq> OutOfFuel"
proof -
  have "\<forall>w. \<not> result (s3_HasMorePages s3_env (delete_conf s3_cfg) (loc_Bucket s3_loc) (TrimSpace (loc_Prefix s3_loc)) 1) w"
    by (simp add: s3_env_def)
  from deleteS3Prefix_ends [OF this, of 2] show ?thesis by simp
qed

lemma s3_run: "run_state (deleteS3Prefix s3_env 2 s3_cfg s3_loc) bare_host = (Done None, bare_host\<lparr>trace :=
  [DeletedObjects ''bucket'' [''volumes/pvc-1/a'', ''volumes/pvc-1/b'', ''volumes/pvc-10/c''] None]\<rparr>)"
proof -
  have p: "TrimSpace (joinS3Prefix ''volumes'' ''pvc-1'') = ''volumes/pvc-1''" by code_simp
  show ?thesis
    by (simp add: deleteS3Prefix_def delete_guard_def s3_cfg_def s3_loc_def p s3_env_def quiet_env_def eval
        bucket_keys_def page_keys_def bare_host_def mk_world_def numeral_2_eq_2)
qed

theorem deleteS3Prefix_complete_witness:
  "\<exists>ps. trace (final (deleteS3Prefix s3_env 2 s3_cfg s3_loc) bare_host) = trace bare_host @ page_events ''bucket'' ps"
proof -
  have "result (deleteS3Prefix s3_env 2 s3_cfg s3_loc) bare_host = Done None" by (simp add: s3_run)
  from deleteS3Prefix_complete [OF this] show ?thesis by (auto simp: s3_loc_def)
qed

section \<open>Where a volume's data is\<close>

definition url_plain :: "char \<Rightarrow> bool" where
  "url_plain c \<longleftrightarrow> \<not> is_ctl c \<and> c \<notin> {CHR ''%'', CHR ''#'', CHR ''?''}"

definition bucket_char :: "char \<Rightarrow> bool" where
  "bucket_char c \<longleftrightarrow> is_alpha c \<or> is_digit c \<or> c = CHR ''-'' \<or> c = CHR ''.''"

definition plain_prefix :: "string \<Rightarrow> bool" where
  "plain_prefix p \<longleftrightarrow> p \<noteq> [] \<and> TrimSpace p = p \<and> TrimSlash p = p \<and> Clean p = p \<and> p \<noteq> ''.'' \<and> list_all url_plain p"

lemma unescape_plain:
  "list_all url_plain p \<Longrightarrow> unescape EncodePath p = Some p"
  "list_all bucket_char p \<Longrightarrow> unescape EncodeHost p = Some p"
proof -
  show "list_all url_plain p \<Longrightarrow> unescape EncodePath p = Some p"
    by (induction p) (auto simp: url_plain_def)
  show "list_all bucket_char p \<Longrightarrow> unescape EncodeHost p = Some p"
    by (induction p) (auto simp: bucket_char_def host_char_def is_alpha_def is_digit_def)
qed

lemma Cut_none: "c \<notin> set s \<Longrightarrow> Cut s c = (s, [])"
  by (induction s) (auto simp: Cut_def)

lemma bucket_chars:
  assumes "list_all bucket_char b"
  shows "c \<in> {CHR ''/'', CHR ''@'', CHR '':'', CHR ''['', CHR ''#'', CHR ''?'', CHR ''%''} \<Longrightarrow> c \<notin> set b"
    and "\<not> list_ex is_ctl b"
  using assms
  by (auto simp: list_all_iff list_ex_iff bucket_char_def is_alpha_def is_digit_def is_ctl_def)

lemma parse_plain_url:
  assumes b: "b \<noteq> []" "list_all bucket_char b" and p: "p = [] \<or> hd p = CHR ''/''" "list_all url_plain p"
  shows "parseS3Location (''s3://'' @ b @ p) = Inr \<lparr>loc_Bucket = b, loc_Prefix = TrimPrefix p ''/''\<rparr>"
proof -
  have pc: "c \<in> {CHR ''#'', CHR ''?''} \<Longrightarrow> c \<notin> set p" "\<not> list_ex is_ctl p" for c
    using p(2) by (auto simp: list_all_iff list_ex_iff url_plain_def)
  note bc = bucket_chars [OF b(2)]
  have ctl: "\<not> list_ex is_ctl ''s3://''" by code_simp
  have sch: "getScheme (''s3://'' @ x) = Inr (''s3'', ''//'' @ x)" for x
    by (simp add: getScheme_def Let_def is_alpha_def is_digit_def)
  have low: "ToLower ''s3'' = ''s3''" by code_simp
  have auth: "takeWhile (\<lambda>c. c \<noteq> CHR ''/'') (b @ p) = b"
    using bc(1) [of "CHR ''/''"] p(1) by (cases p) (auto simp: takeWhile_append)
  have pa: "parseAuthority b = Inr b"
  proof -
    have "\<not> HasPrefix b ''[''" using bc(1) [of "CHR ''[''"] by (auto simp: HasPrefix_iff)
    moreover have "CHR ''@'' \<notin> set b" "CHR '':'' \<notin> set b" using bc(1) by simp_all
    ultimately show ?thesis
      by (simp add: parseAuthority_def parseHost_def split_last_def unescape_plain(2) [OF b(2)] Let_def)
  qed
  have rest: "url_parse_rest ''s3'' (''//'' @ b @ p) = Inr \<lparr>u_Scheme = ''s3'', u_Host = b, u_Path = p\<rparr>"
    using auth pa by (simp add: url_parse_rest_def HasPrefix_def url_setPath_def unescape_plain(1) [OF p(2)] Let_def)
  have "url_Parse (''s3://'' @ b @ p) = Inr \<lparr>u_Scheme = ''s3'', u_Host = b, u_Path = p\<rparr>"
    using bc pc ctl sch [of "b @ p"] low rest
    by (simp add: url_Parse_def Cut_none)
  then show ?thesis using b(1) by (simp add: parseS3Location_def)
qed


lemma path_Join_relative:
  assumes d: "d \<noteq> []" "hd d \<noteq> CHR ''/''" "Clean d = d" "d \<noteq> ''.''" and n: "plain_name n"
  shows "path_Join [d, n] = d @ ''/'' @ n"
proof -
  let ?cs = "clean_step False [] (SplitChar d CHR ''/'')"
  have c: "Join ?cs ''/'' = d" using d by (auto simp: Clean_def Let_def split: if_splits)
  have ne: "?cs \<noteq> []" using c d(1) by auto
  have n': "n \<noteq> []" "CHR ''/'' \<notin> set n" using n by (auto simp: plain_name_def)
  have "path_Join [d, n] = Clean (d @ CHR ''/'' # n)" using d(1) n'(1) by (simp add: path_Join_def)
  also have "\<dots> = Join (clean_step False [] (SplitChar d CHR ''/'' @ [n])) ''/''"
    using d n' by (simp add: Clean_def Let_def SplitChar_append SplitChar_plain clean_step_plain [OF n] ne Join_snoc)
  also have "\<dots> = d @ ''/'' @ n" using ne c by (simp add: clean_step_plain [OF n] Join_snoc)
  finally show ?thesis .
qed

lemma join_plain:
  assumes "plain_prefix p" and v: "valid_volume v"
  shows "joinS3Prefix p v = p @ ''/'' @ v"
proof -
  have h: "hd p \<noteq> CHR ''/''" using assms(1) trim_by_ends [of "\<lambda>c. c = CHR ''/''" p]
    by (auto simp: plain_prefix_def TrimSlash_def)
  have "CHR ''/'' \<notin> set v" "v \<noteq> []" using v by (auto simp: valid_volume_def plain_name_def)
  then have "TrimSlash v = v"
    unfolding TrimSlash_def by (intro trim_by_id) (metis hd_in_set last_in_set)
  then show ?thesis
    using assms h path_Join_relative [of p v]
    by (simp add: joinS3Prefix_def Let_def plain_prefix_def valid_volume_def)
qed

text \<open>C14: \<open>DeleteVolume\<close> cleans where \<open>CreatePod\<close> writes: for a storage URL \<open>s3://bucket/prefix\<close> with ordinary
  characters, the location that the server of the volume is configured with is the bucket and prefix
  that the deletion computes for the volume.\<close>

theorem data_location_agrees:
  assumes "b \<noteq> []" "list_all bucket_char b" "plain_prefix p" "valid_volume v" "list_all url_plain v"
    and "cfg ''storageURL'' = Some (''s3://'' @ b @ ''/'' @ p)"
  shows "\<exists>loc. parseS3Location (mget cfg ''storageURL'') = Inr loc \<and>
    parseS3Location (storage_url cfg v) = Inr (loc\<lparr>loc_Prefix := joinS3Prefix (loc_Prefix loc) v\<rparr>)"
proof -
  have sl: "url_plain CHR ''/''" by code_simp
  have pp: "list_all url_plain p" using assms(3) by (simp add: plain_prefix_def)
  have 1: "parseS3Location (''s3://'' @ b @ ''/'' @ p) = Inr \<lparr>loc_Bucket = b, loc_Prefix = p\<rparr>"
    using parse_plain_url [OF assms(1,2), of "''/'' @ p"] pp sl by (simp add: TrimPrefix_def HasPrefix_def)
  have "storage_url cfg v = ''s3://'' @ b @ ''/'' @ (p @ ''/'' @ v)"
    using assms(6) by (simp add: storage_url_def cmp_Or_def)
  then have "parseS3Location (storage_url cfg v) = Inr \<lparr>loc_Bucket = b, loc_Prefix = p @ ''/'' @ v\<rparr>"
    using parse_plain_url [OF assms(1,2), of "''/'' @ p @ ''/'' @ v"] pp sl assms(5)
    by (simp add: TrimPrefix_def HasPrefix_def)
  then show ?thesis using 1 assms(6) join_plain [OF assms(3,4)] by simp
qed

theorem data_location_agrees_witness:
  "\<exists>loc. parseS3Location (mget [''storageURL'' \<mapsto> ''s3://data/volumes''] ''storageURL'') = Inr loc \<and>
    parseS3Location (storage_url [''storageURL'' \<mapsto> ''s3://data/volumes''] ''pvc-1'') =
      Inr (loc\<lparr>loc_Prefix := joinS3Prefix (loc_Prefix loc) ''pvc-1''\<rparr>)"
proof (rule data_location_agrees)
  show "''data'' \<noteq> []" "[''storageURL'' \<mapsto> ''s3://data/volumes''] ''storageURL'' = Some (''s3://'' @ ''data'' @ ''/'' @ ''volumes'')"
    by simp_all
  show "list_all bucket_char ''data''" "plain_prefix ''volumes''" "valid_volume ''pvc-1''" "list_all url_plain ''pvc-1''"
    by code_simp+
qed

section \<open>Whose data a deletion takes\<close>

text \<open>A bucket that holds the keys \<open>K\<close> and does not change under the listing: for every prefix there are pages
  with exactly the keys that have the prefix, and the paginator walks them, or fails.\<close>

definition lists_bucket :: "'x env \<Rightarrow> s3conf \<Rightarrow> string \<Rightarrow> string set \<Rightarrow> bool" where
  "lists_bucket E c b K \<longleftrightarrow> (\<forall>q. \<exists>ps. (\<Union>p\<in>set ps. set (pg_Contents p)) = Some ` {k \<in> K. HasPrefix k q} \<and>
     (\<forall>n w. result (s3_HasMorePages E c b q n) w \<longleftrightarrow> n < length ps) \<and>
     (\<forall>n w page. n < length ps \<longrightarrow> result (s3_NextPage E c b q n) w = Inr page \<longrightarrow> page = ps ! n))"

text \<open>The keys in accepted deletion requests to a bucket.\<close>

definition deleted_keys :: "string \<Rightarrow> event list \<Rightarrow> string set" where
  "deleted_keys b es = (\<Union>e\<in>set es. case e of DeletedObjects b' ks None \<Rightarrow> if b' = b then set ks else {} | _ \<Rightarrow> {})"

lemma deleted_page_events:
  "deleted_keys b (page_events b ps) = {k. k \<noteq> [] \<and> (\<exists>p\<in>set ps. Some k \<in> set (pg_Contents p))}"
proof -
  have one: "(\<Union>e\<in>set (if pg_Contents p = [] then [] else [DeletedObjects b (page_keys p) None]).
      case e of DeletedObjects b' ks None \<Rightarrow> if b' = b then set ks else {} | _ \<Rightarrow> {}) =
    {k. k \<noteq> [] \<and> Some k \<in> set (pg_Contents p)}" for p
    by (auto simp: page_keys_iff)
  have "deleted_keys b (page_events b ps) = (\<Union>p\<in>set ps. {k. k \<noteq> [] \<and> Some k \<in> set (pg_Contents p)})"
    unfolding deleted_keys_def page_events_def by (simp only: set_concat set_map UN_UN_flatten image_image one [symmetric])
  then show ?thesis by auto
qed

lemma deleteS3Prefix_takes:
  assumes ok: "result (deleteS3Prefix E fuel cfg loc) w = Done None"
    and K: "lists_bucket E (delete_conf cfg) (loc_Bucket loc) K"
    and es: "trace (final (deleteS3Prefix E fuel cfg loc) w) = trace w @ es"
  shows "deleted_keys (loc_Bucket loc) es = {k \<in> K. k \<noteq> [] \<and> HasPrefix k (TrimSpace (loc_Prefix loc))}"
proof -
  let ?c = "delete_conf cfg" and ?b = "loc_Bucket loc" and ?q = "TrimSpace (loc_Prefix loc)"
  obtain ps where ps: "es = page_events ?b ps"
      "\<forall>i<length ps. (\<exists>w1. result (s3_HasMorePages E ?c ?b ?q i) w1) \<and>
         (\<exists>w1. result (s3_NextPage E ?c ?b ?q i) w1 = Inr (ps ! i))"
      "\<exists>w1. \<not> result (s3_HasMorePages E ?c ?b ?q (length ps)) w1"
    using deleteS3Prefix_pages [OF ok] es by auto
  obtain qs where qs: "(\<Union>p\<in>set qs. set (pg_Contents p)) = Some ` {k \<in> K. HasPrefix k ?q}"
      "\<And>n w. result (s3_HasMorePages E ?c ?b ?q n) w \<longleftrightarrow> n < length qs"
      "\<And>n w page. n < length qs \<Longrightarrow> result (s3_NextPage E ?c ?b ?q n) w = Inr page \<Longrightarrow> page = qs ! n"
    using K unfolding lists_bucket_def by meson
  have "\<not> length ps < length qs" "\<forall>i<length ps. i < length qs" using ps(2,3) by (auto simp: qs(2))
  then have "length ps = length qs" by (metis linorder_neqE_nat order_less_irrefl)
  then have "ps = qs" using ps(2) qs(3) by (intro nth_equalityI) auto
  then have "deleted_keys ?b es = {k. k \<noteq> [] \<and> Some k \<in> Some ` {k \<in> K. HasPrefix k ?q}}"
    unfolding ps(1) deleted_page_events qs(1) [symmetric] by auto
  then show ?thesis by auto
qed

lemma prefix_of_directory:
  assumes "CHR ''/'' \<notin> set v"
  shows "HasPrefix (u @ CHR ''/'' # r) v \<longleftrightarrow> HasPrefix u v"
proof
  assume "HasPrefix (u @ CHR ''/'' # r) v"
  then obtain t where t: "u @ CHR ''/'' # r = v @ t" by (auto simp: HasPrefix_iff)
  then show "HasPrefix u v" using assms
    by (auto simp: append_eq_append_conv2 HasPrefix_iff Cons_eq_append_conv)
qed (auto simp: HasPrefix_iff)

lemma join_trimmed:
  assumes "plain_prefix p" "valid_volume v"
  shows "TrimSpace (joinS3Prefix p v) = p @ ''/'' @ v"
proof -
  have "\<not> is_space (hd p)" "p \<noteq> []"
    using assms(1) trim_by_ends [of is_space p] by (auto simp: plain_prefix_def TrimSpace_def)
  moreover have "\<not> is_space (last v)" "v \<noteq> []"
    using assms(2) by (auto simp: valid_volume_def plain_name_def list_all_iff)
  ultimately show ?thesis
    unfolding TrimSpace_def join_plain [OF assms] by (intro trim_by_id) auto
qed

text \<open>C38: whose data a deletion takes. When the deletion for volume \<open>v\<close> reports success, an object below the
  directory of volume \<open>u\<close> was deleted exactly when the ID of \<open>u\<close> begins with the ID of \<open>v\<close>: all of the
  volume's own objects, but also those of every volume whose ID extends \<open>v\<close>, because the prefix that is
  listed has no trailing slash; and no others.\<close>

theorem deletion_takes_volume_iff:
  assumes "plain_prefix p" "valid_volume v" "valid_volume u"
    and "loc_Prefix loc = joinS3Prefix p v" "lists_bucket E (delete_conf cfg) (loc_Bucket loc) K"
    and "result (deleteS3Prefix E fuel cfg loc) w = Done None"
    and "trace (final (deleteS3Prefix E fuel cfg loc) w) = trace w @ es"
    and "joinS3Prefix p u @ ''/'' @ r \<in> K"
  shows "joinS3Prefix p u @ ''/'' @ r \<in> deleted_keys (loc_Bucket loc) es \<longleftrightarrow> HasPrefix u v"
proof -
  have j: "joinS3Prefix p u = p @ ''/'' @ u" by (rule join_plain [OF assms(1,3)])
  have "CHR ''/'' \<notin> set v" using assms(2) by (simp add: valid_volume_def plain_name_def)
  then have "HasPrefix (joinS3Prefix p u @ ''/'' @ r) (p @ ''/'' @ v) \<longleftrightarrow> HasPrefix u v"
    using prefix_of_directory [of v u r] by (simp add: j HasPrefix_def)
  then show ?thesis
    using deleteS3Prefix_takes [OF assms(6,5,7)] assms(4,8) join_trimmed [OF assms(1,2)] by (simp add: j)
qed

lemma s3_bucket: "lists_bucket s3_env c b (set bucket_keys)"
  unfolding lists_bucket_def
proof
  fix q
  show "\<exists>ps. (\<Union>p\<in>set ps. set (pg_Contents p)) = Some ` {k \<in> set bucket_keys. HasPrefix k q} \<and>
    (\<forall>n w. result (s3_HasMorePages s3_env c b q n) w \<longleftrightarrow> n < length ps) \<and>
    (\<forall>n w page. n < length ps \<longrightarrow> result (s3_NextPage s3_env c b q n) w = Inr page \<longrightarrow> page = ps ! n)"
    by (intro exI [of _ "[\<lparr>pg_Contents = map Some (filter (\<lambda>k. HasPrefix k q) bucket_keys)\<rparr>]"])
      (auto simp: s3_env_def)
qed

theorem deletion_takes_volume_iff_witness:
  "''volumes/pvc-10/c'' \<in> deleted_keys ''bucket'' (trace (final (deleteS3Prefix s3_env 2 s3_cfg s3_loc) bare_host))"
proof -
  let ?es = "trace (final (deleteS3Prefix s3_env 2 s3_cfg s3_loc) bare_host)"
  have j: "joinS3Prefix ''volumes'' ''pvc-10'' @ ''/'' @ ''c'' = ''volumes/pvc-10/c''" by code_simp
  have "''volumes/pvc-10/c'' \<in> deleted_keys (loc_Bucket s3_loc) ?es \<longleftrightarrow> HasPrefix ''pvc-10'' ''pvc-1''"
  proof (rule deletion_takes_volume_iff [where r = "''c''" and p = "''volumes''" and u = "''pvc-10''" and v = "''pvc-1''",
        unfolded j])
    show "plain_prefix ''volumes''" "valid_volume ''pvc-1''" "valid_volume ''pvc-10''" by code_simp+
    show "loc_Prefix s3_loc = joinS3Prefix ''volumes'' ''pvc-1''" by (simp add: s3_loc_def)
    show "lists_bucket s3_env (delete_conf s3_cfg) (loc_Bucket s3_loc) (set bucket_keys)" by (rule s3_bucket)
    show "result (deleteS3Prefix s3_env 2 s3_cfg s3_loc) bare_host = Done None"
      "trace (final (deleteS3Prefix s3_env 2 s3_cfg s3_loc) bare_host) = trace bare_host @ ?es"
      unfolding s3_run by (simp_all add: bare_host_def mk_world_def)
    show "''volumes/pvc-10/c'' \<in> set bucket_keys" by (simp add: bucket_keys_def)
  qed
  then show ?thesis by (simp add: s3_loc_def HasPrefix_def)
qed

text \<open>A volume ID with \<open>..\<close> leaves the configured prefix.\<close>

lemma join_leaves_prefix: "joinS3Prefix ''volumes'' ''../other'' = ''other''"
  by code_simp

text \<open>A ConfigMap without \<open>storageURL\<close> is accepted when a pod is created, and the data goes to the default
  location; the deletion does not know the default and fails.\<close>

lemma default_storage_url_not_deleted:
  "storage_url Map.empty v = ''s3://zerofs/'' @ v \<and> (\<exists>err. parseS3Location (mget Map.empty ''storageURL'') = Inl err)"
proof -
  have "\<exists>err. parseS3Location [] = Inl err" by (simp add: parseS3Location_def url_Parse_def Cut_def getScheme_def
        Let_def url_parse_rest_def HasPrefix_def url_setPath_def ToLower_def)
  then show ?thesis by (simp add: storage_url_def cmp_Or_def mget_def)
qed

end
