(* ===== verification/Controller_Properties.thy ===== *)
theory Controller_Properties
  imports Driver Node_Simulation S3_Properties
begin

text \<open>
  The controller service and the driver: data is deleted only on request of the storage class, the
  requested capacity arrives at the node, and the start of the driver.
\<close>

section \<open>Deleting a volume\<close>

definition no_object_deleted :: "event \<Rightarrow> bool" where
  "no_object_deleted e \<longleftrightarrow> (case e of DeletedObjects _ _ _ \<Rightarrow> False | _ \<Rightarrow> True)"

lemma keeps_objects_RemovePod: "state_io_rel (emits no_object_deleted) (RemovePod E m v)"
proof -
  note rules = em.rel_intros quiet_wait [THEN em.rel_quiet] quiet_client_read [THEN em.rel_quiet] emits_calls
  show ?thesis
    unfolding RemovePod_def remove_secret_def force_delete_def
    by (intro rules) (simp_all add: no_object_deleted_def)
qed

definition opted_out :: "'x env \<Rightarrow> bool" where
  "opted_out E \<longleftrightarrow> (\<forall>n w sc. result (get_StorageClass E n) w = Inr sc \<longrightarrow>
     \<not> EqualFold (TrimSpace (mget (sc_Parameters sc) ''deleteDataOnPVCDelete'')) ''true'')"

lemma quiet_find_pv [quiet_facts]: "state_io_rel quiet_step (findPersistentVolume E v)"
  "state_io_rel quiet_step (storage_class_name E pv)"
  unfolding findPersistentVolume_def storage_class_name_def Let_def
  by (intro quiet.rel_intros quiet_facts)+

lemma opted_out_data:
  assumes "opted_out E"
  shows "result (deleteVolumeDataIfEnabled E fuel cs v) w = Done None \<and>
    trace (final (deleteVolumeDataIfEnabled E fuel cs v) w) = trace w"
proof -
  have t: "trace (final (findPersistentVolume E v) w') = trace w'" "trace (final (storage_class_name E pv) w') = trace w'"
    "trace (final (client_read g) w') = trace w'" for pv w' and g :: "('a, string + StorageClass) io"
    by (rule quiet_trace, rule quiet_find_pv quiet_client_read)+
  show ?thesis
    using assms unfolding deleteVolumeDataIfEnabled_def opted_out_def
    by (auto simp: split_beta t run_client_read Let_def split: option.splits sum.splits)
qed

text \<open>C13: data is deleted only when asked for: when no storage class has \<open>deleteDataOnPVCDelete\<close> set to
  true (in any letter case), \<open>DeleteVolume\<close> of a volume succeeds and deletes no object.\<close>

theorem DeleteVolume_opt_in:
  assumes "opted_out E" "v \<noteq> []"
  shows "result (DeleteVolume E fuel cs v) w = Some (Inr ()) \<and>
    (\<exists>es. trace (final (DeleteVolume E fuel cs v) w) = trace w @ es \<and>
       (\<forall>b ks err. DeletedObjects b ks err \<notin> set es))"
proof -
  let ?r = "case cs_mounter cs of None \<Rightarrow> ret () | Some m \<Rightarrow> do { _ \<leftarrow> RemovePod E m v; ret () }"
  have "state_io_rel (emits no_object_deleted) ?r"
    by (intro em.rel_intros keeps_objects_RemovePod)
  from io_relD [OF this, of w] obtain es where "trace (final ?r w) = trace w @ es" "list_all no_object_deleted es"
    by (auto simp: emits_def)
  moreover have "run_state (DeleteVolume E fuel cs v) w =
      (Some (Inr ()), final (deleteVolumeDataIfEnabled E fuel cs v) (final ?r w))"
    using assms(2) opted_out_data [OF assms(1), of fuel cs v "final ?r w"]
    by (simp add: DeleteVolume_def split_beta)
  ultimately show ?thesis
    using opted_out_data [OF assms(1), of fuel cs v "final ?r w"]
    by (fastforce simp: list_all_iff no_object_deleted_def)
qed

definition sim_controller :: controllerService where
  "sim_controller = \<lparr>cs_name = driverName, cs_nodeID = ''node-1'', cs_mounter = Some sim_mounter\<rparr>"

text \<open>A cluster in which the volume has a storage class that configures the deletion but says \<open>False\<close>.\<close>

definition keep_env :: "sim env" where
  "keep_env = sim_env\<lparr>get_PersistentVolume := \<lambda>_. ret (Inr \<lparr>pv_StorageClassName = ''zerofs'', pv_ClaimRef = None,
       pv_VolumeHandle = Some ''pvc-1''\<rparr>),
     get_StorageClass := \<lambda>_. ret (Inr \<lparr>sc_Parameters = [''deleteDataOnPVCDelete'' \<mapsto> ''False'',
       ''configMapName'' \<mapsto> ''zerofs-config'']\<rparr>)\<rparr>"

theorem DeleteVolume_opt_in_witness:
  "result (get_StorageClass keep_env ''zerofs'') sim_world =
     Inr \<lparr>sc_Parameters = [''deleteDataOnPVCDelete'' \<mapsto> ''False'', ''configMapName'' \<mapsto> ''zerofs-config'']\<rparr> \<and>
   result (DeleteVolume keep_env 1 sim_controller ''pvc-1'') sim_world = Some (Inr ())"
proof -
  have "\<not> EqualFold (TrimSpace ''False'') ''true''" by code_simp
  then have "opted_out keep_env" by (simp add: opted_out_def keep_env_def mget_def)
  then show ?thesis using DeleteVolume_opt_in [of keep_env "''pvc-1''"] by (simp add: keep_env_def)
qed

section \<open>From provisioning to the node\<close>

text \<open>C27: the capacity asked for at provisioning arrives at the disk: \<open>CreateVolume\<close> puts it, in decimal, into
  the volume context, from which it can be read back, and the publish of a volume whose disk file does
  not exist yet runs \<open>truncate\<close> with exactly this number on the disk file, as its first and only action
  of that stage.\<close>

theorem provisioned_capacity_reaches_disk:
  assumes "CreateVolume creq = Inr vol" "GetRequiredBytes (cv_RequiredBytes creq) = bytes"
    and "- int64_max - 1 \<le> bytes" "bytes \<le> int64_max"
    and "pr_VolumeContext req = vol_VolumeContext vol"
    and "result (os_Stat E (disk_path (pr_TargetPath req))) w = Inl NotExist"
  shows "vol_CapacityBytes vol = bytes \<and>
    (\<exists>s. vol_VolumeContext vol ''capacity_bytes'' = Some s \<and> Atoi s = (bytes, None) \<and>
      (\<exists>out err. trace (final (stage_disk E req) w) =
         trace w @ [Exec ''truncate'' [''-s'', s, disk_path (pr_TargetPath req)] out err]))"
proof -
  let ?p = "disk_path (pr_TargetPath req)" and ?s = "show_int bytes"
  have c: "vol_CapacityBytes vol = bytes" "vol_VolumeContext vol ''capacity_bytes'' = Some ?s"
    using assms(1,2) by (auto simp: CreateVolume_def split: if_splits)
  let ?w1 = "final (os_Stat E ?p) w"
  have t1: "trace ?w1 = trace w" by (rule quiet_trace [OF quiet_os(1)])
  obtain out err w2 where x: "run_state (exec_Command E ''truncate'' [''-s'', ?s, ?p]) ?w1 = ((out, err), w2)"
    by (metis surj_pair)
  have t2: "trace w2 = trace w @ [Exec ''truncate'' [''-s'', ?s, ?p] out err]"
    using run_exec [of E "''truncate''" "[''-s'', ?s, ?p]" ?w1] x t1 by simp
  have "trace (final (stage_disk E req) w) = trace w2"
    using assms(5,6) c(2) x
    by (cases err) (simp_all add: stage_disk_def Let_def split_beta startStage_def publish_fail_def stage_fail_def)
  then show ?thesis using c t2 Atoi_show_int [OF assms(3,4)] by auto
qed

definition sim_create :: CreateVolumeRequest where
  "sim_create = \<lparr>cv_Name = ''pvc-1'', cv_VolumeCapabilities = Some [\<lparr>vc_MountFlags = None\<rparr>],
     cv_RequiredBytes = Some 1073741824, cv_Parameters = Some [''filesystem'' \<mapsto> ''ext4'']\<rparr>"

theorem provisioned_capacity_reaches_disk_witness:
  "\<exists>vol. CreateVolume sim_create = Inr vol \<and> vol_CapacityBytes vol = 1073741824 \<and>
    (\<exists>s. vol_VolumeContext vol ''capacity_bytes'' = Some s \<and> Atoi s = (1073741824, None))"
proof -
  obtain vol where vol: "CreateVolume sim_create = Inr vol" by (simp add: CreateVolume_def sim_create_def)
  let ?req = "(sim_publish ''pvc-1'' ''/t'')\<lparr>pr_VolumeContext := vol_VolumeContext vol\<rparr>"
  have "result (os_Stat sim_env (disk_path (pr_TargetPath ?req))) sim_world = Inl NotExist"
    by (simp add: eval sim_world_eval)
  then have "vol_CapacityBytes vol = 1073741824 \<and>
      (\<exists>s. vol_VolumeContext vol ''capacity_bytes'' = Some s \<and> Atoi s = (1073741824, None))"
    using provisioned_capacity_reaches_disk [OF vol, of 1073741824 ?req sim_env sim_world]
    by (auto simp: sim_create_def GetRequiredBytes_def int64_max_def)
  with vol show ?thesis by blast
qed

section \<open>Starting the driver\<close>

text \<open>C34: \<open>Start\<close> registers the identity service always and the controller and node services as the flags
  say, both with the node's ID from the environment and with one mounter for the configured namespace;
  the reconciliation runs exactly when the node service is enabled; and when \<open>Start\<close> returns, on
  whatever path, the server is not serving.\<close>

theorem Start_registers:
  assumes "d_spawned d = []" and d'_def: "d' = snd (result (Start E d) w)"
  shows "IdentityService \<in> set (d_services d') \<and>
    ((\<exists>cs. ControllerService cs \<in> set (d_services d')) \<longleftrightarrow> d_enableController d) \<and>
    ((\<exists>ns. NodeService ns \<in> set (d_services d')) \<longleftrightarrow> d_enableNode d) \<and>
    (\<forall>cs. ControllerService cs \<in> set (d_services d') \<longrightarrow>
       cs_nodeID cs = os_Getenv E ''NODE_ID'' \<and> cs_mounter cs = d_mounter d') \<and>
    (\<forall>ns. NodeService ns \<in> set (d_services d') \<longrightarrow> ns_nodeID ns = os_Getenv E ''NODE_ID'' \<and>
       Some (ns_mounter ns) = d_mounter d' \<and> m_namespace (ns_mounter ns) = d_namespace d) \<and>
    ((\<exists>ns. Reconcile ns \<in> set (d_spawned d')) \<longleftrightarrow> d_enableNode d) \<and>
    (\<exists>ph. d_server d' = Some (Server (30 * second) ph) \<and> ph \<noteq> Serving)"
proof -
  let ?d = "register_services E d"
  have "d' = ?d \<or> d' = Stop (set_phase Serving (?d\<lparr>d_spawned := d_spawned ?d @ [Serve]\<rparr>))"
    by (simp add: d'_def Start_def Let_def split_beta split: option.split)
  then obtain sp ph where d': "d' = set_phase ph (?d\<lparr>d_spawned := d_spawned ?d @ sp\<rparr>)" "ph \<noteq> Serving" "set sp \<subseteq> {Serve}"
  proof
    assume "d' = ?d"
    then show thesis by (intro that [of Created "[]"]) (simp_all add: register_services_def set_phase_def Let_def)
  next
    assume "d' = Stop (set_phase Serving (?d\<lparr>d_spawned := d_spawned ?d @ [Serve]\<rparr>))"
    then show thesis
      by (intro that [of Stopped "[Serve]"]) (simp_all add: Stop_def set_phase_def register_services_def Let_def)
  qed
  show ?thesis
    using assms(1) d'(2,3) unfolding d'(1)
    by (auto simp: register_services_def set_phase_def Let_def NewZeroFSMounter_def)
qed

theorem Start_registers_witness:
  "IdentityService \<in> set (d_services (snd (result (Start sim_env (NewZeroFSDriver False True ''zerofs'' True)) sim_world)))"
  using Start_registers [of "NewZeroFSDriver False True ''zerofs'' True" _ sim_env sim_world]
  by (simp add: NewZeroFSDriver_def)

end
