(* ===== verification/Entry.thy ===== *)
theory Entry
  imports Driver
begin

text \<open>
  \<^verbatim>\<open>cmd/driver/main.go\<close>: the flags, the manager's options and the start of the driver. The part of Go's
  package \<^verbatim>\<open>flag\<close> that \<open>flag.Parse\<close> uses is modelled; the controller-runtime (configuration, manager) is a
  parameter, and so are the flags that imported packages register beside the four of \<open>main\<close>. What a
  command line makes of the driver is at the end of the theory.
\<close>

section \<open>Package flag\<close>

datatype flag_kind = BoolFlag | StringFlag

datatype flag_error = ErrHelp | BadSyntax string | NotDefined string | InvalidBool string string | NeedsArgument string

text \<open>\<open>strconv.ParseBool\<close>\<close>

definition ParseBool :: "string \<Rightarrow> bool option" where
  "ParseBool s = (if s \<in> set [''1'', ''t'', ''T'', ''TRUE'', ''true'', ''True''] then Some True
     else if s \<in> set [''0'', ''f'', ''F'', ''FALSE'', ''false'', ''False''] then Some False else None)"

text \<open>The name after the dashes, cut at the first equals sign that is not its first character.\<close>

definition split_flag :: "string \<Rightarrow> string \<times> string option" where
  "split_flag name = (let rest = dropWhile (\<lambda>c. c \<noteq> CHR ''='') (tl name) in
     (hd name # takeWhile (\<lambda>c. c \<noteq> CHR ''='') (tl name), if rest = [] then None else Some (tl rest)))"

text \<open>What an argument is: not a flag, the terminator, or a flag with its name and value.\<close>

datatype argument = NoFlag | Terminator | Malformed | FlagArg string "string option"

definition read_argument :: "string \<Rightarrow> argument" where
  "read_argument s = (
     if length s < 2 \<or> s ! 0 \<noteq> CHR ''-'' then NoFlag
     else if s = ''--'' then Terminator
     else let name = (if s ! 1 = CHR ''-'' then drop 2 s else drop 1 s) in
       if name = [] \<or> hd name = CHR ''-'' \<or> hd name = CHR ''='' then Malformed
       else (case split_flag name of (n, v) \<Rightarrow> FlagArg n v))"

section \<open>The flags\<close>

record driver_flags =
  fl_controller :: bool
  fl_node :: bool
  fl_namespace :: string
  fl_metrics_bind_address :: string

definition defaultMetricsAddr :: "'x env \<Rightarrow> string" where
  "defaultMetricsAddr E = (let v = os_Getenv E ''METRICS_BIND_ADDRESS'' in if v \<noteq> [] then v else '':8080'')"

definition default_flags :: "'x env \<Rightarrow> driver_flags" where
  "default_flags E = \<lparr>fl_controller = False, fl_node = False, fl_namespace = ''zerofs'',
     fl_metrics_bind_address = defaultMetricsAddr E\<rparr>"

text \<open>The flags of \<open>main\<close>, and after them those of the imported packages.\<close>

definition flag_kind_of :: "(string \<rightharpoonup> flag_kind) \<Rightarrow> string \<rightharpoonup> flag_kind" where
  "flag_kind_of lib name =
     (if name = ''controller'' \<or> name = ''node'' then Some BoolFlag
      else if name = ''namespace'' \<or> name = ''metrics-bind-address'' then Some StringFlag
      else lib name)"

definition set_bool :: "string \<Rightarrow> bool \<Rightarrow> driver_flags \<Rightarrow> driver_flags" where
  "set_bool name b fl = (if name = ''controller'' then fl\<lparr>fl_controller := b\<rparr>
     else if name = ''node'' then fl\<lparr>fl_node := b\<rparr> else fl)"

definition set_string :: "string \<Rightarrow> string \<Rightarrow> driver_flags \<Rightarrow> driver_flags" where
  "set_string name v fl = (if name = ''namespace'' then fl\<lparr>fl_namespace := v\<rparr>
     else if name = ''metrics-bind-address'' then fl\<lparr>fl_metrics_bind_address := v\<rparr> else fl)"

text \<open>\<open>flag.Parse\<close>: one flag after the other, until the first argument that is not a flag.\<close>

fun flag_Parse :: "(string \<rightharpoonup> flag_kind) \<Rightarrow> driver_flags \<Rightarrow> string list \<Rightarrow> flag_error + driver_flags" where
  "flag_Parse lib fl [] = Inr fl"
| "flag_Parse lib fl (s # args) = (case read_argument s of
      NoFlag \<Rightarrow> Inr fl
    | Terminator \<Rightarrow> Inr fl
    | Malformed \<Rightarrow> Inl (BadSyntax s)
    | FlagArg name val \<Rightarrow> (case flag_kind_of lib name of
        None \<Rightarrow> Inl (if name = ''help'' \<or> name = ''h'' then ErrHelp else NotDefined name)
      | Some BoolFlag \<Rightarrow> (case ParseBool (case val of None \<Rightarrow> ''true'' | Some v \<Rightarrow> v) of
          None \<Rightarrow> Inl (InvalidBool name (case val of None \<Rightarrow> ''true'' | Some v \<Rightarrow> v))
        | Some b \<Rightarrow> flag_Parse lib (set_bool name b fl) args)
      | Some StringFlag \<Rightarrow> (case val of
          Some v \<Rightarrow> flag_Parse lib (set_string name v fl) args
        | None \<Rightarrow> (case args of
            [] \<Rightarrow> Inl (NeedsArgument name)
          | v # rest \<Rightarrow> flag_Parse lib (set_string name v fl) rest))))"

section \<open>The manager\<close>

record cache_options =
  co_DefaultNamespaces :: "string list"

record mgr_options =
  mo_BindAddress :: string
  mo_NewCache :: "cache_options \<Rightarrow> cache_options"

definition mgrOptions :: "driver_flags \<Rightarrow> mgr_options" where
  "mgrOptions fl = \<lparr>mo_BindAddress = fl_metrics_bind_address fl,
     mo_NewCache = (\<lambda>opts. opts\<lparr>co_DefaultNamespaces := [fl_namespace fl]\<rparr>)\<rparr>"

text \<open>The controller-runtime: \<open>GetConfigOrDie\<close> tells whether there is a configuration (without one it
  exits), \<open>NewManager\<close> gives a manager or an error, \<open>Add\<close> takes the driver, \<open>Start\<close> blocks.\<close>

record ('x, 'm) ctrl =
  ctrl_GetConfigOrDie :: "('x, bool) io"
  ctrl_NewManager :: "mgr_options \<Rightarrow> ('x, string + 'm) io"
  ctrl_Add :: "'m \<Rightarrow> zeroFSDriver \<Rightarrow> ('x, string option) io"
  ctrl_Start :: "'m \<Rightarrow> ('x, string option) io"

text \<open>How the process ends: an exit code with what \<open>main\<close> printed on standard error, or a return.\<close>

datatype ending = Exit int string | Returned

definition flags_driver :: "driver_flags \<Rightarrow> zeroFSDriver" where
  "flags_driver fl = NewZeroFSDriver (fl_controller fl) (fl_node fl) (fl_namespace fl) True"

text \<open>From the manager on.\<close>

definition run_manager :: "('x, 'm) ctrl \<Rightarrow> driver_flags \<Rightarrow> ('x, ending) io" where
  "run_manager C fl = do {
     config \<leftarrow> client_read (ctrl_GetConfigOrDie C);
     if \<not> config then ret (Exit 1 [])
     else do {
       r \<leftarrow> client_read (ctrl_NewManager C (mgrOptions fl));
       case r of
         Inl err \<Rightarrow> ret (Exit 1 (''Failed to create manager: '' @ err @ nl))
       | Inr mgr \<Rightarrow> do {
           a \<leftarrow> client_read (ctrl_Add C mgr (flags_driver fl));
           case a of
             Some err \<Rightarrow> ret (Exit 1 (''Failed to add controller: '' @ err @ nl))
           | None \<Rightarrow> do {
               s \<leftarrow> client_read (ctrl_Start C mgr);
               case s of
                 Some err \<Rightarrow> ret (Exit 1 (''Failed to start manager: '' @ err @ nl))
               | None \<Rightarrow> ret Returned } } } }"

text \<open>\<open>flag.Parse\<close> prints its own message and exits with 2, or with 0 after the usage text.\<close>

definition main_driver ::
    "'x env \<Rightarrow> ('x, 'm) ctrl \<Rightarrow> (string \<rightharpoonup> flag_kind) \<Rightarrow> string list \<Rightarrow> ('x, ending) io" where
  "main_driver E C lib args = (case flag_Parse lib (default_flags E) args of
      Inl ErrHelp \<Rightarrow> ret (Exit 0 [])
    | Inl e \<Rightarrow> ret (Exit 2 [])
    | Inr fl \<Rightarrow> run_manager C fl)"

end
