(* ===== verification/Entry_Properties.thy ===== *)
theory Entry_Properties
  imports Entry
begin

text \<open>
  The command line: every setting of the flags can be given and is read back, and how the process
  ends.
\<close>

section \<open>Reading flags\<close>

lemma read_double_dash:
  "name \<noteq> [] \<Longrightarrow> hd name \<noteq> CHR ''-'' \<Longrightarrow> hd name \<noteq> CHR ''='' \<Longrightarrow>
     read_argument (''--'' @ name) = (case split_flag name of (n, v) \<Rightarrow> FlagArg n v)"
  by (simp add: read_argument_def)

lemma split_flag_value:
  assumes "name \<noteq> []" "CHR ''='' \<notin> set (tl name)"
  shows "split_flag (name @ CHR ''='' # v) = (name, Some v)"
proof -
  obtain c cs where n: "name = c # cs" "CHR ''='' \<notin> set cs" using assms by (cases name) auto
  have all: "\<forall>x\<in>set cs. x \<noteq> CHR ''=''" using n(2) by auto
  have "takeWhile (\<lambda>c. c \<noteq> CHR ''='') (cs @ CHR ''='' # v) = cs"
    "dropWhile (\<lambda>c. c \<noteq> CHR ''='') (cs @ CHR ''='' # v) = CHR ''='' # v"
    using all by simp_all
  then show ?thesis by (simp add: split_flag_def n(1))
qed

text \<open>An argument \<open>--name=value\<close>.\<close>

definition flag_arg :: "string \<Rightarrow> string \<Rightarrow> string" where
  "flag_arg name v = ''--'' @ name @ ''='' @ v"

lemma read_flag_arg:
  assumes "name \<noteq> []" "hd name \<noteq> CHR ''-''" "CHR ''='' \<notin> set name"
  shows "read_argument (flag_arg name v) = FlagArg name (Some v)"
proof -
  have "hd name \<noteq> CHR ''=''" using assms(1,3) by (cases name) auto
  moreover have "split_flag (name @ CHR ''='' # v) = (name, Some v)"
    using assms by (intro split_flag_value) (auto dest: list.set_sel(2))
  ultimately show ?thesis
    using assms read_double_dash [of "name @ CHR ''='' # v"] by (simp add: flag_arg_def)
qed

lemma own_flags_readable [simp]:
  "read_argument (flag_arg ''controller'' v) = FlagArg ''controller'' (Some v)"
  "read_argument (flag_arg ''node'' v) = FlagArg ''node'' (Some v)"
  "read_argument (flag_arg ''namespace'' v) = FlagArg ''namespace'' (Some v)"
  "read_argument (flag_arg ''metrics-bind-address'' v) = FlagArg ''metrics-bind-address'' (Some v)"
  by (rule read_flag_arg; simp)+

definition show_bool :: "bool \<Rightarrow> string" where
  "show_bool b = (if b then ''true'' else ''false'')"

lemma ParseBool_show [simp]: "ParseBool (show_bool b) = Some b"
  by (simp add: ParseBool_def show_bool_def)

text \<open>The command line that gives all four flags, and arguments at which the parser stops.\<close>

definition command_line :: "driver_flags \<Rightarrow> string list" where
  "command_line fl = [flag_arg ''controller'' (show_bool (fl_controller fl)),
     flag_arg ''node'' (show_bool (fl_node fl)), flag_arg ''namespace'' (fl_namespace fl),
     flag_arg ''metrics-bind-address'' (fl_metrics_bind_address fl)]"

definition stops :: "string list \<Rightarrow> bool" where
  "stops args \<longleftrightarrow> (case args of [] \<Rightarrow> True | s # _ \<Rightarrow> read_argument s = NoFlag \<or> read_argument s = Terminator)"

lemma Parse_stops: "stops args \<Longrightarrow> flag_Parse lib fl args = Inr fl"
  by (cases args) (auto simp: stops_def)

lemma Parse_command_line:
  assumes "stops rest"
  shows "flag_Parse lib fl0 (command_line fl @ rest) = Inr fl"
  using Parse_stops [OF assms]
  by (simp add: command_line_def flag_kind_of_def set_bool_def set_string_def)

section \<open>Properties\<close>

text \<open>C35: every setting of the four flags can be given on the command line, whatever the namespace and the
  address look like and whatever flags other packages define (what follows the first argument that is
  not a flag is ignored), and takes effect: the process asks the controller-runtime for a manager with
  the flags' metrics address and a cache of the flags' namespace only, and adds a driver that registers,
  next to the identity service, the controller service exactly when \<open>--controller\<close> and the node
  service exactly when \<open>--node\<close> is set, both with the node ID of the environment and a mounter for the
  flags' namespace. It returns if and only if there is a configuration, that manager is created, takes
  the driver and stops without error; in every other case it exits with code 1.\<close>

theorem main_runs_flagged_driver:
  assumes "stops rest"
  shows "\<exists>opts d. mo_BindAddress opts = fl_metrics_bind_address fl \<and>
    (\<forall>co. co_DefaultNamespaces (mo_NewCache opts co) = [fl_namespace fl]) \<and>
    d_services (register_services E d) = IdentityService #
      (if fl_controller fl then [ControllerService \<lparr>cs_name = driverName, cs_nodeID = os_Getenv E ''NODE_ID'',
         cs_mounter = Some (NewZeroFSMounter (fl_namespace fl) True)\<rparr>] else []) @
      (if fl_node fl then [NodeService \<lparr>ns_name = driverName, ns_nodeID = os_Getenv E ''NODE_ID'',
         ns_mounter = NewZeroFSMounter (fl_namespace fl) True\<rparr>] else []) \<and>
    (\<forall>w. let out = result (main_driver E C lib (command_line fl @ rest)) w;
            w1 = final (client_read (ctrl_GetConfigOrDie C)) w;
            w2 = final (client_read (ctrl_NewManager C opts)) w1
         in (out = Returned \<longleftrightarrow> result (ctrl_GetConfigOrDie C) w \<and>
               (\<exists>mgr. result (ctrl_NewManager C opts) w1 = Inr mgr \<and> result (ctrl_Add C mgr d) w2 = None \<and>
                  result (ctrl_Start C mgr) (final (client_read (ctrl_Add C mgr d)) w2) = None)) \<and>
            (out = Returned \<or> (\<exists>msg. out = Exit 1 msg)))"
proof (intro exI [of _ "mgrOptions fl"] exI [of _ "flags_driver fl"] conjI allI)
  fix w
  have r: "result (client_read m) w' = result m w'" for m :: "('a, 'c) io" and w'
    by (simp add: client_read_def external_def split_beta)
  show "let out = result (main_driver E C lib (command_line fl @ rest)) w;
            w1 = final (client_read (ctrl_GetConfigOrDie C)) w;
            w2 = final (client_read (ctrl_NewManager C (mgrOptions fl))) w1
         in (out = Returned \<longleftrightarrow> result (ctrl_GetConfigOrDie C) w \<and>
               (\<exists>mgr. result (ctrl_NewManager C (mgrOptions fl)) w1 = Inr mgr \<and>
                  result (ctrl_Add C mgr (flags_driver fl)) w2 = None \<and>
                  result (ctrl_Start C mgr) (final (client_read (ctrl_Add C mgr (flags_driver fl))) w2) = None)) \<and>
            (out = Returned \<or> (\<exists>msg. out = Exit 1 msg))"
    by (simp add: main_driver_def Parse_command_line [OF assms] run_manager_def split_beta r Let_def
        split: sum.splits option.splits)
qed (simp_all add: mgrOptions_def flags_driver_def NewZeroFSDriver_def register_services_def Let_def)

definition odd_flags :: driver_flags where
  "odd_flags = \<lparr>fl_controller = False, fl_node = True, fl_namespace = ''--=x'', fl_metrics_bind_address = []\<rparr>"

definition idle_ctrl :: "(unit, unit) ctrl" where
  "idle_ctrl = \<lparr>ctrl_GetConfigOrDie = ret True, ctrl_NewManager = (\<lambda>_. ret (Inr ())),
     ctrl_Add = (\<lambda>_ _. ret None), ctrl_Start = (\<lambda>_. ret None)\<rparr>"

theorem main_runs_flagged_driver_witness:
  "result (main_driver quiet_env idle_ctrl Map.empty (command_line odd_flags @ [''run'', ''--controller''])) (mk_world [] ()) =
     Returned"
proof -
  have "stops [''run'', ''--controller'']" by (simp add: stops_def read_argument_def)
  from main_runs_flagged_driver [OF this, where E = quiet_env and C = idle_ctrl and lib = Map.empty and fl = odd_flags]
  show ?thesis by (auto simp: idle_ctrl_def Let_def)
qed

text \<open>How the process ends. It returns only after the manager was created with the flags' metrics
  address, accepted the flags' driver and stopped without error; it exits with 0 exactly when help was
  asked for, with 2 exactly when a flag was wrong, and otherwise with 1.\<close>

lemma main_ending:
  "case result (main_driver E C lib args) w of
     Returned \<Rightarrow> \<exists>fl mgr w1 w2 w3. flag_Parse lib (default_flags E) args = Inr fl \<and>
       result (ctrl_NewManager C (mgrOptions fl)) w1 = Inr mgr \<and>
       result (ctrl_Add C mgr (flags_driver fl)) w2 = None \<and> result (ctrl_Start C mgr) w3 = None
   | Exit c msg \<Rightarrow> (c = 0 \<longleftrightarrow> flag_Parse lib (default_flags E) args = Inl ErrHelp) \<and>
       (c = 2 \<longleftrightarrow> (\<exists>e. flag_Parse lib (default_flags E) args = Inl e \<and> e \<noteq> ErrHelp)) \<and>
       (c = 0 \<or> c = 1 \<or> c = 2)"
proof (cases "flag_Parse lib (default_flags E) args")
  case (Inl e)
  then show ?thesis by (cases e) (simp_all add: main_driver_def)
next
  case (Inr fl)
  have r: "result (client_read m) w' = result m w'" for m :: "('a, 'c) io" and w'
    by (simp add: client_read_def external_def split_beta)
  show ?thesis
    by (auto simp: main_driver_def Inr run_manager_def split_beta r split: sum.splits option.splits)
qed

end
