(* ===== verification/Spec2Isabelle.thy ===== *)
theory Spec2Isabelle
  imports Node_Liveness Node_Roundtrip Nbd_Faults Controller_Properties Entry_Properties
begin

text \<open>
  \<^bold>\<open>A verification development for the ZeroFS CSI driver\<close> (\<^verbatim>\<open>src/pkg/csi\<close>, \<^verbatim>\<open>src/cmd/driver\<close>).

  \<^bold>\<open>The program.\<close> The driver gives Kubernetes pods volumes that are disk images served by a ZeroFS server
  from an object store. Its controller service provisions volumes (\<^verbatim>\<open>controller.go\<close>) and, when the
  storage class asks for it, deletes a volume's objects (\<^verbatim>\<open>controller_delete.go\<close>, \<^verbatim>\<open>s3_cleanup.go\<close>). Its
  node service (\<^verbatim>\<open>node.go\<close>) publishes a volume on a node: it starts a server pod for the volume and waits
  for it (\<^verbatim>\<open>zerofs.go\<close>), creates the disk file over a temporary 9p mount, reserves an NBD device
  (\<^verbatim>\<open>nbd.go\<close>), connects it to the server's socket, formats it if it is blank and mounts it; unpublishing
  undoes this. Reservations are files in \<^verbatim>\<open>/run/zerofs-csi\<close>. Every stage is timed and its errors are
  counted (\<^verbatim>\<open>metrics.go\<close>). \<^verbatim>\<open>driver.go\<close> registers the services and runs the start-up reconciliation;
  \<^verbatim>\<open>main.go\<close> reads the flags and starts the driver under a controller-runtime manager.

  \<^bold>\<open>The model.\<close> A Go function that reads or changes the outside is a computation in the state monad over a
  \<open>world\<close>; a Go \<open>(T, error)\<close> is a sum. The parameter \<open>env\<close> stands for everything outside the repository:
  commands, the Kubernetes and S3 clients, time, and the faults of calls to package \<^verbatim>\<open>os\<close>.

  \<^item> \<^verbatim>\<open>Go_Prelude\<close>: computations, Hoare triples, and the locale \<open>step_relation\<close>, through which a frame property
    of a handler follows from that of its steps. \<^verbatim>\<open>Polling\<close>: the locale \<open>polling\<close>, what a loop with a limited
    number of rounds returns; the two waiting loops of \<^verbatim>\<open>zerofs.go\<close> are its interpretations.
  \<^item> \<^verbatim>\<open>Go_Strings\<close>: \<^verbatim>\<open>strings\<close>, \<^verbatim>\<open>strconv\<close>, \<^verbatim>\<open>path\<close>. \<^verbatim>\<open>Kube_Objects\<close>: the API objects. \<^verbatim>\<open>Environment\<close>: the world, the
    parameter \<open>env\<close>, external calls with their trace, package \<^verbatim>\<open>os\<close>.
  \<^item> \<^verbatim>\<open>Nbd\<close> (\<^verbatim>\<open>nbd.go\<close>), \<^verbatim>\<open>Metrics\<close> (\<^verbatim>\<open>metrics.go\<close>), \<^verbatim>\<open>Zerofs\<close> (\<^verbatim>\<open>zerofs.go\<close>), \<^verbatim>\<open>Node\<close> (\<^verbatim>\<open>node.go\<close>),
    \<^verbatim>\<open>S3_Cleanup\<close> (\<^verbatim>\<open>s3_cleanup.go\<close> with the part of \<^verbatim>\<open>net/url\<close> it uses), \<^verbatim>\<open>Controller\<close> (\<^verbatim>\<open>controller.go\<close> and
    \<^verbatim>\<open>controller_delete.go\<close>), \<^verbatim>\<open>Driver\<close> (\<^verbatim>\<open>driver.go\<close>), \<^verbatim>\<open>Entry\<close> (\<^verbatim>\<open>main.go\<close> with the part of package
    \<^verbatim>\<open>flag\<close> it uses; the controller-runtime is the parameter \<open>ctrl\<close>): one definition per function, in the order of the file; long functions are cut into stages that are composed the way
    the code composes them.

  \<^bold>\<open>What is shown.\<close>

  \<^item> \<^verbatim>\<open>Nbd_Registry\<close>, \<^verbatim>\<open>Nbd_Reserve\<close>, \<^verbatim>\<open>Nbd_Properties\<close>: the effect of each reservation function on the store,
    the invariant \<open>reg_inv\<close> (a volume's state file names a device whose reservation names the volume)
    and the specification "first free device". \<^verbatim>\<open>Nbd_Protocol\<close>: the locale \<open>device_registry\<close>, which states
    the contract of reserve and release, and its interpretation on the functions of \<^verbatim>\<open>nbd.go\<close>.
    \<^verbatim>\<open>Nbd_Machine\<close>: whole calls of reserve and release, each atomic, and host activity, in any order, as
    a step relation without guards; what the calls rely on is a condition on the history of a run, and
    under it no reachable state shares a device. \<^verbatim>\<open>Nbd_Liveness\<close>: a reservation succeeds while fewer
    volumes hold devices than there are. \<^verbatim>\<open>Nbd_Faults\<close>: where the conditions matter: exactly when the
    two-hour limit gives a held device away, what the ignored error of a reservation's write costs, and
    a computed race with the deferred cleanup of a publish, which does not take the mutex.
  \<^item> \<^verbatim>\<open>Frames\<close>, \<^verbatim>\<open>Nbd_Commands\<close>: which events a computation may emit (\<open>emits\<close>), what it does to the error
    counters (\<open>same_errors\<close>) and to the run directory (\<open>keeps\<close>), by the locale \<open>quiet_relation\<close>.
  \<^item> \<^verbatim>\<open>Zerofs_Properties\<close>: the configuration template, time-outs, creation and removal of the pod and its
    secret. \<^verbatim>\<open>Zerofs_Waits\<close>: when exactly the waits for the pod succeed. \<^verbatim>\<open>Zerofs_Manifest\<close>: the objects a publish
    creates are well formed and the volume's own; configuration, pod and node service agree on the sockets.
  \<^item> \<^verbatim>\<open>Node_Properties\<close>, \<^verbatim>\<open>Node_Metrics\<close>, \<^verbatim>\<open>Node_Publish\<close>: validation, idempotency, formatting only of blank
    devices, error counting, bounded waiting, reconciliation, statistics; what success and failure of a
    publish and what an unpublish do to the devices of all volumes; which connected device a publish
    detaches, and which device an unpublish leaks. \<^verbatim>\<open>Node_Machine\<close>: every call of the node API is a run of the
    registry machine with events of its own volume, I/O errors included; so no sequence of calls shares a
    device under the conditions that the property lists. \<^verbatim>\<open>Node_Roundtrip\<close>: a publish and an unpublish cancel
    out on the devices. \<^verbatim>\<open>Node_Liveness\<close>: a publish succeeds when nothing outside is in its way.
  \<^item> \<^verbatim>\<open>S3_Properties\<close>, \<^verbatim>\<open>Controller_Properties\<close>: deletion is confined to bucket and prefix, complete on success,
    ends, and happens only on request; the deleted location is the one the server writes to; whose data a
    deletion takes; the requested capacity reaches the disk; the services that \<open>Start\<close> registers. \<^verbatim>\<open>Entry_Properties\<close>: every setting of the
    flags can be given on the command line and takes effect; how the process ends.
  \<^item> \<^verbatim>\<open>Evaluation\<close>, \<^verbatim>\<open>Simulated_Host\<close>, \<^verbatim>\<open>Node_Simulation\<close>: a concrete host and cluster, on which the witnesses and
    the runs that go wrong are evaluated.

  \<^bold>\<open>Hypotheses.\<close> \<open>no_faults\<close>: calls of package \<^verbatim>\<open>os\<close> do not fail with I/O errors. \<open>outside_keeps A\<close>: what runs
  beside a handler leaves the files of \<open>A\<close> alone. With \<open>run_files\<close> nothing else writes \<^verbatim>\<open>/run/zerofs-csi\<close>;
  with the state file of one volume the handlers of other volumes may run meanwhile.
  \<open>timely\<close>: no reservation of a disconnected device is older than two hours. \<open>usable\<close>: the run directories are directories or absent. \<open>valid_volume\<close>: volume IDs
  as Kubernetes' provisioner makes them. \<open>lists_prefix\<close>: S3 lists only keys with the prefix asked for.
  \<open>lists_bucket\<close>: the bucket does not change while it is listed.
  \<open>own_source\<close>: at an unpublish \<^verbatim>\<open>findmnt\<close> does not name another volume's device. For liveness only:
  \<open>config_served\<close>, \<open>writes_accepted\<close>, \<open>comes_up\<close> (the cluster) and \<open>commands_work\<close> (the host).

  \<^bold>\<open>Bounds.\<close> The deletion loop has fuel, because the object store may always announce another page; one
  unit more than the number of pages is enough. A waiting loop runs as many rounds as the Go
  runtime delivers ticks before the context is done, a number that the environment chooses. All
  other loops are structural.

  \<^bold>\<open>Not modelled.\<close> Log output; the inside of the gRPC server, of the controller-runtime manager and of the
  metrics registry, which are libraries; white space and letter case outside ASCII; deployment files,
  which have no code of the driver. \<open>os_Stat\<close> answers \<open>NotExist\<close> also where a parent is not a directory.
  The mutex \<open>nbdMu\<close> is not an object of the model: a section under it is one atomic event of the machine. Two
  concurrent handlers are not interleaved call by call: the properties of one handler allow any change
  of the outside that \<open>outside_keeps\<close> admits, \<^verbatim>\<open>Node_Machine\<close> runs whole handlers in any order, and the
  reservations and releases of \<^verbatim>\<open>nbd.go\<close> interleave in \<^verbatim>\<open>Nbd_Machine\<close>.
\<close>

end
